(* ===== verification/Prelude.thy ===== *)
theory Prelude
  imports Main "HOL-Library.Word"
begin

text \<open>
  Shared vocabulary of the development: fixed-width integers, byte strings, the error type that
  stands for \<^verbatim>\<open>anyhow::Error\<close>, the result combinators that stand for the question-mark
  operator, Rust's checked and saturating integer operations, decimal printing, and the two list
  operations every SQL statement of the record is written with (rows selected by a predicate,
  rows updated in place by a predicate), each with the lemmas the components share.
\<close>

section \<open>Integers and bytes\<close>

type_synonym u8 = "8 word"
type_synonym u32 = "32 word"
type_synonym u64 = "64 word"
type_synonym bytes = "8 word list"

named_theorems res_simps \<open>how results compose and when they succeed\<close>
named_theorems int_simps \<open>Rust's fallible and saturating integer operations\<close>

text \<open>\<open>i32::try_from\<close> and \<open>i16::try_from\<close> on an unsigned value.\<close>

definition i32_of_u32 :: "u32 \<Rightarrow> int option" where
  "i32_of_u32 h = (if uint h < 2 ^ 31 then Some (uint h) else None)"

definition i16_of_u32 :: "u32 \<Rightarrow> int option" where
  "i16_of_u32 h = (if uint h < 2 ^ 15 then Some (uint h) else None)"

definition u8_of_u32 :: "u32 \<Rightarrow> u8 option" where
  "u8_of_u32 h = (if uint h < 2 ^ 8 then Some (ucast h) else None)"

text \<open>\<open>u32::try_from\<close> and \<open>u8::try_from\<close> on a signed database integer.\<close>

definition u32_of_int :: "int \<Rightarrow> u32 option" where
  "u32_of_int i = (if 0 \<le> i \<and> i < 2 ^ 32 then Some (word_of_int i) else None)"

definition u64_of_int :: "int \<Rightarrow> u64 option" where
  "u64_of_int i = (if 0 \<le> i \<and> i < 2 ^ 64 then Some (word_of_int i) else None)"

definition u8_of_int :: "int \<Rightarrow> u8 option" where
  "u8_of_int i = (if 0 \<le> i \<and> i < 2 ^ 8 then Some (word_of_int i) else None)"

definition i16_of_u8 :: "u8 \<Rightarrow> int" where
  "i16_of_u8 s = uint s"

text \<open>\<open>checked_sub\<close>, \<open>checked_add\<close> and \<open>saturating_add\<close> at any width.\<close>

definition checked_sub :: "'a::len word \<Rightarrow> 'a word \<Rightarrow> 'a word option" where
  "checked_sub a b = (if b \<le> a then Some (a - b) else None)"

definition checked_add :: "'a::len word \<Rightarrow> 'a word \<Rightarrow> 'a word option" where
  "checked_add a b = (if uint a + uint b < 2 ^ LENGTH('a) then Some (a + b) else None)"

definition saturating_add :: "'a::len word \<Rightarrow> 'a word \<Rightarrow> 'a word" where
  "saturating_add a b = (if uint a + uint b < 2 ^ LENGTH('a) then a + b else -1)"

lemma i32_of_u32_Some [int_simps]:
  "i32_of_u32 h = Some i \<longleftrightarrow> uint h < 2 ^ 31 \<and> i = uint h"
  by (auto simp: i32_of_u32_def)

lemma i32_of_u32_inject: "i32_of_u32 a = Some i \<Longrightarrow> i32_of_u32 b = Some i \<Longrightarrow> a = b"
  by (auto simp: int_simps word_uint_eq_iff)

lemma u32_of_int_of_nat [int_simps]: "u32_of_int (uint (h :: u32)) = Some h"
proof -
  have "uint h < 2 ^ 32" using unsigned_less [of h, where 'a = int] by simp
  then show ?thesis by (simp add: u32_of_int_def)
qed

lemma u32_i32_roundtrip: "i32_of_u32 h = Some i \<Longrightarrow> u32_of_int i = Some h"
  by (simp add: int_simps)

lemma i16_of_u8_range [simp]: "0 \<le> i16_of_u8 s" "i16_of_u8 s < 256"
proof -
  have "uint s < 256" using unsigned_less [of s, where 'a = int] by simp
  then show "i16_of_u8 s < 256" by (simp add: i16_of_u8_def)
qed (simp add: i16_of_u8_def)

lemma i16_of_u8_inject [simp]: "i16_of_u8 a = i16_of_u8 b \<longleftrightarrow> a = b"
  by (simp add: i16_of_u8_def word_uint_eq_iff)

lemma u8_of_int_i16 [int_simps]: "u8_of_int (i16_of_u8 s) = Some s"
proof -
  have "uint s < 256" using unsigned_less [of s, where 'a = int] by simp
  then show ?thesis by (simp add: u8_of_int_def i16_of_u8_def)
qed

lemma checked_sub_Some [int_simps]:
  "checked_sub a b = Some c \<longleftrightarrow> b \<le> a \<and> c = a - b"
  by (auto simp: checked_sub_def)

lemma checked_sub_nat: "checked_sub a b = Some c \<Longrightarrow> unat c = unat a - unat b \<and> unat b \<le> unat a"
  by (auto simp: int_simps unat_sub word_le_nat_alt)

lemma checked_sub_None [int_simps]: "checked_sub a b = None \<longleftrightarrow> a < b"
  by (auto simp: checked_sub_def)

lemma uint_add_fits:
  "uint a + uint b < 2 ^ LENGTH('a) \<longleftrightarrow> unat a + unat b < 2 ^ LENGTH('a)" for a b :: "'a::len word"
proof -
  have "int m < 2 ^ LENGTH('a) \<longleftrightarrow> m < 2 ^ LENGTH('a)" for m
    using of_nat_less_iff [of m "2 ^ LENGTH('a)", where 'a = int] by simp
  from this [of "unat a + unat b"] show ?thesis by simp
qed

lemma checked_add_nat: "checked_add a b = Some c \<Longrightarrow> unat c = unat a + unat b"
  by (auto simp: checked_add_def uint_add_fits unat_add_lem split: if_splits)

lemma checked_add_None [int_simps]:
  "checked_add (a :: 'a::len word) b = None \<longleftrightarrow> 2 ^ LENGTH('a) \<le> unat a + unat b"
  by (auto simp: checked_add_def uint_add_fits)

lemma saturating_add_nat:
  "unat (saturating_add a b) = min (unat a + unat b) (2 ^ LENGTH('a) - 1)" for a :: "'a::len word"
proof (cases "unat a + unat b < 2 ^ LENGTH('a)")
  case True
  then have "unat (a + b) = unat a + unat b" by (simp add: unat_add_lem)
  with True show ?thesis by (simp add: saturating_add_def uint_add_fits)
next
  case False
  moreover have "unat (- 1 :: 'a word) = 2 ^ LENGTH('a) - 1"
    by (simp add: unsigned_minus_1_eq_mask mask_eq_exp_minus_1)
  ultimately show ?thesis by (simp add: saturating_add_def uint_add_fits)
qed

section \<open>Errors and results\<close>

text \<open>
  An \<^verbatim>\<open>anyhow::Error\<close> is a chain: contexts wrapped around a cause. The causes the code
  tells apart by downcasting are a gRPC status (with its code), a transport failure, and the
  record's \<^verbatim>\<open>HistoryConflict\<close>; every other cause is a message.
\<close>

datatype rpc_code =
    Cancelled | DeadlineExceeded | ResourceExhausted | Unavailable | NotFound | OtherCode

datatype error =
    Message string
  | Status rpc_code
  | Transport
  | HistoryConflict
  | Context string error

type_synonym 'a res = "error + 'a"

fun bind_res :: "'e + 'a \<Rightarrow> ('a \<Rightarrow> 'e + 'b) \<Rightarrow> 'e + 'b" where
  "bind_res (Inl e) f = Inl e"
| "bind_res (Inr x) f = f x"

fun with_context :: "string \<Rightarrow> 'a res \<Rightarrow> 'a res" where
  "with_context msg (Inl e) = Inl (Context msg e)"
| "with_context msg (Inr x) = Inr x"

fun map_ok :: "('a \<Rightarrow> 'b) \<Rightarrow> 'e + 'a \<Rightarrow> 'e + 'b" where
  "map_ok f (Inl e) = Inl e"
| "map_ok f (Inr x) = Inr (f x)"

definition bail :: "string \<Rightarrow> 'a res" where
  "bail msg = Inl (Message msg)"

definition ensure :: "bool \<Rightarrow> string \<Rightarrow> unit res" where
  "ensure b msg = (if b then Inr () else bail msg)"

text \<open>\<open>Option::context\<close>: an absent value becomes an error.\<close>

fun ok_or :: "string \<Rightarrow> 'a option \<Rightarrow> 'a res" where
  "ok_or msg None = bail msg"
| "ok_or msg (Some x) = Inr x"

text \<open>\<open>try_from(..).with_context(..)\<close>: the message wraps the conversion error.\<close>

definition try_from :: "string \<Rightarrow> 'a option \<Rightarrow> 'a res" where
  "try_from msg v =
     with_context msg (ok_or ''out of range integral type conversion attempted'' v)"

text \<open>\<open>Option::transpose\<close> after \<open>Option::map\<close>.\<close>

fun traverse_opt :: "('a \<Rightarrow> 'b res) \<Rightarrow> 'a option \<Rightarrow> 'b option res" where
  "traverse_opt f None = Inr None"
| "traverse_opt f (Some x) = map_ok Some (f x)"

text \<open>\<open>collect::<Result<Vec<_>>>()\<close>: the first error wins.\<close>

fun collect_res :: "('a \<Rightarrow> 'b res) \<Rightarrow> 'a list \<Rightarrow> 'b list res" where
  "collect_res f [] = Inr []"
| "collect_res f (x # xs) = bind_res (f x) (\<lambda>y. map_ok ((#) y) (collect_res f xs))"

text \<open>A left fold that stops at the first error.\<close>

fun fold_res :: "('a \<Rightarrow> 's \<Rightarrow> 's res) \<Rightarrow> 'a list \<Rightarrow> 's \<Rightarrow> 's res" where
  "fold_res f [] s = Inr s"
| "fold_res f (x # xs) s = bind_res (f x s) (fold_res f xs)"

fun is_ok :: "'e + 'a \<Rightarrow> bool" where
  "is_ok (Inl e) = False"
| "is_ok (Inr x) = True"

text \<open>Rendering with the alternate flag prints the whole chain, joined by a colon.\<close>

fun render_error :: "error \<Rightarrow> string" where
  "render_error (Message m) = m"
| "render_error (Status c) = ''status''"
| "render_error Transport = ''transport error''"
| "render_error HistoryConflict =
     ''conflicting immutable block facts retained; history certification suspended''"
| "render_error (Context m e) = m @ '': '' @ render_error e"

lemma bind_res_Inr_iff [res_simps]:
  "bind_res m f = Inr y \<longleftrightarrow> (\<exists>x. m = Inr x \<and> f x = Inr y)"
  by (cases m) auto

lemma bind_res_Inl_iff [res_simps]:
  "bind_res m f = Inl e \<longleftrightarrow> m = Inl e \<or> (\<exists>x. m = Inr x \<and> f x = Inl e)"
  by (cases m) auto

lemma bind_res_assoc: "bind_res (bind_res m f) g = bind_res m (\<lambda>x. bind_res (f x) g)"
  by (cases m) auto

lemma with_context_Inr_iff [res_simps]: "with_context msg m = Inr y \<longleftrightarrow> m = Inr y"
  by (cases m) auto

lemma map_ok_Inr_iff [res_simps]: "map_ok f m = Inr y \<longleftrightarrow> (\<exists>x. m = Inr x \<and> y = f x)"
  by (cases m) auto

lemma bail_not_Inr [res_simps]: "bail msg = Inr y \<longleftrightarrow> False"
  by (simp add: bail_def)

lemma ensure_Inr_iff [res_simps]: "ensure b msg = Inr u \<longleftrightarrow> b"
  by (simp add: ensure_def bail_def)

lemma ensure_True [simp]: "ensure True msg = Inr ()"
  by (simp add: ensure_def)

lemma ensure_False [simp]: "ensure False msg = Inl (Message msg)"
  by (simp add: ensure_def bail_def)

lemma ok_or_Inr_iff [res_simps]: "ok_or msg v = Inr y \<longleftrightarrow> v = Some y"
  by (cases v) (auto simp: bail_def)

lemma try_from_Inr_iff [res_simps]: "try_from msg v = Inr y \<longleftrightarrow> v = Some y"
  by (simp add: try_from_def res_simps)

lemma traverse_opt_Inr_iff [res_simps]:
  "traverse_opt f v = Inr w \<longleftrightarrow>
     (v = None \<and> w = None) \<or> (\<exists>x y. v = Some x \<and> f x = Inr y \<and> w = Some y)"
  by (cases v) (auto simp: res_simps)

lemma is_ok_iff: "is_ok m \<longleftrightarrow> (\<exists>x. m = Inr x)"
  by (cases m) auto

lemma collect_res_Inr_iff:
  "collect_res f xs = Inr ys \<longleftrightarrow> list_all2 (\<lambda>x y. f x = Inr y) xs ys"
proof (induction xs arbitrary: ys)
  case Nil
  then show ?case by auto
next
  case (Cons x xs)
  show ?case
    by (cases ys) (auto simp: res_simps Cons.IH)
qed

lemma collect_res_length: "collect_res f xs = Inr ys \<Longrightarrow> length ys = length xs"
  by (simp add: collect_res_Inr_iff list_all2_lengthD)

lemma collect_res_set: "collect_res f xs = Inr ys \<Longrightarrow> y \<in> set ys \<Longrightarrow> \<exists>x \<in> set xs. f x = Inr y"
  by (induction xs arbitrary: ys) (auto simp: res_simps)

lemma collect_res_cong [fundef_cong]:
  assumes "xs = ys" and "\<And>x. x \<in> set ys \<Longrightarrow> f x = g x"
  shows "collect_res f xs = collect_res g ys"
  using assms(2) unfolding assms(1) by (induction ys) auto

lemma collect_res_total: "(\<And>x. x \<in> set xs \<Longrightarrow> f x = Inr (g x)) \<Longrightarrow> collect_res f xs = Inr (map g xs)"
  by (induction xs) auto

text \<open>An invariant kept by every step of a fold is kept by the fold.\<close>

lemma fold_res_invariant:
  assumes "fold_res f xs s = Inr t" and "P s"
    and "\<And>x s t. x \<in> set xs \<Longrightarrow> P s \<Longrightarrow> f x s = Inr t \<Longrightarrow> P t"
  shows "P t"
  using assms
proof (induction xs arbitrary: s)
  case Nil
  then show ?case by simp
next
  case (Cons x xs)
  from Cons.prems(1) obtain s' where step: "f x s = Inr s'" and rest: "fold_res f xs s' = Inr t"
    by (auto simp: res_simps)
  from Cons.prems(3) [of x s s'] Cons.prems(2) step have "P s'" by simp
  with rest Cons.IH Cons.prems(3) show ?case by (metis list.set_intros(2))
qed

section \<open>Rows\<close>

text \<open>
  \<open>UPDATE t SET f WHERE p\<close> on a table kept as the list of its rows; the number of updated rows
  is the length of the selection.
\<close>

definition update_where :: "('r \<Rightarrow> bool) \<Rightarrow> ('r \<Rightarrow> 'r) \<Rightarrow> 'r list \<Rightarrow> 'r list" where
  "update_where p f rows = map (\<lambda>r. if p r then f r else r) rows"

definition count_where :: "('r \<Rightarrow> bool) \<Rightarrow> 'r list \<Rightarrow> nat" where
  "count_where p rows = length (filter p rows)"

lemma update_where_simps [simp]:
  "update_where p f [] = []"
  "update_where p f (r # rs) = (if p r then f r else r) # update_where p f rs"
  by (simp_all add: update_where_def)

lemma update_where_append [simp]:
  "update_where p f (xs @ ys) = update_where p f xs @ update_where p f ys"
  by (simp add: update_where_def)

lemma length_update_where [simp]: "length (update_where p f rows) = length rows"
  by (simp add: update_where_def)

lemma set_update_where:
  "set (update_where p f rows) = {r \<in> set rows. \<not> p r} \<union> f ` {r \<in> set rows. p r}"
  by (auto simp: update_where_def)

lemma update_where_none: "count_where p rows = 0 \<Longrightarrow> update_where p f rows = rows"
  by (induction rows) (auto simp: count_where_def split: if_splits)

lemma map_key_update_where [simp]:
  "(\<And>r. key (f r) = key r) \<Longrightarrow> map key (update_where p f rows) = map key rows"
  by (induction rows) auto

lemma count_where_simps [simp]:
  "count_where p [] = 0"
  "count_where p (r # rs) = (if p r then Suc (count_where p rs) else count_where p rs)"
  by (simp_all add: count_where_def)

lemma count_where_append [simp]:
  "count_where p (xs @ ys) = count_where p xs + count_where p ys"
  by (simp add: count_where_def)

lemma count_where_pos: "0 < count_where p rows \<longleftrightarrow> (\<exists>r \<in> set rows. p r)"
  by (induction rows) auto

lemma count_where_0: "count_where p rows = 0 \<longleftrightarrow> (\<forall>r \<in> set rows. \<not> p r)"
  by (induction rows) auto

lemma count_where_mono: "(\<And>r. r \<in> set rows \<Longrightarrow> p r \<Longrightarrow> q r) \<Longrightarrow> count_where p rows \<le> count_where q rows"
  by (induction rows) (auto simp: le_SucI)

text \<open>With a unique key, at most one row has it.\<close>

lemma count_where_key:
  "distinct (map key rows) \<Longrightarrow> count_where (\<lambda>r. key r = k) rows \<le> 1"
proof (induction rows)
  case Nil
  then show ?case by simp
next
  case (Cons r rows)
  then show ?case
    by (cases "key r = k") (auto simp: count_where_0 image_iff)
qed

lemma find_Some_iff_unique:
  assumes "distinct (map key rows)"
  shows "find (\<lambda>r. key r = k) rows = Some r \<longleftrightarrow> r \<in> set rows \<and> key r = k"
  using assms
proof (induction rows)
  case Nil
  then show ?case by simp
next
  case (Cons x rows)
  then show ?case by (cases "key x = k") (auto simp: image_iff)
qed

lemma find_SomeD: "find p xs = Some x \<Longrightarrow> x \<in> set xs \<and> p x"
  by (induction xs) (auto split: if_splits)

lemma find_None_iff_all: "find p xs = None \<longleftrightarrow> (\<forall>x \<in> set xs. \<not> p x)"
  by (induction xs) auto

section \<open>Decimal printing\<close>

definition digit_char :: "nat \<Rightarrow> char" where
  "digit_char d = char_of (48 + d)"

fun show_nat :: "nat \<Rightarrow> string" where
  "show_nat n = (if n < 10 then [digit_char n] else show_nat (n div 10) @ [digit_char (n mod 10)])"

declare show_nat.simps [simp del]

definition read_digit :: "char \<Rightarrow> nat" where
  "read_digit c = of_char c - 48"

definition read_nat :: "string \<Rightarrow> nat" where
  "read_nat s = foldl (\<lambda>n c. 10 * n + read_digit c) 0 s"

lemma of_char_digit: "d < 10 \<Longrightarrow> of_char (digit_char d) = 48 + d"
  by (simp add: digit_char_def of_char_of)

lemma read_digit_char [simp]: "d < 10 \<Longrightarrow> read_digit (digit_char d) = d"
  by (simp add: read_digit_def of_char_digit)

lemma read_show_nat [simp]: "read_nat (show_nat n) = n"
proof (induction n rule: show_nat.induct)
  case (1 n)
  show ?case
  proof (cases "n < 10")
    case True
    then show ?thesis by (simp add: show_nat.simps [of n] read_nat_def)
  next
    case False
    with "1.IH" have "read_nat (show_nat (n div 10)) = n div 10" by simp
    with False show ?thesis by (simp add: show_nat.simps [of n] read_nat_def)
  qed
qed

lemma show_nat_inject [simp]: "show_nat a = show_nat b \<longleftrightarrow> a = b"
  by (metis read_show_nat)

lemma show_nat_digits: "c \<in> set (show_nat n) \<Longrightarrow> \<exists>d < 10. c = digit_char d"
proof (induction n rule: show_nat.induct)
  case (1 n)
  have last: "\<exists>d < 10. digit_char (n mod 10) = digit_char d"
    by (rule exI [of _ "n mod 10"]) simp
  show ?case
  proof (cases "n < 10")
    case True
    with "1.prems" show ?thesis by (auto simp: show_nat.simps [of n])
  next
    case False
    with "1.prems" last "1.IH" show ?thesis by (auto simp: show_nat.simps [of n])
  qed
qed

lemma colon_not_digit: "CHR '':'' \<notin> set (show_nat n)"
proof
  assume "CHR '':'' \<in> set (show_nat n)"
  then obtain d where d: "d < 10" "CHR '':'' = digit_char d"
    using show_nat_digits by blast
  then have "(of_char (CHR '':'') :: nat) = 48 + d" by (simp add: of_char_digit)
  with d(1) show False by simp
qed

text \<open>A separator that the left parts do not contain splits a string in one way only.\<close>

lemma append_sep_inject:
  assumes "c \<notin> set xs" and "c \<notin> set ys"
  shows "xs @ c # us = ys @ c # vs \<longleftrightarrow> xs = ys \<and> us = vs"
  using assms
proof (induction xs arbitrary: ys)
  case Nil
  then show ?case by (cases ys) auto
next
  case (Cons x xs)
  then show ?case by (cases ys) auto
qed

end
