(* ===== verification/Contract.thy ===== *)
theory Contract
  imports Prelude
begin

text \<open>
  The normalized event contract, version 9: the messages of \<^verbatim>\<open>proto/event.proto\<close> and
  \<^verbatim>\<open>proto/enforcer_extractor.proto\<close> as records and datatypes (a protobuf oneof is an option
  of a datatype, an absent sub-message is \<open>None\<close>), with the methods the hand-written modules
  under \<^verbatim>\<open>src/shared/src/protobuf\<close> add to them: the stable kind of an event, the slot it is
  scoped to, the header of a node event, and the envelope built around an extractor event.
\<close>

section \<open>Blocks and headers\<close>

record block_header =
  hdr_hash :: bytes
  hdr_previous :: bytes
  hdr_height :: u32
  hdr_block_work :: bytes
  hdr_cumulative_work :: bytes
  hdr_timestamp :: u64

record observed_block =
  ob_hash :: bytes
  ob_height :: "u32 option"

record block_ref =
  br_hash :: bytes
  br_height :: u32

definition at_height :: "bytes \<Rightarrow> u32 \<Rightarrow> observed_block" where
  "at_height hash height = \<lparr> ob_hash = hash, ob_height = Some height \<rparr>"

definition without_height :: "bytes \<Rightarrow> observed_block" where
  "without_height hash = \<lparr> ob_hash = hash, ob_height = None \<rparr>"

section \<open>Enforcer payloads\<close>

datatype network =
    NetworkUnspecified | NetworkUnknown | NetworkMainnet | NetworkRegtest | NetworkSignet
  | NetworkTestnet

text \<open>An enum field holds its number, which need not be one of the enum.\<close>

fun network_value :: "network \<Rightarrow> int" where
  "network_value NetworkUnspecified = 0"
| "network_value NetworkUnknown = 1"
| "network_value NetworkMainnet = 2"
| "network_value NetworkRegtest = 3"
| "network_value NetworkSignet = 4"
| "network_value NetworkTestnet = 5"

definition network_try_from :: "int \<Rightarrow> network option" where
  "network_try_from v =
     find (\<lambda>n. network_value n = v)
       [NetworkUnspecified, NetworkUnknown, NetworkMainnet, NetworkRegtest, NetworkSignet, NetworkTestnet]"

lemma network_try_from_value [simp]: "network_try_from (network_value n) = Some n"
  by (cases n) (simp_all add: network_try_from_def)

record bip300_constants =
  bc_withdrawal_bundle_max_age :: u32
  bc_withdrawal_bundle_inclusion_threshold :: u32
  bc_used_proposal_max_age :: u32
  bc_used_activation_threshold :: u32
  bc_unused_proposal_max_age :: u32
  bc_unused_activation_threshold :: u32
  bc_activation_height :: u32

record chain_info =
  ci_network :: int
  ci_constants :: "bip300_constants option"
  ci_raw_network :: int

record bmm_request =
  bmm_sidechain :: u32
  bmm_txid :: bytes
  bmm_critical :: bytes
  bmm_bid_sats :: u64

record bmm_snapshot =
  bs_previous_block :: bytes
  bs_requests :: "bmm_request list"

text \<open>
  The concrete version of a \<open>SidechainDeclaration\<close>; the message itself is an option of it, and
  the field that holds the message an option of that.
\<close>

record declaration_v0 =
  dec_title :: string
  dec_description :: string
  dec_hash_id_1 :: bytes
  dec_hash_id_2 :: bytes

record sidechain_proposal =
  sp_sidechain :: u32
  sp_raw_description :: bytes
  sp_description_hash :: bytes
  sp_vote_count :: u32
  sp_proposal_height :: u32
  sp_proposal_age :: u32
  sp_declaration :: "declaration_v0 option option"

record active_sidechain =
  as_sidechain :: u32
  as_raw_description :: bytes
  as_vote_count :: u32
  as_proposal_height :: u32
  as_activation_height :: u32
  as_declaration :: "declaration_v0 option option"
  as_description_hash :: bytes

record ctip =
  ct_txid :: bytes
  ct_vout :: u32
  ct_value_sats :: u64
  ct_sequence_number :: u64

record ctip_snapshot =
  cs_sidechain :: u32
  cs_ctip :: "ctip option"

record deposit =
  dep_sequence_number :: u64
  dep_outpoint :: "(bytes \<times> u32) option"
  dep_address :: bytes
  dep_value_sats :: u64

datatype withdrawal_state =
    Submitted
  | Failed
  | Succeeded (succ_sequence_number: u64) (succ_transaction: bytes)

datatype sidechain_event =
    Deposit deposit
  | WithdrawalBundle (wb_m6id: bytes) (wb_state: "withdrawal_state option")

record withdrawal_proposal =
  wp_m6id :: bytes
  wp_vote_count :: u32
  wp_proposal_height :: u32

record block_connected =
  bcn_header :: "block_header option"
  bcn_sidechain :: u32
  bcn_commitment :: "bytes option"
  bcn_events :: "sidechain_event option list"

record transition =
  tr_action :: int
  tr_header :: "block_header option"
  tr_gap_start :: "block_ref option"

datatype enforcer_event =
    ChainInfo chain_info
  | ChainTip "block_header option"
  | SidechainProposals "sidechain_proposal list"
  | ActiveSidechains "active_sidechain list"
  | Ctip ctip_snapshot
  | BlockConnected block_connected
  | BlockDisconnected (bd_hash: bytes) (bd_sidechain: u32)
  | WithdrawalBundleProposals (wbp_sidechain: u32) (wbp_proposals: "withdrawal_proposal list")
  | BmmRequests bmm_snapshot
  | MainchainTransition transition

section \<open>Node payloads and the envelope\<close>

record confirmed_fee =
  cf_sidechain :: u32
  cf_txid :: bytes
  cf_fee_sats :: "u64 option"
  cf_unavailable_reason :: string

datatype node_event =
    MainchainBlock (mb_header: "block_header option") (mb_raw_block: bytes)
  | NodeChainTip (nct_header: "block_header option")
  | ConfirmedBmmFees (cbf_header: "block_header option") (cbf_fees: "confirmed_fee list")
      (cbf_source: string)

datatype monitor_event =
    Enforcer "enforcer_event option"
  | Node "node_event option"

record event =
  ev_timestamp :: u64
  ev_anchor :: "observed_block option"
  ev_payload :: "monitor_event option"

definition EVENT_CONTRACT_VERSION :: u32 where
  "EVENT_CONTRACT_VERSION = 9"

section \<open>Kind, slot and header of an event\<close>

fun enforcer_kind :: "enforcer_event \<Rightarrow> string" where
  "enforcer_kind (ChainInfo _) = ''chain_info''"
| "enforcer_kind (ChainTip _) = ''chain_tip''"
| "enforcer_kind (SidechainProposals _) = ''sidechain_proposals''"
| "enforcer_kind (ActiveSidechains _) = ''active_sidechains''"
| "enforcer_kind (Ctip _) = ''ctip''"
| "enforcer_kind (BlockConnected _) = ''block_connected''"
| "enforcer_kind (BlockDisconnected _ _) = ''block_disconnected''"
| "enforcer_kind (WithdrawalBundleProposals _ _) = ''withdrawal_bundle_proposals''"
| "enforcer_kind (BmmRequests _) = ''bmm_requests''"
| "enforcer_kind (MainchainTransition _) = ''mainchain_transition''"

fun sidechain_number :: "enforcer_event \<Rightarrow> u32 option" where
  "sidechain_number (Ctip snapshot) = Some (cs_sidechain snapshot)"
| "sidechain_number (BlockConnected block) = Some (bcn_sidechain block)"
| "sidechain_number (BlockDisconnected _ slot) = Some slot"
| "sidechain_number (WithdrawalBundleProposals slot _) = Some slot"
| "sidechain_number _ = None"

fun node_kind :: "node_event \<Rightarrow> string" where
  "node_kind (MainchainBlock _ _) = ''mainchain_block''"
| "node_kind (NodeChainTip _) = ''chain_tip''"
| "node_kind (ConfirmedBmmFees _ _ _) = ''confirmed_bmm_fees''"

fun node_header :: "node_event \<Rightarrow> block_header option" where
  "node_header (MainchainBlock header _) = header"
| "node_header (NodeChainTip header) = header"
| "node_header (ConfirmedBmmFees header _ _) = header"

text \<open>
  \<open>Event::new\<close> with the system time, in milliseconds from the epoch, as an argument: a clock
  before the epoch is the only failure, and the cast to \<^verbatim>\<open>u64\<close> wraps.
\<close>

definition new_event :: "int \<Rightarrow> monitor_event \<Rightarrow> observed_block option \<Rightarrow> event res" where
  "new_event now payload anchor =
     (if now < 0 then bail ''second time provided was later than self''
      else Inr \<lparr> ev_timestamp = word_of_int now, ev_anchor = anchor, ev_payload = Some payload \<rparr>)"

text \<open>The extractor's own envelope leaves the four state reads unanchored.\<close>

definition state_read :: "enforcer_event option \<Rightarrow> bool" where
  "state_read payload =
     (case payload of
        None \<Rightarrow> False
      | Some e \<Rightarrow> enforcer_kind e \<in> {''sidechain_proposals'', ''active_sidechains'', ''ctip'',
                                     ''withdrawal_bundle_proposals''})"

definition envelope :: "int \<Rightarrow> enforcer_event option \<Rightarrow> observed_block \<Rightarrow> event res" where
  "envelope now payload anchor =
     with_context ''constructing the monitor event envelope''
       (new_event now (Enforcer payload) (if state_read payload then None else Some anchor))"

section \<open>Subjects\<close>

datatype subject = EnforcerSubject | NodeSubject | AllSubjects

fun subject_str :: "subject \<Rightarrow> string" where
  "subject_str EnforcerSubject = ''bip300.enforcer''"
| "subject_str NodeSubject = ''bip300.node''"
| "subject_str AllSubjects = ''bip300.*''"

section \<open>Lemmas\<close>

lemma at_height_sel [simp]:
  "ob_hash (at_height h n) = h" "ob_height (at_height h n) = Some n"
  by (simp_all add: at_height_def)

lemma without_height_sel [simp]:
  "ob_hash (without_height h) = h" "ob_height (without_height h) = None"
  by (simp_all add: without_height_def)

lemma observed_block_eq_iff:
  "(a :: observed_block) = b \<longleftrightarrow> ob_hash a = ob_hash b \<and> ob_height a = ob_height b"
  by (cases a; cases b) simp

lemma new_event_Inr_iff [res_simps]:
  "new_event now p a = Inr e \<longleftrightarrow>
     0 \<le> now \<and> e = \<lparr> ev_timestamp = word_of_int now, ev_anchor = a, ev_payload = Some p \<rparr>"
  by (auto simp: new_event_def bail_def)

lemma envelope_Inr_iff [res_simps]:
  "envelope now p a = Inr e \<longleftrightarrow>
     0 \<le> now \<and> e = \<lparr> ev_timestamp = word_of_int now,
       ev_anchor = (if state_read p then None else Some a), ev_payload = Some (Enforcer p) \<rparr>"
  by (simp add: envelope_def res_simps)

text \<open>The kind decides the constructor, so the column identifies the variant.\<close>

lemma enforcer_kind_eqs [simp]:
  "enforcer_kind e = ''block_connected'' \<longleftrightarrow> (\<exists>b. e = BlockConnected b)"
  "enforcer_kind e = ''active_sidechains'' \<longleftrightarrow> (\<exists>l. e = ActiveSidechains l)"
  "enforcer_kind e \<noteq> ''mainchain_block''"
  by (cases e; simp)+

lemma node_kind_eqs [simp]:
  "node_kind e = ''mainchain_block'' \<longleftrightarrow> (\<exists>h r. e = MainchainBlock h r)"
  "node_kind e \<noteq> ''block_connected''"
  by (cases e; simp)+

lemma sidechain_number_Some_kind:
  "(sidechain_number e \<noteq> None) \<longleftrightarrow>
     enforcer_kind e \<in> {''ctip'', ''block_connected'', ''block_disconnected'',
                        ''withdrawal_bundle_proposals''}"
  by (cases e) auto

end
