(* ===== verification/Upstream.thy ===== *)
theory Upstream
  imports Contract
begin

text \<open>
  The replies of the enforcer's validator service: the messages of
  \<^verbatim>\<open>proto/upstream/cusf/mainchain/v1/validator.proto\<close> the extractor reads. Every hexadecimal
  message wraps an optional string, every wrapped scalar is optional, and every sub-message may be
  absent; a field of the model keeps each of these absences.
\<close>

text \<open>\<open>ReverseHex\<close>, \<open>ConsensusHex\<close> and \<open>Hex\<close>: an absent message, or one without its string.\<close>

type_synonym hex_field = "string option option"

record up_header =
  uh_block_hash :: hex_field
  uh_previous :: hex_field
  uh_height :: u32
  uh_work :: hex_field
  uh_timestamp :: u64

record up_constants =
  uc_withdrawal_bundle_max_age :: u32
  uc_withdrawal_bundle_inclusion_threshold :: u32
  uc_used_proposal_max_age :: u32
  uc_used_activation_threshold :: u32
  uc_unused_proposal_max_age :: u32
  uc_unused_activation_threshold :: u32
  uc_activation_height :: u32

record up_chain_info =
  ui_network :: int
  ui_constants :: "up_constants option"

record up_outpoint =
  uo_txid :: hex_field
  uo_vout :: "u32 option"

record up_output =
  uo_address :: hex_field
  uo_value_sats :: "u64 option"

record up_deposit =
  ud_sequence_number :: "u64 option"
  ud_outpoint :: "up_outpoint option"
  ud_output :: "up_output option"

datatype up_bundle_state =
    UpFailed
  | UpSucceeded "u64 option" hex_field
  | UpSubmitted

record up_withdrawal =
  uw_m6id :: hex_field
  uw_event :: "up_bundle_state option option"

datatype up_block_event =
    UpDeposit up_deposit
  | UpWithdrawal up_withdrawal

record up_block_info =
  ub_commitment :: hex_field
  ub_events :: "up_block_event option list"

record up_info =
  un_header :: "up_header option"
  un_block :: "up_block_info option"

record up_ctip =
  ut_txid :: hex_field
  ut_vout :: u32
  ut_value :: u64
  ut_sequence_number :: u64

record up_bmm_request =
  um_sidechain :: u32
  um_txid :: hex_field
  um_critical :: hex_field
  um_bid_sats :: u64

record up_declaration_v0 =
  uv_title :: "string option"
  uv_description :: "string option"
  uv_hash_id_1 :: hex_field
  uv_hash_id_2 :: hex_field

text \<open>The declaration is a oneof with one case today; the case may be absent.\<close>

record up_proposal =
  up_sidechain :: "u32 option"
  up_description :: hex_field
  up_declaration :: "up_declaration_v0 option option"
  up_description_hash :: hex_field
  up_vote_count :: "u32 option"
  up_proposal_height :: "u32 option"
  up_proposal_age :: "u32 option"

record up_sidechain_info =
  us_sidechain :: "u32 option"
  us_description :: hex_field
  us_vote_count :: "u32 option"
  us_proposal_height :: "u32 option"
  us_activation_height :: "u32 option"
  us_declaration :: "up_declaration_v0 option option"

record up_bundle_proposal =
  uq_m6id :: hex_field
  uq_vote_count :: "u32 option"
  uq_proposal_height :: "u32 option"

datatype up_stream_event =
    ConnectBlock "up_header option" "up_block_info option"
  | DisconnectBlock hex_field

text \<open>\<open>SubscribeEventsResponse\<close>: an event message holding a oneof, both optional.\<close>

type_synonym up_stream_item = "up_stream_event option option"

end
