(* ===== verification/Libraries.thy ===== *)
theory Libraries
  imports Contract
begin

text \<open>
  The libraries the program calls whose code is not in the repository, gathered in one record
  that every definition using them takes as an argument: the hexadecimal codec, the SHA-256
  digests, Bitcoin's consensus decoding, the generated protobuf codec and serde's rendering of an
  event. What a property relies on is a named predicate on this record; \<open>sample_libs\<close> is a
  concrete instance on which the witnesses evaluate.
\<close>

text \<open>JSON values; a number that is not an integer is kept as its printed form.\<close>

datatype json =
    JNull
  | JBool bool
  | JNum int
  | JDec string
  | JStr string
  | JArr "json list"
  | JObj "(string \<times> json) list"

text \<open>A transaction of a decoded block: its identifier as displayed, inputs and outputs.\<close>

record block_tx =
  bt_txid :: string
  bt_inputs :: "(bytes \<times> u32) list"
  bt_outputs :: "u64 list"

record libs =
  hex_encode :: "bytes \<Rightarrow> string"
  hex_decode :: "string \<Rightarrow> bytes option"
  sha256 :: "bytes \<Rightarrow> bytes"
  sha256d :: "bytes \<Rightarrow> bytes"
  deserialize_vec :: "bytes \<Rightarrow> bytes option"
  deserialize_block :: "bytes \<Rightarrow> block_tx list option"
  encode_event :: "event \<Rightarrow> bytes"
  decode_event :: "bytes \<Rightarrow> event option"
  encode_payload :: "monitor_event \<Rightarrow> bytes"
  event_to_value :: "event \<Rightarrow> json option"
  json_composite_text :: "json \<Rightarrow> string"

section \<open>Documented behaviour a property may rely on\<close>

definition hex_injective :: "libs \<Rightarrow> bool" where
  "hex_injective L \<longleftrightarrow> inj (hex_encode L)"

definition digests_are_32 :: "libs \<Rightarrow> bool" where
  "digests_are_32 L \<longleftrightarrow> (\<forall>b. length (sha256 L b) = 32 \<and> length (sha256d L b) = 32)"

definition codec_roundtrip :: "libs \<Rightarrow> bool" where
  "codec_roundtrip L \<longleftrightarrow> (\<forall>e. decode_event L (encode_event L e) = Some e)"

section \<open>A concrete instance\<close>

definition hex_digit :: "nat \<Rightarrow> char" where
  "hex_digit n = ''0123456789abcdef'' ! n"

definition sample_hex :: "bytes \<Rightarrow> string" where
  "sample_hex bs = concat (map (\<lambda>b. [hex_digit (unat b div 16), hex_digit (unat b mod 16)]) bs)"

definition hex_value :: "char \<Rightarrow> nat option" where
  "hex_value c = (let n = of_char c in
     if 48 \<le> n \<and> n \<le> 57 then Some (n - 48)
     else if 97 \<le> n \<and> n \<le> 102 then Some (n - 87)
     else if 65 \<le> n \<and> n \<le> 70 then Some (n - 55) else None)"

fun sample_unhex :: "string \<Rightarrow> bytes option" where
  "sample_unhex [] = Some []"
| "sample_unhex [c] = None"
| "sample_unhex (a # b # s) =
     (case (hex_value a, hex_value b, sample_unhex s) of
        (Some x, Some y, Some bs) \<Rightarrow> Some (word_of_nat (16 * x + y) # bs)
      | _ \<Rightarrow> None)"

definition sample_digest :: "bytes \<Rightarrow> bytes" where
  "sample_digest bs = replicate 31 0 @ [sum_list bs]"

fun sample_vec :: "bytes \<Rightarrow> bytes option" where
  "sample_vec [] = None"
| "sample_vec (n # bs) = (if unat n < 253 \<and> length bs = unat n then Some bs else None)"

definition sample_code :: "event \<Rightarrow> bytes" where
  "sample_code e = [ucast (ev_timestamp e)]"

definition sample_payload :: "monitor_event \<Rightarrow> bytes" where
  "sample_payload m =
     (case m of
        Enforcer (Some (BlockConnected b)) \<Rightarrow> [1, word_of_nat (length (bcn_events b))]
      | Enforcer (Some (ActiveSidechains l)) \<Rightarrow> [2, word_of_nat (length l)]
      | Enforcer (Some (Ctip c)) \<Rightarrow> [3, ucast (cs_sidechain c)]
      | Enforcer _ \<Rightarrow> [4]
      | Node (Some (MainchainBlock h raw)) \<Rightarrow> 5 # raw
      | Node _ \<Rightarrow> [6])"

definition sample_libs :: libs where
  "sample_libs =
     \<lparr> hex_encode = sample_hex, hex_decode = sample_unhex, sha256 = sample_digest,
       sha256d = sample_digest, deserialize_vec = sample_vec, deserialize_block = (\<lambda>_. Some []),
       encode_event = sample_code, decode_event = (\<lambda>_. None), encode_payload = sample_payload,
       event_to_value = (\<lambda>_. Some JNull),
       json_composite_text = (\<lambda>_. []) \<rparr>"

lemma hex_digit_inject: "a < 16 \<Longrightarrow> b < 16 \<Longrightarrow> hex_digit a = hex_digit b \<longleftrightarrow> a = b"
  unfolding hex_digit_def by (rule nth_eq_iff_index_eq) simp_all

lemma sample_hex_inject: "sample_hex xs = sample_hex ys \<Longrightarrow> xs = ys"
proof (induction xs arbitrary: ys)
  case Nil
  then show ?case by (cases ys) (auto simp: sample_hex_def)
next
  case (Cons x xs)
  then obtain y zs where ys: "ys = y # zs" by (cases ys) (auto simp: sample_hex_def)
  have "unat b div 16 < 16" for b :: u8
    using unsigned_less [of b, where 'a = nat] by simp
  with Cons.prems ys have "unat x div 16 = unat y div 16" "unat x mod 16 = unat y mod 16"
    "sample_hex xs = sample_hex zs"
    by (simp_all add: sample_hex_def hex_digit_inject)
  then have "unat x = unat y" by (metis div_mod_decomp)
  with ys Cons.IH [OF \<open>sample_hex xs = sample_hex zs\<close>] show ?case by (simp add: word_unat_eq_iff)
qed

lemma sample_libs_hex_injective: "hex_injective sample_libs"
  by (auto simp: hex_injective_def sample_libs_def inj_def dest: sample_hex_inject)

lemma sample_libs_digests: "digests_are_32 sample_libs"
  by (simp add: digests_are_32_def sample_libs_def sample_digest_def)

end
