(* ===== verification/Json.thy ===== *)
theory Json
  imports Libraries
begin

text \<open>
  \<^verbatim>\<open>src/shared/src/json.rs\<close>: the JSON rendering of an event stored beside its envelope,
  in which every protobuf byte field, found by name in the value tree, is a hexadecimal string.
\<close>

definition BYTE_FIELDS :: "string list" where
  "BYTE_FIELDS =
     [''raw_block'', ''address'', ''block_hash'', ''bmm_commitment'', ''cumulative_work'',
      ''block_work'', ''critical_hash'', ''description_hash'', ''hash'', ''hash_id_1'',
      ''hash_id_2'', ''m6id'', ''previous_hash'', ''previous_mainchain_block_hash'',
      ''raw_description'', ''transaction'', ''txid'']"

fun json_byte :: "json \<Rightarrow> u8 res" where
  "json_byte (JNum n) =
     (if n < 0 \<or> 2 ^ 64 \<le> n then bail ''field contains a non-numeric byte''
      else ok_or ''field contains a byte outside 0..=255'' (u8_of_int n))"
| "json_byte _ = bail ''field contains a non-numeric byte''"

fun encode_bytes :: "libs \<Rightarrow> json \<Rightarrow> json res" where
  "encode_bytes L JNull = Inr JNull"
| "encode_bytes L (JArr values) =
     map_ok (\<lambda>bs. JStr (hex_encode L bs)) (collect_res json_byte values)"
| "encode_bytes L _ = bail ''field is not a byte array''"

fun encode_byte_fields :: "libs \<Rightarrow> json \<Rightarrow> json res" where
  "encode_byte_fields L (JArr values) = map_ok JArr (collect_res (encode_byte_fields L) values)"
| "encode_byte_fields L (JObj entries) =
     map_ok JObj (collect_res (\<lambda>(key, v).
       map_ok (Pair key)
         (if key \<in> set BYTE_FIELDS then encode_bytes L v else encode_byte_fields L v)) entries)"
| "encode_byte_fields L v = Inr v"

definition render :: "libs \<Rightarrow> event \<Rightarrow> json res" where
  "render L event =
     bind_res (ok_or ''serializing the event as JSON'' (event_to_value L event))
       (encode_byte_fields L)"

section \<open>What the rendering guarantees\<close>

text \<open>
  The tree with no raw byte field left: every value under a byte-field name is a string or null.
\<close>

fun bytes_rendered :: "json \<Rightarrow> bool" where
  "bytes_rendered (JArr values) = list_all bytes_rendered values"
| "bytes_rendered (JObj entries) =
     list_all (\<lambda>(key, v). if key \<in> set BYTE_FIELDS then v = JNull \<or> (\<exists>s. v = JStr s)
                          else bytes_rendered v) entries"
| "bytes_rendered v = True"

lemma encode_bytes_shape: "encode_bytes L v = Inr w \<Longrightarrow> w = JNull \<or> (\<exists>s. w = JStr s)"
  by (cases v) (auto simp: res_simps)

lemma encode_byte_fields_rendered: "encode_byte_fields L v = Inr w \<Longrightarrow> bytes_rendered w"
proof (induction L v arbitrary: w rule: encode_byte_fields.induct)
  case (1 L vs)
  then show ?case by (fastforce simp: res_simps list_all_iff dest: collect_res_set)
next
  case (2 L entries)
  from "2.prems" obtain es where w: "w = JObj es"
    and es: "collect_res (\<lambda>(key, v). map_ok (Pair key)
       (if key \<in> set BYTE_FIELDS then encode_bytes L v else encode_byte_fields L v)) entries = Inr es"
    by (auto simp: res_simps)
  show ?case unfolding w bytes_rendered.simps list_all_iff
  proof (clarify)
    fix key x assume "(key, x) \<in> set es"
    with es obtain v where v: "(key, v) \<in> set entries"
      and x: "(if key \<in> set BYTE_FIELDS then encode_bytes L v else encode_byte_fields L v) = Inr x"
      by (fastforce simp: res_simps dest: collect_res_set)
    show "if key \<in> set BYTE_FIELDS then x = JNull \<or> (\<exists>s. x = JStr s) else bytes_rendered x"
      using "2.IH" [OF v refl] x encode_bytes_shape by (auto split: if_splits)
  qed
qed auto

lemma render_rendered: "render L e = Inr v \<Longrightarrow> bytes_rendered v"
  by (auto simp: render_def res_simps dest: encode_byte_fields_rendered)

text \<open>A second pass over a rendered tree with no nested byte array is the first failure it names.\<close>

lemma json_byte_Inr_iff: "json_byte v = Inr b \<longleftrightarrow> (\<exists>n. v = JNum n \<and> u8_of_int n = Some b)"
  by (cases v) (auto simp: res_simps u8_of_int_def split: if_splits)

end
