(* ===== verification/Tables.thy ===== *)
theory Tables
  imports Json "HOL-Library.Sublist"
begin

text \<open>
  The Postgres record as data: one row record per table of \<^verbatim>\<open>src/shared/schema\<close>, the
  database as the record of its tables, the handle a connected extractor holds, and
  transactions as functions that return an error or a value with the next database. Identity
  columns are counters (the gaps a conflicting insert leaves in a sequence are not kept, only
  the order of the identifiers matters); \<open>db_clock\<close> is the value of \<^verbatim>\<open>now()\<close>.
\<close>

section \<open>Rows\<close>

text \<open>
  The columns that identify a history stream, a certified block or a fact family: the name is
  the stream of a coverage row and the kind of an event row.
\<close>

record scope =
  sc_dataset :: string
  sc_version :: int
  sc_source :: string
  sc_name :: string
  sc_sidechain :: "int option"
  sc_instance :: "string option"

record manifest_row =
  mf_dataset :: string
  mf_network :: string
  mf_activation_height :: int
  mf_activation_hash :: string
  mf_node_commit :: string
  mf_enforcer_commit :: string
  mf_monitor_commit :: string
  mf_version :: int
  mf_capabilities :: json
  mf_reason :: string

record run_row =
  rn_id :: string
  rn_dataset :: string
  rn_source :: string
  rn_node_commit :: string
  rn_enforcer_commit :: string
  rn_monitor_commit :: string
  rn_version :: int
  rn_capabilities :: json
  rn_status :: string
  rn_last_seq :: int
  rn_started_at :: int
  rn_finished_at :: "int option"
  rn_finish_reason :: "string option"

record event_row =
  er_id :: int
  er_scope :: scope
  er_block_hash :: "bytes option"
  er_height :: "int option"
  er_previous :: "bytes option"
  er_fact_sha :: bytes
  er_envelope_sha :: bytes
  er_envelope :: bytes
  er_payload :: json
  er_observed_at :: int

record observation_row =
  obs_dataset :: string
  obs_run :: string
  obs_seq :: int
  obs_method :: string
  obs_event :: int
  obs_group :: "string option"
  obs_at :: int

record conflict_row =
  cn_dataset :: string
  cn_first :: int
  cn_second :: int

record group_row =
  gr_id :: string
  gr_dataset :: string
  gr_run :: string
  gr_method :: string
  gr_started_at :: int
  gr_finished_at :: int
  gr_before_hash :: bytes
  gr_before_height :: int
  gr_after_hash :: bytes
  gr_after_height :: int
  gr_consistency :: string
  gr_attempts :: int
  gr_revision_before :: "string option"
  gr_revision_after :: "string option"

record tip_row =
  tp_dataset :: string
  tp_run :: string
  tp_seq :: int
  tp_method :: string
  tp_hash :: bytes
  tp_height :: int
  tp_previous_hash :: "bytes option"
  tp_previous_height :: "int option"
  tp_at :: int

record instance_row =
  in_dataset :: string
  in_id :: string
  in_sidechain :: int
  in_raw_description :: bytes
  in_description_sha :: bytes
  in_proposal_height :: int
  in_activation_height :: int
  in_first_seen :: int
  in_last_seen :: int

record current_row =
  cu_dataset :: string
  cu_sidechain :: int
  cu_instance :: string
  cu_at :: int

record status_row =
  ss_dataset :: string
  ss_source :: string
  ss_run :: string
  ss_tip_hash :: "bytes option"
  ss_tip_height :: "int option"
  ss_error :: "string option"

record worker_row =
  wk_run :: string
  wk_worker :: string
  wk_failures :: int
  wk_error :: "string option"
  wk_success_at :: "int option"
  wk_failure_at :: "int option"

record failure_row =
  fl_dataset :: string
  fl_run :: string
  fl_worker :: string
  fl_error :: string

datatype history_status = Running | Complete | ErrorStatus | Superseded

record coverage_row =
  cv_scope :: scope
  cv_start :: int
  cv_covered_hash :: "bytes option"
  cv_covered_height :: "int option"
  cv_target_hash :: bytes
  cv_target_height :: int
  cv_floor_hash :: "bytes option"
  cv_floor_height :: "int option"
  cv_next_hash :: "bytes option"
  cv_next_height :: "int option"
  cv_status :: history_status
  cv_rows :: int
  cv_page :: int
  cv_error :: "string option"
  cv_started_at :: int
  cv_completed_at :: "int option"

record certified_row =
  ce_scope :: scope
  ce_hash :: bytes
  ce_previous :: bytes
  ce_height :: int

datatype fee_status = FeePending | FeeDone | FeeAbandoned

record fee_job_row =
  fj_dataset :: string
  fj_version :: int
  fj_source :: string
  fj_event :: int
  fj_attempts :: int
  fj_status :: fee_status
  fj_next_retry :: "int option"
  fj_error :: "string option"

section \<open>The database and the handle\<close>

record db =
  db_clock :: int
  db_schema :: "nat list"
  db_manifests :: "manifest_row list"
  db_runs :: "run_row list"
  db_events :: "event_row list"
  db_next_event :: int
  db_observations :: "observation_row list"
  db_conflicts :: "conflict_row list"
  db_groups :: "group_row list"
  db_tips :: "tip_row list"
  db_instances :: "instance_row list"
  db_current :: "current_row list"
  db_status :: "status_row list"
  db_workers :: "worker_row list"
  db_failures :: "failure_row list"
  db_coverage :: "coverage_row list"
  db_revisions :: "(string \<times> coverage_row) list"
  db_certified :: "certified_row list"
  db_fee_jobs :: "fee_job_row list"

definition empty_db :: db where
  "empty_db = \<lparr> db_clock = 0, db_schema = [], db_manifests = [], db_runs = [], db_events = [],
     db_next_event = 1, db_observations = [], db_conflicts = [], db_groups = [], db_tips = [],
     db_instances = [], db_current = [], db_status = [], db_workers = [], db_failures = [],
     db_coverage = [], db_revisions = [], db_certified = [], db_fee_jobs = [] \<rparr>"

record store =
  st_source :: string
  st_dataset :: string
  st_run :: string
  st_version :: int
  st_previous_tip :: "observed_block option"

datatype capture_method = Startup | Live | Backfill | Poll | Reconcile

fun method_str :: "capture_method \<Rightarrow> string" where
  "method_str Startup = ''startup''"
| "method_str Live = ''live''"
| "method_str Backfill = ''backfill''"
| "method_str Poll = ''poll''"
| "method_str Reconcile = ''reconcile''"

section \<open>Transactions\<close>

type_synonym 'a tx = "db \<Rightarrow> ('a \<times> db) res"

definition ret_tx :: "'a \<Rightarrow> 'a tx" where
  "ret_tx x d = Inr (x, d)"

definition bind_tx :: "'a tx \<Rightarrow> ('a \<Rightarrow> 'b tx) \<Rightarrow> 'b tx" where
  "bind_tx m f d = bind_res (m d) (\<lambda>(x, d'). f x d')"

definition lift_tx :: "'a res \<Rightarrow> 'a tx" where
  "lift_tx r d = map_ok (\<lambda>x. (x, d)) r"

definition get_tx :: "(db \<Rightarrow> 'a) \<Rightarrow> 'a tx" where
  "get_tx f d = Inr (f d, d)"

definition modify_tx :: "(db \<Rightarrow> db) \<Rightarrow> unit tx" where
  "modify_tx f d = Inr ((), f d)"

definition ensure_tx :: "(db \<Rightarrow> bool) \<Rightarrow> string \<Rightarrow> unit tx" where
  "ensure_tx p msg d = (if p d then Inr ((), d) else bail msg)"

text \<open>A loop over a list that threads an accumulator.\<close>

fun fold_tx :: "('x \<Rightarrow> 'a \<Rightarrow> 'a tx) \<Rightarrow> 'x list \<Rightarrow> 'a \<Rightarrow> 'a tx" where
  "fold_tx f [] a d = Inr (a, d)"
| "fold_tx f (x # xs) a d = bind_tx (f x a) (fold_tx f xs) d"

text \<open>
  Running a transaction: it commits as a whole, or the database is as it was when the
  transaction is dropped with an error.
\<close>

definition run_tx :: "'a tx \<Rightarrow> db \<Rightarrow> 'a res \<times> db" where
  "run_tx m d = (case m d of Inl e \<Rightarrow> (Inl e, d) | Inr (x, d') \<Rightarrow> (Inr x, d'))"

lemma ret_tx_Inr [res_simps]: "ret_tx x d = Inr r \<longleftrightarrow> r = (x, d)"
  by (auto simp: ret_tx_def)

lemma bind_tx_Inr [res_simps]:
  "bind_tx m f d = Inr r \<longleftrightarrow> (\<exists>x d'. m d = Inr (x, d') \<and> f x d' = Inr r)"
  by (auto simp: bind_tx_def res_simps)

lemma lift_tx_Inr [res_simps]: "lift_tx v d = Inr r \<longleftrightarrow> (\<exists>x. v = Inr x \<and> r = (x, d))"
  by (auto simp: lift_tx_def res_simps)

lemma get_tx_Inr [res_simps]: "get_tx f d = Inr r \<longleftrightarrow> r = (f d, d)"
  by (auto simp: get_tx_def)

lemma modify_tx_Inr [res_simps]: "modify_tx f d = Inr r \<longleftrightarrow> r = ((), f d)"
  by (auto simp: modify_tx_def)

lemma ensure_tx_Inr [res_simps]: "ensure_tx p msg d = Inr r \<longleftrightarrow> p d \<and> r = ((), d)"
  by (auto simp: ensure_tx_def bail_def)

lemma run_tx_Inr [res_simps]: "run_tx m d = (Inr x, d') \<longleftrightarrow> m d = Inr (x, d')"
  by (auto simp: run_tx_def split: sum.splits prod.splits)

lemma run_tx_Inl: "run_tx m d = (Inl e, d') \<Longrightarrow> d' = d \<and> m d = Inl e"
  by (auto simp: run_tx_def split: sum.splits prod.splits)

text \<open>A property of the database that every step keeps is kept by the composed transaction.\<close>

definition keeps :: "(db \<Rightarrow> bool) \<Rightarrow> 'a tx \<Rightarrow> bool" where
  "keeps P m \<longleftrightarrow> (\<forall>d x d'. P d \<longrightarrow> m d = Inr (x, d') \<longrightarrow> P d')"

lemma keepsI: "(\<And>d x d'. P d \<Longrightarrow> m d = Inr (x, d') \<Longrightarrow> P d') \<Longrightarrow> keeps P m"
  by (auto simp: keeps_def)

lemma keepsD: "keeps P m \<Longrightarrow> m d = Inr (x, d') \<Longrightarrow> P d \<Longrightarrow> P d'"
  by (auto simp: keeps_def)

lemma keeps_run: "keeps P m \<Longrightarrow> P d \<Longrightarrow> P (snd (run_tx m d))"
  by (auto simp: run_tx_def keeps_def split: sum.splits prod.splits)

named_theorems keeps_intros \<open>composition rules for kept properties\<close>

lemma keeps_ret [keeps_intros]: "keeps P (ret_tx x)"
  by (auto simp: keeps_def res_simps)

lemma keeps_lift [keeps_intros]: "keeps P (lift_tx r)"
  by (auto simp: keeps_def res_simps)

lemma keeps_get [keeps_intros]: "keeps P (get_tx f)"
  by (auto simp: keeps_def res_simps)

lemma keeps_ensure [keeps_intros]: "keeps P (ensure_tx p msg)"
  by (auto simp: keeps_def res_simps)

lemma keeps_modify: "(\<And>d. P d \<Longrightarrow> P (f d)) \<Longrightarrow> keeps P (modify_tx f)"
  by (auto simp: keeps_def res_simps)

lemma keeps_bind [keeps_intros]: "keeps P m \<Longrightarrow> (\<And>x. keeps P (f x)) \<Longrightarrow> keeps P (bind_tx m f)"
  unfolding keeps_def bind_tx_Inr by blast

lemma keeps_fold [keeps_intros]: "(\<And>x a. keeps P (f x a)) \<Longrightarrow> keeps P (fold_tx f xs a)"
proof (induction xs arbitrary: a)
  case Nil
  then show ?case by (auto simp: keeps_def)
next
  case (Cons x xs)
  have "keeps P (bind_tx (f x a) (fold_tx f xs))"
    using Cons by (intro keeps_bind) auto
  then show ?case by (simp add: keeps_def)
qed

lemma keeps_if [keeps_intros]: "keeps P m \<Longrightarrow> keeps P n \<Longrightarrow> keeps P (if b then m else n)"
  by simp

text \<open>
  A relation between the database before and after that every step respects is respected by the
  composed transaction, when it is reflexive and transitive.
\<close>

definition rel_tx :: "(db \<Rightarrow> db \<Rightarrow> bool) \<Rightarrow> 'a tx \<Rightarrow> bool" where
  "rel_tx R m \<longleftrightarrow> (\<forall>d x d'. m d = Inr (x, d') \<longrightarrow> R d d')"

lemma rel_txI: "(\<And>d x d'. m d = Inr (x, d') \<Longrightarrow> R d d') \<Longrightarrow> rel_tx R m"
  by (auto simp: rel_tx_def)

lemma rel_txD: "rel_tx R m \<Longrightarrow> m d = Inr (x, d') \<Longrightarrow> R d d'"
  by (auto simp: rel_tx_def)

locale step_relation =
  fixes R :: "db \<Rightarrow> db \<Rightarrow> bool"
  assumes step_refl: "R d d"
    and step_trans: "R a b \<Longrightarrow> R b c \<Longrightarrow> R a c"
begin

lemma rel_ret: "rel_tx R (ret_tx x)"
  by (auto simp: rel_tx_def res_simps step_refl)

lemma rel_lift: "rel_tx R (lift_tx r)"
  by (auto simp: rel_tx_def res_simps step_refl)

lemma rel_get: "rel_tx R (get_tx f)"
  by (auto simp: rel_tx_def res_simps step_refl)

lemma rel_ensure: "rel_tx R (ensure_tx p msg)"
  by (auto simp: rel_tx_def res_simps step_refl)

lemma rel_modify: "(\<And>d. R d (f d)) \<Longrightarrow> rel_tx R (modify_tx f)"
  by (auto simp: rel_tx_def res_simps)

lemma rel_bind: "rel_tx R m \<Longrightarrow> (\<And>x. rel_tx R (f x)) \<Longrightarrow> rel_tx R (bind_tx m f)"
  unfolding rel_tx_def bind_tx_Inr by (blast intro: step_trans)

lemma rel_fold: "(\<And>x a. rel_tx R (f x a)) \<Longrightarrow> rel_tx R (fold_tx f xs a)"
proof (induction xs arbitrary: a)
  case Nil
  then show ?case by (auto simp: rel_tx_def step_refl)
next
  case (Cons x xs)
  have "rel_tx R (bind_tx (f x a) (fold_tx f xs))"
    using Cons by (intro rel_bind) auto
  then show ?case by (simp add: rel_tx_def)
qed

lemma rel_if: "rel_tx R m \<Longrightarrow> rel_tx R n \<Longrightarrow> rel_tx R (if b then m else n)"
  by simp

lemma rel_run: "rel_tx R m \<Longrightarrow> R d (snd (run_tx m d))"
  by (auto simp: run_tx_def rel_tx_def step_refl split: sum.splits prod.splits)

lemmas rel_rules = rel_ret rel_lift rel_get rel_ensure rel_bind rel_fold rel_if

end

text \<open>
  The record only grows: what was observed, its occurrences, conflicts, tips, failures, snapshot
  groups, coverage revisions and certified blocks are never changed or removed.
\<close>

definition append_only :: "db \<Rightarrow> db \<Rightarrow> bool" where
  "append_only d d' \<longleftrightarrow>
     prefix (db_events d) (db_events d') \<and> prefix (db_observations d) (db_observations d') \<and>
     prefix (db_conflicts d) (db_conflicts d') \<and> prefix (db_tips d) (db_tips d') \<and>
     prefix (db_failures d) (db_failures d') \<and> prefix (db_groups d) (db_groups d') \<and>
     prefix (db_revisions d) (db_revisions d') \<and> prefix (db_certified d) (db_certified d')"

interpretation grows: step_relation append_only
  by unfold_locales (auto simp: append_only_def intro: prefix_order.trans)

section \<open>Scopes\<close>

definition scope_of :: "store \<Rightarrow> string \<Rightarrow> int option \<Rightarrow> string option \<Rightarrow> scope" where
  "scope_of st name sidechain inst =
     \<lparr> sc_dataset = st_dataset st, sc_version = st_version st, sc_source = st_source st,
       sc_name = name, sc_sidechain = sidechain, sc_instance = inst \<rparr>"

text \<open>The fact family of a stream is the scope under the kind of the stream's events.\<close>

definition fact_scope :: "scope \<Rightarrow> string \<Rightarrow> scope" where
  "fact_scope s kind = s\<lparr> sc_name := kind \<rparr>"

lemma fact_scope_of [simp]: "fact_scope (scope_of st n sl i) k = scope_of st k sl i"
  by (simp add: fact_scope_def scope_of_def)

lemma scope_of_inject [simp]:
  "scope_of st n sl i = scope_of st n' sl' i' \<longleftrightarrow> n = n' \<and> sl = sl' \<and> i = i'"
  by (auto simp: scope_of_def)

lemma scope_of_sel [simp]:
  "sc_name (scope_of st n sl i) = n" "sc_sidechain (scope_of st n sl i) = sl"
  "sc_instance (scope_of st n sl i) = i" "sc_dataset (scope_of st n sl i) = st_dataset st"
  "sc_version (scope_of st n sl i) = st_version st" "sc_source (scope_of st n sl i) = st_source st"
  by (simp_all add: scope_of_def)

end
