(* ===== verification/Bip300.thy ===== *)
theory Bip300
  imports Tables "HOL-Library.List_Lexorder" "HOL-Library.Char_ord"
begin

text \<open>
  \<^verbatim>\<open>src/shared/src/bip300.rs\<close> and the identity of a sidechain activation in
  \<^verbatim>\<open>src/shared/src/store.rs\<close>: the description hash is recomputed from the raw
  consensus-encoded description, and the instance identifier is the slot, the two heights and
  the hash, joined by colons.
\<close>

definition decode_sidechain_description :: "libs \<Rightarrow> bytes \<Rightarrow> bytes res" where
  "decode_sidechain_description L encoded =
     with_context ''decoding the consensus-encoded sidechain description''
       (ok_or ''consensus decoding failed'' (deserialize_vec L encoded))"

definition sidechain_description_hash :: "libs \<Rightarrow> bytes \<Rightarrow> bytes res" where
  "sidechain_description_hash L encoded =
     map_ok (\<lambda>description. rev (sha256d L description)) (decode_sidechain_description L encoded)"

text \<open>\<open>SidechainInstanceRef\<close>, with the ordering Rust derives for it: field by field.\<close>

datatype instance_ref =
  InstanceRef (ir_sidechain: u8) (ir_instance_id: string) (ir_activation: u32)

instantiation instance_ref :: linorder
begin

definition less_eq_instance_ref :: "instance_ref \<Rightarrow> instance_ref \<Rightarrow> bool" where
  "less_eq_instance_ref a b \<longleftrightarrow>
     ir_sidechain a < ir_sidechain b \<or> ir_sidechain a = ir_sidechain b \<and>
       (ir_instance_id a < ir_instance_id b \<or> ir_instance_id a = ir_instance_id b \<and>
          ir_activation a \<le> ir_activation b)"

definition less_instance_ref :: "instance_ref \<Rightarrow> instance_ref \<Rightarrow> bool" where
  "less_instance_ref a b \<longleftrightarrow> a \<le> b \<and> \<not> b \<le> (a :: instance_ref)"

instance
proof
  fix a b c :: instance_ref
  show "a < b \<longleftrightarrow> a \<le> b \<and> \<not> b \<le> a" by (simp add: less_instance_ref_def)
  show "a \<le> a" by (simp add: less_eq_instance_ref_def)
  show "a \<le> c" if "a \<le> b" "b \<le> c"
    using that unfolding less_eq_instance_ref_def by (elim disjE conjE) auto
  show "a = b" if "a \<le> b" "b \<le> a"
  proof -
    from that have "ir_sidechain a = ir_sidechain b" "ir_instance_id a = ir_instance_id b"
      "ir_activation a = ir_activation b"
      unfolding less_eq_instance_ref_def by (elim disjE conjE; force)+
    then show ?thesis by (rule instance_ref.expand [OF conjI, OF _ conjI])
  qed
  show "a \<le> b \<or> b \<le> a"
    unfolding less_eq_instance_ref_def
    using less_linear [of "ir_sidechain a" "ir_sidechain b"]
      less_linear [of "ir_instance_id a" "ir_instance_id b"]
      linear [of "ir_activation a" "ir_activation b"] by fastforce
qed

end

definition instance_id_str :: "libs \<Rightarrow> u8 \<Rightarrow> u32 \<Rightarrow> u32 \<Rightarrow> bytes \<Rightarrow> string" where
  "instance_id_str L slot proposal activation hash =
     show_nat (unat slot) @ '':'' @ show_nat (unat proposal) @ '':'' @ show_nat (unat activation)
       @ '':'' @ hex_encode L hash"

definition sidechain_instance_identity :: "libs \<Rightarrow> active_sidechain \<Rightarrow> (instance_ref \<times> bytes) res" where
  "sidechain_instance_identity L sidechain =
     bind_res (try_from ''active sidechain slot does not fit in a u8''
                 (u8_of_u32 (as_sidechain sidechain))) (\<lambda>slot.
     bind_res (with_context ''calculating the active sidechain BIP300 description hash''
                 (sidechain_description_hash L (as_raw_description sidechain))) (\<lambda>hash.
     bind_res (ensure (as_description_hash sidechain = hash)
                 ''active sidechain reports another description hash than calculated'') (\<lambda>_.
     Inr (InstanceRef slot
            (instance_id_str L slot (as_proposal_height sidechain)
               (as_activation_height sidechain) hash)
            (as_activation_height sidechain), hash))))"

definition sidechain_instance_ref :: "libs \<Rightarrow> active_sidechain \<Rightarrow> instance_ref res" where
  "sidechain_instance_ref L sidechain = map_ok fst (sidechain_instance_identity L sidechain)"

section \<open>The identifier determines the activation\<close>

lemma instance_id_str_inject:
  assumes "hex_injective L"
  shows "instance_id_str L s p a h = instance_id_str L s' p' a' h' \<longleftrightarrow>
           s = s' \<and> p = p' \<and> a = a' \<and> h = h'"
  using assms unfolding hex_injective_def
  by (simp add: instance_id_str_def append_sep_inject colon_not_digit inj_eq)

lemma sidechain_instance_identity_Inr:
  "sidechain_instance_identity L sc = Inr (r, h) \<longleftrightarrow>
     (\<exists>slot. u8_of_u32 (as_sidechain sc) = Some slot \<and>
        sidechain_description_hash L (as_raw_description sc) = Inr h \<and>
        as_description_hash sc = h \<and>
        r = InstanceRef slot (instance_id_str L slot (as_proposal_height sc)
              (as_activation_height sc) h) (as_activation_height sc))"
  by (auto simp: sidechain_instance_identity_def res_simps)

lemma u8_of_u32_unat: "u8_of_u32 h = Some s \<Longrightarrow> unat s = unat h"
proof -
  have "unat h < 256" if "uint h < 256"
    using that of_nat_less_iff [of "unat h" 256, where 'a = int] by simp
  then show "u8_of_u32 h = Some s \<Longrightarrow> unat s = unat h"
    by (auto simp: u8_of_u32_def unsigned_ucast_eq take_bit_nat_eq_self split: if_splits)
qed


end
