(* ===== verification/Convert.thy ===== *)
theory Convert
  imports Upstream Bip300 "HOL-Library.Product_Lexorder" "HOL-Library.List_Lexorder"
begin

text \<open>
  The fallible conversions from the validator's replies to monitor events, from
  \<^verbatim>\<open>src/extractors/enforcer/src/convert.rs\<close>, one definition per function: the field helpers
  first, then the parts of a block, then the functions the extractor calls on a whole reply.
\<close>

section \<open>Fields\<close>

definition required :: "'a option \<Rightarrow> string \<Rightarrow> 'a res" where
  "required v field = ok_or (''missing required field '' @ field) v"

definition require_32_bytes :: "bytes \<Rightarrow> string \<Rightarrow> bytes res" where
  "require_32_bytes v field =
     (if length v \<noteq> 32 then bail (field @ '' must contain exactly 32 bytes'') else Inr v)"

definition convert_hex :: "libs \<Rightarrow> string \<Rightarrow> string \<Rightarrow> bytes res" where
  "convert_hex L v field =
     with_context (''decoding as hex: '' @ field) (ok_or ''invalid hexadecimal'' (hex_decode L v))"

definition consensus_hex :: "libs \<Rightarrow> hex_field \<Rightarrow> string \<Rightarrow> bytes res" where
  "consensus_hex L v field =
     bind_res (required v field) (\<lambda>v. bind_res (required v field) (\<lambda>v. convert_hex L v field))"

definition raw_hex :: "libs \<Rightarrow> hex_field \<Rightarrow> string \<Rightarrow> bytes res" where
  "raw_hex L v field =
     bind_res (required v field) (\<lambda>v. bind_res (required v field) (\<lambda>v. convert_hex L v field))"

definition hash_from_reverse :: "libs \<Rightarrow> hex_field \<Rightarrow> string \<Rightarrow> bytes res" where
  "hash_from_reverse L v field =
     bind_res (required v field) (\<lambda>v. bind_res (required v field) (\<lambda>v.
     bind_res (convert_hex L v field) (\<lambda>bytes. require_32_bytes bytes field)))"

definition fixed_consensus_hex :: "libs \<Rightarrow> hex_field \<Rightarrow> string \<Rightarrow> bytes res" where
  "fixed_consensus_hex L v field =
     bind_res (consensus_hex L v field) (\<lambda>bytes. require_32_bytes bytes field)"

definition m6id_display :: "libs \<Rightarrow> hex_field \<Rightarrow> string \<Rightarrow> bytes res" where
  "m6id_display L v field = map_ok rev (fixed_consensus_hex L v field)"

definition convert_slot :: "u32 \<Rightarrow> string \<Rightarrow> u32 res" where
  "convert_slot v field =
     (if 255 < v then bail (''invalid sidechain slot in '' @ field) else Inr v)"

definition convert_network :: "int \<Rightarrow> network" where
  "convert_network v =
     (if v = 0 then NetworkUnspecified else if v = 1 then NetworkUnknown
      else if v = 2 then NetworkMainnet else if v = 3 then NetworkRegtest
      else if v = 4 then NetworkSignet else if v = 5 then NetworkTestnet
      else NetworkUnknown)"

text \<open>\<open>into_iter().enumerate().map(..)\<close> with the index in the error context, then \<open>collect\<close>.\<close>

definition collect_at :: "string \<Rightarrow> ('a \<Rightarrow> 'b res) \<Rightarrow> 'a list \<Rightarrow> 'b list res" where
  "collect_at msg f xs =
     collect_res (\<lambda>(i, x). with_context (msg @ '' at index '' @ show_nat i) (f x)) (enumerate 0 xs)"

section \<open>Blocks\<close>

definition convert_header :: "libs \<Rightarrow> up_header \<Rightarrow> block_header res" where
  "convert_header L h =
     bind_res (hash_from_reverse L (uh_block_hash h) ''block_header.block_hash'') (\<lambda>hash.
     bind_res (hash_from_reverse L (uh_previous h) ''block_header.prev_block_hash'') (\<lambda>previous.
     bind_res (fixed_consensus_hex L (uh_work h) ''block_header.work'') (\<lambda>work.
     Inr \<lparr> hdr_hash = hash, hdr_previous = previous, hdr_height = uh_height h,
           hdr_block_work = work, hdr_cumulative_work = [], hdr_timestamp = uh_timestamp h \<rparr>)))"

definition deposit_event :: "libs \<Rightarrow> up_deposit \<Rightarrow> deposit res" where
  "deposit_event L dep =
     bind_res (required (ud_outpoint dep) ''deposit.outpoint'') (\<lambda>outpoint.
     bind_res (required (ud_output dep) ''deposit.output'') (\<lambda>output.
     bind_res (required (ud_sequence_number dep) ''deposit.sequence_number'') (\<lambda>sequence.
     bind_res (hash_from_reverse L (uo_txid outpoint) ''deposit.outpoint.txid'') (\<lambda>txid.
     bind_res (required (uo_vout outpoint) ''deposit.outpoint.vout'') (\<lambda>vout.
     bind_res (raw_hex L (uo_address output) ''deposit.output.address'') (\<lambda>address.
     bind_res (required (uo_value_sats output) ''deposit.output.value_sats'') (\<lambda>sats.
     Inr \<lparr> dep_sequence_number = sequence, dep_outpoint = Some (txid, vout),
           dep_address = address, dep_value_sats = sats \<rparr>)))))))"

fun convert_state :: "libs \<Rightarrow> up_bundle_state \<Rightarrow> withdrawal_state res" where
  "convert_state L UpSubmitted = Inr Submitted"
| "convert_state L UpFailed = Inr Failed"
| "convert_state L (UpSucceeded sequence transaction) =
     bind_res (required sequence ''withdrawal_bundle.succeeded.sequence_number'') (\<lambda>sequence.
     bind_res (consensus_hex L transaction ''withdrawal_bundle.succeeded.transaction'') (\<lambda>tx.
     Inr (Succeeded sequence tx)))"

definition withdrawal_event :: "libs \<Rightarrow> up_withdrawal \<Rightarrow> sidechain_event res" where
  "withdrawal_event L w =
     bind_res (required (uw_event w) ''withdrawal_bundle.event'') (\<lambda>event.
     bind_res (required event ''withdrawal_bundle.event.event'') (\<lambda>event.
     bind_res (convert_state L event) (\<lambda>state.
     bind_res (m6id_display L (uw_m6id w) ''withdrawal_bundle.m6id'') (\<lambda>m6id.
     Inr (WithdrawalBundle m6id (Some state))))))"

definition convert_sidechain_event :: "libs \<Rightarrow> up_block_event option \<Rightarrow> sidechain_event option res" where
  "convert_sidechain_event L event =
     bind_res (required event ''block_info.event.event'') (\<lambda>event.
     map_ok Some
       (case event of
          UpDeposit dep \<Rightarrow> map_ok Deposit (deposit_event L dep)
        | UpWithdrawal w \<Rightarrow> withdrawal_event L w))"

definition connected_block :: "libs \<Rightarrow> u8 \<Rightarrow> up_header \<Rightarrow> up_block_info \<Rightarrow> enforcer_event res" where
  "connected_block L slot header info =
     bind_res (case ub_commitment info of
                 None \<Rightarrow> Inr None
               | Some v \<Rightarrow> map_ok Some (fixed_consensus_hex L (Some v) ''block_info.bmm_commitment''))
       (\<lambda>commitment.
     bind_res (collect_at ''converting sidechain event'' (convert_sidechain_event L) (ub_events info))
       (\<lambda>events.
     bind_res (convert_header L header) (\<lambda>header.
     Inr (BlockConnected \<lparr> bcn_header = Some header, bcn_sidechain = ucast slot,
                           bcn_commitment = commitment, bcn_events = events \<rparr>))))"

section \<open>Sidechains and bundles\<close>

definition validate_description_hash :: "libs \<Rightarrow> bytes \<Rightarrow> bytes \<Rightarrow> string \<Rightarrow> unit res" where
  "validate_description_hash L encoded reported field =
     bind_res (with_context (''calculating description_hash of '' @ field)
                 (sidechain_description_hash L encoded)) (\<lambda>calculated.
     ensure (calculated = reported) (field @ ''.description_hash differs from the calculated one''))"

definition sidechain_declaration :: "libs \<Rightarrow> up_declaration_v0 option \<Rightarrow> declaration_v0 option res" where
  "sidechain_declaration L dec =
     bind_res (required dec ''sidechain_declaration.sidechain_declaration'') (\<lambda>v0.
     bind_res (required (uv_title v0) ''sidechain_declaration.v0.title'') (\<lambda>title.
     bind_res (required (uv_description v0) ''sidechain_declaration.v0.description'') (\<lambda>description.
     bind_res (consensus_hex L (uv_hash_id_1 v0) ''sidechain_declaration.v0.hash_id_1'') (\<lambda>hash1.
     bind_res (raw_hex L (uv_hash_id_2 v0) ''sidechain_declaration.v0.hash_id_2'') (\<lambda>hash2.
     Inr (Some \<lparr> dec_title = title, dec_description = description, dec_hash_id_1 = hash1,
                 dec_hash_id_2 = hash2 \<rparr>))))))"

definition convert_proposal :: "libs \<Rightarrow> up_proposal \<Rightarrow> sidechain_proposal res" where
  "convert_proposal L p =
     bind_res (consensus_hex L (up_description p) ''sidechain_proposal.description'') (\<lambda>raw.
     bind_res (hash_from_reverse L (up_description_hash p)
                 ''sidechain_proposal.description_sha256d_hash'') (\<lambda>hash.
     bind_res (validate_description_hash L raw hash ''sidechain_proposal'') (\<lambda>_.
     bind_res (bind_res (required (up_sidechain p) ''sidechain_proposal.sidechain_number'')
                 (\<lambda>v. convert_slot v ''sidechain_proposal.sidechain_number'')) (\<lambda>slot.
     bind_res (required (up_vote_count p) ''sidechain_proposal.vote_count'') (\<lambda>votes.
     bind_res (required (up_proposal_height p) ''sidechain_proposal.proposal_height'') (\<lambda>height.
     bind_res (required (up_proposal_age p) ''sidechain_proposal.proposal_age'') (\<lambda>age.
     bind_res (traverse_opt (sidechain_declaration L) (up_declaration p)) (\<lambda>dec.
     Inr \<lparr> sp_sidechain = slot, sp_raw_description = raw, sp_description_hash = hash,
           sp_vote_count = votes, sp_proposal_height = height, sp_proposal_age = age,
           sp_declaration = dec \<rparr>))))))))"

definition convert_active :: "libs \<Rightarrow> up_sidechain_info \<Rightarrow> active_sidechain res" where
  "convert_active L s =
     bind_res (consensus_hex L (us_description s) ''active_sidechain.description'') (\<lambda>raw.
     bind_res (with_context ''calculating active_sidechain.description_hash''
                 (sidechain_description_hash L raw)) (\<lambda>hash.
     bind_res (bind_res (required (us_sidechain s) ''active_sidechain.sidechain_number'')
                 (\<lambda>v. convert_slot v ''active_sidechain.sidechain_number'')) (\<lambda>slot.
     bind_res (required (us_vote_count s) ''active_sidechain.vote_count'') (\<lambda>votes.
     bind_res (required (us_proposal_height s) ''active_sidechain.proposal_height'') (\<lambda>proposal.
     bind_res (required (us_activation_height s) ''active_sidechain.activation_height'') (\<lambda>activation.
     bind_res (traverse_opt (sidechain_declaration L) (us_declaration s)) (\<lambda>dec.
     Inr \<lparr> as_sidechain = slot, as_raw_description = raw, as_vote_count = votes,
           as_proposal_height = proposal, as_activation_height = activation,
           as_declaration = dec, as_description_hash = hash \<rparr>)))))))"

definition withdrawal_bundle_proposal :: "libs \<Rightarrow> up_bundle_proposal \<Rightarrow> withdrawal_proposal res" where
  "withdrawal_bundle_proposal L p =
     bind_res (m6id_display L (uq_m6id p) ''withdrawal_bundle_proposal.m6id'') (\<lambda>m6id.
     bind_res (required (uq_vote_count p) ''withdrawal_bundle_proposal.vote_count'') (\<lambda>votes.
     bind_res (required (uq_proposal_height p) ''withdrawal_bundle_proposal.proposal_height'') (\<lambda>height.
     Inr \<lparr> wp_m6id = m6id, wp_vote_count = votes, wp_proposal_height = height \<rparr>)))"

definition ctip_value :: "libs \<Rightarrow> up_ctip \<Rightarrow> ctip res" where
  "ctip_value L c =
     bind_res (hash_from_reverse L (ut_txid c) ''ctip.txid'') (\<lambda>txid.
     Inr \<lparr> ct_txid = txid, ct_vout = ut_vout c, ct_value_sats = ut_value c,
           ct_sequence_number = ut_sequence_number c \<rparr>)"

section \<open>Replies\<close>

definition convert_chain_info :: "up_chain_info \<Rightarrow> enforcer_event res" where
  "convert_chain_info r =
     bind_res (required (ui_constants r) ''chain_info.bip300_constants'') (\<lambda>c.
     Inr (ChainInfo
       \<lparr> ci_network = network_value (convert_network (ui_network r)),
         ci_constants = Some
           \<lparr> bc_withdrawal_bundle_max_age = uc_withdrawal_bundle_max_age c,
             bc_withdrawal_bundle_inclusion_threshold = uc_withdrawal_bundle_inclusion_threshold c,
             bc_used_proposal_max_age = uc_used_proposal_max_age c,
             bc_used_activation_threshold = uc_used_activation_threshold c,
             bc_unused_proposal_max_age = uc_unused_proposal_max_age c,
             bc_unused_activation_threshold = uc_unused_activation_threshold c,
             bc_activation_height = uc_activation_height c \<rparr>,
         ci_raw_network = ui_network r \<rparr>))"

definition convert_chain_tip :: "libs \<Rightarrow> up_header option \<Rightarrow> enforcer_event res" where
  "convert_chain_tip L r =
     bind_res (required r ''chain_tip.block_header_info'') (\<lambda>h.
     bind_res (convert_header L h) (\<lambda>header. Inr (ChainTip (Some header))))"

definition convert_bmm_request :: "libs \<Rightarrow> up_bmm_request \<Rightarrow> bmm_request res" where
  "convert_bmm_request L r =
     (if 255 < um_sidechain r then bail ''BMM request has an invalid sidechain slot''
      else
        bind_res (convert_slot (um_sidechain r) ''request.sidechain_number'') (\<lambda>slot.
        bind_res (hash_from_reverse L (um_txid r) ''bmm_request.txid'') (\<lambda>txid.
        bind_res (fixed_consensus_hex L (um_critical r) ''bmm_request.critical_hash'') (\<lambda>critical.
        Inr \<lparr> bmm_sidechain = slot, bmm_txid = txid, bmm_critical = critical,
              bmm_bid_sats = um_bid_sats r \<rparr>))))"

definition bmm_identity :: "bmm_request \<Rightarrow> u32 \<times> bytes" where
  "bmm_identity r = (bmm_sidechain r, bmm_txid r)"

fun check_identities :: "(u32 \<times> bytes) list \<Rightarrow> bmm_request list \<Rightarrow> unit res" where
  "check_identities seen [] = Inr ()"
| "check_identities seen (r # rs) =
     (if bmm_identity r \<in> set seen then bail ''duplicate BMM request''
      else check_identities (bmm_identity r # seen) rs)"

text \<open>The order of the snapshot: by slot, then the highest bid first, then by transaction.\<close>

definition bmm_rank :: "bmm_request \<Rightarrow> u32 \<times> int \<times> bytes" where
  "bmm_rank r = (bmm_sidechain r, - uint (bmm_bid_sats r), bmm_txid r)"

definition convert_bmm_requests :: "libs \<Rightarrow> bytes \<Rightarrow> up_bmm_request list \<Rightarrow> enforcer_event res" where
  "convert_bmm_requests L previous rs =
     bind_res (require_32_bytes previous ''bmm_requests.previous_mainchain_block_hash'') (\<lambda>previous.
     bind_res (collect_res (convert_bmm_request L) rs) (\<lambda>requests.
     bind_res (check_identities [] requests) (\<lambda>_.
     Inr (BmmRequests \<lparr> bs_previous_block = previous, bs_requests = sort_key bmm_rank requests \<rparr>))))"

definition convert_block_info :: "libs \<Rightarrow> u8 \<Rightarrow> up_info list \<Rightarrow> enforcer_event list res" where
  "convert_block_info L slot infos =
     collect_res (\<lambda>(i, info).
       bind_res (required (un_header info) ''block_info.infos[].header_info'') (\<lambda>header.
       bind_res (required (un_block info) ''block_info.infos[].block_info'') (\<lambda>block.
       with_context (''converting block info at index '' @ show_nat i)
         (connected_block L slot header block)))) (enumerate 0 infos)"

definition convert_proposals :: "libs \<Rightarrow> up_proposal list \<Rightarrow> enforcer_event res" where
  "convert_proposals L ps =
     map_ok SidechainProposals (collect_at ''converting sidechain proposal'' (convert_proposal L) ps)"

definition convert_actives :: "libs \<Rightarrow> up_sidechain_info list \<Rightarrow> enforcer_event res" where
  "convert_actives L ss =
     map_ok ActiveSidechains (collect_at ''converting active sidechain'' (convert_active L) ss)"

definition convert_ctip :: "libs \<Rightarrow> u8 \<Rightarrow> up_ctip option \<Rightarrow> enforcer_event res" where
  "convert_ctip L slot c =
     map_ok (\<lambda>c. Ctip \<lparr> cs_sidechain = ucast slot, cs_ctip = c \<rparr>) (traverse_opt (ctip_value L) c)"

definition convert_bundle_proposals :: "libs \<Rightarrow> u8 \<Rightarrow> up_bundle_proposal list \<Rightarrow> enforcer_event res" where
  "convert_bundle_proposals L slot ps =
     map_ok (WithdrawalBundleProposals (ucast slot))
       (collect_at ''converting withdrawal bundle proposal'' (withdrawal_bundle_proposal L) ps)"

definition subscription_event :: "libs \<Rightarrow> u8 \<Rightarrow> up_stream_item \<Rightarrow> enforcer_event res" where
  "subscription_event L slot item =
     bind_res (required item ''subscribe_events.event'') (\<lambda>event.
     bind_res (required event ''subscribe_events.event.event'') (\<lambda>event.
     case event of
       ConnectBlock header info \<Rightarrow>
         bind_res (required header ''connect_block.header_info'') (\<lambda>header.
         bind_res (required info ''connect_block.block_info'') (\<lambda>info.
         connected_block L slot header info))
     | DisconnectBlock hash \<Rightarrow>
         bind_res (hash_from_reverse L hash ''disconnect_block.block_hash'') (\<lambda>hash.
         Inr (BlockDisconnected hash (ucast slot)))))"

end
