(* ===== verification/Facts.thy ===== *)
theory Facts
  imports Bip300
begin

text \<open>
  Recording one event, from \<^verbatim>\<open>src/shared/src/store.rs\<close>: the columns extracted from an
  envelope (\<open>facts\<close>), the sidechain instances an active-sidechains reading registers, the
  instance an event is filed under, the insertion of the fact and of its occurrence
  (\<open>insert\<close>), and the \<^verbatim>\<open>observe_block_fact\<close> trigger that retains conflicting block facts.
\<close>

section \<open>Heights and columns\<close>

definition height_to_i32 :: "u32 \<Rightarrow> int res" where
  "height_to_i32 height = try_from ''block height does not fit in an i32'' (i32_of_u32 height)"

definition height_from_i32 :: "int \<Rightarrow> u32 res" where
  "height_from_i32 height = try_from ''height is negative'' (u32_of_int height)"

definition required_height :: "observed_block \<Rightarrow> u32 res" where
  "required_height block = ok_or ''block has no height'' (ob_height block)"

definition require_hash :: "bytes \<Rightarrow> unit res" where
  "require_hash hash = ensure (length hash = 32) ''hash is not 32 bytes''"

fun optional_block_parts :: "observed_block option \<Rightarrow> (bytes option \<times> int option) res" where
  "optional_block_parts (Some block) =
     bind_res (required_height block) (\<lambda>h.
     bind_res (height_to_i32 h) (\<lambda>i. Inr (Some (ob_hash block), Some i)))"
| "optional_block_parts None = Inr (None, None)"

record facts =
  fc_kind :: string
  fc_sidechain :: "int option"
  fc_block_hash :: "bytes option"
  fc_height :: "int option"

definition anchor_height :: "(int option \<Rightarrow> int res) \<Rightarrow> observed_block option \<Rightarrow> int option res" where
  "anchor_height conv anchor =
     traverse_opt (\<lambda>h. conv (i32_of_u32 h)) (Option.bind anchor ob_height)"

definition facts :: "event \<Rightarrow> facts res" where
  "facts event =
     (case ev_payload event of
        Some (Node node) \<Rightarrow>
          bind_res (ok_or ''missing node event'' node) (\<lambda>payload.
          bind_res (anchor_height (ok_or ''out of range integral type conversion attempted'')
                      (ev_anchor event)) (\<lambda>height.
          Inr \<lparr> fc_kind = node_kind payload, fc_sidechain = None,
                fc_block_hash = map_option ob_hash (ev_anchor event), fc_height = height \<rparr>))
      | Some (Enforcer payload) \<Rightarrow>
          bind_res (ok_or ''enforcer event does not contain a concrete event'' payload) (\<lambda>payload.
          bind_res (traverse_opt (\<lambda>slot. try_from ''sidechain slot does not fit in a u8''
                                            (i16_of_u32 slot))
                      (sidechain_number payload)) (\<lambda>sidechain.
          bind_res (anchor_height (try_from ''block height does not fit in an i32'')
                      (ev_anchor event)) (\<lambda>height.
          Inr \<lparr> fc_kind = enforcer_kind payload, fc_sidechain = sidechain,
                fc_block_hash = map_option ob_hash (ev_anchor event), fc_height = height \<rparr>)))
      | None \<Rightarrow> bail ''event envelope does not contain a monitor event'')"

definition previous_hash_of :: "event \<Rightarrow> bytes option" where
  "previous_hash_of event =
     (case ev_payload event of
        Some (Node node) \<Rightarrow> map_option hdr_previous (Option.bind node node_header)
      | Some (Enforcer (Some (BlockConnected b))) \<Rightarrow> map_option hdr_previous (bcn_header b)
      | Some (Enforcer (Some (MainchainTransition t))) \<Rightarrow> map_option hdr_previous (tr_header t)
      | _ \<Rightarrow> None)"

section \<open>Sidechain instances\<close>

type_synonym cache = "int \<Rightarrow> string option"

definition instance_row_ok :: "instance_row \<Rightarrow> bool" where
  "instance_row_ok r \<longleftrightarrow>
     0 \<le> in_sidechain r \<and> in_sidechain r \<le> 255 \<and> length (in_description_sha r) = 32 \<and>
     0 \<le> in_proposal_height r \<and> in_proposal_height r \<le> in_activation_height r"

definition same_instance_key :: "instance_row \<Rightarrow> instance_row \<Rightarrow> bool" where
  "same_instance_key r q \<longleftrightarrow> in_dataset q = in_dataset r \<and> in_id q = in_id r"

definition same_instance_fields :: "instance_row \<Rightarrow> instance_row \<Rightarrow> bool" where
  "same_instance_fields r q \<longleftrightarrow>
     in_dataset q = in_dataset r \<and> in_sidechain q = in_sidechain r \<and>
     in_description_sha q = in_description_sha r \<and>
     in_proposal_height q = in_proposal_height r \<and> in_activation_height q = in_activation_height r"

definition upsert_instance :: "instance_row \<Rightarrow> unit tx" where
  "upsert_instance r =
     bind_tx (ensure_tx (\<lambda>d. instance_row_ok r) ''recording a sidechain instance'') (\<lambda>_ d.
     if \<exists>q \<in> set (db_instances d). same_instance_key r q
     then Inr ((), d\<lparr> db_instances := update_where (same_instance_key r)
                                        (\<lambda>q. q\<lparr> in_last_seen := in_last_seen r \<rparr>)
                                        (db_instances d) \<rparr>)
     else if \<exists>q \<in> set (db_instances d). same_instance_fields r q
     then bail ''recording a sidechain instance''
     else Inr ((), d\<lparr> db_instances := db_instances d @ [r] \<rparr>))"

definition record_instance ::
  "libs \<Rightarrow> string \<Rightarrow> int \<Rightarrow> active_sidechain \<Rightarrow> (int \<times> string) list \<Rightarrow> (int \<times> string) list tx" where
  "record_instance L dataset at sidechain current =
     bind_tx (lift_tx (try_from ''active sidechain slot does not fit in a smallint''
                         (i16_of_u32 (as_sidechain sidechain)))) (\<lambda>slot.
     bind_tx (lift_tx (ensure (0 \<le> slot \<and> slot \<le> 255)
                         ''active sidechain slot is outside 0..=255'')) (\<lambda>_.
     bind_tx (lift_tx (height_to_i32 (as_proposal_height sidechain))) (\<lambda>proposal.
     bind_tx (lift_tx (height_to_i32 (as_activation_height sidechain))) (\<lambda>activation.
     bind_tx (lift_tx (sidechain_instance_identity L sidechain)) (\<lambda>(inst, hash).
     bind_tx (upsert_instance
                \<lparr> in_dataset = dataset, in_id = ir_instance_id inst, in_sidechain = slot,
                  in_raw_description = as_raw_description sidechain, in_description_sha = hash,
                  in_proposal_height = proposal, in_activation_height = activation,
                  in_first_seen = at, in_last_seen = at \<rparr>) (\<lambda>_.
     ret_tx (current @ [(slot, ir_instance_id inst)])))))))"

text \<open>The delete, then the insert that leaves an occupied slot alone.\<close>

definition retire_replaced :: "string \<Rightarrow> (int \<times> string) list \<Rightarrow> current_row list \<Rightarrow> current_row list" where
  "retire_replaced dataset current rows =
     filter (\<lambda>c. \<not> (cu_dataset c = dataset \<and> (cu_sidechain c, cu_instance c) \<notin> set current)) rows"

fun insert_current :: "string \<Rightarrow> int \<Rightarrow> (int \<times> string) list \<Rightarrow> current_row list \<Rightarrow> current_row list" where
  "insert_current dataset at [] rows = rows"
| "insert_current dataset at ((slot, inst) # current) rows =
     insert_current dataset at current
       (if \<exists>c \<in> set rows. cu_dataset c = dataset \<and> cu_sidechain c = slot then rows
        else rows @ [\<lparr> cu_dataset = dataset, cu_sidechain = slot, cu_instance = inst, cu_at = at \<rparr>])"

definition set_current :: "string \<Rightarrow> int \<Rightarrow> (int \<times> string) list \<Rightarrow> db \<Rightarrow> db" where
  "set_current dataset at current d =
     d\<lparr> db_current := insert_current dataset at current
                        (retire_replaced dataset current (db_current d)) \<rparr>"

definition active_snapshot :: "event \<Rightarrow> active_sidechain list option" where
  "active_snapshot event =
     (case ev_payload event of
        Some (Enforcer (Some (ActiveSidechains snapshot))) \<Rightarrow> Some snapshot
      | _ \<Rightarrow> None)"

definition update_sidechain_instances ::
  "libs \<Rightarrow> string \<Rightarrow> event \<Rightarrow> int \<Rightarrow> bool \<Rightarrow> cache \<Rightarrow> cache tx" where
  "update_sidechain_instances L dataset event at authoritative cache =
     (case active_snapshot event of
        None \<Rightarrow> ret_tx cache
      | Some snapshot \<Rightarrow>
          bind_tx (fold_tx (record_instance L dataset at) snapshot []) (\<lambda>current.
          if \<not> authoritative then ret_tx cache
          else bind_tx (modify_tx (set_current dataset at current)) (\<lambda>_.
               ret_tx (map_of (rev current)))))"

definition current_sidechain_instance :: "string \<Rightarrow> int \<Rightarrow> db \<Rightarrow> string option" where
  "current_sidechain_instance dataset slot d =
     map_option cu_instance
       (find (\<lambda>c. cu_dataset c = dataset \<and> cu_sidechain c = slot) (db_current d))"

definition validate_sidechain_instance :: "string \<Rightarrow> u8 \<Rightarrow> string \<Rightarrow> unit tx" where
  "validate_sidechain_instance dataset slot inst =
     ensure_tx (\<lambda>d. \<exists>q \<in> set (db_instances d). in_dataset q = dataset \<and>
                     in_sidechain q = i16_of_u8 slot \<and> in_id q = inst)
       ''sidechain instance is not registered for the slot''"

text \<open>The instance an event is filed under, with the cache of the batch.\<close>

definition resolve_instance ::
  "string \<Rightarrow> facts \<Rightarrow> int option \<Rightarrow> string option \<Rightarrow> cache \<Rightarrow> (string option \<times> cache) tx" where
  "resolve_instance dataset f explicit_slot explicit_id cache =
     (case (fc_sidechain f, explicit_slot, explicit_id) of
        (None, None, None) \<Rightarrow> ret_tx (None, cache)
      | (None, _, _) \<Rightarrow> lift_tx (bail ''a global event was given a sidechain instance'')
      | (Some slot, Some instance_slot, Some inst) \<Rightarrow>
          (if slot \<noteq> instance_slot then lift_tx (bail ''an event was assigned to another slot'')
           else ret_tx (Some inst, cache))
      | (Some slot, None, None) \<Rightarrow>
          (case cache slot of
             Some inst \<Rightarrow> ret_tx (Some inst, cache)
           | None \<Rightarrow>
               bind_tx (get_tx (current_sidechain_instance dataset slot)) (\<lambda>found.
               bind_tx (lift_tx (ok_or
                 ''no active sidechain instance is registered for the slot'' found)) (\<lambda>inst.
               ret_tx (Some inst, cache(slot \<mapsto> inst)))))
      | (Some slot, _, _) \<Rightarrow> lift_tx (bail ''an explicit sidechain instance is incomplete''))"

section \<open>The fact and its occurrence\<close>

definition opt_ok :: "('a \<Rightarrow> bool) \<Rightarrow> 'a option \<Rightarrow> bool" where
  "opt_ok p v = (case v of None \<Rightarrow> True | Some x \<Rightarrow> p x)"

definition opt_ex :: "('a \<Rightarrow> bool) \<Rightarrow> 'a option \<Rightarrow> bool" where
  "opt_ex p v = (case v of None \<Rightarrow> False | Some x \<Rightarrow> p x)"

lemma opt_ex_iff [simp]: "opt_ex p v \<longleftrightarrow> (\<exists>x. v = Some x \<and> p x)"
  by (cases v) (simp_all add: opt_ex_def)

definition event_checks :: "event_row \<Rightarrow> bool" where
  "event_checks r \<longleftrightarrow>
     opt_ok (\<lambda>h. 0 \<le> h) (er_height r) \<and> opt_ok (\<lambda>h. length h = 32) (er_block_hash r) \<and>
     opt_ok (\<lambda>h. length h = 32) (er_previous r) \<and> length (er_fact_sha r) = 32 \<and>
     length (er_envelope_sha r) = 32 \<and> 0 < sc_version (er_scope r)"

definition event_references :: "event_row \<Rightarrow> db \<Rightarrow> bool" where
  "event_references r d \<longleftrightarrow>
     (\<exists>m \<in> set (db_manifests d). mf_dataset m = sc_dataset (er_scope r)) \<and>
     opt_ok (\<lambda>i. \<exists>q \<in> set (db_instances d). in_dataset q = sc_dataset (er_scope r) \<and> in_id q = i)
       (sc_instance (er_scope r))"

definition same_fact :: "event_row \<Rightarrow> event_row \<Rightarrow> bool" where
  "same_fact r q \<longleftrightarrow>
     er_scope q = er_scope r \<and> er_block_hash q = er_block_hash r \<and> er_fact_sha q = er_fact_sha r"

definition block_kinds :: "string set" where
  "block_kinds = {''block_connected'', ''mainchain_block''}"

definition conflicts_with :: "event_row \<Rightarrow> event_row \<Rightarrow> bool" where
  "conflicts_with new e \<longleftrightarrow>
     er_scope e = er_scope new \<and> er_block_hash new \<noteq> None \<and> er_block_hash e = er_block_hash new \<and>
     er_id e < er_id new \<and> er_fact_sha e \<noteq> er_fact_sha new"

definition observe_block_fact :: "event_row \<Rightarrow> db \<Rightarrow> db" where
  "observe_block_fact new d =
     (if sc_name (er_scope new) \<in> block_kinds
      then d\<lparr> db_conflicts := db_conflicts d @
             map (\<lambda>e. \<lparr> cn_dataset = sc_dataset (er_scope new), cn_first = er_id e,
                        cn_second = er_id new \<rparr>)
               (filter (conflicts_with new) (db_events d)) \<rparr>
      else d)"

definition insert_fact :: "event_row \<Rightarrow> (bool \<times> int) tx" where
  "insert_fact row =
     bind_tx (ensure_tx (\<lambda>_. event_checks row) ''recording an event fact and occurrence'') (\<lambda>_.
     bind_tx (get_tx (\<lambda>d. find (same_fact row) (db_events d))) (\<lambda>found.
     case found of
       Some r \<Rightarrow> ret_tx (False, er_id r)
     | None \<Rightarrow>
         bind_tx (ensure_tx (event_references row) ''recording an event fact and occurrence'') (\<lambda>_ d.
         let new = row\<lparr> er_id := db_next_event d \<rparr> in
         Inr ((True, er_id new),
              observe_block_fact new
                (d\<lparr> db_events := db_events d @ [new], db_next_event := db_next_event d + 1 \<rparr>)))))"

definition insert_observation :: "observation_row \<Rightarrow> unit tx" where
  "insert_observation row =
     bind_tx (ensure_tx (\<lambda>d. 0 < obs_seq row \<and>
                (\<forall>o' \<in> set (db_observations d).
                   \<not> (obs_run o' = obs_run row \<and> obs_seq o' = obs_seq row)) \<and>
                (\<exists>r \<in> set (db_runs d). rn_id r = obs_run row))
                ''recording an event fact and occurrence'') (\<lambda>_.
     modify_tx (\<lambda>d. d\<lparr> db_observations := db_observations d @ [row] \<rparr>))"

definition group_authoritative :: "string option \<Rightarrow> bool tx" where
  "group_authoritative grp =
     (case grp of
        None \<Rightarrow> ret_tx True
      | Some g \<Rightarrow>
          bind_tx (get_tx (\<lambda>d. find (\<lambda>r. gr_id r = g) (db_groups d))) (\<lambda>found.
          bind_tx (lift_tx (ok_or ''query returned an unexpected number of rows'' found)) (\<lambda>r.
          ret_tx (gr_consistency r \<in> {''stable'', ''tip_matched''}))))"

definition insert_event ::
  "libs \<Rightarrow> store \<Rightarrow> capture_method \<Rightarrow> string option \<Rightarrow> int option \<Rightarrow> string option \<Rightarrow>
   int \<Rightarrow> event \<Rightarrow> cache \<Rightarrow> (nat \<times> cache) tx" where
  "insert_event L st method grp explicit_slot explicit_id seq event cache =
     bind_tx (lift_tx (with_context ''describing an event for the record'' (facts event))) (\<lambda>f.
     bind_tx (lift_tx (with_context ''rendering an event payload as JSON'' (render L event))) (\<lambda>payload.
     bind_tx (lift_tx (map_ok (\<lambda>m. sha256 L (encode_payload L m))
                (ok_or ''event envelope does not contain a monitor event'' (ev_payload event)))) (\<lambda>fact_sha.
     bind_tx (group_authoritative grp) (\<lambda>authoritative.
     bind_tx (update_sidechain_instances L (st_dataset st) event (uint (ev_timestamp event))
                authoritative cache) (\<lambda>cache.
     bind_tx (resolve_instance (st_dataset st) f explicit_slot explicit_id cache) (\<lambda>(inst, cache).
     bind_tx (insert_fact
                \<lparr> er_id = 0, er_scope = scope_of st (fc_kind f) (fc_sidechain f) inst,
                  er_block_hash = fc_block_hash f, er_height = fc_height f,
                  er_previous = previous_hash_of event, er_fact_sha = fact_sha,
                  er_envelope_sha = sha256 L (encode_event L event),
                  er_envelope = encode_event L event, er_payload = payload,
                  er_observed_at = uint (ev_timestamp event) \<rparr>) (\<lambda>(inserted, fact).
     bind_tx (insert_observation
                \<lparr> obs_dataset = st_dataset st, obs_run = st_run st, obs_seq = seq,
                  obs_method = method_str method, obs_event = fact, obs_group = grp,
                  obs_at = uint (ev_timestamp event) \<rparr>) (\<lambda>_.
     ret_tx (if inserted then 1 else 0, cache)))))))))"

text \<open>The loop every recording transaction runs over its events, one sequence number each.\<close>

definition insert_all ::
  "libs \<Rightarrow> store \<Rightarrow> capture_method \<Rightarrow> string option \<Rightarrow> int option \<Rightarrow> string option \<Rightarrow>
   int \<Rightarrow> event list \<Rightarrow> nat tx" where
  "insert_all L st method grp explicit_slot explicit_id first events =
     bind_tx (fold_tx (\<lambda>(seq, event) (n, cache).
                bind_tx (insert_event L st method grp explicit_slot explicit_id seq event cache)
                  (\<lambda>(i, cache). ret_tx (n + i, cache)))
              (zip (map (\<lambda>i. first + int i) [0..<length events]) events) (0, Map.empty))
       (\<lambda>(n, _). ret_tx n)"

section \<open>Sequences\<close>

definition active_run :: "string \<Rightarrow> run_row \<Rightarrow> bool" where
  "active_run run r \<longleftrightarrow> rn_id r = run \<and> rn_status r = ''running''"

definition reserve_capture_sequences :: "string \<Rightarrow> nat \<Rightarrow> int tx" where
  "reserve_capture_sequences run count =
     bind_tx (lift_tx (ensure (int count < 2 ^ 63) ''capture sequence count overflow'')) (\<lambda>_.
     bind_tx (lift_tx (ensure (count \<noteq> 0) ''cannot reserve an empty capture sequence range'')) (\<lambda>_.
     bind_tx (get_tx (\<lambda>d. find (active_run run) (db_runs d))) (\<lambda>found.
     bind_tx (lift_tx (ok_or ''extractor run is not active'' found)) (\<lambda>r.
     bind_tx (modify_tx (\<lambda>d. d\<lparr> db_runs := update_where (active_run run)
                (\<lambda>r. r\<lparr> rn_last_seq := rn_last_seq r + int count \<rparr>) (db_runs d) \<rparr>)) (\<lambda>_.
     ret_tx (rn_last_seq r + 1))))))"

end
