(* ===== verification/Fact_Laws.thy ===== *)
theory Fact_Laws
  imports Facts
begin

text \<open>
  What recording an event keeps and does: facts are identified uniquely, conflicting block facts
  are all retained in the conflict table and nothing else is, only the six tables of the record
  change, each event leaves exactly one occurrence under its sequence number, and the current
  sidechain instances are those of the last authoritative reading.
\<close>

section \<open>The tables recording may change\<close>

definition record_frame :: "db \<Rightarrow> db \<Rightarrow> bool" where
  "record_frame d d' \<longleftrightarrow>
     d' = d\<lparr> db_events := db_events d', db_next_event := db_next_event d',
             db_observations := db_observations d', db_conflicts := db_conflicts d',
             db_instances := db_instances d', db_current := db_current d' \<rparr>"

interpretation rec_frame: step_relation record_frame
proof
  fix a b c :: db
  show "record_frame a a" by (simp add: record_frame_def)
  show "record_frame a c" if "record_frame a b" "record_frame b c"
    using that by (cases a; cases b; cases c; simp add: record_frame_def)
qed

lemma record_frameD:
  assumes "record_frame d d'"
  shows "db_clock d' = db_clock d" "db_schema d' = db_schema d" "db_manifests d' = db_manifests d"
    "db_runs d' = db_runs d" "db_groups d' = db_groups d" "db_tips d' = db_tips d"
    "db_status d' = db_status d" "db_workers d' = db_workers d" "db_failures d' = db_failures d"
    "db_coverage d' = db_coverage d" "db_revisions d' = db_revisions d"
    "db_certified d' = db_certified d" "db_fee_jobs d' = db_fee_jobs d"
  using assms by (cases d; cases d'; simp add: record_frame_def)+

lemma observe_block_fact_sel [simp]:
  "db_events (observe_block_fact r d) = db_events d"
  "db_next_event (observe_block_fact r d) = db_next_event d"
  "db_observations (observe_block_fact r d) = db_observations d"
  "db_instances (observe_block_fact r d) = db_instances d"
  "db_current (observe_block_fact r d) = db_current d"
  by (simp_all add: observe_block_fact_def)

lemma observe_block_fact_frame: "record_frame d (observe_block_fact r d)"
  by (cases d) (simp add: record_frame_def observe_block_fact_def)

section \<open>Registering instances\<close>

text \<open>Only the instance and the current-instance tables change, and instances only by adding.\<close>

definition instance_frame :: "db \<Rightarrow> db \<Rightarrow> bool" where
  "instance_frame d d' \<longleftrightarrow>
     d' = d\<lparr> db_instances := db_instances d', db_current := db_current d' \<rparr>"

interpretation inst_frame: step_relation instance_frame
proof
  fix a b c :: db
  show "instance_frame a a" by (simp add: instance_frame_def)
  show "instance_frame a c" if "instance_frame a b" "instance_frame b c"
    using that by (cases a; cases b; cases c; simp add: instance_frame_def)
qed

lemma instance_frame_record: "instance_frame d d' \<Longrightarrow> record_frame d d'"
  by (cases d; cases d'; simp add: record_frame_def instance_frame_def)

lemma instance_frameD:
  assumes "instance_frame d d'"
  shows "db_events d' = db_events d" "db_next_event d' = db_next_event d"
    "db_observations d' = db_observations d" "db_conflicts d' = db_conflicts d"
  using assms by (cases d; cases d'; simp add: instance_frame_def)+

lemma upsert_instance_frame: "rel_tx instance_frame (upsert_instance r)"
  unfolding upsert_instance_def
  by (intro inst_frame.rel_bind inst_frame.rel_ensure rel_txI)
    (auto simp: instance_frame_def bail_def split: if_splits)

lemma record_instance_frame: "rel_tx instance_frame (record_instance L ds at sc cur)"
  unfolding record_instance_def
  by (intro inst_frame.rel_rules upsert_instance_frame | clarsimp split: prod.split)+

lemma update_sidechain_instances_frame:
  "rel_tx instance_frame (update_sidechain_instances L ds event at auth cache)"
  unfolding update_sidechain_instances_def
  by (cases "active_snapshot event")
    (auto intro!: inst_frame.rel_rules inst_frame.rel_modify record_instance_frame
      simp: instance_frame_def set_current_def)

lemma resolve_instance_same:
  "resolve_instance ds f sl i cache d = Inr ((inst, cache'), d') \<Longrightarrow> d' = d"
  by (auto simp: resolve_instance_def res_simps split: option.splits if_splits)

lemma group_authoritative_same: "group_authoritative g d = Inr (b, d') \<Longrightarrow> d' = d"
  by (auto simp: group_authoritative_def res_simps split: option.splits)

section \<open>The fact\<close>

definition facts_inv :: "db \<Rightarrow> bool" where
  "facts_inv d \<longleftrightarrow>
     sorted_wrt (<) (map er_id (db_events d)) \<and>
     (\<forall>e \<in> set (db_events d). er_id e < db_next_event d) \<and>
     (\<forall>e \<in> set (db_events d). \<forall>e' \<in> set (db_events d). same_fact e e' \<longrightarrow> e = e') \<and>
     (\<forall>e \<in> set (db_events d). event_checks e)"

definition conflicts_exact :: "db \<Rightarrow> bool" where
  "conflicts_exact d \<longleftrightarrow>
     (\<forall>i j. (\<exists>c \<in> set (db_conflicts d). cn_first c = i \<and> cn_second c = j) \<longleftrightarrow>
        (\<exists>e \<in> set (db_events d). \<exists>new \<in> set (db_events d).
           er_id e = i \<and> er_id new = j \<and> sc_name (er_scope new) \<in> block_kinds \<and>
           conflicts_with new e))"

lemma insert_fact_cases:
  assumes "insert_fact row d = Inr ((new, i), d')"
  obtains (known) r where "\<not> new" "d' = d" "r \<in> set (db_events d)" "same_fact row r" "er_id r = i"
  | (fresh) r where "new" "r = row\<lparr> er_id := db_next_event d \<rparr>" "i = er_id r" "event_checks row"
      "event_references row d" "\<forall>q \<in> set (db_events d). \<not> same_fact row q"
      "d' = observe_block_fact r
              (d\<lparr> db_events := db_events d @ [r], db_next_event := db_next_event d + 1 \<rparr>)"
proof (cases "find (same_fact row) (db_events d)")
  case None
  with assms fresh [OF _ refl] show thesis
    by (auto simp: insert_fact_def res_simps find_None_iff_all Let_def)
next
  case (Some r)
  with assms known [of r] show thesis
    by (auto simp: insert_fact_def res_simps dest: find_SomeD)
qed

lemma same_fact_id [simp]:
  "same_fact (r\<lparr> er_id := i \<rparr>) q = same_fact r q" "same_fact q (r\<lparr> er_id := i \<rparr>) = same_fact q r"
  "event_checks (r\<lparr> er_id := i \<rparr>) = event_checks r"
  by (simp_all add: same_fact_def event_checks_def)

lemma insert_fact_frame: "rel_tx record_frame (insert_fact row)"
proof (rule rel_txI)
  fix d x d' assume run: "insert_fact row d = Inr (x, d')"
  obtain b i where x: "x = (b, i)" by (cases x)
  from run [unfolded x] show "record_frame d d'"
  proof (cases rule: insert_fact_cases)
    case known
    then show ?thesis by (simp add: rec_frame.step_refl)
  next
    case (fresh r)
    have "record_frame d
        (d\<lparr> db_events := db_events d @ [r], db_next_event := db_next_event d + 1 \<rparr>)"
      by (cases d) (simp add: record_frame_def)
    from rec_frame.step_trans [OF this observe_block_fact_frame] show ?thesis
      unfolding fresh(7) .
  qed
qed

lemma insert_fact_facts_inv: "keeps facts_inv (insert_fact row)"
proof (rule keepsI)
  fix d x d' assume inv: "facts_inv d" and run: "insert_fact row d = Inr (x, d')"
  obtain b i where x: "x = (b, i)" by (cases x)
  from run [unfolded x] show "facts_inv d'"
  proof (cases rule: insert_fact_cases)
    case known
    with inv show ?thesis by simp
  next
    case (fresh r)
    with inv show ?thesis
      by (auto simp: facts_inv_def sorted_wrt_append same_fact_def)
  qed
qed

lemma insert_fact_conflicts_exact:
  "keeps (\<lambda>d. facts_inv d \<and> conflicts_exact d) (insert_fact row)"
proof (rule keepsI)
  fix d x d' assume inv: "facts_inv d \<and> conflicts_exact d" and run: "insert_fact row d = Inr (x, d')"
  obtain b i where x: "x = (b, i)" by (cases x)
  have inv': "facts_inv d'" using keepsD [OF insert_fact_facts_inv run] inv by blast
  from run [unfolded x] show "facts_inv d' \<and> conflicts_exact d'"
  proof (cases rule: insert_fact_cases)
    case known
    with inv show ?thesis by simp
  next
    case (fresh r)
    have last: "\<forall>e \<in> set (db_events d). er_id e < er_id r"
      using inv fresh(2) by (auto simp: facts_inv_def)
    have no: "\<not> conflicts_with e r" if "e \<in> set (db_events d)" for e
      using last that by (auto simp: conflicts_with_def)
    have irr: "\<not> conflicts_with r r" by (simp add: conflicts_with_def)
    have rows: "(\<exists>c \<in> set (db_conflicts d'). cn_first c = k \<and> cn_second c = j) \<longleftrightarrow>
        (\<exists>c \<in> set (db_conflicts d). cn_first c = k \<and> cn_second c = j) \<or>
        (\<exists>e \<in> set (db_events d). er_id e = k \<and> er_id r = j \<and>
           sc_name (er_scope r) \<in> block_kinds \<and> conflicts_with r e)" for k j
      unfolding fresh(7) observe_block_fact_def using irr by (auto simp: bex_Un)
    have pairs: "(\<exists>e \<in> set (db_events d'). \<exists>new \<in> set (db_events d').
          er_id e = k \<and> er_id new = j \<and> sc_name (er_scope new) \<in> block_kinds \<and> conflicts_with new e) \<longleftrightarrow>
        (\<exists>e \<in> set (db_events d). \<exists>new \<in> set (db_events d).
          er_id e = k \<and> er_id new = j \<and> sc_name (er_scope new) \<in> block_kinds \<and> conflicts_with new e) \<or>
        (\<exists>e \<in> set (db_events d). er_id e = k \<and> er_id r = j \<and>
           sc_name (er_scope r) \<in> block_kinds \<and> conflicts_with r e)" for k j
      unfolding fresh(7) using no irr by auto
    from inv have "conflicts_exact d" ..
    then have "conflicts_exact d'" unfolding conflicts_exact_def rows pairs by simp
    with inv' show ?thesis ..
  qed
qed

section \<open>One event\<close>

definition fact_row :: "libs \<Rightarrow> store \<Rightarrow> event \<Rightarrow> facts \<Rightarrow> string option \<Rightarrow> json \<Rightarrow> monitor_event \<Rightarrow> event_row" where
  "fact_row L st event f inst payload m =
     \<lparr> er_id = 0, er_scope = scope_of st (fc_kind f) (fc_sidechain f) inst,
       er_block_hash = fc_block_hash f, er_height = fc_height f,
       er_previous = previous_hash_of event, er_fact_sha = sha256 L (encode_payload L m),
       er_envelope_sha = sha256 L (encode_event L event),
       er_envelope = encode_event L event, er_payload = payload,
       er_observed_at = uint (ev_timestamp event) \<rparr>"

definition occurrence :: "store \<Rightarrow> capture_method \<Rightarrow> string option \<Rightarrow> int \<Rightarrow> event \<Rightarrow> int \<Rightarrow> observation_row" where
  "occurrence st method grp seq event fact_id =
     \<lparr> obs_dataset = st_dataset st, obs_run = st_run st, obs_seq = seq,
       obs_method = method_str method, obs_event = fact_id, obs_group = grp,
       obs_at = uint (ev_timestamp event) \<rparr>"

lemma insert_eventE:
  assumes "insert_event L st method grp es ei seq event cache d = Inr ((n, cache'), d')"
  obtains f payload m auth cache1 d1 inst new i d2 where
    "facts event = Inr f" "ev_payload event = Some m"
    "group_authoritative grp d = Inr (auth, d)"
    "update_sidechain_instances L (st_dataset st) event (uint (ev_timestamp event)) auth cache d
       = Inr (cache1, d1)"
    "resolve_instance (st_dataset st) f es ei cache1 d1 = Inr ((inst, cache'), d1)"
    "insert_fact (fact_row L st event f inst payload m) d1 = Inr ((new, i), d2)"
    "insert_observation (occurrence st method grp seq event i) d2 = Inr ((), d')"
    "n = (if new then 1 else 0)"
proof -
  from assms obtain f payload m auth da cache1 d1 inst db new i d2 where
    h: "facts event = Inr f" "ev_payload event = Some m"
    "group_authoritative grp d = Inr (auth, da)"
    "update_sidechain_instances L (st_dataset st) event (uint (ev_timestamp event)) auth cache da
       = Inr (cache1, d1)"
    "resolve_instance (st_dataset st) f es ei cache1 d1 = Inr ((inst, cache'), db)"
    "insert_fact (fact_row L st event f inst payload m) db = Inr ((new, i), d2)"
    "insert_observation (occurrence st method grp seq event i) d2 = Inr ((), d')"
    "n = (if new then 1 else 0)"
    unfolding insert_event_def fact_row_def occurrence_def by (auto simp: res_simps)
  have "da = d" by (rule group_authoritative_same [OF h(3)])
  moreover have "db = d1" by (rule resolve_instance_same [OF h(5)])
  ultimately show thesis using h by (intro that) simp_all
qed

lemma insert_observation_Inr:
  "insert_observation r d = Inr (u, d') \<Longrightarrow>
     d' = d\<lparr> db_observations := db_observations d @ [r] \<rparr> \<and> 0 < obs_seq r \<and>
     (\<forall>q \<in> set (db_observations d). \<not> (obs_run q = obs_run r \<and> obs_seq q = obs_seq r))"
  by (auto simp: insert_observation_def res_simps)

lemma insert_observation_frame: "rel_tx record_frame (insert_observation r)"
  by (rule rel_txI) (auto dest!: insert_observation_Inr simp: record_frame_def)

lemma insert_event_frame: "rel_tx record_frame (insert_event L st method grp es ei seq event cache)"
proof (rule rel_txI)
  fix d x d' assume run: "insert_event L st method grp es ei seq event cache d = Inr (x, d')"
  obtain n cache' where x: "x = (n, cache')" by (cases x)
  from run [unfolded x] show "record_frame d d'"
  proof (cases rule: insert_eventE)
    case (1 f payload m auth cache1 d1 inst new i d2)
    have "record_frame d d1"
      using rel_txD [OF update_sidechain_instances_frame 1(4)] by (rule instance_frame_record)
    moreover have "record_frame d1 d2" by (rule rel_txD [OF insert_fact_frame 1(6)])
    moreover have "record_frame d2 d'" by (rule rel_txD [OF insert_observation_frame 1(7)])
    ultimately show ?thesis by (blast intro: rec_frame.step_trans)
  qed
qed

lemma insert_fact_observations: "insert_fact row d = Inr (x, d') \<Longrightarrow> db_observations d' = db_observations d"
  by (cases x) (auto elim: insert_fact_cases)

lemma insert_fact_events:
  "insert_fact row d = Inr ((new, i), d') \<Longrightarrow>
     (\<exists>r \<in> set (db_events d'). er_id r = i \<and> same_fact row r) \<and>
     db_events d' = db_events d @ (if new then [row\<lparr> er_id := i \<rparr>] else [])"
  by (erule insert_fact_cases) (auto simp: same_fact_def)

text \<open>Exactly one occurrence, of a fact that is in the record afterwards.\<close>

lemma insert_event_observes:
  assumes "insert_event L st method grp es ei seq event cache d = Inr ((n, cache'), d')"
  shows "\<exists>i. db_observations d' = db_observations d @ [occurrence st method grp seq event i] \<and>
           (\<exists>r \<in> set (db_events d'). er_id r = i) \<and> 0 < seq \<and>
           length (db_events d') = length (db_events d) + n \<and> prefix (db_events d) (db_events d') \<and>
           (\<forall>q \<in> set (db_observations d). \<not> (obs_run q = st_run st \<and> obs_seq q = seq))"
  using assms
proof (cases rule: insert_eventE)
  case (1 f payload m auth cache1 d1 inst new i d2)
  note inst = instance_frameD [OF rel_txD [OF update_sidechain_instances_frame 1(4)]]
  note obs = insert_observation_Inr [OF 1(7)]
  show ?thesis
    using insert_fact_observations [OF 1(6)] insert_fact_events [OF 1(6)] inst obs 1(8)
    by (intro exI [of _ i]) (auto simp: occurrence_def)
qed

lemma insert_event_keeps:
  assumes fact: "\<And>row. keeps P (insert_fact row)"
    and inst: "\<And>d d'. instance_frame d d' \<Longrightarrow> P d \<Longrightarrow> P d'"
    and obs: "\<And>d r. P d \<Longrightarrow> P (d\<lparr> db_observations := db_observations d @ [r] \<rparr>)"
  shows "keeps P (insert_event L st method grp es ei seq event cache)"
proof (rule keepsI)
  fix d x d' assume P: "P d" and run: "insert_event L st method grp es ei seq event cache d = Inr (x, d')"
  obtain n cache' where x: "x = (n, cache')" by (cases x)
  from run [unfolded x] show "P d'"
  proof (cases rule: insert_eventE)
    case (1 f payload m auth cache1 d1 inst' new i d2)
    have "P d1" using inst [OF rel_txD [OF update_sidechain_instances_frame 1(4)] P] .
    then have "P d2" by (rule keepsD [OF fact 1(6)])
    with insert_observation_Inr [OF 1(7)] obs show ?thesis by auto
  qed
qed

lemma insert_event_facts_inv: "keeps facts_inv (insert_event L st method grp es ei seq event cache)"
  by (rule insert_event_keeps [OF insert_fact_facts_inv])
    (simp_all add: facts_inv_def instance_frameD)

lemma insert_event_conflicts_exact:
  "keeps (\<lambda>d. facts_inv d \<and> conflicts_exact d) (insert_event L st method grp es ei seq event cache)"
  by (rule insert_event_keeps [OF insert_fact_conflicts_exact])
    (simp_all add: facts_inv_def conflicts_exact_def instance_frameD)

section \<open>All the events of a transaction\<close>

lemma insert_all_keeps:
  "(\<And>seq event cache. keeps P (insert_event L st method grp es ei seq event cache)) \<Longrightarrow>
     keeps P (insert_all L st method grp es ei first events)"
  unfolding insert_all_def
  by (intro keeps_intros | clarsimp split: prod.split)+

lemma insert_all_rel:
  assumes "step_relation R"
    and "\<And>seq event cache. rel_tx R (insert_event L st method grp es ei seq event cache)"
  shows "rel_tx R (insert_all L st method grp es ei first events)"
  unfolding insert_all_def using assms(2)
  by (intro step_relation.rel_bind [OF assms(1)] step_relation.rel_fold [OF assms(1)]
      step_relation.rel_ret [OF assms(1)] | clarsimp split: prod.split)+

lemma insert_all_observes:
  assumes "insert_all L st method grp es ei first events d = Inr (n, d')"
  shows "\<exists>ids. length ids = length events \<and>
      db_observations d' = db_observations d @
        map2 (\<lambda>(seq, event) i. occurrence st method grp seq event i)
          (zip (map (\<lambda>i. first + int i) [0..<length events]) events) ids \<and>
      (\<forall>i \<in> set ids. \<exists>r \<in> set (db_events d'). er_id r = i) \<and>
      length (db_events d') = length (db_events d) + n \<and> prefix (db_events d) (db_events d')"
proof -
  let ?step = "\<lambda>(seq, event) (n, cache).
      bind_tx (insert_event L st method grp es ei seq event cache)
        (\<lambda>(i, cache). ret_tx (n + i, cache))"
  have "\<exists>ids. length ids = length xs \<and>
      db_observations d' = db_observations d @
        map2 (\<lambda>(seq, event) i. occurrence st method grp seq event i) xs ids \<and>
      (\<forall>i \<in> set ids. \<exists>r \<in> set (db_events d'). er_id r = i) \<and>
      length (db_events d') + k = length (db_events d) + n \<and> prefix (db_events d) (db_events d')"
    if "fold_tx ?step xs (k, c) d = Inr ((n, c'), d')" for xs k c c' d
    using that
  proof (induction xs arbitrary: k c d)
    case Nil
    then show ?case by auto
  next
    case (Cons x xs)
    obtain seq ev where x: "x = (seq, ev)" by (cases x)
    from Cons.prems obtain m c1 d1 where
      one: "insert_event L st method grp es ei seq ev c d = Inr ((m, c1), d1)"
      and rest: "fold_tx ?step xs (k + m, c1) d1 = Inr ((n, c'), d')"
      by (auto simp: x res_simps)
    from Cons.IH [OF rest] obtain ids where ids: "length ids = length xs"
      "db_observations d' = db_observations d1 @
         map2 (\<lambda>(seq, event) i. occurrence st method grp seq event i) xs ids"
      "\<forall>i \<in> set ids. \<exists>r \<in> set (db_events d'). er_id r = i"
      "length (db_events d') + (k + m) = length (db_events d1) + n"
      "prefix (db_events d1) (db_events d')"
      by auto
    from insert_event_observes [OF one] obtain i where i:
      "db_observations d1 = db_observations d @ [occurrence st method grp seq ev i]"
      "\<exists>r \<in> set (db_events d1). er_id r = i"
      "length (db_events d1) = length (db_events d) + m" "prefix (db_events d) (db_events d1)"
      by auto
    show ?case
      using ids i set_mono_prefix [OF ids(5)]
      by (intro exI [of _ "i # ids"]) (auto simp: x intro: prefix_order.trans)
  qed
  note folded = this
  from assms obtain c' where
    "fold_tx ?step (zip (map (\<lambda>i. first + int i) [0..<length events]) events) (0, Map.empty) d
       = Inr ((n, c'), d')"
    by (auto simp: insert_all_def res_simps)
  from folded [OF this] show ?thesis by simp
qed

end
