(* ===== verification/Recording.thy ===== *)
theory Recording
  imports Fact_Laws "HOL-Library.Multiset"
begin

text \<open>
  The recording transactions of \<^verbatim>\<open>Store\<close> in \<^verbatim>\<open>src/shared/src/store.rs\<close>: batches of
  events, grouped snapshots with their consistency window, and tip observations, each under
  sequence numbers reserved from the running extractor run. The lemmas show that the numbers of
  a run are used exactly once and without a gap.
\<close>

section \<open>Operations\<close>

definition update_extractor_status :: "store \<Rightarrow> observed_block \<Rightarrow> unit tx" where
  "update_extractor_status st tip =
     bind_tx (lift_tx (bind_res (required_height tip) height_to_i32)) (\<lambda>height.
     bind_tx (ensure_tx (\<lambda>d. length (ob_hash tip) = 32 \<or>
                \<not> (\<exists>r \<in> set (db_status d). ss_dataset r = st_dataset st \<and>
                     ss_source r = st_source st \<and> ss_run r = st_run st))
                ''updating extractor status'') (\<lambda>_.
     modify_tx (\<lambda>d. d\<lparr> db_status := update_where
       (\<lambda>r. ss_dataset r = st_dataset st \<and> ss_source r = st_source st \<and> ss_run r = st_run st)
       (\<lambda>r. r\<lparr> ss_tip_hash := Some (ob_hash tip), ss_tip_height := Some height \<rparr>)
       (db_status d) \<rparr>)))"

definition record_batch_tx ::
  "libs \<Rightarrow> store \<Rightarrow> event list \<Rightarrow> capture_method \<Rightarrow> instance_ref option \<Rightarrow> nat tx" where
  "record_batch_tx L st events method inst =
     bind_tx (case inst of
                None \<Rightarrow> ret_tx ()
              | Some i \<Rightarrow> validate_sidechain_instance (st_dataset st) (ir_sidechain i)
                           (ir_instance_id i)) (\<lambda>_.
     bind_tx (reserve_capture_sequences (st_run st) (length events)) (\<lambda>first.
     insert_all L st method None (map_option (\<lambda>i. i16_of_u8 (ir_sidechain i)) inst)
       (map_option ir_instance_id inst) first events))"

definition record_batch ::
  "libs \<Rightarrow> store \<Rightarrow> event list \<Rightarrow> capture_method \<Rightarrow> instance_ref option \<Rightarrow> db \<Rightarrow> nat res \<times> db" where
  "record_batch L st events method inst d =
     (if events = [] then (Inr 0, d) else run_tx (record_batch_tx L st events method inst) d)"

definition record_with_method ::
  "libs \<Rightarrow> store \<Rightarrow> event list \<Rightarrow> capture_method \<Rightarrow> db \<Rightarrow> nat res \<times> db" where
  "record_with_method L st events method = record_batch L st events method None"

definition record_with_method_for_instance ::
  "libs \<Rightarrow> store \<Rightarrow> event list \<Rightarrow> capture_method \<Rightarrow> instance_ref \<Rightarrow> db \<Rightarrow> nat res \<times> db" where
  "record_with_method_for_instance L st events method inst =
     record_batch L st events method (Some inst)"

definition store_record :: "libs \<Rightarrow> store \<Rightarrow> event list \<Rightarrow> db \<Rightarrow> nat res \<times> db" where
  "store_record L st events = record_with_method L st events Live"

datatype snapshot_consistency = Stable | TipMatched | UnknownConsistency | Changed

fun consistency_str :: "snapshot_consistency \<Rightarrow> string" where
  "consistency_str Stable = ''stable''"
| "consistency_str TipMatched = ''tip_matched''"
| "consistency_str UnknownConsistency = ''unknown''"
| "consistency_str Changed = ''changed''"

record snapshot_metadata =
  sm_revision_before :: "string option"
  sm_revision_after :: "string option"
  sm_started_at :: int
  sm_finished_at :: int
  sm_tip_before :: observed_block
  sm_tip_after :: observed_block
  sm_consistency :: snapshot_consistency
  sm_attempts :: u32

definition snapshot_metadata_ok :: "store \<Rightarrow> snapshot_metadata \<Rightarrow> (int \<times> int \<times> int) res" where
  "snapshot_metadata_ok st m =
     bind_res (require_hash (ob_hash (sm_tip_before m))) (\<lambda>_.
     bind_res (require_hash (ob_hash (sm_tip_after m))) (\<lambda>_.
     bind_res (ensure (\<not> (sm_consistency m = TipMatched \<and>
                  (sm_tip_before m \<noteq> sm_tip_after m \<or> sm_revision_before m \<noteq> None \<or>
                   sm_revision_after m \<noteq> None)))
       ''tip-matched snapshots require matching tips and no claimed server revision'') (\<lambda>_.
     bind_res (ensure (\<not> (8 \<le> st_version st \<and> sm_consistency m = Stable))
       ''official API cannot establish atomic stable snapshots'') (\<lambda>_.
     bind_res (ensure (\<not> (sm_consistency m = Stable \<and>
                  (sm_tip_before m \<noteq> sm_tip_after m \<or>
                   sm_revision_before m = None \<or> sm_revision_before m = Some [] \<or>
                   sm_revision_before m \<noteq> sm_revision_after m)))
       ''stable snapshot requires one tip and one explicit chain revision'') (\<lambda>_.
     bind_res (bind_res (required_height (sm_tip_before m)) height_to_i32) (\<lambda>before.
     bind_res (bind_res (required_height (sm_tip_after m)) height_to_i32) (\<lambda>after.
     bind_res (try_from ''snapshot attempts overflow'' (i32_of_u32 (sm_attempts m))) (\<lambda>attempts.
     bind_res (ensure (attempts \<noteq> 0) ''snapshot attempts must be positive'') (\<lambda>_.
     Inr (before, after, attempts))))))))))"

definition insert_group :: "group_row \<Rightarrow> unit tx" where
  "insert_group r =
     bind_tx (ensure_tx (\<lambda>d. gr_started_at r \<le> gr_finished_at r \<and>
                \<not> (\<exists>q \<in> set (db_groups d). gr_id q = gr_id r) \<and>
                (\<exists>q \<in> set (db_runs d). rn_id q = gr_run r))
                ''recording snapshot consistency metadata'') (\<lambda>_.
     modify_tx (\<lambda>d. d\<lparr> db_groups := db_groups d @ [r] \<rparr>))"

text \<open>The generated identifier of the snapshot group is the argument \<open>gid\<close>.\<close>

definition record_snapshot_tx ::
  "libs \<Rightarrow> store \<Rightarrow> string \<Rightarrow> event list \<Rightarrow> capture_method \<Rightarrow> snapshot_metadata \<Rightarrow> nat tx" where
  "record_snapshot_tx L st gid events method m =
     bind_tx (lift_tx (snapshot_metadata_ok st m)) (\<lambda>(before, after, attempts).
     bind_tx (insert_group
                \<lparr> gr_id = gid, gr_dataset = st_dataset st, gr_run = st_run st,
                  gr_method = method_str method, gr_started_at = sm_started_at m,
                  gr_finished_at = sm_finished_at m, gr_before_hash = ob_hash (sm_tip_before m),
                  gr_before_height = before, gr_after_hash = ob_hash (sm_tip_after m),
                  gr_after_height = after, gr_consistency = consistency_str (sm_consistency m),
                  gr_attempts = attempts, gr_revision_before = sm_revision_before m,
                  gr_revision_after = sm_revision_after m \<rparr>) (\<lambda>_.
     bind_tx (reserve_capture_sequences (st_run st) (length events)) (\<lambda>first.
     bind_tx (insert_all L st method (Some gid) None None first events) (\<lambda>inserted.
     bind_tx (update_extractor_status st (sm_tip_after m)) (\<lambda>_.
     ret_tx inserted)))))"

definition record_snapshot ::
  "libs \<Rightarrow> store \<Rightarrow> string \<Rightarrow> event list \<Rightarrow> capture_method \<Rightarrow> snapshot_metadata \<Rightarrow> db \<Rightarrow> nat res \<times> db" where
  "record_snapshot L st gid events method m d =
     (if events = [] then (Inr 0, d) else run_tx (record_snapshot_tx L st gid events method m) d)"

definition insert_tip :: "tip_row \<Rightarrow> unit tx" where
  "insert_tip r =
     bind_tx (ensure_tx (\<lambda>d. 0 < tp_seq r \<and> length (tp_hash r) = 32 \<and>
                opt_ok (\<lambda>h. length h = 32) (tp_previous_hash r) \<and> 0 \<le> tp_height r \<and>
                (\<forall>q \<in> set (db_tips d). \<not> (tp_run q = tp_run r \<and> tp_seq q = tp_seq r)))
                ''recording a mainchain tip observation'') (\<lambda>_.
     modify_tx (\<lambda>d. d\<lparr> db_tips := db_tips d @ [r] \<rparr>))"

definition tip_observation_row ::
  "store \<Rightarrow> observed_block \<Rightarrow> int \<Rightarrow> bytes option \<Rightarrow> int option \<Rightarrow> capture_method \<Rightarrow> int \<Rightarrow> int \<Rightarrow> tip_row" where
  "tip_observation_row st tip height previous_hash previous_height method observed_at seq =
     \<lparr> tp_dataset = st_dataset st, tp_run = st_run st, tp_seq = seq,
       tp_method = method_str method, tp_hash = ob_hash tip, tp_height = height,
       tp_previous_hash = previous_hash, tp_previous_height = previous_height,
       tp_at = observed_at \<rparr>"

definition record_tip_tx ::
  "store \<Rightarrow> observed_block \<Rightarrow> observed_block option \<Rightarrow> capture_method \<Rightarrow> int \<Rightarrow> unit tx" where
  "record_tip_tx st tip previous method observed_at =
     bind_tx (lift_tx (bind_res (required_height tip) height_to_i32)) (\<lambda>height.
     bind_tx (lift_tx (require_hash (ob_hash tip))) (\<lambda>_.
     bind_tx (lift_tx (optional_block_parts previous)) (\<lambda>(previous_hash, previous_height).
     bind_tx (reserve_capture_sequences (st_run st) 1) (\<lambda>seq.
     bind_tx (insert_tip (tip_observation_row st tip height previous_hash previous_height method
                observed_at seq)) (\<lambda>_.
     update_extractor_status st tip)))))"

definition record_tip_observation ::
  "store \<Rightarrow> observed_block \<Rightarrow> observed_block option \<Rightarrow> capture_method \<Rightarrow> int \<Rightarrow> db \<Rightarrow> unit res \<times> db" where
  "record_tip_observation st tip previous method observed_at =
     run_tx (record_tip_tx st tip previous method observed_at)"

section \<open>Reserved sequence numbers\<close>

lemma reserve_Inr:
  assumes "reserve_capture_sequences run n d = Inr (first, d')"
  obtains r where "r \<in> set (db_runs d)" "active_run run r" "first = rn_last_seq r + 1" "0 < n"
    "d' = d\<lparr> db_runs := update_where (active_run run)
                          (\<lambda>r. r\<lparr> rn_last_seq := rn_last_seq r + int n \<rparr>) (db_runs d) \<rparr>"
  using assms by (auto simp: reserve_capture_sequences_def res_simps dest!: find_SomeD)

text \<open>
  The sequence numbers of a run: its events' occurrences and its tip observations share one
  space.
\<close>

definition used_seqs :: "db \<Rightarrow> string \<Rightarrow> int list" where
  "used_seqs d run =
     map obs_seq (filter (\<lambda>r. obs_run r = run) (db_observations d)) @
     map tp_seq (filter (\<lambda>r. tp_run r = run) (db_tips d))"

definition seqs_inv :: "db \<Rightarrow> bool" where
  "seqs_inv d \<longleftrightarrow>
     distinct (map rn_id (db_runs d)) \<and>
     (\<forall>r \<in> set (db_runs d). 0 \<le> rn_last_seq r \<and> set (used_seqs d (rn_id r)) = {1..rn_last_seq r} \<and>
        distinct (used_seqs d (rn_id r))) \<and>
     (\<forall>run. run \<notin> rn_id ` set (db_runs d) \<longrightarrow> used_seqs d run = [])"

text \<open>
  The same with a reserved range of the run still to be used: what holds between the reservation
  and the last insertion of a transaction.
\<close>

lemma used_seqs_frame:
  "db_observations d' = db_observations d \<Longrightarrow> db_tips d' = db_tips d \<Longrightarrow>
     used_seqs d' run = used_seqs d run"
  by (simp add: used_seqs_def)

lemma seqs_inv_frame:
  "db_observations d' = db_observations d \<Longrightarrow> db_tips d' = db_tips d \<Longrightarrow> db_runs d' = db_runs d \<Longrightarrow>
     seqs_inv d' \<longleftrightarrow> seqs_inv d"
  by (simp add: seqs_inv_def used_seqs_def)

lemma interval_union:
  "(l :: int) \<ge> 0 \<Longrightarrow> {1..l} \<union> {l + 1..l + int n} = {1..l + int n}"
  by auto

lemma set_offsets: "(\<lambda>i. first + int i) ` {..<n} = {first..first + int n - 1}"
proof -
  have "first \<le> x \<and> x \<le> first + int n - 1 \<Longrightarrow> x \<in> (\<lambda>i. first + int i) ` {..<n}" for x
    by (intro image_eqI [of _ _ "nat (x - first)"]) auto
  then show ?thesis by auto
qed

text \<open>
  A reservation of \<open>n\<close> numbers followed by rows that use exactly them keeps the invariant.
\<close>

lemma seqs_inv_use:
  assumes inv: "seqs_inv d"
    and r: "r \<in> set (db_runs d)" "rn_id r = run" "rn_status r = ''running''"
    and runs: "db_runs d' = update_where (active_run run)
                 (\<lambda>r. r\<lparr> rn_last_seq := rn_last_seq r + int n \<rparr>) (db_runs d)"
    and own: "mset (used_seqs d' run) =
                mset (used_seqs d run) + mset (map (\<lambda>i. rn_last_seq r + 1 + int i) [0..<n])"
    and others: "\<And>q. q \<noteq> run \<Longrightarrow> used_seqs d' q = used_seqs d q"
  shows "seqs_inv d'"
proof -
  let ?new = "map (\<lambda>i. rn_last_seq r + 1 + int i) [0..<n]"
  have each: "0 \<le> rn_last_seq p" "set (used_seqs d (rn_id p)) = {1..rn_last_seq p}"
    "distinct (used_seqs d (rn_id p))" if "p \<in> set (db_runs d)" for p
    using inv that unfolding seqs_inv_def by blast+
  note r_inv = each [OF r(1), unfolded r(2)]
  have new_set: "set ?new = {rn_last_seq r + 1..rn_last_seq r + int n}"
    using set_offsets [of "rn_last_seq r + 1" n] by (simp add: atLeast0LessThan)
  have own': "mset (used_seqs d' run) = mset (used_seqs d run @ ?new)"
    unfolding mset_append by (rule own)
  have set_own: "set (used_seqs d' run) = {1..rn_last_seq r + int n}"
    unfolding mset_eq_setD [OF own'] set_append r_inv(2) new_set
    by (rule interval_union [OF r_inv(1)])
  have "distinct ?new" by (simp add: distinct_map inj_on_def)
  moreover have "set (used_seqs d run) \<inter> set ?new = {}"
    unfolding r_inv(2) new_set by auto
  ultimately have dist_own: "distinct (used_seqs d' run)"
    unfolding mset_eq_imp_distinct_iff [OF own'] distinct_append using r_inv(3) by blast
  have ids: "map rn_id (db_runs d') = map rn_id (db_runs d)" unfolding runs by simp
  have uniq: "p = r" if "p \<in> set (db_runs d)" "rn_id p = run" for p
    using that r(1,2) inv unfolding seqs_inv_def distinct_map inj_on_def by blast
  have "0 \<le> rn_last_seq q \<and> set (used_seqs d' (rn_id q)) = {1..rn_last_seq q} \<and>
      distinct (used_seqs d' (rn_id q))" if q: "q \<in> set (db_runs d')" for q
  proof -
    from q consider "q \<in> set (db_runs d)" "\<not> active_run run q"
      | p where "p \<in> set (db_runs d)" "active_run run p"
          "q = p\<lparr> rn_last_seq := rn_last_seq p + int n \<rparr>"
      unfolding runs set_update_where by blast
    then show ?thesis
    proof cases
      case 1
      then have "rn_id q \<noteq> run" using uniq [of q] r(2,3) by (auto simp: active_run_def)
      with others [of "rn_id q"] each [OF 1(1)] show ?thesis by simp
    next
      case (2 p)
      then have "p = r" using uniq by (simp add: active_run_def)
      with 2(3) r(2) r_inv(1) set_own dist_own show ?thesis by simp
    qed
  qed
  moreover have "used_seqs d' q = []" if q: "q \<notin> rn_id ` set (db_runs d')" for q
  proof -
    have same: "rn_id ` set (db_runs d') = rn_id ` set (db_runs d)"
      using ids by (metis list.set_map)
    with q r(1,2) have "q \<noteq> run" by blast
    with others [of q] q same inv show ?thesis unfolding seqs_inv_def by metis
  qed
  ultimately show ?thesis using ids inv unfolding seqs_inv_def by simp
qed

lemma seqs_inv_update_status:
  "update_extractor_status st tip d = Inr (u, d') \<Longrightarrow>
     db_observations d' = db_observations d \<and> db_tips d' = db_tips d \<and> db_runs d' = db_runs d"
  by (auto simp: update_extractor_status_def res_simps)

lemma insert_all_frame: "rel_tx record_frame (insert_all L st method grp es ei first events)"
  by (rule insert_all_rel [OF rec_frame.step_relation_axioms insert_event_frame])

lemma insert_all_used:
  assumes run: "insert_all L st method grp es ei first events d = Inr (n, d')"
  shows "used_seqs d' q = (if q = st_run st
           then map obs_seq (filter (\<lambda>r. obs_run r = q) (db_observations d)) @
                map (\<lambda>i. first + int i) [0..<length events] @
                map tp_seq (filter (\<lambda>r. tp_run r = q) (db_tips d))
           else used_seqs d q)"
proof -
  let ?xs = "zip (map (\<lambda>i. first + int i) [0..<length events]) events"
  from insert_all_observes [OF run] obtain ids where ids: "length ids = length events"
    and obs: "db_observations d' = db_observations d @
      map2 (\<lambda>(seq, event) i. occurrence st method grp seq event i) ?xs ids"
    by auto
  let ?rows = "map2 (\<lambda>(seq, event) i. occurrence st method grp seq event i) ?xs ids"
  have runs: "obs_run r = st_run st" if "r \<in> set ?rows" for r
    using that by (auto simp: occurrence_def)
  have "map obs_seq ?rows = map (\<lambda>i. first + int i) [0..<length events]"
    using ids by (intro nth_equalityI) (auto simp: occurrence_def)
  moreover have "filter (\<lambda>r. obs_run r = q) ?rows = (if q = st_run st then ?rows else [])"
    using runs by (auto simp: filter_id_conv filter_empty_conv)
  moreover have "db_tips d' = db_tips d"
    by (rule record_frameD(6) [OF rel_txD [OF insert_all_frame run]])
  ultimately show ?thesis unfolding used_seqs_def obs by simp
qed

text \<open>The shape shared by the recording transactions: reserve, then insert everything.\<close>

lemma seqs_inv_reserve_insert:
  assumes inv: "seqs_inv d"
    and res: "reserve_capture_sequences (st_run st) (length events) d = Inr (first, d1)"
    and ins: "insert_all L st method grp es ei first events d1 = Inr (n, d2)"
  shows "seqs_inv d2"
proof -
  from res obtain r where r: "r \<in> set (db_runs d)" "active_run (st_run st) r"
    "first = rn_last_seq r + 1"
    "d1 = d\<lparr> db_runs := update_where (active_run (st_run st))
       (\<lambda>r. r\<lparr> rn_last_seq := rn_last_seq r + int (length events) \<rparr>) (db_runs d) \<rparr>"
    by (rule reserve_Inr)
  have runs: "db_runs d2 = db_runs d1"
    using record_frameD(4) [OF rel_txD [OF insert_all_frame ins]] .
  show ?thesis
  proof (rule seqs_inv_use [OF inv r(1), where n = "length events" and run = "st_run st"])
    show "rn_id r = st_run st" "rn_status r = ''running''" using r(2) by (auto simp: active_run_def)
    show "db_runs d2 = update_where (active_run (st_run st))
        (\<lambda>r. r\<lparr> rn_last_seq := rn_last_seq r + int (length events) \<rparr>) (db_runs d)"
      using runs r(4) by simp
    show "mset (used_seqs d2 (st_run st)) = mset (used_seqs d (st_run st)) +
        mset (map (\<lambda>i. rn_last_seq r + 1 + int i) [0..<length events])"
      unfolding insert_all_used [OF ins] r(3) by (simp add: used_seqs_def r(4))
    show "used_seqs d2 q = used_seqs d q" if "q \<noteq> st_run st" for q
      using insert_all_used [OF ins, of q] that r(4) by (simp add: used_seqs_def)
  qed
qed

lemma record_batch_keeps_seqs: "keeps seqs_inv (record_batch_tx L st events method inst)"
proof (rule keepsI)
  fix d x d' assume inv: "seqs_inv d"
    and run: "record_batch_tx L st events method inst d = Inr (x, d')"
  then obtain first d1 where
    "reserve_capture_sequences (st_run st) (length events) d = Inr (first, d1)"
    "insert_all L st method None (map_option (\<lambda>i. i16_of_u8 (ir_sidechain i)) inst)
       (map_option ir_instance_id inst) first events d1 = Inr (x, d')"
    by (auto simp: record_batch_tx_def validate_sidechain_instance_def res_simps
        split: option.splits)
  from seqs_inv_reserve_insert [OF inv this] show "seqs_inv d'" .
qed

lemma record_batch_seqs_inv: "seqs_inv d \<Longrightarrow> seqs_inv (snd (record_batch L st events method inst d))"
  unfolding record_batch_def using keeps_run [OF record_batch_keeps_seqs] by simp

lemma record_snapshot_keeps_seqs: "keeps seqs_inv (record_snapshot_tx L st gid events method m)"
proof (rule keepsI)
  fix d x d' assume inv: "seqs_inv d"
    and run: "record_snapshot_tx L st gid events method m d = Inr (x, d')"
  then obtain row d0 first d1 d2 where
    steps: "insert_group row d = Inr ((), d0)"
    "reserve_capture_sequences (st_run st) (length events) d0 = Inr (first, d1)"
    "insert_all L st method (Some gid) None None first events d1 = Inr (x, d2)"
    "update_extractor_status st (sm_tip_after m) d2 = Inr ((), d')"
    unfolding record_snapshot_tx_def by (auto simp: res_simps)
  have "db_observations d0 = db_observations d" "db_tips d0 = db_tips d" "db_runs d0 = db_runs d"
    using steps(1) by (auto simp: insert_group_def res_simps)
  from seqs_inv_frame [OF this] inv have "seqs_inv d0" by blast
  from seqs_inv_reserve_insert [OF this steps(2,3)] seqs_inv_update_status [OF steps(4)]
  show "seqs_inv d'" by (simp add: seqs_inv_frame [of d' d2])
qed

lemma record_snapshot_seqs_inv:
  "seqs_inv d \<Longrightarrow> seqs_inv (snd (record_snapshot L st gid events method m d))"
  unfolding record_snapshot_def using keeps_run [OF record_snapshot_keeps_seqs] by simp

lemma record_tip_keeps_seqs: "keeps seqs_inv (record_tip_tx st tip previous method at)"
proof (rule keepsI)
  fix d x d' assume inv: "seqs_inv d" and run: "record_tip_tx st tip previous method at d = Inr (x, d')"
  then obtain h ph pt first d1 row d2 where
    steps: "reserve_capture_sequences (st_run st) 1 d = Inr (first, d1)"
    "row = tip_observation_row st tip h ph pt method at first"
    "insert_tip row d1 = Inr ((), d2)" "update_extractor_status st tip d2 = Inr (x, d')"
    unfolding record_tip_tx_def by (auto simp: res_simps)
  have row: "tp_run row = st_run st" "tp_seq row = first"
    using steps(2) by (simp_all add: tip_observation_row_def)
  have d2: "d2 = d1\<lparr> db_tips := db_tips d1 @ [row] \<rparr>"
    using steps(3) by (auto simp: insert_tip_def res_simps)
  from steps(1) obtain r where r: "r \<in> set (db_runs d)" "active_run (st_run st) r"
    "first = rn_last_seq r + 1"
    "d1 = d\<lparr> db_runs := update_where (active_run (st_run st))
       (\<lambda>r. r\<lparr> rn_last_seq := rn_last_seq r + int 1 \<rparr>) (db_runs d) \<rparr>"
    by (rule reserve_Inr)
  have "seqs_inv d2"
  proof (rule seqs_inv_use [OF inv r(1), where n = 1 and run = "st_run st"])
    show "rn_id r = st_run st" "rn_status r = ''running''" using r(2) by (auto simp: active_run_def)
    show "db_runs d2 = update_where (active_run (st_run st))
        (\<lambda>r. r\<lparr> rn_last_seq := rn_last_seq r + int 1 \<rparr>) (db_runs d)"
      using d2 r(4) by simp
    show "mset (used_seqs d2 (st_run st)) = mset (used_seqs d (st_run st)) +
        mset (map (\<lambda>i. rn_last_seq r + 1 + int i) [0..<1])"
      using row d2 r(3,4) by (simp add: used_seqs_def)
    show "used_seqs d2 q = used_seqs d q" if "q \<noteq> st_run st" for q
      using row d2 r(4) that by (simp add: used_seqs_def)
  qed
  with seqs_inv_update_status [OF steps(4)] show "seqs_inv d'"
    by (simp add: seqs_inv_frame [of d' d2])
qed

lemma record_tip_seqs_inv:
  "seqs_inv d \<Longrightarrow> seqs_inv (snd (record_tip_observation st tip previous method at d))"
  unfolding record_tip_observation_def by (rule keeps_run [OF record_tip_keeps_seqs])

end
