(* ===== verification/History.thy ===== *)
theory History
  imports Recording
begin

text \<open>
  Durable historical imports, from \<^verbatim>\<open>src/shared/src/store.rs\<close>: the coverage row of a
  stream and every operation that starts, pages, resizes, resumes, settles or supersedes it, with
  the two triggers of the schema that act on that table (\<^verbatim>\<open>certify_history\<close>, which runs
  before a row becomes complete and certifies the block path under its target, and the revision
  log).
\<close>

section \<open>Streams and scopes\<close>

definition history_kind :: "string \<Rightarrow> string res" where
  "history_kind stream =
     (if stream = ''block'' then Inr ''block_connected''
      else if stream = ''mainchain_block'' then Inr ''mainchain_block''
      else bail ''unknown history stream'')"

definition validate_history_scope :: "u8 option \<Rightarrow> string option \<Rightarrow> unit res" where
  "validate_history_scope sidechain inst =
     ensure ((sidechain \<noteq> None) = (inst \<noteq> None))
       ''history sidechain and sidechain instance must be present together''"

definition history_scope :: "store \<Rightarrow> string \<Rightarrow> u8 option \<Rightarrow> string option \<Rightarrow> scope" where
  "history_scope st stream sidechain inst =
     scope_of st stream (map_option i16_of_u8 sidechain) inst"

definition HISTORY_CONFLICT :: string where
  "HISTORY_CONFLICT = ''conflicting immutable block facts''"

section \<open>Certification\<close>

definition is_certified :: "certified_row list \<Rightarrow> scope \<Rightarrow> bytes option \<Rightarrow> bool" where
  "is_certified cs s h \<longleftrightarrow> (\<exists>c \<in> set cs. ce_scope c = s \<and> Some (ce_hash c) = h)"

definition parents_of :: "event_row list \<Rightarrow> scope \<Rightarrow> event_row \<Rightarrow> event_row list" where
  "parents_of es fs e =
     filter (\<lambda>p. er_scope p = fs \<and> er_previous e \<noteq> None \<and> er_block_hash p = er_previous e \<and>
                 er_height e \<noteq> None \<and> er_height p = map_option (\<lambda>h. h - 1) (er_height e)) es"

text \<open>
  The rows of the recursive query from one base row: a certified row, or one not above the
  start of the coverage, has no further row.
\<close>

function path_from ::
  "event_row list \<Rightarrow> certified_row list \<Rightarrow> scope \<Rightarrow> scope \<Rightarrow> int \<Rightarrow> event_row \<Rightarrow> event_row list" where
  "path_from es cs s fs start e =
     e # (if \<not> is_certified cs s (er_block_hash e) \<and> opt_ex (\<lambda>h. start < h) (er_height e)
          then concat (map (path_from es cs s fs start) (parents_of es fs e)) else [])"
  by pat_completeness auto

termination
  by (relation "measure (\<lambda>(es, cs, s, fs, start, e).
        case er_height e of None \<Rightarrow> 0 | Some h \<Rightarrow> nat (h - start))")
    (auto simp: parents_of_def)

declare path_from.simps [simp del]

definition certify_path ::
  "event_row list \<Rightarrow> certified_row list \<Rightarrow> coverage_row \<Rightarrow> string \<Rightarrow> event_row list" where
  "certify_path es cs r kind =
     (let fs = fact_scope (cv_scope r) kind in
      concat (map (path_from es cs (cv_scope r) fs (cv_start r))
        (filter (\<lambda>e. er_scope e = fs \<and> er_block_hash e = Some (cv_target_hash r)) es)))"

definition heights_of :: "event_row list \<Rightarrow> int list" where
  "heights_of path = List.map_filter er_height path"

definition path_complete :: "certified_row list \<Rightarrow> coverage_row \<Rightarrow> event_row list \<Rightarrow> bool" where
  "path_complete cs r path \<longleftrightarrow>
     path \<noteq> [] \<and> heights_of path \<noteq> [] \<and>
     length path = length (remdups (map er_block_hash path)) \<and>
     Max (set (heights_of path)) = cv_target_height r \<and>
     ((\<exists>e \<in> set path. is_certified cs (cv_scope r) (er_block_hash e)) \<or>
      Min (set (heights_of path)) = cv_start r) \<and>
     int (length path) = Max (set (heights_of path)) - Min (set (heights_of path)) + 1"

definition certified_of :: "scope \<Rightarrow> event_row \<Rightarrow> certified_row" where
  "certified_of s e = \<lparr> ce_scope = s, ce_hash = the (er_block_hash e),
     ce_previous = the (er_previous e), ce_height = the (er_height e) \<rparr>"

definition certifiable :: "event_row \<Rightarrow> bool" where
  "certifiable e \<longleftrightarrow>
     opt_ex (\<lambda>h. length h = 32) (er_block_hash e) \<and>
     opt_ex (\<lambda>p. length p = 32) (er_previous e) \<and> opt_ex (\<lambda>n. 0 \<le> n) (er_height e)"

fun insert_certified :: "certified_row list \<Rightarrow> certified_row list \<Rightarrow> certified_row list" where
  "insert_certified [] cs = cs"
| "insert_certified (c # new) cs =
     insert_certified new
       (if \<exists>q \<in> set cs. ce_scope q = ce_scope c \<and> ce_hash q = ce_hash c then cs else cs @ [c])"

definition certify_history :: "coverage_row \<Rightarrow> unit tx" where
  "certify_history r =
     (if cv_status r \<noteq> Complete then ret_tx ()
      else
        bind_tx (lift_tx (history_kind (sc_name (cv_scope r)))) (\<lambda>kind.
        bind_tx (ensure_tx (\<lambda>_. \<not> (cv_covered_hash r \<noteq> None \<and> cv_covered_hash r \<noteq> Some (cv_target_hash r)) \<and>
                   \<not> (cv_covered_height r \<noteq> None \<and> cv_covered_height r \<noteq> Some (cv_target_height r)))
                   ''coverage target differs from proven tip'') (\<lambda>_.
        bind_tx (get_tx (\<lambda>d. certify_path (db_events d) (db_certified d) r kind)) (\<lambda>path.
        bind_tx (ensure_tx (\<lambda>d. path_complete (db_certified d) r path)
                   ''history is missing, discontinuous or ambiguous'') (\<lambda>_.
        bind_tx (get_tx (\<lambda>d. filter (\<lambda>e. \<not> is_certified (db_certified d) (cv_scope r)
                                           (er_block_hash e)) path)) (\<lambda>fresh.
        bind_tx (ensure_tx (\<lambda>_. list_all certifiable fresh)
                   ''history is missing, discontinuous or ambiguous'') (\<lambda>_.
        modify_tx (\<lambda>d. d\<lparr> db_certified :=
          insert_certified (map (certified_of (cv_scope r)) fresh) (db_certified d) \<rparr>))))))))"

section \<open>Writing coverage rows\<close>

definition coverage_checks :: "coverage_row \<Rightarrow> bool" where
  "coverage_checks r \<longleftrightarrow>
     sc_name (cv_scope r) \<noteq> [] \<and> opt_ok (\<lambda>s. 0 \<le> s \<and> s \<le> 255) (sc_sidechain (cv_scope r)) \<and>
     0 \<le> cv_start r \<and>
     (cv_covered_hash r = None \<longleftrightarrow> cv_covered_height r = None) \<and>
     (cv_floor_hash r = None \<or> cv_floor_height r \<noteq> None) \<and>
     (cv_next_hash r = None \<longleftrightarrow> cv_next_height r = None) \<and>
     opt_ok (\<lambda>h. length h = 32) (cv_covered_hash r) \<and> length (cv_target_hash r) = 32 \<and>
     opt_ok (\<lambda>h. length h = 32) (cv_floor_hash r) \<and> opt_ok (\<lambda>h. length h = 32) (cv_next_hash r) \<and>
     opt_ok (\<lambda>h. 0 \<le> h) (cv_covered_height r) \<and> 0 \<le> cv_target_height r \<and>
     opt_ok (\<lambda>h. 0 \<le> h) (cv_floor_height r) \<and> opt_ok (\<lambda>h. 0 \<le> h) (cv_next_height r) \<and>
     0 \<le> cv_rows r \<and> 0 < cv_page r \<and> 0 < sc_version (cv_scope r) \<and>
     (if cv_status r = Complete then cv_next_hash r = None \<and> cv_completed_at r \<noteq> None
      else cv_next_hash r \<noteq> None \<and> cv_completed_at r = None)"

text \<open>
  An UPDATE of the coverage table: for every selected row the trigger before it, the checks of
  the new row, and the revision after it. The result is the number of rows.
\<close>

definition update_coverage :: "(coverage_row \<Rightarrow> bool) \<Rightarrow> (coverage_row \<Rightarrow> coverage_row) \<Rightarrow> nat tx" where
  "update_coverage p f =
     bind_tx (get_tx (\<lambda>d. map f (filter p (db_coverage d)))) (\<lambda>new.
     bind_tx (fold_tx (\<lambda>r _. certify_history r) new ()) (\<lambda>_.
     bind_tx (ensure_tx (\<lambda>_. list_all coverage_checks new) ''history coverage constraint'') (\<lambda>_.
     bind_tx (modify_tx (\<lambda>d. d\<lparr> db_coverage := update_where p f (db_coverage d),
                                db_revisions := db_revisions d @ map (Pair ''UPDATE'') new \<rparr>)) (\<lambda>_.
     ret_tx (length new)))))"

definition insert_coverage :: "coverage_row \<Rightarrow> unit tx" where
  "insert_coverage r =
     bind_tx (certify_history r) (\<lambda>_.
     bind_tx (ensure_tx (\<lambda>d. coverage_checks r \<and>
                (\<exists>m \<in> set (db_manifests d). mf_dataset m = sc_dataset (cv_scope r)) \<and>
                opt_ok (\<lambda>i. \<exists>q \<in> set (db_instances d). in_dataset q = sc_dataset (cv_scope r) \<and>
                              in_id q = i) (sc_instance (cv_scope r)))
                ''history coverage constraint'') (\<lambda>_.
     modify_tx (\<lambda>d. d\<lparr> db_coverage := db_coverage d @ [r],
                        db_revisions := db_revisions d @ [(''INSERT'', r)] \<rparr>)))"

section \<open>Reading a coverage row\<close>

record history_coverage =
  hc_stream :: string
  hc_sidechain :: "u8 option"
  hc_instance :: "string option"
  hc_version :: u32
  hc_start :: u32
  hc_covered :: "observed_block option"
  hc_target :: observed_block
  hc_floor_hash :: "bytes option"
  hc_floor_height :: "u32 option"
  hc_next :: "observed_block option"
  hc_status :: history_status
  hc_rows :: u64
  hc_page :: u32
  hc_error :: "string option"

text \<open>The status column is text; its check constraint admits the four names parsed here.\<close>

fun history_status_str :: "history_status \<Rightarrow> string" where
  "history_status_str Running = ''running''"
| "history_status_str Complete = ''complete''"
| "history_status_str ErrorStatus = ''error''"
| "history_status_str Superseded = ''superseded''"

definition parse_history_status :: "string \<Rightarrow> history_status res" where
  "parse_history_status v =
     (if v = ''running'' then Inr Running
      else if v = ''complete'' then Inr Complete
      else if v = ''error'' then Inr ErrorStatus
      else if v = ''superseded'' then Inr Superseded
      else bail ''record contains unknown history status'')"

fun block_from_parts :: "bytes option \<Rightarrow> int option \<Rightarrow> observed_block option res" where
  "block_from_parts (Some hash) (Some height) =
     map_ok (\<lambda>h. Some (at_height hash h)) (height_from_i32 height)"
| "block_from_parts None None = Inr None"
| "block_from_parts _ _ = bail ''record contains an incomplete block''"

definition history_coverage_from_row :: "coverage_row \<Rightarrow> history_coverage res" where
  "history_coverage_from_row r =
     bind_res (traverse_opt (\<lambda>slot. try_from ''invalid history sidechain'' (u8_of_int slot))
                (sc_sidechain (cv_scope r))) (\<lambda>sidechain.
     bind_res (block_from_parts (cv_covered_hash r) (cv_covered_height r)) (\<lambda>covered.
     bind_res (bind_res (block_from_parts (Some (cv_target_hash r)) (Some (cv_target_height r)))
                (ok_or ''history target tip is missing'')) (\<lambda>target.
     bind_res (try_from ''history event contract version is not positive''
                (u32_of_int (sc_version (cv_scope r)))) (\<lambda>version.
     bind_res (height_from_i32 (cv_start r)) (\<lambda>start.
     bind_res (traverse_opt height_from_i32 (cv_floor_height r)) (\<lambda>floor_height.
     bind_res (block_from_parts (cv_next_hash r) (cv_next_height r)) (\<lambda>next.
     bind_res (parse_history_status (history_status_str (cv_status r))) (\<lambda>status.
     bind_res (try_from ''history rows_recorded is negative'' (u64_of_int (cv_rows r))) (\<lambda>rows.
     bind_res (try_from ''history page size is not positive'' (u32_of_int (cv_page r))) (\<lambda>page.
     Inr \<lparr> hc_stream = sc_name (cv_scope r), hc_sidechain = sidechain,
           hc_instance = sc_instance (cv_scope r), hc_version = version, hc_start = start,
           hc_covered = covered, hc_target = target, hc_floor_hash = cv_floor_hash r,
           hc_floor_height = floor_height, hc_next = next, hc_status = status, hc_rows = rows,
           hc_page = page, hc_error = cv_error r \<rparr>))))))))))"

definition in_scope :: "scope \<Rightarrow> coverage_row \<Rightarrow> bool" where
  "in_scope s r \<longleftrightarrow> cv_scope r = s"

definition history_coverage ::
  "store \<Rightarrow> string \<Rightarrow> u8 option \<Rightarrow> string option \<Rightarrow> db \<Rightarrow> history_coverage option res" where
  "history_coverage st stream sidechain inst d =
     bind_res (validate_history_scope sidechain inst) (\<lambda>_.
     traverse_opt history_coverage_from_row
       (find (in_scope (history_scope st stream sidechain inst)) (db_coverage d)))"

definition certified_history_floor ::
  "store \<Rightarrow> string \<Rightarrow> u8 option \<Rightarrow> string option \<Rightarrow> bytes list \<Rightarrow> db \<Rightarrow> observed_block option res" where
  "certified_history_floor st stream sidechain inst hashes d =
     (let cs = filter (\<lambda>c. ce_scope c = history_scope st stream sidechain inst \<and>
                           ce_hash c \<in> set hashes) (db_certified d)
      in case cs of
           [] \<Rightarrow> Inr None
         | c # rest \<Rightarrow>
             (let best = fold (\<lambda>x y. if ce_height y < ce_height x then x else y) rest c
              in map_ok (\<lambda>h. Some (at_height (ce_hash best) h)) (height_from_i32 (ce_height best))))"

section \<open>Operations on coverage\<close>

definition running_at :: "scope \<Rightarrow> bytes \<Rightarrow> coverage_row \<Rightarrow> bool" where
  "running_at s next_hash r \<longleftrightarrow>
     cv_scope r = s \<and> cv_next_hash r = Some next_hash \<and> cv_status r = Running"

definition set_history_floor ::
  "store \<Rightarrow> string \<Rightarrow> u8 option \<Rightarrow> string option \<Rightarrow> observed_block \<Rightarrow> bytes option \<Rightarrow> u32 option \<Rightarrow>
   db \<Rightarrow> unit res \<times> db" where
  "set_history_floor st stream sidechain inst cursor floor_hash floor_height =
     run_tx (
     bind_tx (lift_tx (traverse_opt height_to_i32 floor_height)) (\<lambda>height.
     bind_tx (update_coverage (running_at (history_scope st stream sidechain inst) (ob_hash cursor))
                (\<lambda>r. r\<lparr> cv_floor_hash := floor_hash, cv_floor_height := height \<rparr>)) (\<lambda>rows.
     lift_tx (ensure (rows = 1) ''history cursor changed while setting the certified floor''))))"

definition begin_cycle_row ::
  "scope \<Rightarrow> int \<Rightarrow> bytes option \<Rightarrow> int option \<Rightarrow> bytes \<Rightarrow> int \<Rightarrow> bytes option \<Rightarrow> int option \<Rightarrow> int \<Rightarrow>
   int \<Rightarrow> coverage_row" where
  "begin_cycle_row s start covered_hash covered_height target_hash target_height floor_hash
     floor_height page now =
     \<lparr> cv_scope = s, cv_start = start, cv_covered_hash = covered_hash,
       cv_covered_height = covered_height, cv_target_hash = target_hash,
       cv_target_height = target_height, cv_floor_hash = floor_hash,
       cv_floor_height = floor_height, cv_next_hash = Some target_hash,
       cv_next_height = Some target_height, cv_status = Running, cv_rows = 0, cv_page = page,
       cv_error = None, cv_started_at = now, cv_completed_at = None \<rparr>"

definition coalesce :: "'a option \<Rightarrow> 'a option \<Rightarrow> 'a option" where
  "coalesce a b = (if a = None then b else a)"

text \<open>The update half of the upsert keeps the cumulative row count and an older covered tip.\<close>

definition restart_cycle :: "coverage_row \<Rightarrow> coverage_row \<Rightarrow> coverage_row" where
  "restart_cycle new old =
     new\<lparr> cv_covered_hash := coalesce (cv_covered_hash new) (cv_covered_hash old),
          cv_covered_height := coalesce (cv_covered_height new) (cv_covered_height old),
          cv_rows := cv_rows old \<rparr>"

definition upsert_coverage :: "coverage_row \<Rightarrow> coverage_row tx" where
  "upsert_coverage new =
     bind_tx (get_tx (\<lambda>d. find (in_scope (cv_scope new)) (db_coverage d))) (\<lambda>found.
     case found of
       None \<Rightarrow> bind_tx (insert_coverage new) (\<lambda>_. ret_tx new)
     | Some old \<Rightarrow>
         bind_tx (lift_tx (ensure (coverage_checks new) ''history coverage constraint'')) (\<lambda>_.
         bind_tx (update_coverage (in_scope (cv_scope new)) (restart_cycle new)) (\<lambda>_.
         ret_tx (restart_cycle new old))))"

definition begin_history_cycle ::
  "store \<Rightarrow> string \<Rightarrow> u8 option \<Rightarrow> string option \<Rightarrow> u32 \<Rightarrow> observed_block option \<Rightarrow>
   observed_block \<Rightarrow> bytes option \<Rightarrow> u32 option \<Rightarrow> u32 \<Rightarrow> db \<Rightarrow> history_coverage res \<times> db" where
  "begin_history_cycle st stream sidechain inst coverage_start covered target floor_hash
     floor_height page d =
     (let (r, d') = run_tx (
        bind_tx (lift_tx (validate_history_scope sidechain inst)) (\<lambda>_.
        bind_tx (lift_tx (height_to_i32 coverage_start)) (\<lambda>start.
        bind_tx (lift_tx (optional_block_parts covered)) (\<lambda>(covered_hash, covered_height).
        bind_tx (lift_tx (bind_res (required_height target) height_to_i32)) (\<lambda>target_height.
        bind_tx (lift_tx (traverse_opt height_to_i32 floor_height)) (\<lambda>floor_height.
        bind_tx (lift_tx (height_to_i32 page)) (\<lambda>page_blocks.
        bind_tx (get_tx db_clock) (\<lambda>now.
        upsert_coverage
          (begin_cycle_row (history_scope st stream sidechain inst) start covered_hash
             covered_height (ob_hash target) target_height floor_hash floor_height page_blocks
             now)))))))))  d
      in (bind_res r history_coverage_from_row, d'))"

record history_page =
  hp_stream :: string
  hp_sidechain :: "u8 option"
  hp_instance :: "string option"
  hp_expected_next :: observed_block
  hp_next :: "observed_block option"

definition page_hashes :: "event list \<Rightarrow> bytes list" where
  "page_hashes events = List.map_filter (\<lambda>e. map_option ob_hash (ev_anchor e)) events"

definition conflict_in :: "scope \<Rightarrow> (bytes option \<Rightarrow> bool) \<Rightarrow> db \<Rightarrow> bool" where
  "conflict_in fs p d \<longleftrightarrow>
     (\<exists>c \<in> set (db_conflicts d). \<exists>e \<in> set (db_events d).
        er_id e = cn_first c \<and> er_scope e = fs \<and> p (er_block_hash e))"

definition page_predicate :: "scope \<Rightarrow> bytes \<Rightarrow> int \<Rightarrow> coverage_row \<Rightarrow> bool" where
  "page_predicate s hash height r \<longleftrightarrow>
     cv_scope r = s \<and> cv_next_hash r = Some hash \<and> cv_next_height r = Some height \<and>
     cv_status r = Running"

definition advance_row ::
  "bool \<Rightarrow> bool \<Rightarrow> bytes option \<Rightarrow> int option \<Rightarrow> int \<Rightarrow> int \<Rightarrow> coverage_row \<Rightarrow> coverage_row" where
  "advance_row conflict complete next_hash next_height inserted now r =
     r\<lparr> cv_next_hash := next_hash, cv_next_height := next_height,
        cv_status := (if conflict then ErrorStatus else if complete then Complete else Running),
        cv_covered_hash := (if complete then Some (cv_target_hash r) else cv_covered_hash r),
        cv_covered_height := (if complete then Some (cv_target_height r) else cv_covered_height r),
        cv_rows := cv_rows r + inserted,
        cv_error := (if conflict then Some HISTORY_CONFLICT else None),
        cv_completed_at := (if complete then Some now else None) \<rparr>"

definition validate_page_instance :: "store \<Rightarrow> history_page \<Rightarrow> unit tx" where
  "validate_page_instance st page =
     (case (hp_sidechain page, hp_instance page) of
        (Some slot, Some inst) \<Rightarrow> validate_sidechain_instance (st_dataset st) slot inst
      | _ \<Rightarrow> ret_tx ())"

definition page_scope :: "store \<Rightarrow> history_page \<Rightarrow> scope" where
  "page_scope st page = history_scope st (hp_stream page) (hp_sidechain page) (hp_instance page)"

text \<open>
  A conflict on one of the page's own blocks, or anywhere in the scope when the page would
  complete it.
\<close>

definition page_conflict :: "scope \<Rightarrow> event list \<Rightarrow> history_page \<Rightarrow> db \<Rightarrow> bool" where
  "page_conflict fs events page d \<longleftrightarrow>
     conflict_in fs (\<lambda>h. h \<in> Some ` set (page_hashes events)) d \<or>
     hp_next page = None \<and> conflict_in fs (\<lambda>_. True) d"

definition record_history_page_tx ::
  "libs \<Rightarrow> store \<Rightarrow> event list \<Rightarrow> history_page \<Rightarrow> (nat \<times> bool) tx" where
  "record_history_page_tx L st events page =
     bind_tx (lift_tx (ensure (events \<noteq> []) ''a historical page cannot be empty'')) (\<lambda>_.
     bind_tx (lift_tx (validate_history_scope (hp_sidechain page) (hp_instance page))) (\<lambda>_.
     bind_tx (lift_tx (bind_res (required_height (hp_expected_next page)) height_to_i32))
       (\<lambda>expected_height.
     bind_tx (lift_tx (optional_block_parts (hp_next page))) (\<lambda>(next_hash, next_height).
     bind_tx (validate_page_instance st page) (\<lambda>_.
     bind_tx (reserve_capture_sequences (st_run st) (length events)) (\<lambda>first.
     bind_tx (insert_all L st Backfill None (map_option i16_of_u8 (hp_sidechain page))
                (hp_instance page) first events) (\<lambda>inserted.
     bind_tx (lift_tx (history_kind (hp_stream page))) (\<lambda>kind.
     let s = page_scope st page in
     bind_tx (get_tx (page_conflict (fact_scope s kind) events page)) (\<lambda>conflict.
     let complete = (hp_next page = None \<and> \<not> conflict);
         next_hash = (if conflict then Some (ob_hash (hp_expected_next page)) else next_hash);
         next_height = (if conflict then Some expected_height else next_height) in
     bind_tx (get_tx db_clock) (\<lambda>now.
     bind_tx (update_coverage
                (page_predicate s (ob_hash (hp_expected_next page)) expected_height)
                (advance_row conflict complete next_hash next_height (int inserted) now)) (\<lambda>updated.
     bind_tx (lift_tx (ensure (updated = 1)
                ''history cursor changed before its page could be committed'')) (\<lambda>_.
     ret_tx (inserted, conflict)))))))))))))"

text \<open>The conflict is reported after the commit: the facts and the suspended cursor stay.\<close>

definition record_history_page ::
  "libs \<Rightarrow> store \<Rightarrow> event list \<Rightarrow> history_page \<Rightarrow> db \<Rightarrow> nat res \<times> db" where
  "record_history_page L st events page d =
     (let (r, d') = run_tx (record_history_page_tx L st events page) d
      in (bind_res r (\<lambda>(inserted, conflict).
            if conflict then Inl HistoryConflict else Inr inserted), d'))"

definition resize_history_page ::
  "store \<Rightarrow> string \<Rightarrow> u8 option \<Rightarrow> string option \<Rightarrow> u32 \<Rightarrow> string \<Rightarrow> db \<Rightarrow> unit res \<times> db" where
  "resize_history_page st stream sidechain inst page err =
     run_tx (
     bind_tx (lift_tx (validate_history_scope sidechain inst)) (\<lambda>_.
     bind_tx (lift_tx (height_to_i32 page)) (\<lambda>page_blocks.
     bind_tx (update_coverage
                (\<lambda>r. cv_scope r = history_scope st stream sidechain inst \<and> cv_status r = Running)
                (\<lambda>r. r\<lparr> cv_page := page_blocks, cv_error := Some err \<rparr>)) (\<lambda>updated.
     lift_tx (ensure (updated = 1) ''history was not running while resizing its pages'')))))"

definition resumable :: "scope \<Rightarrow> coverage_row \<Rightarrow> bool" where
  "resumable s r \<longleftrightarrow>
     cv_scope r = s \<and> cv_status r \<in> {ErrorStatus, Superseded} \<and> cv_next_hash r \<noteq> None"

definition resume_history ::
  "store \<Rightarrow> string \<Rightarrow> u8 option \<Rightarrow> string option \<Rightarrow> db \<Rightarrow> unit res \<times> db" where
  "resume_history st stream sidechain inst =
     run_tx (
     bind_tx (lift_tx (validate_history_scope sidechain inst)) (\<lambda>_.
     bind_tx (update_coverage (resumable (history_scope st stream sidechain inst))
                (\<lambda>r. r\<lparr> cv_status := Running, cv_error := None \<rparr>)) (\<lambda>updated.
     lift_tx (ensure (updated = 1) ''history had no resumable cursor''))))"

definition scope_current :: "store \<Rightarrow> u8 option \<Rightarrow> string option \<Rightarrow> db \<Rightarrow> bool" where
  "scope_current st sidechain inst d \<longleftrightarrow>
     sidechain = None \<or>
     (\<exists>c \<in> set (db_current d). cu_dataset c = st_dataset st \<and>
        Some (cu_sidechain c) = map_option i16_of_u8 sidechain \<and> Some (cu_instance c) = inst)"

definition settle_row :: "bool \<Rightarrow> string \<Rightarrow> coverage_row \<Rightarrow> coverage_row" where
  "settle_row current err r =
     r\<lparr> cv_status := (if current then ErrorStatus else Superseded),
        cv_error := Some (if current then err else ''sidechain instance is no longer active'') \<rparr>"

definition settle_history_failure ::
  "store \<Rightarrow> string \<Rightarrow> u8 option \<Rightarrow> string option \<Rightarrow> string \<Rightarrow> db \<Rightarrow> history_status res \<times> db" where
  "settle_history_failure st stream sidechain inst err =
     run_tx (
     bind_tx (lift_tx (validate_history_scope sidechain inst)) (\<lambda>_.
     let s = history_scope st stream sidechain inst in
     bind_tx (get_tx (scope_current st sidechain inst)) (\<lambda>current.
     bind_tx (update_coverage (\<lambda>r. cv_scope r = s \<and> cv_status r = Running)
                (settle_row current err)) (\<lambda>_.
     bind_tx (get_tx (\<lambda>d. find (in_scope s) (db_coverage d))) (\<lambda>row.
     bind_tx (lift_tx (ok_or ''history coverage does not exist'' row)) (\<lambda>r.
     lift_tx (parse_history_status (history_status_str (cv_status r)))))))))"

definition supersede_history ::
  "store \<Rightarrow> string \<Rightarrow> u8 \<Rightarrow> string \<Rightarrow> string \<Rightarrow> db \<Rightarrow> unit res \<times> db" where
  "supersede_history st stream sidechain inst reason =
     run_tx (
     bind_tx (update_coverage
                (\<lambda>r. cv_scope r = history_scope st stream (Some sidechain) (Some inst) \<and>
                     cv_status r \<in> {Running, ErrorStatus})
                (\<lambda>r. r\<lparr> cv_status := Superseded, cv_error := Some reason \<rparr>)) (\<lambda>_.
     ret_tx ()))"

section \<open>Lifecycle reads\<close>

definition current_sidechain_instance_id :: "store \<Rightarrow> u8 \<Rightarrow> db \<Rightarrow> string option res" where
  "current_sidechain_instance_id st slot d =
     Inr (current_sidechain_instance (st_dataset st) (i16_of_u8 slot) d)"

definition current_sidechain_instances :: "store \<Rightarrow> db \<Rightarrow> instance_ref list res" where
  "current_sidechain_instances st d =
     collect_res (\<lambda>(slot, inst, activation).
         bind_res (try_from ''current sidechain slot is invalid'' (u8_of_int slot)) (\<lambda>slot.
         bind_res (try_from ''sidechain activation height is negative'' (u32_of_int activation))
           (\<lambda>activation. Inr (InstanceRef slot inst activation))))
       (sort_key fst
         (concat (map (\<lambda>c. map (\<lambda>q. (cu_sidechain c, cu_instance c, in_activation_height q))
            (filter (\<lambda>q. in_dataset q = cu_dataset c \<and> in_id q = cu_instance c \<and>
                         in_sidechain q = cu_sidechain c) (db_instances d)))
           (filter (\<lambda>c. cu_dataset c = st_dataset st) (db_current d)))))"

end
