(* ===== verification/Certification.thy ===== *)
theory Certification
  imports History
begin

text \<open>
  What the certification trigger establishes. A certified block is backed by a recorded block
  fact and is grounded: its parent is certified one height below, or a completed coverage of the
  same scope starts at its height. Hence every certified block heads a linked chain of certified
  blocks down to a coverage start.
\<close>

section \<open>Backed and grounded\<close>

definition backed :: "event_row set \<Rightarrow> certified_row \<Rightarrow> bool" where
  "backed es c \<longleftrightarrow>
     (\<exists>kind e. history_kind (sc_name (ce_scope c)) = Inr kind \<and> e \<in> es \<and>
        er_scope e = fact_scope (ce_scope c) kind \<and> er_block_hash e = Some (ce_hash c) \<and>
        er_previous e = Some (ce_previous c) \<and> er_height e = Some (ce_height c))"

definition grounded :: "coverage_row set \<Rightarrow> certified_row set \<Rightarrow> certified_row \<Rightarrow> bool" where
  "grounded revs cs c \<longleftrightarrow>
     (\<exists>p \<in> cs. ce_scope p = ce_scope c \<and> ce_hash p = ce_previous c \<and> ce_height p = ce_height c - 1) \<or>
     (\<exists>r \<in> revs. cv_scope r = ce_scope c \<and> cv_status r = Complete \<and> cv_start r = ce_height c)"

definition cert_ok :: "event_row set \<Rightarrow> coverage_row set \<Rightarrow> certified_row set \<Rightarrow> bool" where
  "cert_ok es revs cs \<longleftrightarrow> (\<forall>c \<in> cs. backed es c \<and> grounded revs cs c \<and> 0 \<le> ce_height c)"

definition cert_inv :: "db \<Rightarrow> bool" where
  "cert_inv d \<longleftrightarrow> cert_ok (set (db_events d)) (snd ` set (db_revisions d)) (set (db_certified d))"

lemma backed_mono: "backed es c \<Longrightarrow> es \<subseteq> es' \<Longrightarrow> backed es' c"
  unfolding backed_def by blast

lemma grounded_mono: "grounded revs cs c \<Longrightarrow> revs \<subseteq> revs' \<Longrightarrow> cs \<subseteq> cs' \<Longrightarrow> grounded revs' cs' c"
  unfolding grounded_def by blast

lemma cert_ok_mono: "cert_ok es revs cs \<Longrightarrow> es \<subseteq> es' \<Longrightarrow> revs \<subseteq> revs' \<Longrightarrow> cert_ok es' revs' cs"
  unfolding cert_ok_def by (blast intro: backed_mono grounded_mono)

text \<open>A step that only adds facts and revisions keeps the invariant.\<close>

lemma cert_inv_mono:
  assumes "cert_inv d" and "db_certified d' = db_certified d"
    and "prefix (db_events d) (db_events d')" and "prefix (db_revisions d) (db_revisions d')"
  shows "cert_inv d'"
  using assms(1) unfolding cert_inv_def assms(2)
  by (rule cert_ok_mono)
    (use set_mono_prefix [OF assms(3)] set_mono_prefix [OF assms(4)] in auto)

section \<open>One block per hash\<close>

definition unique_blocks :: "event_row set \<Rightarrow> scope \<Rightarrow> bool" where
  "unique_blocks es fs \<longleftrightarrow>
     (\<forall>e \<in> es. \<forall>e' \<in> es. er_scope e = fs \<and> er_scope e' = fs \<and> er_block_hash e \<noteq> None \<and>
        er_block_hash e' = er_block_hash e \<longrightarrow> e' = e)"

text \<open>A scope without a retained conflict has one fact per block.\<close>

lemma no_conflict_unique_blocks:
  assumes inv: "facts_inv d" "conflicts_exact d" and kind: "sc_name fs \<in> block_kinds"
    and none: "\<not> conflict_in fs (\<lambda>_. True) d"
  shows "unique_blocks (set (db_events d)) fs"
  unfolding unique_blocks_def
proof (intro ballI impI, elim conjE)
  fix e e' assume e: "e \<in> set (db_events d)" "e' \<in> set (db_events d)" "er_scope e = fs"
    "er_scope e' = fs" "er_block_hash e \<noteq> None" "er_block_hash e' = er_block_hash e"
  have no: "\<not> conflicts_with b a" if ab: "a \<in> set (db_events d)" "b \<in> set (db_events d)"
    "er_scope a = fs" "er_scope b = fs" for a b
  proof
    assume "conflicts_with b a"
    with ab kind have "\<exists>e \<in> set (db_events d). \<exists>new \<in> set (db_events d).
        er_id e = er_id a \<and> er_id new = er_id b \<and> sc_name (er_scope new) \<in> block_kinds \<and>
        conflicts_with new e"
      by (intro bexI [of _ a] bexI [of _ b]) simp_all
    then obtain c where c: "c \<in> set (db_conflicts d)" "cn_first c = er_id a"
      using inv(2) [unfolded conflicts_exact_def, rule_format, of "er_id a" "er_id b"] by blast
    have "conflict_in fs (\<lambda>_. True) d"
      unfolding conflict_in_def by (intro bexI [OF _ c(1)] bexI [OF _ ab(1)]) (simp add: ab c)
    with none show False ..
  qed
  show "e' = e"
  proof (rule ccontr)
    assume ne: "e' \<noteq> e"
    have "inj_on er_id (set (db_events d))"
      using inv(1) by (simp add: facts_inv_def strict_sorted_iff distinct_map)
    with e(1,2) ne have "er_id e' \<noteq> er_id e" by (auto dest: inj_onD)
    moreover have "\<not> same_fact e e'"
      using inv(1) e(1,2) ne unfolding facts_inv_def by blast
    then have "er_fact_sha e' \<noteq> er_fact_sha e" using e(3,4,6) by (simp add: same_fact_def)
    ultimately have "conflicts_with e' e \<or> conflicts_with e e'"
      using e(3-6) unfolding conflicts_with_def by (metis linorder_neqE)
    with no [OF e(1,2,3,4)] no [OF e(2,1,4,3)] show False by blast
  qed
qed

lemma unique_blocks_parents:
  assumes "unique_blocks (set es) fs" and "distinct es"
  shows "parents_of es fs e = [] \<or> (\<exists>p. parents_of es fs e = [p])"
proof (cases "parents_of es fs e")
  case (Cons p ps)
  have in_p: "p \<in> set es" "er_scope p = fs" "er_block_hash p = er_previous e" "er_previous e \<noteq> None"
    if "p \<in> set (parents_of es fs e)" for p
    using that by (auto simp: parents_of_def)
  have "q = p" if "q \<in> set ps" for q
    using assms(1) in_p [of q] in_p [of p] that Cons unfolding unique_blocks_def by simp
  moreover have "distinct (p # ps)"
    unfolding Cons [symmetric] parents_of_def using assms(2) by (rule distinct_filter)
  ultimately have "ps = []" by (cases ps) auto
  with Cons show ?thesis by simp
qed simp

section \<open>The path\<close>

lemma path_from_Cons: "\<exists>rest. path_from es cs s fs start e = e # rest"
  by (subst path_from.simps) simp

lemma path_from_events:
  "x \<in> set (path_from es cs s fs start e) \<Longrightarrow> x = e \<or> x \<in> set es \<and> er_scope x = fs"
proof (induction es cs s fs start e rule: path_from.induct)
  case (1 es cs s fs start e)
  show ?case
  proof (cases "x = e")
    case False
    with "1.prems" obtain p where "p \<in> set (parents_of es fs e)"
      "x \<in> set (path_from es cs s fs start p)"
      "\<not> is_certified cs s (er_block_hash e) \<and> (\<exists>h. er_height e = Some h \<and> start < h)"
      by (subst (asm) path_from.simps) (auto split: if_splits)
    with "1.IH" [of p] show ?thesis by (auto simp: parents_of_def)
  qed simp
qed

lemma path_from_unfold:
  assumes "unique_blocks (set es) fs" "distinct es"
  shows "path_from es cs s fs start e = [e] \<or>
    (\<exists>p. parents_of es fs e = [p] \<and> \<not> is_certified cs s (er_block_hash e) \<and>
       (\<exists>h. er_height e = Some h \<and> start < h) \<and>
       path_from es cs s fs start e = e # path_from es cs s fs start p)"
  using unique_blocks_parents [OF assms, of e]
  by (auto simp: path_from.simps [of es cs s fs start e])

text \<open>
  Along a path: only the last row can be certified or without a recorded parent, and heights
  fall by one.
\<close>

lemma path_from_shape:
  assumes "unique_blocks (set es) fs" "distinct es" and "er_height e = Some h"
  shows "let p = path_from es cs s fs start e in
    (\<forall>x \<in> set p. \<exists>k. er_height x = Some k \<and> k \<le> h \<and> (x = e \<or> start \<le> k)) \<and>
    (\<forall>x \<in> set p. x = last p \<or>
       \<not> is_certified cs s (er_block_hash x) \<and> (\<exists>y \<in> set p. y \<in> set (parents_of es fs x))) \<and>
    (\<forall>x \<in> set p. the (er_height (last p)) \<le> the (er_height x)) \<and>
    (is_certified cs s (er_block_hash (last p)) \<or> the (er_height (last p)) \<le> start \<or>
     parents_of es fs (last p) = [])"
  using assms
proof (induction es cs s fs start e arbitrary: h rule: path_from.induct)
  case (1 es cs s fs start e)
  from path_from_unfold [OF "1.prems"(1,2), of cs s start e] show ?case
  proof (elim disjE exE conjE)
    assume single: "path_from es cs s fs start e = [e]"
    have "is_certified cs s (er_block_hash e) \<or> h \<le> start \<or> parents_of es fs e = []"
    proof (rule ccontr)
      assume "\<not> ?thesis"
      then have c: "\<not> is_certified cs s (er_block_hash e)" "start < h" "parents_of es fs e \<noteq> []" by auto
      then obtain p ps where "parents_of es fs e = p # ps" by (cases "parents_of es fs e") auto
      with c "1.prems"(3) single path_from_Cons [of es cs s fs start p] show False
        by (subst (asm) path_from.simps) auto
    qed
    with single "1.prems"(3) show ?case by (simp add: Let_def)
  next
    fix p k assume p: "parents_of es fs e = [p]" "\<not> is_certified cs s (er_block_hash e)"
      "er_height e = Some k" "start < k"
      "path_from es cs s fs start e = e # path_from es cs s fs start p"
    have ph: "er_height p = Some (h - 1)"
    proof -
      have "p \<in> set (parents_of es fs e)" using p(1) by simp
      with "1.prems"(3) show ?thesis by (simp add: parents_of_def)
    qed
    have kh: "k = h" using p(3) "1.prems"(3) by simp
    let ?q = "path_from es cs s fs start p"
    have IH: "let p' = ?q in
      (\<forall>x \<in> set p'. \<exists>k. er_height x = Some k \<and> k \<le> h - 1 \<and> (x = p \<or> start \<le> k)) \<and>
      (\<forall>x \<in> set p'. x = last p' \<or>
         \<not> is_certified cs s (er_block_hash x) \<and> (\<exists>y \<in> set p'. y \<in> set (parents_of es fs x))) \<and>
      (\<forall>x \<in> set p'. the (er_height (last p')) \<le> the (er_height x)) \<and>
      (is_certified cs s (er_block_hash (last p')) \<or> the (er_height (last p')) \<le> start \<or>
       parents_of es fs (last p') = [])"
      by (rule "1.IH") (use p "1.prems" ph in auto)
    have ne: "?q \<noteq> []" and hd: "p \<in> set ?q" using path_from_Cons [of es cs s fs start p] by auto
    have last: "last (e # ?q) = last ?q" using ne by simp
    have low: "the (er_height (last ?q)) \<le> h - 1"
      using IH hd ph unfolding Let_def by force
    show ?case
      unfolding p(5) Let_def last using IH [unfolded Let_def] p(1,2) hd ph low kh p(4) "1.prems"(3)
      by auto
  qed
qed

section \<open>What the trigger adds\<close>

lemma insert_certified_prefix: "prefix cs (insert_certified new cs)"
proof (induction new arbitrary: cs)
  case (Cons c new)
  have "prefix cs (insert_certified new (cs @ [c]))"
    using Cons [of "cs @ [c]"] by (rule append_prefixD)
  with Cons [of cs] show ?case by simp
qed simp

lemma insert_certified_set: "set (insert_certified new cs) \<subseteq> set cs \<union> set new"
proof (induction new arbitrary: cs)
  case (Cons c new)
  from Cons [of cs] Cons [of "cs @ [c]"] show ?case by auto
qed simp

lemma insert_certified_key:
  "c \<in> set new \<Longrightarrow>
     \<exists>q \<in> set (insert_certified new cs). ce_scope q = ce_scope c \<and> ce_hash q = ce_hash c"
proof (induction new arbitrary: cs)
  case (Cons a new)
  let ?cs = "if \<exists>q \<in> set cs. ce_scope q = ce_scope a \<and> ce_hash q = ce_hash a then cs else cs @ [a]"
  show ?case
  proof (cases "c = a")
    case True
    then have "\<exists>q \<in> set ?cs. ce_scope q = ce_scope c \<and> ce_hash q = ce_hash c" by auto
    moreover have "set ?cs \<subseteq> set (insert_certified new ?cs)"
      by (rule set_mono_prefix [OF insert_certified_prefix])
    ultimately show ?thesis by fastforce
  next
    case False
    with Cons show ?thesis by simp
  qed
qed simp

lemma heights_of_iff: "k \<in> set (heights_of path) \<longleftrightarrow> (\<exists>x \<in> set path. er_height x = Some k)"
  unfolding heights_of_def map_filter_def by force

lemma certify_history_cases:
  assumes "certify_history r d = Inr (u, d')"
  obtains (other) "cv_status r \<noteq> Complete" "d' = d"
  | (complete) kind path where "cv_status r = Complete"
      "history_kind (sc_name (cv_scope r)) = Inr kind"
      "path = certify_path (db_events d) (db_certified d) r kind"
      "path_complete (db_certified d) r path"
      "\<forall>e \<in> set path. \<not> is_certified (db_certified d) (cv_scope r) (er_block_hash e) \<longrightarrow> certifiable e"
      "d' = d\<lparr> db_certified := insert_certified (map (certified_of (cv_scope r))
         (filter (\<lambda>e. \<not> is_certified (db_certified d) (cv_scope r) (er_block_hash e)) path))
         (db_certified d) \<rparr>"
proof (cases "cv_status r = Complete")
  case False
  with assms other show thesis by (simp add: certify_history_def res_simps)
next
  case True
  with assms obtain kind where "history_kind (sc_name (cv_scope r)) = Inr kind"
    "path_complete (db_certified d) r (certify_path (db_events d) (db_certified d) r kind)"
    "list_all certifiable (filter (\<lambda>e. \<not> is_certified (db_certified d) (cv_scope r) (er_block_hash e))
       (certify_path (db_events d) (db_certified d) r kind))"
    "d' = d\<lparr> db_certified := insert_certified (map (certified_of (cv_scope r))
         (filter (\<lambda>e. \<not> is_certified (db_certified d) (cv_scope r) (er_block_hash e))
           (certify_path (db_events d) (db_certified d) r kind))) (db_certified d) \<rparr>"
    by (auto simp: certify_history_def res_simps)
  with True show thesis by (intro complete [OF True, of kind]) (auto simp: list_all_iff)
qed

text \<open>The base of the path: with one fact per block, one row, at the target's height.\<close>

lemma certify_path_single:
  assumes uniq: "unique_blocks (set es) (fact_scope (cv_scope r) kind)" and dist: "distinct es"
    and path: "path = certify_path es cs r kind" and ok: "path_complete cs r path"
  obtains e where "e \<in> set es" "er_scope e = fact_scope (cv_scope r) kind"
    "er_block_hash e = Some (cv_target_hash r)" "er_height e = Some (cv_target_height r)"
    "path = path_from es cs (cv_scope r) (fact_scope (cv_scope r) kind) (cv_start r) e"
proof -
  let ?fs = "fact_scope (cv_scope r) kind"
  let ?base = "filter (\<lambda>e. er_scope e = ?fs \<and> er_block_hash e = Some (cv_target_hash r)) es"
  have path': "path = concat (map (path_from es cs (cv_scope r) ?fs (cv_start r)) ?base)"
    unfolding path certify_path_def by (simp add: Let_def)
  have "?base \<noteq> []"
  proof
    assume "?base = []"
    then have "path = []" unfolding path' by (simp only: list.map concat.simps)
    with ok show False by (simp add: path_complete_def)
  qed
  then obtain e rest where base: "?base = e # rest" by (cases ?base) auto
  have mem: "x \<in> set es" "er_scope x = ?fs" "er_block_hash x = Some (cv_target_hash r)"
    if "x \<in> set ?base" for x using that by auto
  have "x = e" if "x \<in> set rest" for x
    using uniq mem [of x] mem [of e] that base unfolding unique_blocks_def by simp
  moreover have "distinct (e # rest)" unfolding base [symmetric] using dist by (rule distinct_filter)
  ultimately have "rest = []" by (cases rest) auto
  with base path' have p: "path = path_from es cs (cv_scope r) ?fs (cv_start r) e" by simp
  have e: "e \<in> set es" "er_scope e = ?fs" "er_block_hash e = Some (cv_target_hash r)"
    using mem [of e] base by auto
  have "er_height e = Some (cv_target_height r)"
  proof (cases "er_height e")
    case None
    then have "path = [e]" unfolding p by (subst path_from.simps) simp
    with None ok show ?thesis by (simp add: path_complete_def heights_of_def map_filter_simps)
  next
    case (Some h)
    note shape = path_from_shape [OF uniq dist Some, of cs "cv_scope r" "cv_start r", unfolded Let_def]
    have "e \<in> set path"
      using path_from_Cons [of es cs "cv_scope r" ?fs "cv_start r" e] p by auto
    then have "h \<in> set (heights_of path)" using Some by (auto simp: heights_of_iff)
    moreover have "k \<le> h" if "k \<in> set (heights_of path)" for k
      using that shape p by (force simp: heights_of_iff)
    ultimately have "Max (set (heights_of path)) = h" by (intro Max_eqI) auto
    with ok Some show ?thesis by (simp add: path_complete_def)
  qed
  from that [OF e this p] show thesis .
qed

text \<open>Every row of a complete path is certified, at the start, or has its parent in the path.\<close>

lemma path_grounded:
  assumes uniq: "unique_blocks (set es) (fact_scope (cv_scope r) kind)" and dist: "distinct es"
    and path: "path = certify_path es cs r kind" and ok: "path_complete cs r path"
    and x: "x \<in> set path" "\<not> is_certified cs (cv_scope r) (er_block_hash x)"
  shows "er_height x = Some (cv_start r) \<or>
    (\<exists>y \<in> set path. y \<in> set (parents_of es (fact_scope (cv_scope r) kind) x))"
proof -
  let ?fs = "fact_scope (cv_scope r) kind"
  from certify_path_single [OF uniq dist path ok] obtain e where e: "e \<in> set es"
    "er_height e = Some (cv_target_height r)"
    "path = path_from es cs (cv_scope r) ?fs (cv_start r) e" by blast
  note shape = path_from_shape [OF uniq dist e(2), of cs "cv_scope r" "cv_start r",
      folded e(3), unfolded Let_def]
  show ?thesis
  proof (cases "x = last path")
    case False
    with shape x(1) show ?thesis by blast
  next
    case True
    have "\<not> is_certified cs (cv_scope r) (er_block_hash y)" if "y \<in> set path" for y
      using that shape x(2) True by (cases "y = last path") auto
    with ok have low: "Min (set (heights_of path)) = cv_start r" by (auto simp: path_complete_def)
    obtain k where k: "er_height x = Some k" using shape x(1) by blast
    have "Min (set (heights_of path)) = k"
    proof (rule Min_eqI)
      show "k \<in> set (heights_of path)" using x(1) k by (auto simp: heights_of_iff)
      show "k \<le> y" if "y \<in> set (heights_of path)" for y
        using that shape k True by (force simp: heights_of_iff)
    qed simp
    with low k show ?thesis by simp
  qed
qed

lemma facts_inv_distinct: "facts_inv d \<Longrightarrow> distinct (db_events d)"
  by (auto simp: facts_inv_def strict_sorted_iff distinct_map)

lemma certified_of_row:
  assumes "certifiable x"
  shows "er_block_hash x = Some (ce_hash (certified_of s x))"
    "er_previous x = Some (ce_previous (certified_of s x))"
    "er_height x = Some (ce_height (certified_of s x))" "0 \<le> ce_height (certified_of s x)"
    "ce_scope (certified_of s x) = s"
proof -
  from assms obtain h p n where "er_block_hash x = Some h" "er_previous x = Some p"
    "er_height x = Some n" "0 \<le> n" by (auto simp: certifiable_def)
  then show "er_block_hash x = Some (ce_hash (certified_of s x))"
    "er_previous x = Some (ce_previous (certified_of s x))"
    "er_height x = Some (ce_height (certified_of s x))" "0 \<le> ce_height (certified_of s x)"
    "ce_scope (certified_of s x) = s" by (simp_all add: certified_of_def)
qed

text \<open>A backed certified row of the parent's block is at the height the parent has.\<close>

lemma parent_certified:
  assumes uniq: "unique_blocks es (fact_scope s kind)" and kind: "history_kind (sc_name s) = Inr kind"
    and q: "backed es q" "ce_scope q = s" "Some (ce_hash q) = er_block_hash y"
    and y: "y \<in> es" "er_scope y = fact_scope s kind"
  shows "er_height y = Some (ce_height q)"
proof -
  from q(1,2) kind obtain b where b: "b \<in> es" "er_scope b = fact_scope s kind"
    "er_block_hash b = Some (ce_hash q)" "er_height b = Some (ce_height q)"
    by (auto simp: backed_def)
  have "er_block_hash y \<noteq> None" "er_block_hash b = er_block_hash y"
    using b(3) q(3) by (metis option.discI)+
  then have "b = y"
    using uniq [unfolded unique_blocks_def, rule_format, of y b] y b by blast
  with b show ?thesis by simp
qed

lemma certify_history_cert_ok:
  assumes run: "certify_history r d = Inr (u, d')"
    and ok: "cert_ok (set (db_events d)) revs (set (db_certified d))"
    and inv: "facts_inv d"
    and uniq: "\<And>kind. cv_status r = Complete \<Longrightarrow> history_kind (sc_name (cv_scope r)) = Inr kind \<Longrightarrow>
                 unique_blocks (set (db_events d)) (fact_scope (cv_scope r) kind)"
  shows "cert_ok (set (db_events d')) (insert r revs) (set (db_certified d'))"
  using run
proof (cases rule: certify_history_cases)
  case other
  with ok show ?thesis by (auto intro: cert_ok_mono)
next
  case (complete kind path)
  define es cs s where "es = db_events d" and "cs = db_certified d" and "s = cv_scope r"
  define fs where "fs = fact_scope s kind"
  define fresh where "fresh = filter (\<lambda>e. \<not> is_certified cs s (er_block_hash e)) path"
  define all' where "all' = insert_certified (map (certified_of s) fresh) cs"
  have d': "db_events d' = es" "db_certified d' = all'"
    using complete(6) by (simp_all add: es_def cs_def s_def fresh_def all'_def)
  have uniq: "unique_blocks (set es) fs"
    using uniq [OF complete(1,2)] by (simp add: es_def fs_def s_def)
  have dist: "distinct es" using facts_inv_distinct [OF inv] by (simp add: es_def)
  have kind: "history_kind (sc_name s) = Inr kind" using complete(2) by (simp add: s_def)
  have path: "path = certify_path es cs r kind" "path_complete cs r path"
    using complete(3,4) by (simp_all add: es_def cs_def)
  have ok: "cert_ok (set es) revs (set cs)" using ok by (simp add: es_def cs_def)
  note uniq' = uniq [unfolded fs_def s_def]
  from certify_path_single [OF uniq' dist path] obtain e where e: "e \<in> set es" "er_scope e = fs"
    "path = path_from es cs s fs (cv_start r) e" unfolding fs_def s_def by blast
  have in_path: "x \<in> set es \<and> er_scope x = fs" if "x \<in> set path" for x
    using path_from_events [of x es cs s fs "cv_start r" e] e(1,2) that unfolding e(3) by blast
  have fresh_path: "x \<in> set path \<and> \<not> is_certified cs s (er_block_hash x) \<and> certifiable x"
    if "x \<in> set fresh" for x
    using that complete(5) by (simp add: fresh_def cs_def s_def)
  note row = certified_of_row [OF fresh_path [THEN conjunct2, THEN conjunct2], where s = s]
  have sub: "set cs \<subseteq> set all'" unfolding all'_def by (rule set_mono_prefix [OF insert_certified_prefix])
  have members: "c \<in> set cs \<or> (\<exists>x \<in> set fresh. c = certified_of s x)" if "c \<in> set all'" for c
    using insert_certified_set [of "map (certified_of s) fresh" cs] that unfolding all'_def by auto
  have new_backed: "backed (set es) (certified_of s x)" if x: "x \<in> set fresh" for x
    unfolding backed_def
    by (intro exI [of _ kind] exI [of _ x])
      (use row [OF x] in_path [of x] fresh_path [OF x] kind in \<open>simp add: fs_def\<close>)
  have all_backed: "backed (set es) c" if "c \<in> set all'" for c
    using members [OF that] new_backed ok unfolding cert_ok_def by blast
  have new_grounded: "grounded (insert r revs) (set all') (certified_of s x)"
    if x: "x \<in> set fresh" for x
  proof -
    have "x \<in> set path" "\<not> is_certified cs (cv_scope r) (er_block_hash x)"
      using fresh_path [OF x] by (simp_all add: s_def)
    from path_grounded [OF uniq' dist path this] show ?thesis
    proof (elim disjE bexE)
      assume "er_height x = Some (cv_start r)"
      with row [OF x] complete(1) show ?thesis by (simp add: grounded_def s_def)
    next
      fix y assume y: "y \<in> set path"
        "y \<in> set (parents_of es (fact_scope (cv_scope r) kind) x)"
      then have link: "er_block_hash y = Some (ce_previous (certified_of s x))"
        "er_height y = Some (ce_height (certified_of s x) - 1)"
        using row [OF x] by (simp_all add: parents_of_def)
      have "\<exists>q \<in> set all'. ce_scope q = s \<and> Some (ce_hash q) = er_block_hash y"
      proof (cases "is_certified cs s (er_block_hash y)")
        case True
        then show ?thesis using sub unfolding is_certified_def by blast
      next
        case False
        with y(1) have fresh: "y \<in> set fresh" by (simp add: fresh_def)
        then have "certified_of s y \<in> set (map (certified_of s) fresh)" by simp
        from insert_certified_key [OF this, of cs] row [OF fresh] show ?thesis
          by (simp add: all'_def)
      qed
      then obtain q where q: "q \<in> set all'" "ce_scope q = s" "Some (ce_hash q) = er_block_hash y"
        by blast
      have "er_height y = Some (ce_height q)"
        by (rule parent_certified [OF uniq [unfolded fs_def] kind all_backed [OF q(1)] q(2,3)])
          (use in_path [OF y(1)] fs_def in auto)
      with link q(3) have "ce_hash q = ce_previous (certified_of s x)"
        "ce_height q = ce_height (certified_of s x) - 1" by simp_all
      with q(1,2) row(5) [OF x] show ?thesis unfolding grounded_def by metis
    qed
  qed
  have "backed (set es) c \<and> grounded (insert r revs) (set all') c \<and> 0 \<le> ce_height c"
    if "c \<in> set all'" for c
    using members [OF that]
  proof
    assume "c \<in> set cs"
    with ok have "grounded revs (set cs) c" "0 \<le> ce_height c" by (auto simp: cert_ok_def)
    with grounded_mono [OF _ subset_insertI sub] all_backed [OF that] show ?thesis by blast
  next
    assume "\<exists>x \<in> set fresh. c = certified_of s x"
    with new_grounded row(4) all_backed [OF that] show ?thesis by blast
  qed
  then show ?thesis unfolding d' cert_ok_def by blast
qed

end
