(* ===== verification/History_Laws.thy ===== *)
theory History_Laws
  imports Certification
begin

text \<open>
  What the operations on coverage rows do: each touches only the coverage table, its revision
  log and the certified blocks, keeps one row per scope satisfying the table's constraints, and
  never loses a certification; a historical page either commits and advances its cursor, or
  commits and suspends the scope on a retained conflict, or changes nothing.
\<close>

section \<open>Frames\<close>

definition coverage_frame :: "db \<Rightarrow> db \<Rightarrow> bool" where
  "coverage_frame d d' \<longleftrightarrow>
     d' = d\<lparr> db_coverage := db_coverage d', db_revisions := db_revisions d',
             db_certified := db_certified d' \<rparr> \<and>
     prefix (db_revisions d) (db_revisions d') \<and> prefix (db_certified d) (db_certified d')"

interpretation cov_frame: step_relation coverage_frame
proof
  fix a b c :: db
  show "coverage_frame a a" by (simp add: coverage_frame_def)
  show "coverage_frame a c" if "coverage_frame a b" "coverage_frame b c"
    using that by (cases a; cases b; cases c) (auto simp: coverage_frame_def intro: prefix_order.trans)
qed

lemma coverage_frameD:
  assumes "coverage_frame d d'"
  shows "db_clock d' = db_clock d" "db_schema d' = db_schema d" "db_manifests d' = db_manifests d"
    "db_runs d' = db_runs d" "db_events d' = db_events d" "db_next_event d' = db_next_event d"
    "db_observations d' = db_observations d" "db_conflicts d' = db_conflicts d"
    "db_groups d' = db_groups d" "db_tips d' = db_tips d" "db_instances d' = db_instances d"
    "db_current d' = db_current d" "db_status d' = db_status d" "db_workers d' = db_workers d"
    "db_failures d' = db_failures d" "db_fee_jobs d' = db_fee_jobs d"
  using assms by (cases d; cases d'; simp add: coverage_frame_def)+

lemma coverage_frame_grows: "coverage_frame d d' \<Longrightarrow> append_only d d'"
  by (auto simp: append_only_def coverage_frameD dest: coverage_frameD)
    (simp_all add: coverage_frame_def)

lemma certify_history_frame: "rel_tx coverage_frame (certify_history r)"
proof (rule rel_txI)
  fix d u d' assume "certify_history r d = Inr (u, d')"
  then show "coverage_frame d d'"
  proof (cases rule: certify_history_cases)
    case other
    then show ?thesis by (simp add: cov_frame.step_refl)
  next
    case complete
    then show ?thesis
      by (cases d) (auto simp: coverage_frame_def intro: insert_certified_prefix)
  qed
qed

lemma certify_history_coverage: "certify_history r d = Inr (u, d') \<Longrightarrow>
    db_coverage d' = db_coverage d \<and> db_revisions d' = db_revisions d"
  by (erule certify_history_cases) auto

lemma certify_all_coverage:
  "fold_tx (\<lambda>r _. certify_history r) rs a d = Inr (u, d') \<Longrightarrow>
     coverage_frame d d' \<and> db_coverage d' = db_coverage d \<and> db_revisions d' = db_revisions d"
proof (induction rs arbitrary: a d)
  case Nil
  then show ?case by (simp add: cov_frame.step_refl)
next
  case (Cons r rs)
  from Cons.prems obtain b d1 where one: "certify_history r d = Inr (b, d1)"
    and rest: "fold_tx (\<lambda>r _. certify_history r) rs b d1 = Inr (u, d')"
    by (auto simp: res_simps)
  from Cons.IH [OF rest] certify_history_coverage [OF one] rel_txD [OF certify_history_frame one]
  show ?case by (auto intro: cov_frame.step_trans)
qed

lemma update_coverageE:
  assumes "update_coverage p f d = Inr (n, d')"
  obtains "n = count_where p (db_coverage d)"
    "db_coverage d' = update_where p f (db_coverage d)"
    "db_revisions d' = db_revisions d @ map (Pair ''UPDATE'') (map f (filter p (db_coverage d)))"
    "\<forall>r \<in> set (db_coverage d). p r \<longrightarrow> coverage_checks (f r)"
    "coverage_frame d d'"
proof -
  from assms obtain d1 where
    cert: "fold_tx (\<lambda>r _. certify_history r) (map f (filter p (db_coverage d))) () d = Inr ((), d1)"
    and ok: "list_all coverage_checks (map f (filter p (db_coverage d)))"
    and d': "d' = d1\<lparr> db_coverage := update_where p f (db_coverage d1),
       db_revisions := db_revisions d1 @ map (Pair ''UPDATE'') (map f (filter p (db_coverage d))) \<rparr>"
    and n: "n = length (map f (filter p (db_coverage d)))"
    by (auto simp: update_coverage_def res_simps)
  note c = certify_all_coverage [OF cert]
  have "coverage_frame d1 d'"
    by (cases d1) (simp add: d' coverage_frame_def)
  with c have "coverage_frame d d'" by (blast intro: cov_frame.step_trans)
  with c d' n ok show thesis
    by (intro that) (auto simp: count_where_def list_all_iff)
qed

lemma update_coverage_frame: "rel_tx coverage_frame (update_coverage p f)"
  by (rule rel_txI) (auto elim: update_coverageE)

lemma insert_coverageE:
  assumes "insert_coverage r d = Inr (u, d')" and "cv_status r \<noteq> Complete"
  obtains "db_coverage d' = db_coverage d @ [r]" "coverage_checks r"
    "db_revisions d' = db_revisions d @ [(''INSERT'', r)]" "db_certified d' = db_certified d"
    "coverage_frame d d'"
  using assms
  by (cases d) (auto simp: insert_coverage_def certify_history_def res_simps coverage_frame_def)

section \<open>One row per scope\<close>

definition coverage_inv :: "db \<Rightarrow> bool" where
  "coverage_inv d \<longleftrightarrow>
     distinct (map cv_scope (db_coverage d)) \<and> (\<forall>r \<in> set (db_coverage d). coverage_checks r)"

lemma update_coverage_inv:
  assumes scope: "\<And>r. p r \<Longrightarrow> cv_scope (f r) = cv_scope r"
  shows "keeps coverage_inv (update_coverage p f)"
proof (rule keepsI)
  fix d n d' assume inv: "coverage_inv d" and run: "update_coverage p f d = Inr (n, d')"
  have "map cv_scope (update_where p f rows) = map cv_scope rows" for rows
    by (induction rows) (auto simp: scope)
  with inv run show "coverage_inv d'"
    by (elim update_coverageE) (auto simp: coverage_inv_def set_update_where)
qed

lemma coverage_scope_unique:
  "coverage_inv d \<Longrightarrow> r \<in> set (db_coverage d) \<Longrightarrow> r' \<in> set (db_coverage d) \<Longrightarrow>
     cv_scope r = cv_scope r' \<Longrightarrow> r = r'"
  by (auto simp: coverage_inv_def distinct_map inj_on_def)

lemma count_scope_le_1:
  assumes "coverage_inv d" and "\<And>r. p r \<Longrightarrow> cv_scope r = s"
  shows "count_where p (db_coverage d) \<le> 1"
proof -
  have "count_where p (db_coverage d) \<le> count_where (\<lambda>r. cv_scope r = s) (db_coverage d)"
    using assms(2) by (intro count_where_mono)
  also have "\<dots> \<le> 1" using assms(1) by (intro count_where_key) (simp add: coverage_inv_def)
  finally show ?thesis .
qed

section \<open>Certification is kept\<close>

lemma certify_all_cert_ok:
  assumes "fold_tx (\<lambda>r _. certify_history r) rs a d = Inr (u, d')"
    and "cert_ok (set (db_events d)) revs (set (db_certified d))"
    and "facts_inv d"
    and "\<And>r kind. r \<in> set rs \<Longrightarrow> cv_status r = Complete \<Longrightarrow>
           history_kind (sc_name (cv_scope r)) = Inr kind \<Longrightarrow>
           unique_blocks (set (db_events d)) (fact_scope (cv_scope r) kind)"
  shows "cert_ok (set (db_events d')) (set rs \<union> revs) (set (db_certified d'))"
  using assms
proof (induction rs arbitrary: a d revs)
  case Nil
  then show ?case by simp
next
  case (Cons r rs)
  from Cons.prems(1) obtain b d1 where one: "certify_history r d = Inr (b, d1)"
    and rest: "fold_tx (\<lambda>r _. certify_history r) rs b d1 = Inr (u, d')"
    by (auto simp: res_simps)
  note frame = coverage_frameD [OF rel_txD [OF certify_history_frame one]]
  have "cert_ok (set (db_events d1)) (insert r revs) (set (db_certified d1))"
    using Cons.prems by (intro certify_history_cert_ok [OF one]) auto
  moreover have "facts_inv d1" using Cons.prems(3) by (simp add: facts_inv_def frame)
  ultimately have "cert_ok (set (db_events d')) (set rs \<union> insert r revs) (set (db_certified d'))"
    using Cons.prems(4) by (intro Cons.IH [OF rest]) (auto simp: frame)
  then show ?case by simp
qed

lemma update_coverage_cert_inv:
  assumes run: "update_coverage p f d = Inr (n, d')" and inv: "cert_inv d" "facts_inv d"
    and uniq: "\<And>r kind. r \<in> set (db_coverage d) \<Longrightarrow> p r \<Longrightarrow> cv_status (f r) = Complete \<Longrightarrow>
           history_kind (sc_name (cv_scope (f r))) = Inr kind \<Longrightarrow>
           unique_blocks (set (db_events d)) (fact_scope (cv_scope (f r)) kind)"
  shows "cert_inv d'"
proof -
  let ?new = "map f (filter p (db_coverage d))"
  from run obtain d1 where
    cert: "fold_tx (\<lambda>r _. certify_history r) ?new () d = Inr ((), d1)"
    and d': "d' = d1\<lparr> db_coverage := update_where p f (db_coverage d1),
       db_revisions := db_revisions d1 @ map (Pair ''UPDATE'') ?new \<rparr>"
    by (auto simp: update_coverage_def res_simps)
  have "cert_ok (set (db_events d1)) (set ?new \<union> snd ` set (db_revisions d)) (set (db_certified d1))"
    using inv uniq by (intro certify_all_cert_ok [OF cert]) (auto simp: cert_inv_def)
  moreover have "snd ` set (db_revisions d') = snd ` set (db_revisions d) \<union> set ?new"
    using certify_all_coverage [OF cert] by (simp add: d' image_Un image_image)
  ultimately show ?thesis by (simp add: cert_inv_def d' Un_commute)
qed

text \<open>An update that completes no row needs nothing about the facts.\<close>

lemma certify_none:
  "(\<And>r. r \<in> set rs \<Longrightarrow> cv_status r \<noteq> Complete) \<Longrightarrow> fold_tx (\<lambda>r _. certify_history r) rs a d = Inr (u, d') \<Longrightarrow> d' = d"
  by (induction rs arbitrary: a d) (auto simp: res_simps certify_history_def)

lemma update_coverage_not_complete:
  assumes run: "update_coverage p f d = Inr (n, d')"
    and nc: "\<And>r. r \<in> set (db_coverage d) \<Longrightarrow> p r \<Longrightarrow> cv_status (f r) \<noteq> Complete"
  shows "db_certified d' = db_certified d"
proof -
  from run obtain d1 where
    cert: "fold_tx (\<lambda>r _. certify_history r) (map f (filter p (db_coverage d))) () d = Inr ((), d1)"
    and "db_certified d' = db_certified d1"
    by (auto simp: update_coverage_def res_simps)
  moreover have "d1 = d" by (rule certify_none [OF _ cert]) (use nc in auto)
  ultimately show ?thesis by simp
qed

lemma cert_inv_frame:
  assumes "cert_inv d" "coverage_frame d d'" "db_certified d' = db_certified d"
  shows "cert_inv d'"
proof (rule cert_inv_mono [OF assms(1,3)])
  show "prefix (db_events d) (db_events d')" using coverage_frameD(5) [OF assms(2)] by simp
  show "prefix (db_revisions d) (db_revisions d')" using assms(2) unfolding coverage_frame_def by blast
qed

lemma update_coverage_keeps_cert:
  assumes "\<And>r. p r \<Longrightarrow> cv_status (f r) \<noteq> Complete"
  shows "keeps cert_inv (update_coverage p f)"
proof (rule keepsI)
  fix d n d' assume inv: "cert_inv d" and run: "update_coverage p f d = Inr (n, d')"
  have "db_certified d' = db_certified d"
    by (rule update_coverage_not_complete [OF run]) (rule assms)
  then show "cert_inv d'" by (rule cert_inv_frame [OF inv rel_txD [OF update_coverage_frame run]])
qed

end
