(* ===== verification/Page_Laws.thy ===== *)
theory Page_Laws
  imports History_Laws
begin

text \<open>
  The historical page, step by step: what a committed page did, that it keeps every invariant of
  the record, and the three outcomes (advanced, completed and certified, suspended on a
  conflict).
\<close>

section \<open>The invariants of the record, together\<close>

definition record_inv :: "db \<Rightarrow> bool" where
  "record_inv d \<longleftrightarrow> facts_inv d \<and> conflicts_exact d \<and> seqs_inv d \<and> coverage_inv d \<and> cert_inv d"

lemma record_inv_empty: "record_inv empty_db"
  by (simp add: record_inv_def facts_inv_def conflicts_exact_def seqs_inv_def coverage_inv_def
      cert_inv_def cert_ok_def used_seqs_def empty_db_def)

lemma coverage_inv_frame: "db_coverage d' = db_coverage d \<Longrightarrow> coverage_inv d' \<longleftrightarrow> coverage_inv d"
  by (simp add: coverage_inv_def)

lemma facts_frame:
  assumes "db_events d' = db_events d" "db_next_event d' = db_next_event d"
    "db_conflicts d' = db_conflicts d"
  shows "facts_inv d' \<longleftrightarrow> facts_inv d" "conflicts_exact d' \<longleftrightarrow> conflicts_exact d"
  using assms by (simp_all add: facts_inv_def conflicts_exact_def)

lemma insert_all_invs:
  assumes run: "insert_all L st method grp es ei first events d = Inr (n, d')"
    and inv: "facts_inv d" "conflicts_exact d" "coverage_inv d" "cert_inv d"
  shows "facts_inv d' \<and> conflicts_exact d' \<and> coverage_inv d' \<and> cert_inv d'"
proof -
  note frame = record_frameD [OF rel_txD [OF insert_all_frame run]]
  have "facts_inv d' \<and> conflicts_exact d'"
    using keepsD [OF insert_all_keeps run, of "\<lambda>d. facts_inv d \<and> conflicts_exact d"]
      insert_event_conflicts_exact inv by blast
  moreover have "coverage_inv d'" using inv(3) frame(10) by (simp add: coverage_inv_def)
  moreover have "prefix (db_events d) (db_events d')" using insert_all_observes [OF run] by blast
  then have "cert_inv d'" by (intro cert_inv_mono [OF inv(4)]) (simp_all add: frame)
  ultimately show ?thesis by blast
qed

lemma reserve_frame:
  assumes "reserve_capture_sequences run n d = Inr (first, d')"
  shows "facts_inv d' = facts_inv d" "conflicts_exact d' = conflicts_exact d"
    "coverage_inv d' = coverage_inv d" "cert_inv d' = cert_inv d"
    "db_events d' = db_events d" "db_observations d' = db_observations d"
    "db_coverage d' = db_coverage d" "db_conflicts d' = db_conflicts d"
    "db_clock d' = db_clock d" "db_certified d' = db_certified d" "db_revisions d' = db_revisions d"
proof -
  from assms obtain runs where "d' = d\<lparr> db_runs := runs \<rparr>" by (rule reserve_Inr) (rule that)
  then show "facts_inv d' = facts_inv d" "conflicts_exact d' = conflicts_exact d"
    "coverage_inv d' = coverage_inv d" "cert_inv d' = cert_inv d"
    "db_events d' = db_events d" "db_observations d' = db_observations d"
    "db_coverage d' = db_coverage d" "db_conflicts d' = db_conflicts d"
    "db_clock d' = db_clock d" "db_certified d' = db_certified d" "db_revisions d' = db_revisions d"
    by (simp_all add: facts_inv_def conflicts_exact_def coverage_inv_def cert_inv_def)
qed

section \<open>A committed page\<close>

lemma validate_page_instance_Inr:
  "validate_page_instance st page d = Inr (u, d1) \<Longrightarrow> d1 = d"
  by (auto simp: validate_page_instance_def validate_sidechain_instance_def res_simps
      split: option.splits)

lemma record_history_page_txE:
  assumes "record_history_page_tx L st events page d = Inr ((n, conflict), d')"
  obtains expected next_hash next_height first d1 d2 kind where
    "events \<noteq> []" "bind_res (required_height (hp_expected_next page)) height_to_i32 = Inr expected"
    "optional_block_parts (hp_next page) = Inr (next_hash, next_height)"
    "reserve_capture_sequences (st_run st) (length events) d = Inr (first, d1)"
    "insert_all L st Backfill None (map_option i16_of_u8 (hp_sidechain page)) (hp_instance page)
       first events d1 = Inr (n, d2)"
    "history_kind (hp_stream page) = Inr kind"
    "conflict \<longleftrightarrow> page_conflict (fact_scope (page_scope st page) kind) events page d2"
    "update_coverage
       (page_predicate (page_scope st page) (ob_hash (hp_expected_next page)) expected)
       (advance_row conflict (hp_next page = None \<and> \<not> conflict)
          (if conflict then Some (ob_hash (hp_expected_next page)) else next_hash)
          (if conflict then Some expected else next_height) (int n) (db_clock d2)) d2
       = Inr (1, d')"
proof -
  obtain expected parts u da first d1 d2 kind where
    h: "events \<noteq> []" "bind_res (required_height (hp_expected_next page)) height_to_i32 = Inr expected"
    "optional_block_parts (hp_next page) = Inr parts"
    "validate_page_instance st page d = Inr (u, da)"
    "reserve_capture_sequences (st_run st) (length events) da = Inr (first, d1)"
    "insert_all L st Backfill None (map_option i16_of_u8 (hp_sidechain page)) (hp_instance page)
       first events d1 = Inr (n, d2)"
    "history_kind (hp_stream page) = Inr kind"
    "conflict = page_conflict (fact_scope (page_scope st page) kind) events page d2"
    "update_coverage
       (page_predicate (page_scope st page) (ob_hash (hp_expected_next page)) expected)
       (advance_row (page_conflict (fact_scope (page_scope st page) kind) events page d2)
          (hp_next page = None \<and> \<not> page_conflict (fact_scope (page_scope st page) kind) events page d2)
          (if page_conflict (fact_scope (page_scope st page) kind) events page d2
           then Some (ob_hash (hp_expected_next page)) else fst parts)
          (if page_conflict (fact_scope (page_scope st page) kind) events page d2
           then Some expected else snd parts) (int n) (db_clock d2)) d2
       = Inr (1, d')"
  proof -
    from assms show thesis
      unfolding record_history_page_tx_def Let_def case_prod_beta
      apply (simp only: bind_tx_Inr lift_tx_Inr get_tx_Inr ret_tx_Inr ensure_Inr_iff
          split_paired_Ex prod.inject fst_conv snd_conv ex_simps simp_thms)
      apply clarify
      apply (rule that)
              apply (assumption | rule refl | simp only: fst_conv snd_conv)+
      done
  qed
  have "da = d" by (rule validate_page_instance_Inr [OF h(4)])
  with h show thesis by (intro that [of expected "fst parts" "snd parts" first d1 d2 kind]) simp_all
qed

lemma advance_row_scope [simp]: "cv_scope (advance_row c k nh nt i now r) = cv_scope r"
  by (simp add: advance_row_def)

lemma history_kind_block: "history_kind stream = Inr kind \<Longrightarrow> kind \<in> block_kinds"
  by (auto simp: history_kind_def block_kinds_def res_simps split: if_splits)

lemma fact_scope_name [simp]: "sc_name (fact_scope s k) = k"
  by (simp add: fact_scope_def)

lemma page_scope_name [simp]: "sc_name (page_scope st page) = hp_stream page"
  by (simp add: page_scope_def history_scope_def)

lemma record_history_page_keeps: "keeps record_inv (record_history_page_tx L st events page)"
proof (rule keepsI)
  fix d x d' assume inv: "record_inv d"
    and run: "record_history_page_tx L st events page d = Inr (x, d')"
  obtain n conflict where x: "x = (n, conflict)" by (cases x)
  from run [unfolded x] show "record_inv d'"
  proof (rule record_history_page_txE)
    fix expected next_hash next_height first d1 d2 kind
    assume res: "reserve_capture_sequences (st_run st) (length events) d = Inr (first, d1)"
      and ins: "insert_all L st Backfill None (map_option i16_of_u8 (hp_sidechain page))
        (hp_instance page) first events d1 = Inr (n, d2)"
      and kind: "history_kind (hp_stream page) = Inr kind"
      and conf: "conflict \<longleftrightarrow> page_conflict (fact_scope (page_scope st page) kind) events page d2"
      and upd: "update_coverage
         (page_predicate (page_scope st page) (ob_hash (hp_expected_next page)) expected)
         (advance_row conflict (hp_next page = None \<and> \<not> conflict)
            (if conflict then Some (ob_hash (hp_expected_next page)) else next_hash)
            (if conflict then Some expected else next_height) (int n) (db_clock d2)) d2
         = Inr (1, d')" (is "update_coverage ?p ?f d2 = _")
    have seq: "seqs_inv d2"
      using seqs_inv_reserve_insert [OF _ res ins] inv by (simp add: record_inv_def)
    have i2: "facts_inv d2 \<and> conflicts_exact d2 \<and> coverage_inv d2 \<and> cert_inv d2"
      using inv reserve_frame [OF res] by (intro insert_all_invs [OF ins]) (simp_all add: record_inv_def)
    note frame = coverage_frameD [OF rel_txD [OF update_coverage_frame upd]]
    have "cert_inv d'"
    proof (rule update_coverage_cert_inv [OF upd])
      show "cert_inv d2" "facts_inv d2" using i2 by blast+
      fix r k assume r: "?p r" "cv_status (?f r) = Complete"
        "history_kind (sc_name (cv_scope (?f r))) = Inr k"
      then have "hp_next page = None" "\<not> conflict" by (auto simp: advance_row_def split: if_splits)
      with conf have none: "\<not> conflict_in (fact_scope (page_scope st page) kind) (\<lambda>_. True) d2"
        by (simp add: page_conflict_def)
      have "cv_scope r = page_scope st page" using r(1) by (simp add: page_predicate_def)
      with r(3) kind have "k = kind" by simp
      with none i2 kind \<open>cv_scope r = page_scope st page\<close>
      show "unique_blocks (set (db_events d2)) (fact_scope (cv_scope (?f r)) k)"
        by (simp add: no_conflict_unique_blocks history_kind_block)
    qed
    moreover have "coverage_inv d'"
      using keepsD [OF update_coverage_inv upd] i2 by simp
    moreover have "facts_inv d'" "conflicts_exact d'"
      using i2 frame by (simp_all add: facts_inv_def conflicts_exact_def)
    moreover have "seqs_inv d'" using seq frame by (simp add: seqs_inv_def used_seqs_def)
    ultimately show "record_inv d'" by (simp add: record_inv_def)
  qed
qed

text \<open>The row a page advances, before and after.\<close>

lemma record_history_page_row:
  assumes run: "record_history_page_tx L st events page d = Inr ((n, conflict), d')"
    and inv: "coverage_inv d"
  obtains r expected next_hash next_height where
    "r \<in> set (db_coverage d)" "cv_scope r = page_scope st page" "cv_status r = Running"
    "cv_next_hash r = Some (ob_hash (hp_expected_next page))" "cv_next_height r = Some expected"
    "ob_height (hp_expected_next page) \<noteq> None"
    "optional_block_parts (hp_next page) = Inr (next_hash, next_height)"
    "advance_row conflict (hp_next page = None \<and> \<not> conflict)
       (if conflict then cv_next_hash r else next_hash)
       (if conflict then cv_next_height r else next_height) (int n) (db_clock d) r
       \<in> set (db_coverage d')"
  using run
proof (rule record_history_page_txE)
  fix expected next_hash next_height first d1 d2 kind
  assume h: "bind_res (required_height (hp_expected_next page)) height_to_i32 = Inr expected"
    and parts: "optional_block_parts (hp_next page) = Inr (next_hash, next_height)"
    and res: "reserve_capture_sequences (st_run st) (length events) d = Inr (first, d1)"
    and ins: "insert_all L st Backfill None (map_option i16_of_u8 (hp_sidechain page))
        (hp_instance page) first events d1 = Inr (n, d2)"
    and upd: "update_coverage
         (page_predicate (page_scope st page) (ob_hash (hp_expected_next page)) expected)
         (advance_row conflict (hp_next page = None \<and> \<not> conflict)
            (if conflict then Some (ob_hash (hp_expected_next page)) else next_hash)
            (if conflict then Some expected else next_height) (int n) (db_clock d2)) d2
         = Inr (1, d')" (is "update_coverage ?p ?f d2 = _")
  have cov: "db_coverage d2 = db_coverage d" "db_clock d2 = db_clock d"
    using record_frameD(1,10) [OF rel_txD [OF insert_all_frame ins]] reserve_frame(7,9) [OF res]
    by simp_all
  from upd obtain "count_where ?p (db_coverage d2) = 1"
    and new: "db_coverage d' = update_where ?p ?f (db_coverage d2)"
    by (metis update_coverageE)
  then obtain r where r: "r \<in> set (db_coverage d2)" "?p r"
    using count_where_pos [of ?p "db_coverage d2"] by auto
  then have "?f r \<in> set (db_coverage d')" unfolding new set_update_where by blast
  with r h parts cov show thesis
    by (intro that [of r expected next_hash next_height])
      (auto simp: page_predicate_def res_simps required_height_def)
qed

lemma record_history_page_cases:
  "record_history_page L st events page d =
     (case record_history_page_tx L st events page d of
        Inl e \<Rightarrow> (Inl e, d)
      | Inr ((n, conflict), d') \<Rightarrow> (if conflict then Inl HistoryConflict else Inr n, d'))"
  by (auto simp: record_history_page_def run_tx_def split: sum.splits prod.splits)

lemma record_history_page_observes:
  assumes "record_history_page_tx L st events page d = Inr ((n, conflict), d')"
  shows "length (db_observations d') = length (db_observations d) + length events \<and>
    prefix (db_events d) (db_events d') \<and> length (db_events d') = length (db_events d) + n"
  using assms
proof (rule record_history_page_txE)
  fix expected next_hash next_height first d1 d2 kind p f
  assume res: "reserve_capture_sequences (st_run st) (length events) d = Inr (first, d1)"
    and ins: "insert_all L st Backfill None (map_option i16_of_u8 (hp_sidechain page))
        (hp_instance page) first events d1 = Inr (n, d2)"
    and upd: "update_coverage
         (page_predicate (page_scope st page) (ob_hash (hp_expected_next page)) expected)
         (advance_row conflict (hp_next page = None \<and> \<not> conflict)
            (if conflict then Some (ob_hash (hp_expected_next page)) else next_hash)
            (if conflict then Some expected else next_height) (int n) (db_clock d2)) d2
         = Inr (1, d')"
  from insert_all_observes [OF ins] reserve_frame(5,6) [OF res]
    coverage_frameD(5,7) [OF rel_txD [OF update_coverage_frame upd]]
  show ?thesis by auto
qed

end
