(* ===== verification/Identity.thy ===== *)
theory Identity
  imports Page_Laws
begin

text \<open>
  Connecting an extractor to the record, from \<^verbatim>\<open>src/shared/src/store.rs\<close>: the
  compatibility check made before any migration, the migrations (each applied once, committed
  with its version), and the transaction that resolves the dataset, closes an orphaned run,
  starts the new one and claims the status row. Identifiers the server generates are arguments.
\<close>

section \<open>Manifest\<close>

record manifest =
  dm_network :: string
  dm_activation_height :: u32
  dm_activation_hash :: string
  dm_node_commit :: string
  dm_enforcer_commit :: string
  dm_monitor_commit :: string
  dm_version :: u32
  dm_capabilities :: json
  dm_reason :: string

definition default_manifest :: manifest where
  "default_manifest =
     \<lparr> dm_network = ''development'', dm_activation_height = 0, dm_activation_hash = ''unknown'',
       dm_node_commit = ''unknown'', dm_enforcer_commit = ''unknown'',
       dm_monitor_commit = ''unknown'', dm_version = EVENT_CONTRACT_VERSION,
       dm_capabilities = JArr (map JStr
         [''event_facts'', ''event_observations'', ''tip_observations'', ''snapshot_consistency'',
          ''extractor_status'', ''per_worker_health'']),
       dm_reason = ''development or test dataset'' \<rparr>"

definition version_to_i32 :: "u32 \<Rightarrow> int res" where
  "version_to_i32 v = try_from ''event contract version does not fit in an i32'' (i32_of_u32 v)"

definition same_dataset :: "manifest \<Rightarrow> int \<Rightarrow> manifest_row \<Rightarrow> bool" where
  "same_dataset m height r \<longleftrightarrow>
     mf_network r = dm_network m \<and> mf_activation_height r = height \<and>
     mf_activation_hash r = dm_activation_hash m"

text \<open>The check made on an existing record before its migrations: nothing is written.\<close>

definition check_compatible :: "manifest \<Rightarrow> db \<Rightarrow> unit res" where
  "check_compatible m d =
     (if 8 \<le> dm_version m
      then bind_res (version_to_i32 (dm_version m)) (\<lambda>version.
           if 4 \<notin> set (db_schema d) then Inr ()
           else bind_res (height_to_i32 (dm_activation_height m)) (\<lambda>height.
             ensure (\<not> (\<exists>r \<in> set (db_manifests d). same_dataset m height r \<and> mf_version r \<noteq> version))
               ''event contract requires a fresh dataset; no migrations were applied''))
      else Inr ())"

section \<open>Migrations\<close>

definition MIGRATION_COUNT :: nat where
  "MIGRATION_COUNT = 10"

text \<open>
  One version: skipped when its row is there, otherwise its statements and its row commit
  together. The statements are the argument.
\<close>

definition apply_migration :: "(nat \<Rightarrow> unit tx) \<Rightarrow> nat \<Rightarrow> db \<Rightarrow> unit res \<times> db" where
  "apply_migration statements version d =
     (if version \<in> set (db_schema d) then (Inr (), d)
      else run_tx (bind_tx (statements version) (\<lambda>_.
             modify_tx (\<lambda>d. d\<lparr> db_schema := (if version \<in> set (db_schema d) then db_schema d
                                                else db_schema d @ [version]) \<rparr>))) d)"

fun apply_migrations :: "(nat \<Rightarrow> unit tx) \<Rightarrow> nat list \<Rightarrow> db \<Rightarrow> unit res \<times> db" where
  "apply_migrations statements [] d = (Inr (), d)"
| "apply_migrations statements (version # versions) d =
     (case apply_migration statements version d of
        (Inl e, d') \<Rightarrow> (Inl e, d')
      | (Inr _, d') \<Rightarrow> apply_migrations statements versions d')"

definition migrate :: "(nat \<Rightarrow> unit tx) \<Rightarrow> db \<Rightarrow> unit res \<times> db" where
  "migrate statements d = apply_migrations statements [1..<MIGRATION_COUNT + 1] d"

section \<open>Identity and run\<close>

definition manifest_row_of :: "string \<Rightarrow> manifest \<Rightarrow> int \<Rightarrow> int \<Rightarrow> manifest_row" where
  "manifest_row_of ds m height version =
     \<lparr> mf_dataset = ds, mf_network = dm_network m, mf_activation_height = height,
       mf_activation_hash = dm_activation_hash m, mf_node_commit = dm_node_commit m,
       mf_enforcer_commit = dm_enforcer_commit m, mf_monitor_commit = dm_monitor_commit m,
       mf_version = version, mf_capabilities = dm_capabilities m, mf_reason = dm_reason m \<rparr>"

definition manifest_checks :: "manifest_row \<Rightarrow> bool" where
  "manifest_checks r \<longleftrightarrow>
     mf_network r \<noteq> [] \<and> 0 \<le> mf_activation_height r \<and> 0 < mf_version r \<and> mf_reason r \<noteq> []"

definition resolve_dataset :: "string \<Rightarrow> manifest \<Rightarrow> int \<Rightarrow> int \<Rightarrow> manifest_row tx" where
  "resolve_dataset fresh m height version =
     bind_tx (ensure_tx (\<lambda>_. manifest_checks (manifest_row_of fresh m height version))
                ''resolving the record dataset identity'') (\<lambda>_.
     bind_tx (get_tx (\<lambda>d. find (same_dataset m height) (db_manifests d))) (\<lambda>found.
     case found of
       Some r \<Rightarrow> ret_tx r
     | None \<Rightarrow>
         bind_tx (ensure_tx (\<lambda>d. \<not> (\<exists>r \<in> set (db_manifests d). mf_dataset r = fresh))
                    ''resolving the record dataset identity'') (\<lambda>_.
         bind_tx (modify_tx (\<lambda>d. d\<lparr> db_manifests := db_manifests d @
                                        [manifest_row_of fresh m height version] \<rparr>)) (\<lambda>_.
         ret_tx (manifest_row_of fresh m height version)))))"

definition orphaned :: "string \<Rightarrow> string \<Rightarrow> run_row \<Rightarrow> bool" where
  "orphaned ds source r \<longleftrightarrow> rn_dataset r = ds \<and> rn_source r = source \<and> rn_status r = ''running''"

definition close_run :: "string \<Rightarrow> int \<Rightarrow> string option \<Rightarrow> run_row \<Rightarrow> run_row" where
  "close_run status now reason r =
     r\<lparr> rn_status := status, rn_finished_at := Some now, rn_finish_reason := reason \<rparr>"

definition ORPHAN_REASON :: string where
  "ORPHAN_REASON = ''superseded by extractor startup after unclean termination''"

definition close_orphans :: "string \<Rightarrow> string \<Rightarrow> unit tx" where
  "close_orphans ds source =
     modify_tx (\<lambda>d. d\<lparr> db_runs := update_where (orphaned ds source)
       (close_run ''failed'' (db_clock d)
          (Some ORPHAN_REASON)) (db_runs d) \<rparr>)"

definition insert_run :: "run_row \<Rightarrow> unit tx" where
  "insert_run r =
     bind_tx (ensure_tx (\<lambda>d. rn_source r \<noteq> [] \<and> 0 < rn_version r \<and>
                \<not> (\<exists>q \<in> set (db_runs d). rn_id q = rn_id r) \<and>
                \<not> (\<exists>q \<in> set (db_runs d). orphaned (rn_dataset r) (rn_source r) q))
                ''starting an extractor run'') (\<lambda>_.
     modify_tx (\<lambda>d. d\<lparr> db_runs := db_runs d @ [r] \<rparr>))"

text \<open>The newest other run of the source, by start and then identifier.\<close>

fun newest_run :: "run_row list \<Rightarrow> run_row option" where
  "newest_run [] = None"
| "newest_run (r # rs) =
     (case newest_run rs of
        None \<Rightarrow> Some r
      | Some q \<Rightarrow>
          Some (if rn_started_at q < rn_started_at r \<or>
                   rn_started_at q = rn_started_at r \<and> rn_id q < rn_id r then r else q))"

definition restart_gap :: "string \<Rightarrow> string \<Rightarrow> string \<Rightarrow> unit tx" where
  "restart_gap ds source run =
     modify_tx (\<lambda>d.
       case newest_run (filter (\<lambda>r. rn_dataset r = ds \<and> rn_source r = source \<and> rn_id r \<noteq> run)
                          (db_runs d)) of
         None \<Rightarrow> d
       | Some r \<Rightarrow> d\<lparr> db_failures := db_failures d @
           [\<lparr> fl_dataset = ds, fl_run = run, fl_worker = ''mainchain_events'',
              fl_error = ''subscription restarted after run '' @ rn_id r @
                ''; offline transitions are unknown (no replay continuity) until the next mainchain_transition subscription boundary'' \<rparr>] \<rparr>)"

definition status_key :: "string \<Rightarrow> string \<Rightarrow> status_row \<Rightarrow> bool" where
  "status_key ds source r \<longleftrightarrow> ss_dataset r = ds \<and> ss_source r = source"

definition read_previous_tip :: "string \<Rightarrow> string \<Rightarrow> db \<Rightarrow> observed_block option res" where
  "read_previous_tip ds source d =
     (case find (\<lambda>r. status_key ds source r \<and> ss_tip_hash r \<noteq> None \<and> ss_tip_height r \<noteq> None)
             (db_status d) of
        None \<Rightarrow> Inr None
      | Some r \<Rightarrow> map_ok (\<lambda>h. Some (at_height (the (ss_tip_hash r)) h))
                   (try_from ''negative previous tip height''
                      (u32_of_int (the (ss_tip_height r)))))"

definition claim_status :: "string \<Rightarrow> string \<Rightarrow> string \<Rightarrow> db \<Rightarrow> db" where
  "claim_status ds source run d =
     d\<lparr> db_status :=
       (if \<exists>r \<in> set (db_status d). status_key ds source r
        then update_where (status_key ds source) (\<lambda>r. r\<lparr> ss_run := run, ss_error := None \<rparr>)
               (db_status d)
        else db_status d @ [\<lparr> ss_dataset = ds, ss_source = source, ss_run = run,
               ss_tip_hash = None, ss_tip_height = None, ss_error = None \<rparr>]) \<rparr>"

definition initialize_identity_tx ::
  "string \<Rightarrow> manifest \<Rightarrow> string \<Rightarrow> string \<Rightarrow> (string \<times> string \<times> observed_block option) tx" where
  "initialize_identity_tx source m fresh_dataset fresh_run =
     bind_tx (lift_tx (height_to_i32 (dm_activation_height m))) (\<lambda>height.
     bind_tx (lift_tx (version_to_i32 (dm_version m))) (\<lambda>version.
     bind_tx (resolve_dataset fresh_dataset m height version) (\<lambda>row.
     let ds = mf_dataset row in
     bind_tx (lift_tx (ensure (\<not> (8 \<le> dm_version m \<and> mf_version row \<noteq> version))
                ''event contract requires a fresh dataset'')) (\<lambda>_.
     bind_tx (close_orphans ds source) (\<lambda>_.
     bind_tx (get_tx db_clock) (\<lambda>now.
     bind_tx (insert_run
                \<lparr> rn_id = fresh_run, rn_dataset = ds, rn_source = source,
                  rn_node_commit = dm_node_commit m, rn_enforcer_commit = dm_enforcer_commit m,
                  rn_monitor_commit = dm_monitor_commit m, rn_version = version,
                  rn_capabilities = dm_capabilities m, rn_status = ''running'', rn_last_seq = 0,
                  rn_started_at = now, rn_finished_at = None, rn_finish_reason = None \<rparr>) (\<lambda>_.
     bind_tx (if source = ''enforcer'' \<and> 8 \<le> dm_version m then restart_gap ds source fresh_run
              else ret_tx ()) (\<lambda>_.
     bind_tx (get_tx (read_previous_tip ds source)) (\<lambda>read.
     bind_tx (lift_tx read) (\<lambda>previous.
     bind_tx (modify_tx (claim_status ds source fresh_run)) (\<lambda>_.
     ret_tx (ds, fresh_run, previous))))))))))))"

definition initialize_identity ::
  "string \<Rightarrow> manifest \<Rightarrow> string \<Rightarrow> string \<Rightarrow> db \<Rightarrow> (string \<times> string \<times> observed_block option) res \<times> db" where
  "initialize_identity source m fresh_dataset fresh_run =
     run_tx (initialize_identity_tx source m fresh_dataset fresh_run)"

text \<open>Connecting: compatibility, migrations, identity, in this order.\<close>

definition connect_with_manifest ::
  "(nat \<Rightarrow> unit tx) \<Rightarrow> string \<Rightarrow> manifest \<Rightarrow> string \<Rightarrow> string \<Rightarrow> db \<Rightarrow> store res \<times> db" where
  "connect_with_manifest statements source m fresh_dataset fresh_run d =
     (case check_compatible m d of
        Inl e \<Rightarrow> (Inl e, d)
      | Inr _ \<Rightarrow>
          (case migrate statements d of
             (Inl e, d1) \<Rightarrow> (Inl e, d1)
           | (Inr _, d1) \<Rightarrow>
               (case initialize_identity source m fresh_dataset fresh_run d1 of
                  (Inl e, d2) \<Rightarrow> (Inl e, d2)
                | (Inr (ds, run, previous), d2) \<Rightarrow>
                    (map_ok (\<lambda>version. \<lparr> st_source = source, st_dataset = ds, st_run = run,
                        st_version = version, st_previous_tip = previous \<rparr>)
                       (version_to_i32 (dm_version m)), d2))))"

section \<open>Laws\<close>

text \<open>At most one run of a source in a dataset is running, and run identifiers are unique.\<close>

definition runs_inv :: "db \<Rightarrow> bool" where
  "runs_inv d \<longleftrightarrow>
     distinct (map rn_id (db_runs d)) \<and>
     (\<forall>ds source. count_where (orphaned ds source) (db_runs d) \<le> 1)"

lemma close_run_status [simp]:
  "rn_status (close_run s now reason r) = s" "rn_id (close_run s now reason r) = rn_id r"
  "rn_dataset (close_run s now reason r) = rn_dataset r"
  "rn_source (close_run s now reason r) = rn_source r"
  "rn_last_seq (close_run s now reason r) = rn_last_seq r"
  by (simp_all add: close_run_def)

lemma count_update_le:
  "(\<And>r. p r \<Longrightarrow> q (f r) \<Longrightarrow> q r) \<Longrightarrow> count_where q (update_where p f rows) \<le> count_where q rows"
  by (induction rows) (auto simp: le_SucI)

lemma runs_inv_update:
  assumes "runs_inv d" and "db_runs d' = update_where p f (db_runs d)"
    and "\<And>r. rn_id (f r) = rn_id r"
    and "\<And>r ds source. orphaned ds source (f r) \<Longrightarrow> orphaned ds source r"
  shows "runs_inv d'"
proof -
  have "count_where (orphaned ds source) (db_runs d') \<le> 1" for ds source
    using count_update_le [of p "orphaned ds source" f "db_runs d"] assms(4)
      assms(1) [unfolded runs_inv_def] unfolding assms(2) by (meson le_trans)
  moreover have "distinct (map rn_id (db_runs d'))"
    using assms(1) unfolding assms(2) runs_inv_def by (simp add: assms(3))
  ultimately show ?thesis unfolding runs_inv_def by blast
qed

lemma not_orphaned_closed: "\<not> orphaned ds source (close_run ''failed'' now reason r)"
  by (simp add: orphaned_def)

lemma close_orphans_none:
  assumes "close_orphans ds source d = Inr (u, d')"
  shows "count_where (orphaned ds source) (db_runs d') = 0"
proof -
  from assms have "db_runs d' = update_where (orphaned ds source)
      (close_run ''failed'' (db_clock d)
        (Some ORPHAN_REASON)) (db_runs d)"
    unfolding close_orphans_def modify_tx_Inr by simp
  then show ?thesis
    unfolding count_where_0 update_where_def by (auto simp: not_orphaned_closed)
qed

lemma insert_run_Inr:
  assumes "insert_run r d = Inr (u, d')"
  shows "d' = d\<lparr> db_runs := db_runs d @ [r] \<rparr>" "\<forall>q \<in> set (db_runs d). rn_id q \<noteq> rn_id r"
    "\<forall>q \<in> set (db_runs d). \<not> orphaned (rn_dataset r) (rn_source r) q"
  using assms by (auto simp: insert_run_def res_simps)

lemma runs_inv_insert:
  assumes "runs_inv d" and "insert_run r d = Inr (u, d')"
  shows "runs_inv d'"
proof -
  note ins = insert_run_Inr [OF assms(2)]
  have "count_where (orphaned ds source) (db_runs d') \<le> 1" for ds source
  proof (cases "orphaned ds source r")
    case True
    then have "ds = rn_dataset r" "source = rn_source r" by (simp_all add: orphaned_def)
    with ins(3) have "count_where (orphaned ds source) (db_runs d) = 0" by (simp add: count_where_0)
    with ins(1) show ?thesis by simp
  next
    case False
    with ins(1) assms(1) show ?thesis by (simp add: runs_inv_def)
  qed
  with ins assms(1) show ?thesis by (auto simp: runs_inv_def)
qed

text \<open>Migrations: what succeeded is committed, and every version is applied at most once.\<close>

lemma apply_migration_applied:
  "apply_migration statements v d = (Inr u, d') \<Longrightarrow>
     (\<And>d x d'. statements v d = Inr (x, d') \<Longrightarrow> db_schema d' = db_schema d) \<Longrightarrow>
     set (db_schema d') = insert v (set (db_schema d))"
proof (cases "v \<in> set (db_schema d)")
  case True
  assume "apply_migration statements v d = (Inr u, d')"
  with True show ?thesis by (auto simp: apply_migration_def)
next
  case False
  assume run: "apply_migration statements v d = (Inr u, d')"
    and same: "\<And>d x d'. statements v d = Inr (x, d') \<Longrightarrow> db_schema d' = db_schema d"
  from run False obtain x d1 where "statements v d = Inr (x, d1)"
    "d' = d1\<lparr> db_schema := (if v \<in> set (db_schema d1) then db_schema d1 else db_schema d1 @ [v]) \<rparr>"
    by (auto simp: apply_migration_def res_simps)
  with same [of d x d1] False show ?thesis by simp
qed

lemma apply_migrations_applied:
  assumes "apply_migrations statements vs d = (Inr u, d')"
    and "\<And>v d x d'. statements v d = Inr (x, d') \<Longrightarrow> db_schema d' = db_schema d"
  shows "set (db_schema d') = set vs \<union> set (db_schema d)"
  using assms(1)
proof (induction vs arbitrary: d)
  case Nil
  then show ?case by simp
next
  case (Cons v vs)
  from Cons.prems obtain w d1 where one: "apply_migration statements v d = (Inr w, d1)"
    and rest: "apply_migrations statements vs d1 = (Inr u, d')"
    by (auto split: prod.splits sum.splits)
  from Cons.IH [OF rest] apply_migration_applied [OF one assms(2)] show ?case by auto
qed

lemma apply_migrations_done:
  "set vs \<subseteq> set (db_schema d) \<Longrightarrow> apply_migrations statements vs d = (Inr (), d)"
  by (induction vs) (auto simp: apply_migration_def)

end
