(* ===== verification/Workers.thy ===== *)
theory Workers
  imports Identity
begin

text \<open>
  Worker health and the end of a run, from \<^verbatim>\<open>src/shared/src/store.rs\<close>: one row per
  supervised worker of a run with its consecutive failures, the aggregate error of the extractor
  recomputed after every change, the failure log, and the terminal status of a run.
\<close>

datatype worker =
    NodeHistory | MainchainTip | BmmRequestsWorker | MainchainEvents | ConfirmedBmmFeesWorker
  | EnforcerState | BlockHistory

fun worker_str :: "worker \<Rightarrow> string" where
  "worker_str NodeHistory = ''node_history''"
| "worker_str MainchainTip = ''mainchain_tip''"
| "worker_str BmmRequestsWorker = ''bmm_requests''"
| "worker_str MainchainEvents = ''mainchain_events''"
| "worker_str ConfirmedBmmFeesWorker = ''confirmed_bmm_fees''"
| "worker_str EnforcerState = ''enforcer_state''"
| "worker_str BlockHistory = ''block_history''"

lemma worker_str_inject [simp]: "worker_str a = worker_str b \<longleftrightarrow> a = b"
  by (cases a; cases b; simp)

definition worker_key :: "string \<Rightarrow> worker \<Rightarrow> worker_row \<Rightarrow> bool" where
  "worker_key run w r \<longleftrightarrow> wk_run r = run \<and> wk_worker r = worker_str w"

section \<open>Operations\<close>

text \<open>\<open>string_agg(worker || ': ' || last_error, '; ' ORDER BY worker)\<close>; null over no rows.\<close>

fun join_errors :: "string list \<Rightarrow> string" where
  "join_errors [] = []"
| "join_errors [e] = e"
| "join_errors (e # es) = e @ ''; '' @ join_errors es"

definition failing :: "string \<Rightarrow> worker_row list \<Rightarrow> worker_row list" where
  "failing run rows = sort_key wk_worker (filter (\<lambda>r. wk_run r = run \<and> wk_error r \<noteq> None) rows)"

definition aggregate_error :: "string \<Rightarrow> worker_row list \<Rightarrow> string option" where
  "aggregate_error run rows =
     (if failing run rows = [] then None
      else Some (join_errors (map (\<lambda>r. wk_worker r @ '': '' @ the (wk_error r)) (failing run rows))))"

definition own_status :: "store \<Rightarrow> status_row \<Rightarrow> bool" where
  "own_status st r \<longleftrightarrow>
     ss_dataset r = st_dataset st \<and> ss_source r = st_source st \<and> ss_run r = st_run st"

definition recompute_extractor_error :: "store \<Rightarrow> unit tx" where
  "recompute_extractor_error st =
     modify_tx (\<lambda>d. d\<lparr> db_status := update_where (own_status st)
       (\<lambda>r. r\<lparr> ss_error := aggregate_error (st_run st) (db_workers d) \<rparr>) (db_status d) \<rparr>)"

definition init_worker :: "string \<Rightarrow> worker \<Rightarrow> unit \<Rightarrow> unit tx" where
  "init_worker run w _ =
     modify_tx (\<lambda>d. d\<lparr> db_workers :=
       (if \<exists>r \<in> set (db_workers d). worker_key run w r then db_workers d
        else db_workers d @ [\<lparr> wk_run = run, wk_worker = worker_str w, wk_failures = 0,
               wk_error = None, wk_success_at = None, wk_failure_at = None \<rparr>]) \<rparr>)"

definition initialize_worker_statuses :: "store \<Rightarrow> worker list \<Rightarrow> db \<Rightarrow> unit res \<times> db" where
  "initialize_worker_statuses st workers =
     run_tx (bind_tx (fold_tx (init_worker (st_run st)) workers ()) (\<lambda>_.
             recompute_extractor_error st))"

definition fail_worker :: "int \<Rightarrow> string \<Rightarrow> int \<Rightarrow> worker_row \<Rightarrow> worker_row" where
  "fail_worker threshold err now r =
     r\<lparr> wk_failures := wk_failures r + 1,
        wk_error := (if threshold \<le> wk_failures r + 1 then Some err else None),
        wk_failure_at := Some now \<rparr>"

definition record_worker_failure_tx :: "store \<Rightarrow> worker \<Rightarrow> string \<Rightarrow> u32 \<Rightarrow> u32 tx" where
  "record_worker_failure_tx st w err degraded_after =
     bind_tx (lift_tx (ensure (degraded_after \<noteq> 0)
                ''worker degradation threshold must be positive'')) (\<lambda>_.
     bind_tx (lift_tx (try_from ''worker degradation threshold does not fit in an i32''
                (i32_of_u32 degraded_after))) (\<lambda>threshold.
     bind_tx (get_tx (\<lambda>d. find (worker_key (st_run st) w) (db_workers d))) (\<lambda>found.
     bind_tx (lift_tx (ok_or ''worker status was not initialized'' found)) (\<lambda>r.
     bind_tx (modify_tx (\<lambda>d. d\<lparr> db_workers := update_where (worker_key (st_run st) w)
                (fail_worker threshold err (db_clock d)) (db_workers d) \<rparr>)) (\<lambda>_.
     bind_tx (modify_tx (\<lambda>d. d\<lparr> db_failures := db_failures d @
                [\<lparr> fl_dataset = st_dataset st, fl_run = st_run st, fl_worker = worker_str w,
                   fl_error = err \<rparr>] \<rparr>)) (\<lambda>_.
     bind_tx (recompute_extractor_error st) (\<lambda>_.
     lift_tx (try_from ''worker failure count is negative''
       (u32_of_int (wk_failures r + 1))))))))))"

definition record_worker_failure :: "store \<Rightarrow> worker \<Rightarrow> string \<Rightarrow> u32 \<Rightarrow> db \<Rightarrow> u32 res \<times> db" where
  "record_worker_failure st w err degraded_after =
     run_tx (record_worker_failure_tx st w err degraded_after)"

definition clear_worker :: "int \<Rightarrow> worker_row \<Rightarrow> worker_row" where
  "clear_worker now r = r\<lparr> wk_failures := 0, wk_error := None, wk_success_at := Some now \<rparr>"

definition record_worker_success_tx :: "store \<Rightarrow> worker \<Rightarrow> unit tx" where
  "record_worker_success_tx st w =
     bind_tx (get_tx (\<lambda>d. count_where (worker_key (st_run st) w) (db_workers d))) (\<lambda>updated.
     bind_tx (modify_tx (\<lambda>d. d\<lparr> db_workers := update_where (worker_key (st_run st) w)
                (clear_worker (db_clock d)) (db_workers d) \<rparr>)) (\<lambda>_.
     bind_tx (lift_tx (ensure (updated = 1) ''worker status was not initialized'')) (\<lambda>_.
     recompute_extractor_error st)))"

definition record_worker_success :: "store \<Rightarrow> worker \<Rightarrow> db \<Rightarrow> unit res \<times> db" where
  "record_worker_success st w = run_tx (record_worker_success_tx st w)"

definition finish_run_tx :: "store \<Rightarrow> string \<Rightarrow> string option \<Rightarrow> unit tx" where
  "finish_run_tx st status reason =
     bind_tx (lift_tx (ensure (status = ''completed'' \<or> status = ''failed'')
                ''invalid terminal extractor run status'')) (\<lambda>_.
     bind_tx (modify_tx (\<lambda>d. d\<lparr> db_runs := update_where (active_run (st_run st))
                (close_run status (db_clock d) reason) (db_runs d) \<rparr>)) (\<lambda>_.
     modify_tx (\<lambda>d. d\<lparr> db_status := update_where (own_status st)
       (\<lambda>r. r\<lparr> ss_error := (if status = ''failed'' then reason else None) \<rparr>) (db_status d) \<rparr>)))"

definition finish_run :: "store \<Rightarrow> string \<Rightarrow> string option \<Rightarrow> db \<Rightarrow> unit res \<times> db" where
  "finish_run st status reason = run_tx (finish_run_tx st status reason)"

section \<open>Laws\<close>

text \<open>Health operations touch the worker, failure and status tables only.\<close>

definition health_frame :: "db \<Rightarrow> db \<Rightarrow> bool" where
  "health_frame d d' \<longleftrightarrow>
     d' = d\<lparr> db_workers := db_workers d', db_failures := db_failures d', db_status := db_status d' \<rparr> \<and>
     prefix (db_failures d) (db_failures d')"

interpretation health: step_relation health_frame
proof
  fix a b c :: db
  show "health_frame a a" by (simp add: health_frame_def)
  show "health_frame a c" if "health_frame a b" "health_frame b c"
    using that by (cases a; cases b; cases c) (auto simp: health_frame_def intro: prefix_order.trans)
qed

lemma health_frameD:
  assumes "health_frame d d'"
  shows "db_clock d' = db_clock d" "db_schema d' = db_schema d" "db_manifests d' = db_manifests d"
    "db_runs d' = db_runs d" "db_events d' = db_events d" "db_next_event d' = db_next_event d"
    "db_observations d' = db_observations d" "db_conflicts d' = db_conflicts d"
    "db_groups d' = db_groups d" "db_tips d' = db_tips d" "db_instances d' = db_instances d"
    "db_current d' = db_current d" "db_coverage d' = db_coverage d"
    "db_revisions d' = db_revisions d" "db_certified d' = db_certified d"
    "db_fee_jobs d' = db_fee_jobs d"
  using assms by (cases d; cases d'; simp add: health_frame_def)+

lemma recompute_frame: "rel_tx health_frame (recompute_extractor_error st)"
  unfolding recompute_extractor_error_def
  by (rule health.rel_modify) (simp add: health_frame_def)

lemma init_worker_frame: "rel_tx health_frame (init_worker run w u)"
  unfolding init_worker_def by (rule health.rel_modify) (simp add: health_frame_def)

lemma initialize_worker_statuses_frame:
  "health_frame d (snd (initialize_worker_statuses st ws d))"
  unfolding initialize_worker_statuses_def
  by (intro health.rel_run health.rel_bind health.rel_fold init_worker_frame recompute_frame)

lemma record_worker_failure_frame: "rel_tx health_frame (record_worker_failure_tx st w err n)"
  unfolding record_worker_failure_tx_def
  by (intro health.rel_rules health.rel_modify recompute_frame)
    (simp_all add: health_frame_def)

lemma record_worker_success_frame: "rel_tx health_frame (record_worker_success_tx st w)"
  unfolding record_worker_success_tx_def
  by (intro health.rel_rules health.rel_modify recompute_frame)
    (simp_all add: health_frame_def)

definition workers_inv :: "db \<Rightarrow> bool" where
  "workers_inv d \<longleftrightarrow>
     distinct (map (\<lambda>r. (wk_run r, wk_worker r)) (db_workers d)) \<and>
     (\<forall>r \<in> set (db_workers d). 0 \<le> wk_failures r)"

lemma worker_count_le_1: "workers_inv d \<Longrightarrow> count_where (worker_key run w) (db_workers d) \<le> 1"
proof -
  assume "workers_inv d"
  then have "count_where (\<lambda>r. (wk_run r, wk_worker r) = (run, worker_str w)) (db_workers d) \<le> 1"
    by (intro count_where_key) (simp add: workers_inv_def)
  then show ?thesis by (simp add: worker_key_def [abs_def])
qed

lemma record_worker_failure_Inr:
  assumes "record_worker_failure_tx st w err n d = Inr (k, d')"
  obtains r threshold where "find (worker_key (st_run st) w) (db_workers d) = Some r"
    "i32_of_u32 n = Some threshold" "n \<noteq> 0" "u32_of_int (wk_failures r + 1) = Some k"
    "db_workers d' = update_where (worker_key (st_run st) w)
       (fail_worker threshold err (db_clock d)) (db_workers d)"
    "db_failures d' = db_failures d @ [\<lparr> fl_dataset = st_dataset st, fl_run = st_run st,
       fl_worker = worker_str w, fl_error = err \<rparr>]"
    "db_status d' = update_where (own_status st)
       (\<lambda>r. r\<lparr> ss_error := aggregate_error (st_run st) (db_workers d') \<rparr>) (db_status d)"
  using assms unfolding record_worker_failure_tx_def recompute_extractor_error_def
  by (auto simp: res_simps)

lemma record_worker_failure_workers_inv: "keeps workers_inv (record_worker_failure_tx st w err n)"
proof (rule keepsI)
  fix d k d' assume inv: "workers_inv d" and run: "record_worker_failure_tx st w err n d = Inr (k, d')"
  from run obtain threshold where "db_workers d' = update_where (worker_key (st_run st) w)
      (fail_worker threshold err (db_clock d)) (db_workers d)"
    by (rule record_worker_failure_Inr)
  with inv show "workers_inv d'"
    by (auto simp: workers_inv_def fail_worker_def set_update_where)
qed

lemma record_worker_success_workers_inv: "keeps workers_inv (record_worker_success_tx st w)"
  by (rule keepsI)
    (auto simp: record_worker_success_tx_def recompute_extractor_error_def res_simps workers_inv_def
      clear_worker_def set_update_where)

end
