(* ===== verification/Fee_Jobs.thy ===== *)
theory Fee_Jobs
  imports Workers
begin

text \<open>
  Confirmed-fee enrichment in the record, from \<^verbatim>\<open>src/shared/src/store.rs\<close>: which node
  block is due, which bids the official evidence supports, the transaction that records fees for
  a block, and the bounded retry schedule of a job.
\<close>

section \<open>The schedule\<close>

definition FEE_JOB_MAX_ATTEMPTS :: int where
  "FEE_JOB_MAX_ATTEMPTS = 10"

text \<open>Intervals in milliseconds, the unit of the clock.\<close>

definition HOUR :: int where
  "HOUR = 3600000"

definition own_job :: "store \<Rightarrow> fee_job_row \<Rightarrow> bool" where
  "own_job st j \<longleftrightarrow>
     fj_dataset j = st_dataset st \<and> fj_version j = st_version st \<and> fj_source j = st_source st"

definition job_key :: "store \<Rightarrow> int \<Rightarrow> fee_job_row \<Rightarrow> bool" where
  "job_key st source_event j \<longleftrightarrow> own_job st j \<and> fj_event j = source_event"

definition first_job :: "store \<Rightarrow> int \<Rightarrow> bool \<Rightarrow> string option \<Rightarrow> int \<Rightarrow> fee_job_row" where
  "first_job st source_event closed err now =
     \<lparr> fj_dataset = st_dataset st, fj_version = st_version st, fj_source = st_source st,
       fj_event = source_event, fj_attempts = 1,
       fj_status = (if closed then FeeDone else FeePending),
       fj_next_retry = (if closed then None else Some (now + HOUR)), fj_error = err \<rparr>"

definition next_job :: "bool \<Rightarrow> string option \<Rightarrow> int \<Rightarrow> fee_job_row \<Rightarrow> fee_job_row" where
  "next_job closed err now j =
     j\<lparr> fj_attempts := fj_attempts j + 1, fj_error := err,
        fj_status := (if closed then FeeDone
                      else if FEE_JOB_MAX_ATTEMPTS \<le> fj_attempts j + 1 then FeeAbandoned
                      else FeePending),
        fj_next_retry := (if closed \<or> FEE_JOB_MAX_ATTEMPTS \<le> fj_attempts j + 1 then None
                          else Some (now + min (24 * HOUR) (HOUR * 2 ^ nat (fj_attempts j)))) \<rparr>"

definition schedule_fee_job :: "store \<Rightarrow> int \<Rightarrow> bool \<Rightarrow> string option \<Rightarrow> unit tx" where
  "schedule_fee_job st source_event closed err =
     bind_tx (ensure_tx (\<lambda>d. (\<exists>e \<in> set (db_events d). er_id e = source_event) \<or>
                (\<exists>j \<in> set (db_fee_jobs d). job_key st source_event j))
                ''scheduling a confirmed-fee job'') (\<lambda>_.
     modify_tx (\<lambda>d. d\<lparr> db_fee_jobs :=
       (if \<exists>j \<in> set (db_fee_jobs d). job_key st source_event j
        then update_where (job_key st source_event) (next_job closed err (db_clock d)) (db_fee_jobs d)
        else db_fee_jobs d @ [first_job st source_event closed err (db_clock d)]) \<rparr>))"

definition record_fee_failure :: "store \<Rightarrow> int \<Rightarrow> string \<Rightarrow> db \<Rightarrow> unit res \<times> db" where
  "record_fee_failure st source_event err =
     run_tx (schedule_fee_job st source_event False (Some err))"

section \<open>The next block\<close>

definition node_block :: "store \<Rightarrow> event_row \<Rightarrow> bool" where
  "node_block st e \<longleftrightarrow>
     sc_dataset (er_scope e) = st_dataset st \<and> sc_version (er_scope e) = st_version st \<and>
     sc_source (er_scope e) = st_source st \<and> sc_name (er_scope e) = ''mainchain_block''"

definition last_job_event :: "store \<Rightarrow> db \<Rightarrow> int" where
  "last_job_event st d =
     (let ids = map fj_event (filter (own_job st) (db_fee_jobs d))
      in if ids = [] then 0 else Max (set ids))"

definition due_jobs :: "store \<Rightarrow> db \<Rightarrow> fee_job_row list" where
  "due_jobs st d =
     sort_key (\<lambda>j. the (fj_next_retry j))
       (filter (\<lambda>j. own_job st j \<and> fj_status j = FeePending \<and>
                    opt_ex (\<lambda>t. t \<le> db_clock d) (fj_next_retry j)) (db_fee_jobs d))"

definition fee_block_of :: "event_row \<Rightarrow> (int \<times> observed_block) res" where
  "fee_block_of e =
     bind_res (ok_or ''error retrieving column'' (er_block_hash e)) (\<lambda>hash.
     bind_res (ok_or ''error retrieving column'' (er_height e)) (\<lambda>height.
     bind_res (ok_or ''out of range integral type conversion attempted'' (u32_of_int height)) (\<lambda>h.
     Inr (er_id e, at_height hash h))))"

definition next_fee_block :: "store \<Rightarrow> db \<Rightarrow> (int \<times> observed_block) option res" where
  "next_fee_block st d =
     bind_res (ensure (st_source st = ''node'') ''confirmed BMM fees are node enrichments'') (\<lambda>_.
     case sort_key er_id (filter (\<lambda>e. node_block st e \<and> last_job_event st d < er_id e) (db_events d)) of
       e # _ \<Rightarrow> map_ok Some (fee_block_of e)
     | [] \<Rightarrow>
         (case List.bind (due_jobs st d) (\<lambda>j. filter (\<lambda>e. er_id e = fj_event j) (db_events d)) of
            [] \<Rightarrow> Inr None
          | e # _ \<Rightarrow> map_ok Some (fee_block_of e)))"

section \<open>Official evidence\<close>

fun json_path :: "string list \<Rightarrow> json \<Rightarrow> json option" where
  "json_path [] v = Some v"
| "json_path (k # ks) (JObj entries) = Option.bind (map_of entries k) (json_path ks)"
| "json_path (k # ks) v = None"

fun json_text :: "libs \<Rightarrow> json \<Rightarrow> string option" where
  "json_text L JNull = None"
| "json_text L (JStr s) = Some s"
| "json_text L (JBool b) = Some (if b then ''true'' else ''false'')"
| "json_text L (JNum n) = Some (if n < 0 then ''-'' @ show_nat (nat (- n)) else show_nat (nat n))"
| "json_text L (JDec s) = Some s"
| "json_text L v = Some (json_composite_text L v)"

definition path_text :: "libs \<Rightarrow> string list \<Rightarrow> json \<Rightarrow> string option" where
  "path_text L ks v = Option.bind (json_path ks v) (json_text L)"

definition bmm_path :: "string list" where
  "bmm_path = [''monitor_event'', ''Enforcer'', ''event'', ''BmmRequests'']"

definition official_kind :: "store \<Rightarrow> string \<Rightarrow> event_row \<Rightarrow> bool" where
  "official_kind st kind e \<longleftrightarrow>
     sc_dataset (er_scope e) = st_dataset st \<and> sc_version (er_scope e) = st_version st \<and>
     sc_source (er_scope e) = ''enforcer'' \<and> sc_name (er_scope e) = kind"

definition tip_matched_seen :: "store \<Rightarrow> db \<Rightarrow> event_row \<Rightarrow> bool" where
  "tip_matched_seen st d e \<longleftrightarrow>
     (\<exists>q \<in> set (db_observations d). \<exists>g \<in> set (db_groups d).
        obs_event q = er_id e \<and> obs_group q = Some (gr_id g) \<and>
        gr_dataset g = sc_dataset (er_scope e) \<and> gr_consistency g = ''tip_matched'')"

definition unconflicted :: "db \<Rightarrow> event_row \<Rightarrow> bool" where
  "unconflicted d b \<longleftrightarrow>
     \<not> (\<exists>c \<in> set (db_conflicts d). cn_dataset c = sc_dataset (er_scope b) \<and>
          (cn_first c = er_id b \<or> cn_second c = er_id b))"

definition committed_in :: "libs \<Rightarrow> store \<Rightarrow> db \<Rightarrow> bytes \<Rightarrow> int \<Rightarrow> string option \<Rightarrow> bool" where
  "committed_in L st d block_hash slot critical \<longleftrightarrow>
     (\<exists>b \<in> set (db_events d). official_kind st ''block_connected'' b \<and>
        er_block_hash b = Some block_hash \<and> sc_sidechain (er_scope b) = Some slot \<and>
        critical \<noteq> None \<and>
        path_text L [''monitor_event'', ''Enforcer'', ''event'', ''BlockConnected'', ''bmm_commitment'']
          (er_payload b) = critical \<and> unconflicted d b)"

definition candidate_of ::
  "libs \<Rightarrow> store \<Rightarrow> db \<Rightarrow> bytes \<Rightarrow> json \<Rightarrow> (u32 \<times> bytes) list res" where
  "candidate_of L st d block_hash r =
     (case json_path [''sidechain_number''] r of
        Some (JNum n) \<Rightarrow>
          bind_res (ensure (- (2 ^ 15) \<le> n \<and> n < 2 ^ 15) ''smallint out of range'') (\<lambda>_.
          if committed_in L st d block_hash n (path_text L [''critical_hash''] r)
          then bind_res (ok_or ''out of range integral type conversion attempted'' (u32_of_int n)) (\<lambda>slot.
               bind_res (ok_or ''invalid hexadecimal data''
                 (Option.bind (path_text L [''txid''] r) (hex_decode L))) (\<lambda>txid.
               Inr [(slot, txid)]))
          else Inr [])
      | _ \<Rightarrow> Inr [])"

definition requests_of :: "json \<Rightarrow> json list" where
  "requests_of payload =
     (case json_path (bmm_path @ [''requests'']) payload of Some (JArr rs) \<Rightarrow> rs | _ \<Rightarrow> [])"

definition observed_bmm_candidates ::
  "libs \<Rightarrow> store \<Rightarrow> bytes \<Rightarrow> bytes \<Rightarrow> db \<Rightarrow> (u32 \<times> bytes) list res" where
  "observed_bmm_candidates L st block_hash parent d =
     map_ok (\<lambda>cs. remdups (concat cs))
       (collect_res (candidate_of L st d block_hash)
         (concat (map (\<lambda>e. requests_of (er_payload e))
           (filter (\<lambda>e. official_kind st ''bmm_requests'' e \<and> tip_matched_seen st d e \<and>
              path_text L (bmm_path @ [''previous_mainchain_block_hash'']) (er_payload e)
                = Some (hex_encode L parent)) (db_events d)))))"

section \<open>Recording fees\<close>

fun check_fees :: "(u32 \<times> bytes) list \<Rightarrow> (u32 \<times> bytes) list \<Rightarrow> confirmed_fee list \<Rightarrow> unit res" where
  "check_fees candidates seen [] = Inr ()"
| "check_fees candidates seen (fee # fees) =
     (let key = (cf_sidechain fee, cf_txid fee) in
      if key \<notin> set candidates \<or> key \<in> set seen \<or>
         (cf_fee_sats fee \<noteq> None) \<noteq> (cf_unavailable_reason fee = [])
      then bail ''fee has no unambiguous official evidence''
      else check_fees candidates (key # seen) fees)"

definition source_block :: "libs \<Rightarrow> store \<Rightarrow> int \<Rightarrow> block_header \<Rightarrow> db \<Rightarrow> block_tx list res" where
  "source_block L st source_id header d =
     bind_res (ok_or ''missing node source block''
       (find (\<lambda>e. er_id e = source_id \<and> sc_dataset (er_scope e) = st_dataset st \<and>
                  sc_version (er_scope e) = st_version st \<and> sc_source (er_scope e) = ''node'' \<and>
                  sc_name (er_scope e) = ''mainchain_block'' \<and>
                  er_block_hash e = Some (hdr_hash header)) (db_events d))) (\<lambda>e.
     bind_res (ok_or ''failed to decode Protobuf message'' (decode_event L (er_envelope e))) (\<lambda>original.
     bind_res (case ev_payload original of Some (Node n) \<Rightarrow> Inr n
               | _ \<Rightarrow> bail ''invalid node block envelope'') (\<lambda>node.
     bind_res (case node of Some (MainchainBlock h raw) \<Rightarrow> Inr (h, raw)
               | _ \<Rightarrow> bail ''invalid node block kind'') (\<lambda>(h, raw).
     bind_res (ensure (h = Some header) ''fee enrichment changed the block header'') (\<lambda>_.
     ok_or ''consensus decoding failed'' (deserialize_block L raw))))))"

definition final_candidates :: "store \<Rightarrow> bytes \<Rightarrow> int \<Rightarrow> db \<Rightarrow> bool" where
  "final_candidates st block_hash height d \<longleftrightarrow>
     \<not> (\<exists>c \<in> set (db_current d). \<exists>i \<in> set (db_instances d).
          cu_dataset c = st_dataset st \<and> in_dataset i = cu_dataset c \<and> in_id i = cu_instance c \<and>
          in_activation_height i \<le> height \<and>
          \<not> (\<exists>b \<in> set (db_events d). official_kind st ''block_connected'' b \<and>
               sc_sidechain (er_scope b) = Some (cu_sidechain c) \<and>
               er_block_hash b = Some block_hash))"

definition record_node_fees_tx :: "libs \<Rightarrow> store \<Rightarrow> int \<Rightarrow> event \<Rightarrow> node_event option \<Rightarrow> unit tx" where
  "record_node_fees_tx L st source_id event node =
     bind_tx (lift_tx (case node of
                Some (ConfirmedBmmFees header fees source) \<Rightarrow> Inr (header, fees)
              | _ \<Rightarrow> bail ''expected node fee enrichment'')) (\<lambda>(header, fees).
     bind_tx (lift_tx (ok_or ''missing fee header'' header)) (\<lambda>header.
     bind_tx (get_tx (observed_bmm_candidates L st (hdr_hash header) (hdr_previous header))) (\<lambda>found.
     bind_tx (lift_tx found) (\<lambda>candidates.
     bind_tx (lift_tx (check_fees candidates [] fees)) (\<lambda>_.
     bind_tx (get_tx (source_block L st source_id header)) (\<lambda>block.
     bind_tx (lift_tx block) (\<lambda>txs.
     bind_tx (lift_tx (ensure (\<forall>fee \<in> set fees. \<exists>t \<in> set txs. bt_txid t = hex_encode L (cf_txid fee))
                ''fee transaction is not in the block'')) (\<lambda>_.
     bind_tx (reserve_capture_sequences (st_run st) 1) (\<lambda>seq.
     bind_tx (insert_event L st Backfill None None None seq event Map.empty) (\<lambda>_.
     bind_tx (lift_tx (height_to_i32 (hdr_height header))) (\<lambda>height.
     bind_tx (get_tx (final_candidates st (hdr_hash header) height)) (\<lambda>final.
     schedule_fee_job st source_id final None))))))))))))"

definition record_fee_enrichment :: "libs \<Rightarrow> store \<Rightarrow> int \<Rightarrow> event \<Rightarrow> db \<Rightarrow> unit res \<times> db" where
  "record_fee_enrichment L st source_event event d =
     (case ev_payload event of
        Some (Node node) \<Rightarrow> run_tx (record_node_fees_tx L st source_event event node) d
      | _ \<Rightarrow> (bail ''confirmed BMM fees are node enrichments'', d))"

section \<open>Laws\<close>

definition fee_jobs_inv :: "db \<Rightarrow> bool" where
  "fee_jobs_inv d \<longleftrightarrow>
     (\<forall>j \<in> set (db_fee_jobs d). 1 \<le> fj_attempts j \<and>
        (fj_status j = FeePending \<longleftrightarrow> fj_next_retry j \<noteq> None) \<and>
        (fj_status j = FeePending \<longrightarrow> fj_attempts j < FEE_JOB_MAX_ATTEMPTS) \<and>
        (fj_status j = FeeAbandoned \<longrightarrow> FEE_JOB_MAX_ATTEMPTS \<le> fj_attempts j))"

lemma schedule_fee_job_Inr:
  assumes "schedule_fee_job st src closed err d = Inr (u, d')"
  shows "d' = d\<lparr> db_fee_jobs :=
       (if \<exists>j \<in> set (db_fee_jobs d). job_key st src j
        then update_where (job_key st src) (next_job closed err (db_clock d)) (db_fee_jobs d)
        else db_fee_jobs d @ [first_job st src closed err (db_clock d)]) \<rparr>"
  using assms unfolding schedule_fee_job_def by (auto simp: res_simps)

lemma schedule_fee_job_inv: "keeps fee_jobs_inv (schedule_fee_job st src closed err)"
  by (rule keepsI, drule schedule_fee_job_Inr)
    (auto simp: fee_jobs_inv_def set_update_where next_job_def first_job_def FEE_JOB_MAX_ATTEMPTS_def
      split: if_splits)

lemma next_job_retry:
  "fj_next_retry (next_job closed err now j) = Some t \<Longrightarrow> t \<le> now + 24 * HOUR"
  by (auto simp: next_job_def split: if_splits)

lemma check_fees_Inr:
  "check_fees candidates seen fees = Inr u \<Longrightarrow>
     distinct (map (\<lambda>f. (cf_sidechain f, cf_txid f)) fees) \<and>
     (\<forall>f \<in> set fees. (cf_sidechain f, cf_txid f) \<in> set candidates \<and>
        (cf_sidechain f, cf_txid f) \<notin> set seen \<and>
        (cf_fee_sats f \<noteq> None \<longleftrightarrow> cf_unavailable_reason f = []))"
proof (induction fees arbitrary: seen)
  case Nil
  then show ?case by simp
next
  case (Cons f fees)
  from Cons.prems have f: "(cf_sidechain f, cf_txid f) \<in> set candidates"
    "(cf_sidechain f, cf_txid f) \<notin> set seen"
    "cf_fee_sats f \<noteq> None \<longleftrightarrow> cf_unavailable_reason f = []"
    and rest: "check_fees candidates ((cf_sidechain f, cf_txid f) # seen) fees = Inr u"
    by (auto simp: Let_def res_simps split: if_splits)
  from Cons.IH [OF rest] f show ?case by auto
qed

end
