(* ===== verification/Store_Steps.thy ===== *)
theory Store_Steps
  imports Fee_Jobs
begin

text \<open>
  Every operation of the store that writes, as one step relation, and the invariants of the
  record over all its reachable states: the components above keep their invariants one by one,
  here each operation keeps all of them together.
\<close>

section \<open>Steps\<close>

inductive store_step :: "libs \<Rightarrow> db \<Rightarrow> db \<Rightarrow> bool" for L where
  tick: "db_clock d \<le> now \<Longrightarrow> store_step L d (d\<lparr> db_clock := now \<rparr>)"
| identity: "store_step L d (snd (initialize_identity source m ds run d))"
| batch: "store_step L d (snd (record_batch L st events method inst d))"
| snapshot: "store_step L d (snd (record_snapshot L st gid events method meta d))"
| tip: "store_step L d (snd (record_tip_observation st block previous method at d))"
| init_workers: "store_step L d (snd (initialize_worker_statuses st ws d))"
| failure: "store_step L d (snd (record_worker_failure st w err n d))"
| success: "store_step L d (snd (record_worker_success st w d))"
| finish: "store_step L d (snd (finish_run st status reason d))"
| fees: "store_step L d (snd (record_fee_enrichment L st src event d))"
| fee_failure: "store_step L d (snd (record_fee_failure st src err d))"
| floor: "store_step L d (snd (set_history_floor st stream sl inst cursor fh ft d))"
| cycle: "store_step L d
    (snd (begin_history_cycle st stream sl inst start covered target fh ft page_blocks d))"
| page: "store_step L d (snd (record_history_page L st events page d))"
| resize: "store_step L d (snd (resize_history_page st stream sl inst page_blocks err d))"
| resume: "store_step L d (snd (resume_history st stream sl inst d))"
| settle: "store_step L d (snd (settle_history_failure st stream sl inst err d))"
| supersede: "store_step L d (snd (supersede_history st stream slot iid reason d))"

text \<open>A property of the start that every step keeps holds in every reachable state.\<close>

locale step_system =
  fixes start :: "'s \<Rightarrow> bool" and step :: "'s \<Rightarrow> 's \<Rightarrow> bool" and inv :: "'s \<Rightarrow> bool"
  assumes start_inv: "start s \<Longrightarrow> inv s"
    and step_inv: "inv s \<Longrightarrow> step s t \<Longrightarrow> inv t"
begin

lemma reachable_inv: "step\<^sup>*\<^sup>* s t \<Longrightarrow> start s \<Longrightarrow> inv t"
  by (induction rule: rtranclp_induct) (auto intro: start_inv step_inv)

lemma steps_inv: "step\<^sup>*\<^sup>* s t \<Longrightarrow> inv s \<Longrightarrow> inv t"
  by (induction rule: rtranclp_induct) (auto intro: step_inv)

end

section \<open>Health, runs and fee jobs\<close>

definition store_inv :: "db \<Rightarrow> bool" where
  "store_inv d \<longleftrightarrow> record_inv d \<and> runs_inv d \<and> workers_inv d \<and> fee_jobs_inv d"

lemma store_invI: "record_inv d \<Longrightarrow> runs_inv d \<Longrightarrow> workers_inv d \<Longrightarrow> fee_jobs_inv d \<Longrightarrow> store_inv d"
  by (simp add: store_inv_def)

lemma store_inv_empty: "store_inv empty_db"
  using record_inv_empty
  by (simp add: store_inv_def runs_inv_def workers_inv_def fee_jobs_inv_def empty_db_def)

lemma record_inv_cong:
  assumes "db_events d' = db_events d" "db_next_event d' = db_next_event d"
    "db_conflicts d' = db_conflicts d" "db_runs d' = db_runs d"
    "db_observations d' = db_observations d" "db_tips d' = db_tips d"
    "db_coverage d' = db_coverage d" "db_revisions d' = db_revisions d"
    "db_certified d' = db_certified d"
  shows "record_inv d' \<longleftrightarrow> record_inv d"
  unfolding record_inv_def facts_inv_def conflicts_exact_def seqs_inv_def used_seqs_def
    coverage_inv_def cert_inv_def assms ..

lemma record_inv_health:
  assumes "health_frame d d'"
  shows "record_inv d' \<longleftrightarrow> record_inv d"
  by (rule record_inv_cong) (simp_all add: health_frameD [OF assms])

lemma store_inv_health:
  assumes "health_frame d d'" "workers_inv d'" "store_inv d"
  shows "store_inv d'"
  using assms(2,3) health_frameD [OF assms(1)] record_inv_health [OF assms(1)]
  by (simp add: store_inv_def runs_inv_def fee_jobs_inv_def)

section \<open>Recording\<close>

text \<open>The recording transactions beside the record: runs keep their status, fee jobs and workers stay.\<close>

lemma orphaned_seq [simp]:
  "orphaned ds source (r\<lparr> rn_last_seq := n \<rparr>) = orphaned ds source r"
  by (simp add: orphaned_def)

lemma runs_inv_reserve:
  assumes "runs_inv d" "reserve_capture_sequences run n d = Inr (first, d')"
  shows "runs_inv d'"
proof -
  from assms(2) have "db_runs d' = update_where (active_run run)
      (\<lambda>r. r\<lparr> rn_last_seq := rn_last_seq r + int n \<rparr>) (db_runs d)"
    by (rule reserve_Inr) simp
  then show ?thesis by (rule runs_inv_update [OF assms(1)]) simp_all
qed

lemma reserve_others:
  assumes "reserve_capture_sequences run n d = Inr (first, d')"
  shows "db_workers d' = db_workers d" "db_fee_jobs d' = db_fee_jobs d" "db_tips d' = db_tips d"
    "db_failures d' = db_failures d" "db_groups d' = db_groups d"
  using assms by (auto elim!: reserve_Inr)

text \<open>
  Everything but the sequence numbers is kept by a reservation followed by insertions; the
  sequence invariant is proved for the pair.
\<close>

lemma reserve_insert_store_inv:
  assumes inv: "store_inv d"
    and res: "reserve_capture_sequences (st_run st) (length events) d = Inr (first, d1)"
    and ins: "insert_all L st method grp es ei first events d1 = Inr (n, d2)"
  shows "store_inv d2"
proof (rule store_invI)
  note frame = record_frameD [OF rel_txD [OF insert_all_frame ins]]
  from inv have r: "record_inv d" and rs: "runs_inv d" and w: "workers_inv d" and f: "fee_jobs_inv d"
    by (simp_all add: store_inv_def)
  have "facts_inv d1" "conflicts_exact d1" "coverage_inv d1" "cert_inv d1"
    using r reserve_frame [OF res] by (simp_all add: record_inv_def)
  from insert_all_invs [OF ins this] seqs_inv_reserve_insert [OF _ res ins] r
  show "record_inv d2" by (simp add: record_inv_def)
  from runs_inv_reserve [OF rs res] show "runs_inv d2" by (simp add: runs_inv_def frame)
  from w show "workers_inv d2" by (simp add: workers_inv_def frame reserve_others [OF res])
  from f show "fee_jobs_inv d2" by (simp add: fee_jobs_inv_def frame reserve_others [OF res])
qed

lemma store_inv_other_tables:
  assumes "store_inv d" and "d' = d\<lparr> db_groups := g, db_status := s, db_failures := f, db_current := c, db_instances := i \<rparr>"
  shows "store_inv d'"
  using assms(1) record_inv_cong [of d' d]
  by (simp add: assms(2) store_inv_def runs_inv_def workers_inv_def fee_jobs_inv_def)

lemma update_extractor_status_Inr:
  "update_extractor_status st tip d = Inr (u, d') \<Longrightarrow> \<exists>s. d' = d\<lparr> db_status := s \<rparr>"
  by (auto simp: update_extractor_status_def res_simps)

lemma store_inv_status: "store_inv d \<Longrightarrow> store_inv (d\<lparr> db_status := s \<rparr>)"
  by (rule store_inv_other_tables [of d]) (auto intro: db.equality)

lemma store_inv_groups: "store_inv d \<Longrightarrow> store_inv (d\<lparr> db_groups := s \<rparr>)"
  by (rule store_inv_other_tables [of d]) (auto intro: db.equality)

lemma record_batch_store_inv: "keeps store_inv (record_batch_tx L st events method inst)"
proof (rule keepsI)
  fix d x d' assume inv: "store_inv d"
    and run: "record_batch_tx L st events method inst d = Inr (x, d')"
  then obtain first d1 where
    "reserve_capture_sequences (st_run st) (length events) d = Inr (first, d1)"
    "insert_all L st method None (map_option (\<lambda>i. i16_of_u8 (ir_sidechain i)) inst)
       (map_option ir_instance_id inst) first events d1 = Inr (x, d')"
    by (auto simp: record_batch_tx_def validate_sidechain_instance_def res_simps
        split: option.splits)
  from reserve_insert_store_inv [OF inv this] show "store_inv d'" .
qed

lemma record_snapshot_store_inv: "keeps store_inv (record_snapshot_tx L st gid events method m)"
proof (rule keepsI)
  fix d x d' assume inv: "store_inv d"
    and run: "record_snapshot_tx L st gid events method m d = Inr (x, d')"
  then obtain row d0 first d1 d2 where
    steps: "insert_group row d = Inr ((), d0)"
    "reserve_capture_sequences (st_run st) (length events) d0 = Inr (first, d1)"
    "insert_all L st method (Some gid) None None first events d1 = Inr (x, d2)"
    "update_extractor_status st (sm_tip_after m) d2 = Inr ((), d')"
    unfolding record_snapshot_tx_def by (auto simp: res_simps)
  have "store_inv d0"
    using steps(1) store_inv_groups [OF inv] by (auto simp: insert_group_def res_simps)
  from reserve_insert_store_inv [OF this steps(2,3)] update_extractor_status_Inr [OF steps(4)]
  show "store_inv d'" by (auto intro: store_inv_status)
qed

lemma record_tip_store_inv: "keeps store_inv (record_tip_tx st tip previous method at)"
proof (rule keepsI)
  fix d x d' assume inv: "store_inv d" and run: "record_tip_tx st tip previous method at d = Inr (x, d')"
  have seq: "seqs_inv d'"
    using keepsD [OF record_tip_keeps_seqs run] inv by (simp add: store_inv_def record_inv_def)
  from run obtain row first d1 d2 where
    steps: "reserve_capture_sequences (st_run st) 1 d = Inr (first, d1)"
    "insert_tip row d1 = Inr ((), d2)" "update_extractor_status st tip d2 = Inr (x, d')"
    unfolding record_tip_tx_def by (auto simp: res_simps)
  from steps(2) update_extractor_status_Inr [OF steps(3)]
  obtain t s where d': "d' = d1\<lparr> db_tips := t, db_status := s \<rparr>"
    by (auto simp: insert_tip_def res_simps)
  show "store_inv d'"
    using inv seq runs_inv_reserve [OF _ steps(1)] reserve_frame [OF steps(1)] reserve_others [OF steps(1)]
    unfolding d' store_inv_def record_inv_def
    by (simp add: facts_inv_def conflicts_exact_def coverage_inv_def cert_inv_def runs_inv_def
        workers_inv_def fee_jobs_inv_def)
qed

section \<open>Coverage\<close>

lemma store_inv_coverage:
  assumes "coverage_frame d d'" "coverage_inv d'" "cert_inv d'" "store_inv d"
  shows "store_inv d'"
  using assms(2-4) coverage_frameD [OF assms(1)]
  by (simp add: store_inv_def record_inv_def facts_inv_def conflicts_exact_def seqs_inv_def
      used_seqs_def runs_inv_def workers_inv_def fee_jobs_inv_def)

lemma update_coverage_store_inv:
  assumes "\<And>r. p r \<Longrightarrow> cv_scope (f r) = cv_scope r" "\<And>r. p r \<Longrightarrow> cv_status (f r) \<noteq> Complete"
  shows "keeps store_inv (update_coverage p f)"
proof (rule keepsI)
  fix d n d' assume inv: "store_inv d" and run: "update_coverage p f d = Inr (n, d')"
  from inv have "coverage_inv d" "cert_inv d" by (simp_all add: store_inv_def record_inv_def)
  then have "coverage_inv d'" "cert_inv d'"
    using keepsD [OF update_coverage_inv [OF assms(1)] run]
      keepsD [OF update_coverage_keeps_cert [OF assms(2)] run] by blast+
  from store_inv_coverage [OF rel_txD [OF update_coverage_frame run] this inv] show "store_inv d'" .
qed

lemma set_history_floor_store_inv:
  "store_inv d \<Longrightarrow> store_inv (snd (set_history_floor st stream sl inst cursor fh ft d))"
  unfolding set_history_floor_def
  by (rule keeps_run) (auto intro!: keeps_intros update_coverage_store_inv simp: running_at_def)

lemma resize_store_inv:
  "store_inv d \<Longrightarrow> store_inv (snd (resize_history_page st stream sl inst n err d))"
  unfolding resize_history_page_def
  by (rule keeps_run) (auto intro!: keeps_intros update_coverage_store_inv)

lemma resume_store_inv: "store_inv d \<Longrightarrow> store_inv (snd (resume_history st stream sl inst d))"
  unfolding resume_history_def
  by (rule keeps_run) (auto intro!: keeps_intros update_coverage_store_inv)

lemma settle_store_inv:
  "store_inv d \<Longrightarrow> store_inv (snd (settle_history_failure st stream sl inst err d))"
  unfolding settle_history_failure_def Let_def
  by (rule keeps_run) (auto intro!: keeps_intros update_coverage_store_inv simp: settle_row_def split: if_splits)

lemma supersede_store_inv:
  "store_inv d \<Longrightarrow> store_inv (snd (supersede_history st stream slot iid reason d))"
  unfolding supersede_history_def
  by (rule keeps_run) (auto intro!: keeps_intros update_coverage_store_inv)

lemma upsert_coverage_store_inv:
  assumes "cv_status new \<noteq> Complete"
  shows "keeps store_inv (upsert_coverage new)"
proof (rule keepsI)
  fix d x d' assume inv: "store_inv d" and run: "upsert_coverage new d = Inr (x, d')"
  show "store_inv d'"
  proof (cases "find (in_scope (cv_scope new)) (db_coverage d)")
    case None
    with run have "insert_coverage new d = Inr ((), d')"
      by (auto simp: upsert_coverage_def res_simps)
    then show ?thesis
    proof (rule insert_coverageE [OF _ assms])
      assume ins: "db_coverage d' = db_coverage d @ [new]" "coverage_checks new"
        "db_certified d' = db_certified d" and frame: "coverage_frame d d'"
      have "coverage_inv d'"
        using inv ins None by (auto simp: store_inv_def record_inv_def coverage_inv_def
            find_None_iff_all in_scope_def)
      moreover have "cert_inv d'"
        using inv by (intro cert_inv_frame [OF _ frame ins(3)]) (simp add: store_inv_def record_inv_def)
      ultimately show ?thesis by (rule store_inv_coverage [OF frame _ _ inv])
    qed
  next
    case (Some old)
    with run obtain n where upd: "update_coverage (in_scope (cv_scope new)) (restart_cycle new) d = Inr (n, d')"
      by (auto simp: upsert_coverage_def res_simps)
    show ?thesis
      by (rule keepsD [OF update_coverage_store_inv upd inv])
        (use assms in \<open>auto simp: restart_cycle_def in_scope_def\<close>)
  qed
qed

lemma begin_cycle_store_inv:
  "store_inv d \<Longrightarrow>
     store_inv (snd (begin_history_cycle st stream sl inst start covered target fh ft n d))"
proof -
  assume inv: "store_inv d"
  let ?body = "bind_tx (lift_tx (validate_history_scope sl inst)) (\<lambda>_.
        bind_tx (lift_tx (height_to_i32 start)) (\<lambda>start.
        bind_tx (lift_tx (optional_block_parts covered)) (\<lambda>(covered_hash, covered_height).
        bind_tx (lift_tx (bind_res (required_height target) height_to_i32)) (\<lambda>target_height.
        bind_tx (lift_tx (traverse_opt height_to_i32 ft)) (\<lambda>floor_height.
        bind_tx (lift_tx (height_to_i32 n)) (\<lambda>page_blocks.
        bind_tx (get_tx db_clock) (\<lambda>now.
        upsert_coverage
          (begin_cycle_row (history_scope st stream sl inst) start covered_hash
             covered_height (ob_hash target) target_height fh floor_height page_blocks now))))))))"
  have "keeps store_inv ?body"
    by (auto intro!: keeps_intros upsert_coverage_store_inv simp: begin_cycle_row_def split: prod.split)
  from keeps_run [OF this inv] show ?thesis
    by (simp add: begin_history_cycle_def case_prod_beta)
qed

lemma record_history_page_store_inv:
  "store_inv d \<Longrightarrow> store_inv (snd (record_history_page L st events page d))"
proof -
  assume inv: "store_inv d"
  have "keeps store_inv (record_history_page_tx L st events page)"
  proof (rule keepsI)
    fix d x d' assume inv: "store_inv d"
      and run: "record_history_page_tx L st events page d = Inr (x, d')"
    obtain n conflict where x: "x = (n, conflict)" by (cases x)
    have r: "record_inv d'"
      using keepsD [OF record_history_page_keeps run] inv by (simp add: store_inv_def)
    from run [unfolded x] obtain first d1 d2 p f where
      res: "reserve_capture_sequences (st_run st) (length events) d = Inr (first, d1)" and
      ins: "insert_all L st Backfill None (map_option i16_of_u8 (hp_sidechain page))
        (hp_instance page) first events d1 = Inr (n, d2)" and
      upd: "update_coverage p f d2 = Inr (1, d')"
      by (rule record_history_page_txE)
    have "store_inv d2" by (rule reserve_insert_store_inv [OF inv res ins])
    with r coverage_frameD [OF rel_txD [OF update_coverage_frame upd]] show "store_inv d'"
      by (simp add: store_inv_def runs_inv_def workers_inv_def fee_jobs_inv_def)
  qed
  from keeps_run [OF this inv] show ?thesis
    by (simp add: record_history_page_def case_prod_beta)
qed

section \<open>Runs\<close>

text \<open>Closing runs keeps their numbers, so the sequences stay exact.\<close>

lemma seqs_inv_close:
  assumes "seqs_inv d" and "db_runs d' = update_where p (close_run s now reason) (db_runs d)"
    and "db_observations d' = db_observations d" "db_tips d' = db_tips d"
  shows "seqs_inv d'"
proof -
  have ids: "map rn_id (db_runs d') = map rn_id (db_runs d)" using assms(2) by simp
  then have ids': "rn_id ` set (db_runs d') = rn_id ` set (db_runs d)" by (metis list.set_map)
  have used: "used_seqs d' q = used_seqs d q" for q using assms(3,4) by (rule used_seqs_frame)
  have "0 \<le> rn_last_seq r \<and> set (used_seqs d' (rn_id r)) = {1..rn_last_seq r} \<and>
      distinct (used_seqs d' (rn_id r))" if "r \<in> set (db_runs d')" for r
  proof -
    from that obtain q where "q \<in> set (db_runs d)" "rn_id q = rn_id r" "rn_last_seq q = rn_last_seq r"
      unfolding assms(2) set_update_where by auto
    with assms(1) show ?thesis unfolding used seqs_inv_def by metis
  qed
  then show ?thesis
    using assms(1) ids unfolding seqs_inv_def ids' used by simp
qed

lemma store_inv_close:
  assumes inv: "store_inv d" and "s \<noteq> ''running''"
  shows "store_inv (d\<lparr> db_runs := update_where p (close_run s now reason) (db_runs d) \<rparr>)"
proof -
  let ?d = "d\<lparr> db_runs := update_where p (close_run s now reason) (db_runs d) \<rparr>"
  have "seqs_inv ?d"
    by (rule seqs_inv_close [of d]) (use inv in \<open>simp_all add: store_inv_def record_inv_def\<close>)
  moreover have "runs_inv ?d"
    by (rule runs_inv_update [of d _ p "close_run s now reason"])
      (use inv assms(2) in \<open>simp_all add: store_inv_def orphaned_def\<close>)
  ultimately show ?thesis
    using inv by (simp add: store_inv_def record_inv_def facts_inv_def conflicts_exact_def
        coverage_inv_def cert_inv_def workers_inv_def fee_jobs_inv_def)
qed

lemma finish_run_store_inv: "store_inv d \<Longrightarrow> store_inv (snd (finish_run st status reason d))"
  unfolding finish_run_def
proof (rule keeps_run [rotated], assumption, rule keepsI)
  fix d u d' assume inv: "store_inv d" and run: "finish_run_tx st status reason d = Inr (u, d')"
  from run obtain s where "status \<noteq> ''running''" and
    d': "d' = (d\<lparr> db_runs := update_where (active_run (st_run st))
       (close_run status (db_clock d) reason) (db_runs d) \<rparr>)\<lparr> db_status := s \<rparr>"
    unfolding finish_run_tx_def by (auto simp: res_simps)
  then show "store_inv d'"
    unfolding d' by (intro store_inv_status store_inv_close [OF inv])
qed

lemma insert_run_store_inv:
  assumes inv: "store_inv d" and run: "insert_run r d = Inr (u, d')" and "rn_last_seq r = 0"
  shows "store_inv d'"
proof -
  note ins = insert_run_Inr [OF run]
  have used: "used_seqs d' q = used_seqs d q" for q by (simp add: used_seqs_def ins(1))
  have s: "seqs_inv d" using inv by (simp add: store_inv_def record_inv_def)
  have "used_seqs d (rn_id r) = []"
    using s ins(2) unfolding seqs_inv_def by (metis image_iff)
  with s ins assms(3) have "seqs_inv d'"
    unfolding seqs_inv_def used by (auto simp: ins(1))
  with inv runs_inv_insert [OF _ run] show ?thesis
    by (simp add: store_inv_def record_inv_def facts_inv_def conflicts_exact_def
        coverage_inv_def cert_inv_def workers_inv_def fee_jobs_inv_def ins(1))
qed

lemma store_inv_manifests: "store_inv d \<Longrightarrow> store_inv (d\<lparr> db_manifests := m \<rparr>)"
  using record_inv_cong [of "d\<lparr> db_manifests := m \<rparr>" d]
  by (simp add: store_inv_def runs_inv_def workers_inv_def fee_jobs_inv_def)

lemma store_inv_failures: "store_inv d \<Longrightarrow> store_inv (d\<lparr> db_failures := f \<rparr>)"
  using record_inv_cong [of "d\<lparr> db_failures := f \<rparr>" d]
  by (simp add: store_inv_def runs_inv_def workers_inv_def fee_jobs_inv_def)

lemma initialize_identity_store_inv:
  "store_inv d \<Longrightarrow> store_inv (snd (initialize_identity source m ds run d))"
proof -
  have "keeps store_inv (resolve_dataset fresh m h v)" for fresh h v
    unfolding resolve_dataset_def
    by (auto intro!: keeps_intros keeps_modify store_inv_manifests split: option.split)
  moreover have "keeps store_inv (close_orphans d s)" for d s
    unfolding close_orphans_def by (rule keeps_modify) (simp add: store_inv_close)
  moreover have "keeps store_inv (restart_gap d s r)" for d s r
    unfolding restart_gap_def
    by (rule keeps_modify) (auto split: option.split intro: store_inv_failures)
  moreover have "keeps store_inv (modify_tx (claim_status d s r))" for d s r
    by (rule keeps_modify) (simp add: claim_status_def store_inv_status)
  moreover have "keeps store_inv (insert_run r)" if "rn_last_seq r = 0" for r
    by (rule keepsI) (rule insert_run_store_inv [OF _ _ that])
  ultimately have "keeps store_inv (initialize_identity_tx source m ds run)"
    unfolding initialize_identity_tx_def Let_def by (intro keeps_intros) simp_all
  then show "store_inv d \<Longrightarrow> store_inv (snd (initialize_identity source m ds run d))"
    unfolding initialize_identity_def by (rule keeps_run)
qed

section \<open>All steps\<close>

lemma record_node_fees_store_inv: "keeps store_inv (record_node_fees_tx L st src event node)"
proof (rule keepsI)
  fix d u d' assume inv: "store_inv d" and run: "record_node_fees_tx L st src event node d = Inr (u, d')"
  from run obtain seq d1 n c d2 final where
    res: "reserve_capture_sequences (st_run st) (length [event]) d = Inr (seq, d1)" and
    ins: "insert_event L st Backfill None None None seq event Map.empty d1 = Inr ((n, c), d2)" and
    sched: "schedule_fee_job st src final None d2 = Inr (u, d')"
    unfolding record_node_fees_tx_def by (auto simp: res_simps split: prod.splits)
  from ins have "insert_all L st Backfill None None None seq [event] d1 = Inr (n, d2)"
    by (simp add: insert_all_def bind_tx_def ret_tx_def)
  from reserve_insert_store_inv [OF inv res this] have "store_inv d2" .
  moreover from schedule_fee_job_Inr [OF sched] obtain jobs where "d' = d2\<lparr> db_fee_jobs := jobs \<rparr>"
    by blast
  moreover have "fee_jobs_inv d2 \<Longrightarrow> fee_jobs_inv d'" by (rule keepsD [OF schedule_fee_job_inv sched])
  ultimately show "store_inv d'"
    using record_inv_cong [of d' d2] by (simp add: store_inv_def runs_inv_def workers_inv_def)
qed

lemma schedule_store_inv: "keeps store_inv (schedule_fee_job st src closed err)"
proof (rule keepsI)
  fix d u d' assume inv: "store_inv d" and sched: "schedule_fee_job st src closed err d = Inr (u, d')"
  from schedule_fee_job_Inr [OF sched] obtain jobs where "d' = d\<lparr> db_fee_jobs := jobs \<rparr>" by blast
  moreover have "fee_jobs_inv d \<Longrightarrow> fee_jobs_inv d'" by (rule keepsD [OF schedule_fee_job_inv sched])
  ultimately show "store_inv d'"
    using inv record_inv_cong [of d' d] by (simp add: store_inv_def runs_inv_def workers_inv_def)
qed

lemma init_worker_inv: "keeps workers_inv (init_worker run w u)"
  unfolding init_worker_def
  by (rule keeps_modify) (auto simp: workers_inv_def worker_key_def)

lemma recompute_workers_inv: "keeps workers_inv (recompute_extractor_error st)"
  unfolding recompute_extractor_error_def by (rule keeps_modify) (simp add: workers_inv_def)

lemma store_step_inv: "store_step L d d' \<Longrightarrow> store_inv d \<Longrightarrow> store_inv d'"
proof (induction rule: store_step.induct)
  case (tick d now)
  then show ?case
    using record_inv_cong [of "d\<lparr> db_clock := now \<rparr>" d]
    by (simp add: store_inv_def runs_inv_def workers_inv_def fee_jobs_inv_def)
next
  case (batch d st events mth inst)
  then show ?case
    by (simp add: record_batch_def keeps_run [OF record_batch_store_inv])
next
  case (snapshot d st gid events mth md)
  then show ?case
    by (simp add: record_snapshot_def keeps_run [OF record_snapshot_store_inv])
next
  case (tip d st block previous mth t)
  then show ?case
    by (simp add: record_tip_observation_def keeps_run [OF record_tip_store_inv])
next
  case (init_workers d st ws)
  have "keeps workers_inv (bind_tx (fold_tx (init_worker (st_run st)) ws ()) (\<lambda>_.
      recompute_extractor_error st))"
    by (intro keeps_intros init_worker_inv recompute_workers_inv)
  from keeps_run [OF this, of d] init_workers
  have "workers_inv (snd (initialize_worker_statuses st ws d))"
    by (simp add: initialize_worker_statuses_def store_inv_def)
  then show ?case
    by (rule store_inv_health [OF initialize_worker_statuses_frame _ init_workers])
next
  case (failure d st w err n)
  have "workers_inv (snd (record_worker_failure st w err n d))"
    using failure keeps_run [OF record_worker_failure_workers_inv]
    by (simp add: record_worker_failure_def store_inv_def)
  then show ?case
    using store_inv_health [OF health.rel_run [OF record_worker_failure_frame] _ failure]
    by (simp add: record_worker_failure_def)
next
  case (success d st w)
  have "workers_inv (snd (record_worker_success st w d))"
    using success keeps_run [OF record_worker_success_workers_inv]
    by (simp add: record_worker_success_def store_inv_def)
  then show ?case
    using store_inv_health [OF health.rel_run [OF record_worker_success_frame] _ success]
    by (simp add: record_worker_success_def)
next
  case (fees d st src event)
  then show ?case
    using keeps_run [OF record_node_fees_store_inv fees]
    by (auto simp: record_fee_enrichment_def split: option.splits monitor_event.splits)
next
  case (fee_failure d st src err)
  then show ?case by (simp add: record_fee_failure_def keeps_run [OF schedule_store_inv])
qed (simp_all add: initialize_identity_store_inv finish_run_store_inv set_history_floor_store_inv
    begin_cycle_store_inv record_history_page_store_inv resize_store_inv resume_store_inv
    settle_store_inv supersede_store_inv)

text \<open>The store is a step system with the empty record as its start.\<close>

interpretation store: step_system "\<lambda>d. d = empty_db" "store_step L" store_inv for L
  by unfold_locales (auto simp: store_inv_empty intro: store_step_inv)

definition reachable :: "libs \<Rightarrow> db \<Rightarrow> bool" where
  "reachable L d \<longleftrightarrow> (store_step L)\<^sup>*\<^sup>* empty_db d"

lemma reachable_store_inv: "reachable L d \<Longrightarrow> store_inv d"
  unfolding reachable_def by (rule store.reachable_inv) simp_all

end
