(* ===== verification/Samples.thy ===== *)
theory Samples
  imports Store_Steps
begin

text \<open>
  A small concrete record, built by the store's own operations, on which the hypotheses of the
  properties are seen to hold: a node dataset whose two-block history is imported and certified,
  and the same history with a conflicting block.
\<close>

definition sample_hash :: "u8 \<Rightarrow> bytes" where
  "sample_hash k = replicate 31 0 @ [k]"

definition sample_header :: "u8 \<Rightarrow> block_header" where
  "sample_header k = \<lparr> hdr_hash = sample_hash k, hdr_previous = sample_hash (k - 1),
     hdr_height = ucast k, hdr_block_work = [], hdr_cumulative_work = [], hdr_timestamp = 0 \<rparr>"

definition sample_block :: "u8 \<Rightarrow> observed_block" where
  "sample_block k = at_height (sample_hash k) (ucast k)"

definition sample_event :: "u8 \<Rightarrow> bytes \<Rightarrow> event" where
  "sample_event k raw = \<lparr> ev_timestamp = 7, ev_anchor = Some (sample_block k),
     ev_payload = Some (Node (Some (MainchainBlock (Some (sample_header k)) raw))) \<rparr>"

definition sample_store :: store where
  "sample_store = \<lparr> st_source = ''node'', st_dataset = ''ds'', st_run = ''run1'', st_version = 9,
     st_previous_tip = None \<rparr>"

definition sample_page :: "observed_block option \<Rightarrow> u8 \<Rightarrow> history_page" where
  "sample_page next k = \<lparr> hp_stream = ''mainchain_block'', hp_sidechain = None, hp_instance = None,
     hp_expected_next = sample_block k, hp_next = next \<rparr>"

definition sample_db1 :: db where
  "sample_db1 = snd (initialize_identity ''node'' default_manifest ''ds'' ''run1'' empty_db)"

definition sample_db2 :: db where
  "sample_db2 = snd (begin_history_cycle sample_store ''mainchain_block'' None None 1 None
     (sample_block 2) None (Some 0) 10 sample_db1)"

definition sample_db3 :: db where
  "sample_db3 = snd (record_history_page sample_libs sample_store
     [sample_event 2 [2], sample_event 1 [1]] (sample_page None 2) sample_db2)"

text \<open>A live fact for block 2 with other bytes, recorded before the page.\<close>

definition sample_db4 :: db where
  "sample_db4 = snd (record_batch sample_libs sample_store [sample_event 2 [9]] Live None sample_db2)"

lemma sample_reachable1: "reachable L sample_db1"
  unfolding reachable_def sample_db1_def by (rule r_into_rtranclp) (rule store_step.identity)

lemma sample_reachable2: "reachable L sample_db2"
  using sample_reachable1 [of L] unfolding reachable_def sample_db2_def
  by (rule rtranclp.rtrancl_into_rtrancl) (rule store_step.cycle)

lemma sample_reachable3: "reachable sample_libs sample_db3"
  using sample_reachable2 [of sample_libs] unfolding reachable_def sample_db3_def
  by (rule rtranclp.rtrancl_into_rtrancl) (rule store_step.page)

lemma sample_reachable4: "reachable sample_libs sample_db4"
  using sample_reachable2 [of sample_libs] unfolding reachable_def sample_db4_def
  by (rule rtranclp.rtrancl_into_rtrancl) (rule store_step.batch)

end
