(* ===== verification/Append_Only.thy ===== *)
theory Append_Only
  imports Samples
begin

text \<open>
  No operation of the store loses evidence: facts, occurrences, conflicts, tips, failures,
  snapshot groups, coverage revisions and certified blocks are only ever appended.
\<close>

lemma append_only_update [simp]:
  "append_only d (d\<lparr> db_runs := a \<rparr>)" "append_only d (d\<lparr> db_status := b \<rparr>)"
  "append_only d (d\<lparr> db_workers := c \<rparr>)" "append_only d (d\<lparr> db_manifests := m \<rparr>)"
  "append_only d (d\<lparr> db_fee_jobs := f \<rparr>)" "append_only d (d\<lparr> db_clock := t \<rparr>)"
  "append_only d (d\<lparr> db_failures := db_failures d @ g \<rparr>)"
  "append_only d (d\<lparr> db_groups := db_groups d @ h \<rparr>)"
  "append_only d (d\<lparr> db_tips := db_tips d @ i \<rparr>)"
  "append_only d (d\<lparr> db_observations := db_observations d @ j \<rparr>)"
  by (simp_all add: append_only_def)

lemma instance_frame_grows: "instance_frame d d' \<Longrightarrow> append_only d d'"
  by (cases d; cases d'; simp add: instance_frame_def append_only_def)

lemma insert_fact_grows: "rel_tx append_only (insert_fact row)"
proof (rule rel_txI)
  fix d x d' assume run: "insert_fact row d = Inr (x, d')"
  obtain b i where x: "x = (b, i)" by (cases x)
  from run [unfolded x] show "append_only d d'"
  proof (cases rule: insert_fact_cases)
    case known
    then show ?thesis by (simp add: grows.step_refl)
  next
    case (fresh r)
    then show ?thesis by (simp add: append_only_def observe_block_fact_def)
  qed
qed

lemma insert_event_grows: "rel_tx append_only (insert_event L st method grp es ei seq event cache)"
proof (rule rel_txI)
  fix d x d' assume run: "insert_event L st method grp es ei seq event cache d = Inr (x, d')"
  obtain n cache' where x: "x = (n, cache')" by (cases x)
  from run [unfolded x] show "append_only d d'"
  proof (cases rule: insert_eventE)
    case (1 f payload m auth cache1 d1 inst new i d2)
    have "append_only d d1"
      using rel_txD [OF update_sidechain_instances_frame 1(4)] by (rule instance_frame_grows)
    moreover have "append_only d1 d2" by (rule rel_txD [OF insert_fact_grows 1(6)])
    moreover have "append_only d2 d'" using insert_observation_Inr [OF 1(7)] by simp
    ultimately show ?thesis by (blast intro: grows.step_trans)
  qed
qed

lemma insert_all_grows: "rel_tx append_only (insert_all L st method grp es ei first events)"
  by (rule insert_all_rel [OF grows.step_relation_axioms insert_event_grows])

lemma reserve_grows: "rel_tx append_only (reserve_capture_sequences run n)"
  unfolding reserve_capture_sequences_def by (intro grows.rel_rules grows.rel_modify) simp_all

lemma validate_instance_grows: "rel_tx append_only (validate_sidechain_instance ds slot i)"
  unfolding validate_sidechain_instance_def by (rule grows.rel_ensure)

lemma update_status_grows: "rel_tx append_only (update_extractor_status st tip)"
  unfolding update_extractor_status_def by (intro grows.rel_rules grows.rel_modify) simp_all

lemma update_coverage_grows: "rel_tx append_only (update_coverage p f)"
  by (rule rel_txI) (rule coverage_frame_grows [OF rel_txD [OF update_coverage_frame]])

lemma upsert_coverage_grows: "rel_tx append_only (upsert_coverage r)"
proof -
  have "rel_tx append_only (certify_history r)"
    by (rule rel_txI) (rule coverage_frame_grows [OF rel_txD [OF certify_history_frame]])
  then have "rel_tx append_only (insert_coverage r)"
    unfolding insert_coverage_def
    by (intro grows.rel_rules grows.rel_modify) (simp_all add: append_only_def)
  then show ?thesis
    unfolding upsert_coverage_def
    by (auto intro!: grows.rel_rules update_coverage_grows split: option.split)
qed

lemma schedule_grows: "rel_tx append_only (schedule_fee_job st src closed err)"
  unfolding schedule_fee_job_def by (intro grows.rel_rules grows.rel_modify) simp_all

lemma health_grows: "health_frame d d' \<Longrightarrow> append_only d d'"
  by (cases d; cases d') (auto simp: health_frame_def append_only_def)

lemma batch_grows: "rel_tx append_only (record_batch_tx L st events method inst)"
  unfolding record_batch_tx_def
  by (auto intro!: grows.rel_rules validate_instance_grows reserve_grows insert_all_grows
      split: option.split)

lemma snapshot_grows: "rel_tx append_only (record_snapshot_tx L st gid events method m)"
  unfolding record_snapshot_tx_def insert_group_def
  by (auto intro!: grows.rel_rules grows.rel_modify reserve_grows insert_all_grows
      update_status_grows split: prod.split)

lemma tip_grows: "rel_tx append_only (record_tip_tx st tip previous method at)"
  unfolding record_tip_tx_def insert_tip_def
  by (auto intro!: grows.rel_rules grows.rel_modify reserve_grows update_status_grows
      split: prod.split)

lemma fees_grows: "rel_tx append_only (record_node_fees_tx L st src event node)"
  unfolding record_node_fees_tx_def
  by (auto intro!: grows.rel_rules reserve_grows insert_event_grows schedule_grows
      split: prod.split)

lemma identity_grows: "rel_tx append_only (initialize_identity_tx source m ds run)"
proof -
  have "rel_tx append_only (resolve_dataset fresh m h v)" for fresh h v
    unfolding resolve_dataset_def
    by (auto intro!: grows.rel_rules grows.rel_modify split: option.split)
  moreover have "rel_tx append_only (insert_run r)" for r
    unfolding insert_run_def by (intro grows.rel_rules grows.rel_modify) simp_all
  moreover have "rel_tx append_only (restart_gap d s r)" for d s r
    unfolding restart_gap_def
    by (rule grows.rel_modify) (simp add: grows.step_refl split: option.split)
  ultimately show ?thesis
    unfolding initialize_identity_tx_def close_orphans_def claim_status_def Let_def
    by (intro grows.rel_rules grows.rel_modify) simp_all
qed

lemma page_grows: "rel_tx append_only (record_history_page_tx L st events page)"
proof -
  have "rel_tx append_only (validate_page_instance st page)"
    unfolding validate_page_instance_def
    by (auto intro: grows.rel_ret validate_instance_grows split: option.split)
  then show ?thesis
    unfolding record_history_page_tx_def Let_def
    by (auto intro!: grows.rel_rules reserve_grows insert_all_grows update_coverage_grows
        split: prod.split)
qed

lemma finish_grows: "rel_tx append_only (finish_run_tx st status reason)"
  unfolding finish_run_tx_def by (intro grows.rel_rules grows.rel_modify) simp_all

lemma step_grows: "store_step L d d' \<Longrightarrow> append_only d d'"
proof (induction rule: store_step.induct)
  case (page d st events page)
  then show ?case using grows.rel_run [OF page_grows] by (simp add: record_history_page_def case_prod_beta)
next
  case (cycle d st stream sl inst start covered target fh ft n)
  show ?case
    unfolding begin_history_cycle_def case_prod_beta Let_def snd_conv
    by (rule grows.rel_run)
      (auto intro!: grows.rel_rules upsert_coverage_grows split: prod.split)
next
  case (fees d st src event)
  show ?case
    using grows.rel_run [OF fees_grows] grows.step_refl
    by (auto simp: record_fee_enrichment_def split: option.splits monitor_event.splits)
next
  case (settle d st stream sl inst err)
  show ?case
    unfolding settle_history_failure_def Let_def
    by (rule grows.rel_run) (intro grows.rel_rules update_coverage_grows)
next
  case (init_workers d st ws)
  show ?case by (rule health_grows [OF initialize_worker_statuses_frame])
next
  case (failure d st w err n)
  show ?case
    unfolding record_worker_failure_def
    by (rule health_grows [OF health.rel_run [OF record_worker_failure_frame]])
next
  case (success d st w)
  show ?case
    unfolding record_worker_success_def
    by (rule health_grows [OF health.rel_run [OF record_worker_success_frame]])
qed (simp_all add: grows.step_refl record_batch_def record_snapshot_def record_tip_observation_def
    initialize_identity_def finish_run_def record_fee_failure_def set_history_floor_def
    resize_history_page_def resume_history_def supersede_history_def
    grows.rel_run [OF batch_grows] grows.rel_run [OF snapshot_grows] grows.rel_run [OF tip_grows]
    grows.rel_run [OF identity_grows] grows.rel_run [OF finish_grows]
    grows.rel_run [OF schedule_grows] grows.rel_run grows.rel_bind grows.rel_lift grows.rel_ret
    update_coverage_grows)

end
