(* ===== verification/Store_Properties.thy ===== *)
theory Store_Properties
  imports Append_Only
begin

text \<open>
  The properties of certified history: what a certified block rests on, what the page that completes
  a cycle certifies, what a conflict suspends, and that a refused page changes nothing.
\<close>

section \<open>Certified history\<close>

definition linked :: "certified_row \<Rightarrow> certified_row \<Rightarrow> bool" where
  "linked c p \<longleftrightarrow>
     ce_scope p = ce_scope c \<and> ce_hash p = ce_previous c \<and> ce_height p = ce_height c - 1"

definition starts_coverage :: "db \<Rightarrow> certified_row \<Rightarrow> bool" where
  "starts_coverage d c \<longleftrightarrow>
     (\<exists>r \<in> snd ` set (db_revisions d).
        cv_scope r = ce_scope c \<and> cv_status r = Complete \<and> cv_start r = ce_height c)"

definition certified_chain :: "db \<Rightarrow> certified_row list \<Rightarrow> bool" where
  "certified_chain d cs \<longleftrightarrow>
     cs \<noteq> [] \<and> set cs \<subseteq> set (db_certified d) \<and>
     (\<forall>i. Suc i < length cs \<longrightarrow> linked (cs ! i) (cs ! Suc i)) \<and> starts_coverage d (last cs)"

lemma certified_chain_Cons:
  assumes "certified_chain d cs" "c \<in> set (db_certified d)" "linked c (hd cs)"
  shows "certified_chain d (c # cs)"
proof -
  have "linked ((c # cs) ! i) ((c # cs) ! Suc i)" if "Suc i < length (c # cs)" for i
    using that assms by (cases i) (auto simp: certified_chain_def hd_conv_nth)
  with assms(1,2) show ?thesis by (auto simp: certified_chain_def)
qed

lemma cert_inv_chain:
  assumes inv: "cert_inv d" and c: "c \<in> set (db_certified d)"
  shows "\<exists>cs. certified_chain d cs \<and> hd cs = c"
  using c
proof (induction "nat (ce_height c)" arbitrary: c rule: less_induct)
  case less
  from inv less.prems have g: "grounded (snd ` set (db_revisions d)) (set (db_certified d)) c"
    "0 \<le> ce_height c" by (auto simp: cert_inv_def cert_ok_def)
  from g(1) show ?case unfolding grounded_def
  proof (elim disjE bexE conjE)
    fix p assume p: "p \<in> set (db_certified d)" "ce_scope p = ce_scope c"
      "ce_hash p = ce_previous c" "ce_height p = ce_height c - 1"
    from inv p(1) have "0 \<le> ce_height p" by (auto simp: cert_inv_def cert_ok_def)
    with p(4) g(2) have "nat (ce_height p) < nat (ce_height c)" by linarith
    from less.hyps [OF this p(1)] obtain cs where "certified_chain d cs" "hd cs = p" by blast
    with p less.prems certified_chain_Cons [of d cs c] show ?thesis
      by (intro exI [of _ "c # cs"]) (simp add: linked_def)
  next
    fix r assume "r \<in> snd ` set (db_revisions d)" "cv_scope r = ce_scope c"
      "cv_status r = Complete" "cv_start r = ce_height c"
    with less.prems show ?thesis
      by (intro exI [of _ "[c]"]) (auto simp: certified_chain_def starts_coverage_def)
  qed
qed

lemma sample_certified: "db_certified sample_db3 \<noteq> []"
  by code_simp

lemma certified_chain_exists:
  assumes "reachable L d" and "c \<in> set (db_certified d)"
  shows "\<exists>cs. certified_chain d cs \<and> hd cs = c \<and> (\<forall>b \<in> set cs. backed (set (db_events d)) b)"
proof -
  have inv: "cert_inv d"
    using reachable_store_inv [OF assms(1)] by (simp add: store_inv_def record_inv_def)
  from cert_inv_chain [OF this assms(2)] obtain cs where "certified_chain d cs" "hd cs = c" by blast
  moreover from this have "\<forall>b \<in> set cs. backed (set (db_events d)) b"
    using inv by (auto simp: certified_chain_def cert_inv_def cert_ok_def)
  ultimately show ?thesis by blast
qed

text \<open>C1: In every reachable state of the record, a certified block heads a chain of certified
  blocks of its scope, each the recorded parent of the one before and one height lower, that ends
  where a completed coverage of the scope starts; and each is backed by a recorded block fact with
  its hash, parent and height. Certification never has a hole.\<close>

theorem certified_history_linked:
  assumes "reachable L d" and "c \<in> set (db_certified d)"
  shows "\<exists>cs. certified_chain d cs \<and> hd cs = c \<and> (\<forall>b \<in> set cs. backed (set (db_events d)) b)"
  by (rule certified_chain_exists [OF assms])

theorem certified_history_linked_witness:
  "\<exists>cs. certified_chain sample_db3 cs \<and> hd cs = hd (db_certified sample_db3) \<and>
     (\<forall>b \<in> set cs. backed (set (db_events sample_db3)) b)"
  using certified_history_linked [OF sample_reachable3, of "hd (db_certified sample_db3)"]
    sample_certified by simp

section \<open>Historical pages\<close>

lemma insert_certified_is:
  "c \<in> set new \<Longrightarrow> is_certified (insert_certified new cs) (ce_scope c) (Some (ce_hash c))"
  using insert_certified_key [of c new cs] unfolding is_certified_def by fastforce

lemma is_certified_mono: "is_certified cs s h \<Longrightarrow> set cs \<subseteq> set cs' \<Longrightarrow> is_certified cs' s h"
  unfolding is_certified_def by blast

lemma certify_history_target:
  assumes run: "certify_history r d = Inr (u, d')" and c: "cv_status r = Complete"
    and inv: "facts_inv d"
    and uniq: "\<And>kind. history_kind (sc_name (cv_scope r)) = Inr kind \<Longrightarrow>
                 unique_blocks (set (db_events d)) (fact_scope (cv_scope r) kind)"
  shows "is_certified (db_certified d') (cv_scope r) (Some (cv_target_hash r))"
  using run
proof (cases rule: certify_history_cases)
  case other
  with c show ?thesis by simp
next
  case (complete kind path)
  from certify_path_single [OF uniq [OF complete(2)] facts_inv_distinct [OF inv] complete(3,4)]
  obtain e where e: "er_block_hash e = Some (cv_target_hash r)"
    "path = path_from (db_events d) (db_certified d) (cv_scope r)
       (fact_scope (cv_scope r) kind) (cv_start r) e" by blast
  then have in_path: "e \<in> set path"
    using path_from_Cons [of "db_events d" "db_certified d" "cv_scope r"
        "fact_scope (cv_scope r) kind" "cv_start r" e] by auto
  let ?new = "map (certified_of (cv_scope r))
    (filter (\<lambda>e. \<not> is_certified (db_certified d) (cv_scope r) (er_block_hash e)) path)"
  show ?thesis
  proof (cases "is_certified (db_certified d) (cv_scope r) (er_block_hash e)")
    case True
    with e(1) have "is_certified (db_certified d) (cv_scope r) (Some (cv_target_hash r))" by simp
    then show ?thesis
      unfolding complete(6) by (simp add: is_certified_mono [OF _ set_mono_prefix [OF insert_certified_prefix]])
  next
    case False
    with in_path have "certified_of (cv_scope r) e \<in> set ?new" by simp
    from insert_certified_is [OF this, of "db_certified d"] complete(6) e(1) show ?thesis
      by (simp add: certified_of_def)
  qed
qed

lemma update_coverage_target:
  assumes run: "update_coverage p f d = Inr (n, d')" and inv: "facts_inv d"
    and r: "r \<in> set (db_coverage d)" "p r" "cv_status (f r) = Complete"
    and one: "filter p (db_coverage d) = [r]"
    and uniq: "\<And>kind. history_kind (sc_name (cv_scope (f r))) = Inr kind \<Longrightarrow>
                 unique_blocks (set (db_events d)) (fact_scope (cv_scope (f r)) kind)"
  shows "is_certified (db_certified d') (cv_scope (f r)) (Some (cv_target_hash (f r)))"
proof -
  from run obtain d1 where cert: "certify_history (f r) d = Inr ((), d1)"
    and "db_certified d' = db_certified d1"
    by (auto simp: update_coverage_def res_simps one)
  with certify_history_target [OF cert r(3) inv uniq] show ?thesis by simp
qed

lemma filter_single: "count_where p rows = 1 \<Longrightarrow> r \<in> set rows \<Longrightarrow> p r \<Longrightarrow> filter p rows = [r]"
proof -
  assume "count_where p rows = 1" and r: "r \<in> set rows" "p r"
  then obtain x where "filter p rows = [x]" by (auto simp: count_where_def length_Suc_conv)
  moreover from r have "r \<in> set (filter p rows)" by simp
  ultimately show ?thesis by simp
qed

lemma complete_page_row:
  assumes inv: "store_inv d"
    and run: "record_history_page_tx L st events page d = Inr ((n, False), d')"
    and last: "hp_next page = None"
  shows "\<exists>r \<in> set (db_coverage d'). cv_scope r = page_scope st page \<and> cv_status r = Complete \<and>
     cv_next_hash r = None \<and> cv_covered_hash r = Some (cv_target_hash r) \<and>
     cv_covered_height r = Some (cv_target_height r) \<and>
     is_certified (db_certified d') (cv_scope r) (Some (cv_target_hash r))"
  using run
proof (rule record_history_page_txE)
  fix expected next_hash next_height first d1 d2 kind
  assume parts: "optional_block_parts (hp_next page) = Inr (next_hash, next_height)"
    and res: "reserve_capture_sequences (st_run st) (length events) d = Inr (first, d1)"
    and ins: "insert_all L st Backfill None (map_option i16_of_u8 (hp_sidechain page))
        (hp_instance page) first events d1 = Inr (n, d2)"
    and kind: "history_kind (hp_stream page) = Inr kind"
    and conf: "False \<longleftrightarrow> page_conflict (fact_scope (page_scope st page) kind) events page d2"
    and upd: "update_coverage
         (page_predicate (page_scope st page) (ob_hash (hp_expected_next page)) expected)
         (advance_row False (hp_next page = None \<and> \<not> False)
            (if False then Some (ob_hash (hp_expected_next page)) else next_hash)
            (if False then Some expected else next_height) (int n) (db_clock d2)) d2
         = Inr (1, d')" (is "update_coverage ?p ?f d2 = _")
  have i2: "store_inv d2" by (rule reserve_insert_store_inv [OF inv res ins])
  then have facts: "facts_inv d2" "conflicts_exact d2" by (simp_all add: store_inv_def record_inv_def)
  from upd obtain count: "count_where ?p (db_coverage d2) = 1"
    and new: "db_coverage d' = update_where ?p ?f (db_coverage d2)"
    by (metis update_coverageE)
  then obtain r where r: "r \<in> set (db_coverage d2)" "?p r"
    using count_where_pos [of ?p "db_coverage d2"] by auto
  have fr: "?f r \<in> set (db_coverage d')" unfolding new set_update_where using r by blast
  have none: "\<not> conflict_in (fact_scope (page_scope st page) kind) (\<lambda>_. True) d2"
    using conf last by (simp add: page_conflict_def)
  have scope: "cv_scope (?f r) = page_scope st page"
    using r(2) by (simp add: page_predicate_def)
  have complete: "cv_status (?f r) = Complete" using last by (simp add: advance_row_def)
  have "is_certified (db_certified d') (cv_scope (?f r)) (Some (cv_target_hash (?f r)))"
  proof (rule update_coverage_target [OF upd facts(1) r complete filter_single [OF count r]])
    fix k assume "history_kind (sc_name (cv_scope (?f r))) = Inr k"
    with scope kind have "k = kind" by simp
    with scope none facts kind
    show "unique_blocks (set (db_events d2)) (fact_scope (cv_scope (?f r)) k)"
      by (simp add: no_conflict_unique_blocks history_kind_block)
  qed
  with fr scope complete show ?thesis
    by (intro bexI [OF _ fr]) (use last parts in \<open>auto simp: advance_row_def\<close>)
qed

lemma record_history_page_Inr:
  "record_history_page L st events page d = (Inr n, d') \<Longrightarrow>
     record_history_page_tx L st events page d = Inr ((n, False), d')"
  by (auto simp: record_history_page_cases split: sum.splits prod.splits if_splits)

lemma last_page_certified:
  assumes "reachable L d"
    and "record_history_page L st events page d = (Inr n, d')" and "hp_next page = None"
  shows "\<exists>r \<in> set (db_coverage d'). cv_scope r = page_scope st page \<and> cv_status r = Complete \<and>
     cv_next_hash r = None \<and> cv_covered_hash r = Some (cv_target_hash r) \<and>
     cv_covered_height r = Some (cv_target_height r) \<and>
     is_certified (db_certified d') (cv_scope r) (Some (cv_target_hash r))"
  using complete_page_row [OF reachable_store_inv [OF assms(1)] record_history_page_Inr [OF assms(2)]
      assms(3)] .

text \<open>The last page of an import (no next cursor) that succeeds leaves its scope complete: the
  covered tip is the target, the cursor is gone, and the target block is certified.\<close>

theorem last_page_certifies_target:
  assumes "reachable L d"
    and "record_history_page L st events page d = (Inr n, d')" and "hp_next page = None"
  shows "\<exists>r \<in> set (db_coverage d'). cv_scope r = page_scope st page \<and> cv_status r = Complete \<and>
     cv_next_hash r = None \<and> cv_covered_hash r = Some (cv_target_hash r) \<and>
     cv_covered_height r = Some (cv_target_height r) \<and>
     is_certified (db_certified d') (cv_scope r) (Some (cv_target_hash r))"
  by (rule last_page_certified [OF assms])

lemma sample_page_ok:
  "fst (record_history_page sample_libs sample_store [sample_event 2 [2], sample_event 1 [1]]
     (sample_page None 2) sample_db2) = Inr 2"
  by code_simp

lemma sample_page_run:
  "record_history_page sample_libs sample_store [sample_event 2 [2], sample_event 1 [1]]
     (sample_page None 2) sample_db2 = (Inr 2, sample_db3)"
  by (rule prod_eqI) (simp_all only: sample_page_ok fst_conv snd_conv sample_db3_def)

theorem last_page_certifies_target_witness:
  "\<exists>r \<in> set (db_coverage sample_db3). cv_scope r = page_scope sample_store (sample_page None 2) \<and>
     cv_status r = Complete \<and> cv_next_hash r = None \<and>
     cv_covered_hash r = Some (cv_target_hash r) \<and>
     cv_covered_height r = Some (cv_target_height r) \<and>
     is_certified (db_certified sample_db3) (cv_scope r) (Some (cv_target_hash r))"
  by (rule last_page_certifies_target [OF sample_reachable2 sample_page_run])
    (simp add: sample_page_def)

lemma conflict_page_row:
  assumes "record_history_page_tx L st events page d = Inr ((n, True), d')" and "coverage_inv d"
  shows "\<exists>r \<in> set (db_coverage d). cv_scope r = page_scope st page \<and> cv_status r = Running \<and>
    cv_next_hash r = Some (ob_hash (hp_expected_next page)) \<and>
    r\<lparr> cv_status := ErrorStatus, cv_error := Some HISTORY_CONFLICT,
       cv_rows := cv_rows r + int n, cv_completed_at := None \<rparr> \<in> set (db_coverage d')"
  using assms
proof (rule record_history_page_row, goal_cases)
  case (1 r expected next_hash next_height)
  have "advance_row True False (cv_next_hash r) (cv_next_height r) (int n) (db_clock d) r =
      r\<lparr> cv_status := ErrorStatus, cv_error := Some HISTORY_CONFLICT,
         cv_rows := cv_rows r + int n, cv_completed_at := None \<rparr>"
    by (simp add: advance_row_def)
  with 1(8) have "r\<lparr> cv_status := ErrorStatus, cv_error := Some HISTORY_CONFLICT,
         cv_rows := cv_rows r + int n, cv_completed_at := None \<rparr> \<in> set (db_coverage d')"
    by simp
  with 1(1,2,3,4) show ?case by blast
qed


definition sample_db5 :: db where
  "sample_db5 = snd (record_history_page sample_libs sample_store
     [sample_event 2 [2], sample_event 1 [1]] (sample_page None 2) sample_db4)"

lemma sample_conflict:
  "record_history_page_tx sample_libs sample_store [sample_event 2 [2], sample_event 1 [1]]
     (sample_page None 2) sample_db4 = Inr ((2, True), sample_db5)"
  by code_simp


text \<open>A historical page either commits or leaves the record exactly as it was: the only error
  that comes with a changed record is the retained conflict.\<close>

theorem history_page_atomic:
  assumes "record_history_page L st events page d = (Inl e, d')"
  shows "d' = d \<or> e = HistoryConflict"
  using assms by (auto simp: record_history_page_cases split: sum.splits prod.splits if_splits)

theorem history_page_atomic_witness:
  "snd (record_history_page sample_libs sample_store [] (sample_page None 2) sample_db2) = sample_db2 \<or>
     Message ''a historical page cannot be empty'' = HistoryConflict"
  by (rule history_page_atomic [of sample_libs sample_store "[]" "sample_page None 2" sample_db2])
    (simp add: prod_eq_iff record_history_page_cases record_history_page_tx_def lift_tx_def bind_tx_def)

end
