(* ===== verification/Record_Properties.thy ===== *)
theory Record_Properties
  imports Store_Properties
begin

text \<open>
  Facts, occurrences, sequences and runs: what holds of them in every reachable record, and what
  recording the same observation again does.
\<close>

section \<open>Facts and conflicts\<close>

text \<open>C15: In every reachable record the conflict rows are exactly the pairs of block facts of one
  scope that report the same block hash with different content: every disagreement about an
  immutable block is retained, and nothing else is.\<close>

theorem conflict_rows_exact:
  assumes "reachable L d"
  shows "(\<exists>c \<in> set (db_conflicts d). cn_first c = i \<and> cn_second c = j) \<longleftrightarrow>
    (\<exists>e \<in> set (db_events d). \<exists>e' \<in> set (db_events d).
       er_id e = i \<and> er_id e' = j \<and> sc_name (er_scope e') \<in> block_kinds \<and> conflicts_with e' e)"
  using reachable_store_inv [OF assms] by (simp add: store_inv_def record_inv_def conflicts_exact_def)

lemma sample_reachable5: "reachable sample_libs sample_db5"
  using sample_reachable4 unfolding reachable_def sample_db5_def
  by (rule rtranclp.rtrancl_into_rtrancl) (rule store_step.page)

lemma sample_conflicts: "map (\<lambda>c. (cn_first c, cn_second c)) (db_conflicts sample_db5) = [(1, 2)]"
  by code_simp

theorem conflict_rows_exact_witness:
  "\<exists>e \<in> set (db_events sample_db5). \<exists>e' \<in> set (db_events sample_db5).
     er_id e = 1 \<and> er_id e' = 2 \<and> sc_name (er_scope e') \<in> block_kinds \<and> conflicts_with e' e"
proof -
  have "(1, 2) \<in> set (map (\<lambda>c. (cn_first c, cn_second c)) (db_conflicts sample_db5))"
    unfolding sample_conflicts by simp
  then have "\<exists>c \<in> set (db_conflicts sample_db5). cn_first c = 1 \<and> cn_second c = 2" by auto
  then show ?thesis unfolding conflict_rows_exact [OF sample_reachable5] .
qed

text \<open>In every reachable record a fact has one row: two event rows with the same scope, block
  hash and content digest are the same row, and identifiers grow in the order of recording, so a
  consumer paging by identifier misses nothing.\<close>

theorem facts_unique_and_ordered:
  assumes "reachable L d"
  shows "sorted_wrt (<) (map er_id (db_events d)) \<and>
    (\<forall>e \<in> set (db_events d). \<forall>e' \<in> set (db_events d). same_fact e e' \<longrightarrow> e = e')"
  using reachable_store_inv [OF assms] by (simp add: store_inv_def record_inv_def facts_inv_def)

section \<open>Sequences and runs\<close>

text \<open>C16: In every reachable record, the capture sequence numbers of a run (those of its event
  occurrences and of its tip observations together) are exactly 1 to the run's counter, each used
  once: no reserved number is lost or reused.\<close>

theorem capture_sequences_complete:
  assumes "reachable L d" and "r \<in> set (db_runs d)"
  shows "distinct (used_seqs d (rn_id r)) \<and> set (used_seqs d (rn_id r)) = {1..rn_last_seq r}"
  using reachable_store_inv [OF assms(1)] assms(2)
  by (simp add: store_inv_def record_inv_def seqs_inv_def)

lemma sample_runs: "map (\<lambda>r. (rn_id r, rn_last_seq r)) (db_runs sample_db3) = [(''run1'', 2)]"
  by code_simp

theorem capture_sequences_complete_witness:
  "set (used_seqs sample_db3 ''run1'') = {1..2} \<and> distinct (used_seqs sample_db3 ''run1'')"
proof -
  from sample_runs obtain r where r: "r \<in> set (db_runs sample_db3)" "rn_id r = ''run1''" "rn_last_seq r = 2"
    by (auto simp: map_eq_Cons_conv)
  from capture_sequences_complete [OF sample_reachable3 r(1)] r(2, 3) show ?thesis by simp
qed

text \<open>In every reachable record a source has at most one running run in a dataset, and run
  identifiers are unique: starting an extractor closes the run an unclean exit left open.\<close>

theorem one_running_run:
  assumes "reachable L d"
  shows "distinct (map rn_id (db_runs d)) \<and> count_where (orphaned ds source) (db_runs d) \<le> 1"
  using reachable_store_inv [OF assms] by (simp add: store_inv_def runs_inv_def)

definition sample_db6 :: db where
  "sample_db6 = snd (initialize_identity ''node'' default_manifest ''ds'' ''run2'' sample_db3)"

lemma sample_reachable6: "reachable sample_libs sample_db6"
  using sample_reachable3 unfolding reachable_def sample_db6_def
  by (rule rtranclp.rtrancl_into_rtrancl) (rule store_step.identity)

theorem one_running_run_witness:
  "distinct (map rn_id (db_runs sample_db6)) \<and> count_where (orphaned ''ds'' ''node'') (db_runs sample_db6) \<le> 1"
  by (rule one_running_run [OF sample_reachable6])

text \<open>C17: Every operation of the store only adds to the record: the facts, occurrences, conflicts,
  tips, failures, snapshot groups, coverage revisions and certified blocks of a state are a prefix
  of those of every later state.\<close>

theorem record_only_grows:
  assumes "(store_step L)\<^sup>*\<^sup>* d d'"
  shows "append_only d d'"
  using assms
proof (induction rule: rtranclp_induct)
  case base
  show ?case by (rule grows.step_refl)
next
  case (step y z)
  with step_grows show ?case by (blast intro: grows.step_trans)
qed

theorem record_only_grows_witness: "append_only sample_db2 sample_db3"
  by (rule record_only_grows [of sample_libs], unfold sample_db3_def, rule r_into_rtranclp)
    (rule store_step.page)

section \<open>Starting a run\<close>

lemma initialize_identity_Inr:
  assumes "initialize_identity source m ds0 run0 d = (Inr (ds, run, tip), d')"
  obtains row height version u d1 d2 d3 r where
    "resolve_dataset ds0 m height version d = Inr (row, d1)" "ds = mf_dataset row" "run = run0"
    "8 \<le> dm_version m \<longrightarrow> mf_version row = version"
    "close_orphans ds source d1 = Inr ((), d2)"
    "insert_run r d2 = Inr ((), d3)" "rn_id r = run0" "rn_dataset r = ds" "rn_source r = source"
    "rn_status r = ''running''" "rn_last_seq r = 0" "db_runs d' = db_runs d3"
    "db_status d3 = db_status d" "read_previous_tip ds source d3 = Inr tip"
proof -
  from assms obtain row height version d1 d2 d3 d4 r u1 u2 u3 where
    h: "resolve_dataset ds0 m height version d = Inr (row, d1)" "ds = mf_dataset row" "run = run0"
    "8 \<le> dm_version m \<longrightarrow> mf_version row = version"
    "close_orphans ds source d1 = Inr (u1, d2)"
    "insert_run r d2 = Inr (u2, d3)" "rn_id r = run0" "rn_dataset r = ds" "rn_source r = source"
    "rn_status r = ''running''" "rn_last_seq r = 0"
    "(if source = ''enforcer'' \<and> 8 \<le> dm_version m then restart_gap ds source run0
      else ret_tx ()) d3 = Inr (u3, d4)"
    "read_previous_tip ds source d4 = Inr tip" "d' = claim_status ds source run0 d4"
  proof -
    from assms show thesis
      unfolding initialize_identity_def run_tx_Inr initialize_identity_tx_def Let_def
      apply (simp only: bind_tx_Inr lift_tx_Inr get_tx_Inr ret_tx_Inr modify_tx_Inr ensure_Inr_iff
          split_paired_Ex prod.inject ex_simps simp_thms)
      apply clarify
      apply (rule that)
                  apply (assumption | rule refl | simp only: run_row.select_convs | blast)+
      done
  qed
  have "db_runs d4 = db_runs d3 \<and> db_status d4 = db_status d3"
    using h(12) by (auto simp: restart_gap_def res_simps split: if_splits option.splits)
  moreover have "db_status d1 = db_status d" "db_status d2 = db_status d1" "db_status d3 = db_status d2"
    using h(1,5,6) by (auto simp: resolve_dataset_def close_orphans_def insert_run_def res_simps split: option.splits)
  moreover have "read_previous_tip ds source d3 = Inr tip"
    using h(13) calculation by (simp add: read_previous_tip_def)
  moreover have "db_runs d' = db_runs d3" using h(14) calculation by (simp add: claim_status_def)
  ultimately show thesis using h by (intro that) simp_all
qed

text \<open>C18: Starting an extractor succeeds only with a new run that is the one running run of its
  source in the dataset, numbered from zero; every other run of the source in the dataset is
  closed; and the tip it reports is the one this source's status held before.\<close>

theorem startup_takes_over:
  assumes "initialize_identity source m ds0 run0 d = (Inr (ds, run, tip), d')"
  shows "run = run0 \<and> filter (orphaned ds source) (db_runs d') = [last (db_runs d')] \<and>
    rn_id (last (db_runs d')) = run0 \<and> rn_last_seq (last (db_runs d')) = 0 \<and>
    length (db_runs d') = Suc (length (db_runs d)) \<and>
    read_previous_tip ds source d = Inr tip"
  using assms
proof (rule initialize_identity_Inr)
  fix row height version d1 d2 d3 r
  assume h: "resolve_dataset ds0 m height version d = Inr (row, d1)" "run = run0"
    "close_orphans ds source d1 = Inr ((), d2)" "insert_run r d2 = Inr ((), d3)"
    "rn_id r = run0" "rn_dataset r = ds" "rn_source r = source" "rn_status r = ''running''"
    "rn_last_seq r = 0" "db_runs d' = db_runs d3" "db_status d3 = db_status d"
    "read_previous_tip ds source d3 = Inr tip"
  have runs: "db_runs d' = db_runs d2 @ [r]" using insert_run_Inr [OF h(4)] h(10) by simp
  have "filter (orphaned ds source) (db_runs d2) = []"
    using close_orphans_none [OF h(3)] by (simp add: count_where_def)
  moreover have "orphaned ds source r" using h(6-8) by (simp add: orphaned_def)
  moreover have "length (db_runs d2) = length (db_runs d)"
    using h(1,3) by (auto simp: resolve_dataset_def close_orphans_def res_simps split: option.splits)
  moreover have "read_previous_tip ds source d = Inr tip"
    using h(11,12) by (simp add: read_previous_tip_def)
  ultimately show ?thesis using runs h(2,5,9) by simp
qed

lemma sample_identity:
  "initialize_identity ''node'' default_manifest ''ds'' ''run2'' sample_db3 =
     (Inr (''ds'', ''run2'', None), sample_db6)"
  by (rule prod_eqI) (code_simp, simp add: sample_db6_def)

theorem startup_takes_over_witness:
  "filter (orphaned ''ds'' ''node'') (db_runs sample_db6) = [last (db_runs sample_db6)]"
  using startup_takes_over [OF sample_identity] by simp

end
