(* ===== verification/Operation_Properties.thy ===== *)
theory Operation_Properties
  imports Record_Properties
begin

text \<open>
  What the single operations of the store achieve for worker health and confirmed fees.
\<close>

section \<open>Worker health\<close>

lemma update_where_find:
  assumes "find p rows = Some r" and "count_where p rows \<le> 1"
  shows "filter p (update_where p f rows) = (if p (f r) then [f r] else [])"
  using assms
proof (induction rows)
  case Nil
  then show ?case by simp
next
  case (Cons x rows)
  show ?case
  proof (cases "p x")
    case True
    with Cons.prems have "x = r" "count_where p rows = 0" by simp_all
    with True show ?thesis by (auto simp: update_where_none count_where_0 filter_empty_conv)
  next
    case False
    with Cons show ?thesis by simp
  qed
qed

lemma u32_of_int_uint: "u32_of_int i = Some k \<Longrightarrow> uint k = i"
  by (auto simp: u32_of_int_def uint_word_of_int split: if_splits)

lemma fail_worker_key [simp]: "worker_key run w (fail_worker t err now r) = worker_key run w r"
  by (simp add: worker_key_def fail_worker_def)

text \<open>A recorded worker failure raises that worker's count by one, returns the new count, keeps
  the evidence in the failure log, and shows the error on the worker's row exactly when the count
  has reached the threshold; the source's status then shows the errors of all its workers.\<close>

theorem worker_failure_recorded:
  assumes "reachable L d" and "record_worker_failure st w err n d = (Inr k, d')"
  shows "\<exists>r r'. find (worker_key (st_run st) w) (db_workers d) = Some r \<and>
     filter (worker_key (st_run st) w) (db_workers d') = [r'] \<and>
     wk_failures r' = wk_failures r + 1 \<and> uint k = wk_failures r' \<and>
     wk_error r' = (if uint n \<le> wk_failures r' then Some err else None) \<and>
     db_failures d' = db_failures d @ [\<lparr> fl_dataset = st_dataset st, fl_run = st_run st,
       fl_worker = worker_str w, fl_error = err \<rparr>] \<and>
     (\<forall>s \<in> set (db_status d'). own_status st s \<longrightarrow>
        ss_error s = aggregate_error (st_run st) (db_workers d'))"
proof -
  from assms(2) have run: "record_worker_failure_tx st w err n d = Inr (k, d')"
    by (simp add: record_worker_failure_def run_tx_Inr)
  have inv: "workers_inv d" using reachable_store_inv [OF assms(1)] by (simp add: store_inv_def)
  from run obtain r threshold where h:
    "find (worker_key (st_run st) w) (db_workers d) = Some r" "i32_of_u32 n = Some threshold"
    "u32_of_int (wk_failures r + 1) = Some k"
    "db_workers d' = update_where (worker_key (st_run st) w)
       (fail_worker threshold err (db_clock d)) (db_workers d)"
    "db_failures d' = db_failures d @ [\<lparr> fl_dataset = st_dataset st, fl_run = st_run st,
       fl_worker = worker_str w, fl_error = err \<rparr>]"
    "db_status d' = update_where (own_status st)
       (\<lambda>r. r\<lparr> ss_error := aggregate_error (st_run st) (db_workers d') \<rparr>) (db_status d)"
    by (rule record_worker_failure_Inr)
  let ?r' = "fail_worker threshold err (db_clock d) r"
  have "worker_key (st_run st) w r" using h(1) by (auto dest: find_SomeD)
  then have row: "filter (worker_key (st_run st) w) (db_workers d') = [?r']"
    using update_where_find [OF h(1) worker_count_le_1 [OF inv]] by (simp add: h(4))
  have "uint k = wk_failures r + 1"
    by (rule u32_of_int_uint [OF h(3)])
  moreover have "threshold = uint n" using h(2) by (simp add: int_simps)
  moreover have "\<forall>s \<in> set (db_status d'). own_status st s \<longrightarrow>
      ss_error s = aggregate_error (st_run st) (db_workers d')"
    unfolding h(6) set_update_where by auto
  ultimately show ?thesis using row h(1,5)
    by (intro exI [of _ r] exI [of _ ?r']) (simp add: fail_worker_def)
qed

text \<open>Reporting a failure, or a success, of a worker whose row was never initialized is an
  error and records nothing, neither the count nor the evidence.\<close>

lemma uninitialized_worker_fails:
  assumes "\<forall>r \<in> set (db_workers d). \<not> worker_key (st_run st) w r"
    and "0 < n" and "uint n < 2 ^ 31"
  shows "record_worker_failure st w err n d =
      (Inl (Message ''worker status was not initialized''), d) \<and>
    record_worker_success st w d = (Inl (Message ''worker status was not initialized''), d)"
proof -
  have "find (worker_key (st_run st) w) (db_workers d) = None"
    using assms(1) by (simp add: find_None_iff)
  moreover have "count_where (worker_key (st_run st) w) (db_workers d) = 0"
    using assms(1) by (simp add: count_where_0)
  moreover have "n \<noteq> 0" using assms(2) by auto
  ultimately show ?thesis using assms(3)
    by (simp add: record_worker_failure_def record_worker_failure_tx_def record_worker_success_def
        record_worker_success_tx_def run_tx_def bind_tx_def lift_tx_def get_tx_def modify_tx_def
        i32_of_u32_def try_from_def bail_def)
qed

section \<open>Fee jobs\<close>


definition sample_db8 :: db where
  "sample_db8 = snd (record_fee_failure sample_store 1 ''no peers'' sample_db3)"

lemma sample_reachable8: "reachable sample_libs sample_db8"
  using sample_reachable3 unfolding reachable_def sample_db8_def
  by (rule rtranclp.rtrancl_into_rtrancl) (rule store_step.fee_failure)


lemma record_node_fees_Inr:
  assumes "record_node_fees_tx L st source_id event node d = Inr (u, d')"
  obtains header fees source candidates txs where
    "node = Some (ConfirmedBmmFees (Some header) fees source)"
    "observed_bmm_candidates L st (hdr_hash header) (hdr_previous header) d = Inr candidates"
    "check_fees candidates [] fees = Inr ()" "source_block L st source_id header d = Inr txs"
    "\<forall>fee \<in> set fees. \<exists>t \<in> set txs. bt_txid t = hex_encode L (cf_txid fee)"
  using assms unfolding record_node_fees_tx_def
  by (auto simp: res_simps bail_def split: option.splits node_event.splits)


definition decode_libs :: libs where
  "decode_libs = sample_libs\<lparr> decode_event := (\<lambda>_. Some (sample_event 1 [1])),
     deserialize_block := (\<lambda>_. Some []) \<rparr>"

definition sample_fees :: event where
  "sample_fees = \<lparr> ev_timestamp = 8, ev_anchor = Some (sample_block 1),
     ev_payload = Some (Node (Some (ConfirmedBmmFees (Some (sample_header 1)) [] []))) \<rparr>"

lemma sample_fees_recorded:
  "fst (record_fee_enrichment decode_libs sample_store 2 sample_fees sample_db3) = Inr ()"
  by code_simp


end
