(* ===== verification/Lifecycle_Properties.thy ===== *)
theory Lifecycle_Properties
  imports Operation_Properties
begin

text \<open>
  What recording the same observations again does to the facts of the record.
\<close>

section \<open>Recording again\<close>

text \<open>The fact of an event filed under a given instance is already in the record.\<close>

definition fact_known :: "libs \<Rightarrow> store \<Rightarrow> string option \<Rightarrow> db \<Rightarrow> event \<Rightarrow> bool" where
  "fact_known L st inst d event \<longleftrightarrow>
     (\<exists>f m. facts event = Inr f \<and> ev_payload event = Some m \<and>
        (\<exists>r \<in> set (db_events d). same_fact (fact_row L st event f inst JNull m) r))"

definition unscoped_event :: "event \<Rightarrow> bool" where
  "unscoped_event event \<longleftrightarrow> (\<forall>f. facts event = Inr f \<longrightarrow> fc_sidechain f = None)"

lemma same_fact_payload:
  "same_fact (fact_row L st event f inst p m) r \<longleftrightarrow> same_fact (fact_row L st event f inst JNull m) r"
  by (simp add: same_fact_def fact_row_def)

lemma same_fact_store:
  "st_source st' = st_source st \<Longrightarrow> st_dataset st' = st_dataset st \<Longrightarrow> st_version st' = st_version st \<Longrightarrow>
     fact_row L st' event f inst p m = fact_row L st event f inst p m"
  by (simp add: fact_row_def scope_of_def)

lemma resolve_fixed:
  assumes "resolve_instance ds f es ei c d = Inr ((inst, c'), d')"
    and "es = None \<longrightarrow> fc_sidechain f = None"
  shows "inst = ei"
  using assms unfolding resolve_instance_def
  by (auto simp: res_simps split: option.splits if_splits)

lemma fact_known_mono: "fact_known L st inst d event \<Longrightarrow> set (db_events d) \<subseteq> set (db_events d') \<Longrightarrow>
    fact_known L st inst d' event"
  unfolding fact_known_def by blast

lemma insert_event_fact:
  assumes run: "insert_event L st method grp es ei seq event c d = Inr ((n, c'), d')"
    and es: "es = None \<longrightarrow> unscoped_event event"
  shows "fact_known L st ei d' event \<and>
    (fact_known L st ei d event \<longrightarrow> n = 0 \<and> db_events d' = db_events d)"
  using run
proof (cases rule: insert_eventE)
  case (1 f payload m auth cache1 d1 inst new i d2)
  have inst: "inst = ei"
    using resolve_fixed [OF 1(5)] es 1(1) by (auto simp: unscoped_event_def)
  have ev: "db_events d' = db_events d2" "db_events d1 = db_events d"
    using insert_observation_Inr [OF 1(7)]
      instance_frameD [OF rel_txD [OF update_sidechain_instances_frame 1(4)]] by simp_all
  note fact = insert_fact_events [OF 1(6) [unfolded inst]]
  have "fact_known L st ei d' event"
    using 1(1,2) fact ev(1) unfolding fact_known_def same_fact_payload [of L st event f ei payload] by auto
  moreover have "n = 0 \<and> db_events d' = db_events d" if "fact_known L st ei d event"
  proof -
    from that 1(1,2) ev(2) obtain r where "r \<in> set (db_events d1)"
      "same_fact (fact_row L st event f ei payload m) r"
      unfolding fact_known_def by (auto simp: same_fact_payload [of L st event f ei payload])
    then have "\<not> new" using 1(6) [unfolded inst] by (auto elim!: insert_fact_cases)
    with fact 1(8) ev show ?thesis by simp
  qed
  ultimately show ?thesis by blast
qed

lemma insert_fold_facts:
  assumes "fold_tx (\<lambda>(seq, event) (n, cache).
      bind_tx (insert_event L st method grp es ei seq event cache)
        (\<lambda>(i, cache). ret_tx (n + i, cache))) xs (k, c) d = Inr ((n, c'), d')"
    and "\<forall>x \<in> set xs. es = None \<longrightarrow> unscoped_event (snd x)"
  shows "prefix (db_events d) (db_events d') \<and> (\<forall>x \<in> set xs. fact_known L st ei d' (snd x)) \<and>
    ((\<forall>x \<in> set xs. fact_known L st ei d (snd x)) \<longrightarrow> n = k \<and> db_events d' = db_events d)"
  using assms
proof (induction xs arbitrary: k c d)
  case Nil
  then show ?case by auto
next
  case (Cons x xs)
  obtain seq ev where x: "x = (seq, ev)" by (cases x)
  from Cons.prems(1) obtain m c1 d1 where
    one: "insert_event L st method grp es ei seq ev c d = Inr ((m, c1), d1)"
    and rest: "fold_tx (\<lambda>(seq, event) (n, cache).
      bind_tx (insert_event L st method grp es ei seq event cache)
        (\<lambda>(i, cache). ret_tx (n + i, cache))) xs (k + m, c1) d1 = Inr ((n, c'), d')"
    by (auto simp: x res_simps)
  have "\<forall>x \<in> set xs. es = None \<longrightarrow> unscoped_event (snd x)" using Cons.prems(2) by simp
  note ih = Cons.IH [OF rest this]
  have es: "es = None \<longrightarrow> unscoped_event ev" using Cons.prems(2) by (simp add: x)
  note ev = insert_event_fact [OF one es]
  have pre: "prefix (db_events d) (db_events d1)" using insert_event_observes [OF one] by blast
  have "fact_known L st ei d' ev"
    using ev ih set_mono_prefix fact_known_mono by blast
  moreover have "n = k \<and> db_events d' = db_events d" if all: "\<forall>y \<in> set (x # xs). fact_known L st ei d (snd y)"
  proof -
    from all ev have "m = 0" "db_events d1 = db_events d" by (simp_all add: x)
    moreover have "\<forall>y \<in> set xs. fact_known L st ei d1 (snd y)"
      using all calculation(2) by (simp add: fact_known_def)
    ultimately show ?thesis using ih by simp
  qed
  ultimately show ?case using ih pre by (auto simp: x intro: prefix_order.trans)
qed

lemma insert_all_facts:
  assumes "insert_all L st method grp es ei first events d = Inr (n, d')"
    and "es = None \<longrightarrow> (\<forall>event \<in> set events. unscoped_event event)"
  shows "(\<forall>event \<in> set events. fact_known L st ei d' event) \<and>
    ((\<forall>event \<in> set events. fact_known L st ei d event) \<longrightarrow> n = 0 \<and> db_events d' = db_events d)"
proof -
  let ?xs = "zip (map (\<lambda>i. first + int i) [0..<length events]) events"
  from assms(1) obtain c' where run: "fold_tx (\<lambda>(seq, event) (n, cache).
      bind_tx (insert_event L st method grp es ei seq event cache)
        (\<lambda>(i, cache). ret_tx (n + i, cache))) ?xs (0, Map.empty) d = Inr ((n, c'), d')"
    by (auto simp: insert_all_def res_simps)
  have snds: "set events = snd ` set ?xs"
    by (simp flip: set_map)
  have "\<forall>x \<in> set ?xs. es = None \<longrightarrow> unscoped_event (snd x)" using assms(2) snds by auto
  from insert_fold_facts [OF run this] show ?thesis unfolding snds by auto
qed

lemma record_batch_txE:
  assumes "record_batch_tx L st events method inst d = Inr (n, d')"
  obtains first d1 where "db_events d1 = db_events d"
    "insert_all L st method None (map_option (\<lambda>i. i16_of_u8 (ir_sidechain i)) inst)
       (map_option ir_instance_id inst) first events d1 = Inr (n, d')"
proof -
  from assms obtain first d1 where
    "reserve_capture_sequences (st_run st) (length events) d = Inr (first, d1)"
    "insert_all L st method None (map_option (\<lambda>i. i16_of_u8 (ir_sidechain i)) inst)
       (map_option ir_instance_id inst) first events d1 = Inr (n, d')"
    by (auto simp: record_batch_tx_def validate_sidechain_instance_def res_simps
        split: option.splits)
  then show thesis using reserve_frame(5) by (intro that) 
qed

text \<open>C24: Recording is idempotent on facts: once a batch is in the record, recording it again, in the
  same or a later run of the source and by any capture method, inserts no fact, whatever was
  recorded in between; it only adds occurrences. (Slot-scoped events are given their instance, as
  the extractor gives it; a batch without one holds global events.)\<close>

theorem recording_again_adds_no_fact:
  assumes "record_batch L st events method inst d = (Inr n, d1)"
    and "inst = None \<longrightarrow> (\<forall>event \<in> set events. unscoped_event event)"
    and "append_only d1 d2"
    and "st_source st' = st_source st" "st_dataset st' = st_dataset st" "st_version st' = st_version st"
    and "record_batch L st' events method' inst d2 = (Inr n', d3)"
  shows "n' = 0 \<and> db_events d3 = db_events d2"
proof (cases "events = []")
  case True
  with assms(7) show ?thesis by (simp add: record_batch_def)
next
  case False
  let ?es = "map_option (\<lambda>i. i16_of_u8 (ir_sidechain i)) inst"
  have glob: "?es = None \<longrightarrow> (\<forall>event \<in> set events. unscoped_event event)" using assms(2) by simp
  from False assms(1) have "record_batch_tx L st events method inst d = Inr (n, d1)"
    by (simp add: record_batch_def run_tx_Inr)
  then obtain first da where one: "insert_all L st method None ?es (map_option ir_instance_id inst)
      first events da = Inr (n, d1)" by (rule record_batch_txE)
  from False assms(7) have "record_batch_tx L st' events method' inst d2 = Inr (n', d3)"
    by (simp add: record_batch_def run_tx_Inr)
  then obtain first' db where db: "db_events db = db_events d2"
    and two: "insert_all L st' method' None ?es (map_option ir_instance_id inst)
      first' events db = Inr (n', d3)" by (rule record_batch_txE)
  have sub: "set (db_events d1) \<subseteq> set (db_events db)"
    unfolding db using assms(3) by (simp add: append_only_def set_mono_prefix)
  have "fact_known L st' (map_option ir_instance_id inst) db event" if "event \<in> set events" for event
  proof -
    have "fact_known L st (map_option ir_instance_id inst) d1 event"
      using insert_all_facts [OF one glob] that by blast
    then have "fact_known L st (map_option ir_instance_id inst) db event"
      by (rule fact_known_mono [OF _ sub])
    then show ?thesis
      unfolding fact_known_def same_fact_store [OF assms(4,5,6)] .
  qed
  with insert_all_facts [OF two glob] db show ?thesis by simp
qed

lemma sample_again:
  "fst (record_batch sample_libs sample_store [sample_event 2 [9]] Live None sample_db2) = Inr 1"
  "fst (record_batch sample_libs sample_store [sample_event 2 [9]] Poll None sample_db4) = Inr 0"
  by code_simp+

theorem recording_again_adds_no_fact_witness:
  "db_events (snd (record_batch sample_libs sample_store [sample_event 2 [9]] Poll None sample_db4)) =
     db_events sample_db4"
proof -
  have one: "record_batch sample_libs sample_store [sample_event 2 [9]] Live None sample_db2 =
      (Inr 1, sample_db4)"
    using sample_again(1) by (simp add: prod_eq_iff sample_db4_def)
  have two: "record_batch sample_libs sample_store [sample_event 2 [9]] Poll None sample_db4 =
      (Inr 0, snd (record_batch sample_libs sample_store [sample_event 2 [9]] Poll None sample_db4))"
    using sample_again(2) by (simp add: prod_eq_iff)
  have "unscoped_event (sample_event 2 [9])"
    by (auto simp: unscoped_event_def facts_def sample_event_def res_simps)
  then show ?thesis
    using recording_again_adds_no_fact [OF one _ grows.step_refl refl refl refl two] by simp
qed

end
