(* ===== verification/Coverage_Properties.thy ===== *)
theory Coverage_Properties
  imports Lifecycle_Properties
begin

text \<open>
  The lifecycle of a coverage row: a cycle is read back as it was begun, and a failed cursor resumes
  where it stopped.
\<close>

section \<open>Coverage rows\<close>

lemma find_update_where:
  assumes "find p rows = Some r" and "p (f r)" and "\<And>x. p x \<Longrightarrow> p (f x)"
  shows "find p (update_where p f rows) = Some (f r)"
  using assms by (induction rows) (auto split: if_splits)

lemma find_append_none: "find p rows = None \<Longrightarrow> p r \<Longrightarrow> find p (rows @ [r]) = Some r"
  by (induction rows) (auto split: if_splits)

lemma upsert_coverage_find:
  assumes run: "upsert_coverage new d = Inr (row, d')" and run': "cv_status new \<noteq> Complete"
  shows "find (in_scope (cv_scope new)) (db_coverage d') = Some row"
proof (cases "find (in_scope (cv_scope new)) (db_coverage d)")
  case None
  with run have ins: "insert_coverage new d = Inr ((), d')" and row: "row = new"
    by (auto simp: upsert_coverage_def res_simps)
  have "db_coverage d' = db_coverage d @ [new]"
    using ins run' by (rule insert_coverageE)
  with None row show ?thesis by (simp add: find_append_none in_scope_def)
next
  case (Some old)
  with run obtain n where "update_coverage (in_scope (cv_scope new)) (restart_cycle new) d = Inr (n, d')"
    and row: "row = restart_cycle new old"
    by (auto simp: upsert_coverage_def res_simps)
  then have "db_coverage d' = update_where (in_scope (cv_scope new)) (restart_cycle new) (db_coverage d)"
    by (auto elim: update_coverageE)
  with find_update_where [OF Some, of "restart_cycle new"] row show ?thesis
    by (simp add: in_scope_def restart_cycle_def)
qed

text \<open>A history cycle that was begun is read back as it was returned, for the same stream and
  scope: the cursor the import will follow is the durable one.\<close>

theorem begun_cycle_is_read_back:
  assumes "begin_history_cycle st stream slot inst start covered target fh ft page d = (Inr hc, d')"
  shows "history_coverage st stream slot inst d' = Inr (Some hc)"
proof -
  let ?s = "history_scope st stream slot inst"
  from assms obtain row start' ch ct th ft' pb where
    valid: "validate_history_scope slot inst = Inr ()"
    and up: "upsert_coverage (begin_cycle_row ?s start' ch ct (ob_hash target) th fh ft' pb (db_clock d)) d
      = Inr (row, d')"
    and hc: "history_coverage_from_row row = Inr hc"
    unfolding begin_history_cycle_def
    by (auto simp: run_tx_def res_simps split: sum.splits)
  from upsert_coverage_find [OF up] have "find (in_scope ?s) (db_coverage d') = Some row"
    by (simp add: begin_cycle_row_def)
  with valid hc show ?thesis by (simp add: history_coverage_def)
qed

lemma sample_cycle:
  "is_ok (fst (begin_history_cycle sample_store ''mainchain_block'' None None 1 None (sample_block 2)
      None (Some 0) 10 sample_db1))"
  by code_simp

theorem begun_cycle_is_read_back_witness:
  "\<exists>hc. history_coverage sample_store ''mainchain_block'' None None sample_db2 = Inr (Some hc)"
proof -
  obtain hc where "begin_history_cycle sample_store ''mainchain_block'' None None 1 None
      (sample_block 2) None (Some 0) 10 sample_db1 = (Inr hc, sample_db2)"
    using sample_cycle unfolding is_ok_iff sample_db2_def by (auto simp: prod_eq_iff)
  then show ?thesis using begun_cycle_is_read_back by blast
qed

text \<open>An update that completes no row and keeps the checks goes through.\<close>

lemma certify_all_skip:
  "(\<And>r. r \<in> set rs \<Longrightarrow> cv_status r \<noteq> Complete) \<Longrightarrow>
     fold_tx (\<lambda>r _. certify_history r) rs () d = Inr ((), d)"
proof (induction rs)
  case Nil
  then show ?case by simp
next
  case (Cons r rs)
  then show ?case by (simp add: bind_tx_def certify_history_def ret_tx_def)
qed

lemma update_coverage_ok:
  assumes "\<And>r. r \<in> set (db_coverage d) \<Longrightarrow> p r \<Longrightarrow> coverage_checks (f r) \<and> cv_status (f r) \<noteq> Complete"
  shows "update_coverage p f d = Inr (count_where p (db_coverage d),
    d\<lparr> db_coverage := update_where p f (db_coverage d),
       db_revisions := db_revisions d @ map (Pair ''UPDATE'') (map f (filter p (db_coverage d))) \<rparr>)"
proof -
  have "fold_tx (\<lambda>r _. certify_history r) (map f (filter p (db_coverage d))) () d = Inr ((), d)"
    by (rule certify_all_skip) (use assms in auto)
  moreover have "list_all coverage_checks (map f (filter p (db_coverage d)))"
    using assms by (auto simp: list_all_iff)
  ultimately show ?thesis
    by (simp add: update_coverage_def bind_tx_def get_tx_def ensure_tx_def modify_tx_def ret_tx_def
        count_where_def)
qed

lemma settle_history_Inr:
  assumes "settle_history_failure st stream slot inst err d = (Inr status, d')"
  obtains n where
    "update_coverage (\<lambda>r. cv_scope r = history_scope st stream slot inst \<and> cv_status r = Running)
       (settle_row (scope_current st slot inst d) err) d = Inr (n, d')"
    "validate_history_scope slot inst = Inr ()"
  using assms unfolding settle_history_failure_def run_tx_Inr Let_def
  by (auto simp: res_simps)

text \<open>C28: A running import that fails while its scope is still current is settled as an error with
  its cursor and covered tip untouched; and resuming it then succeeds and puts it back exactly as
  it was, apart from its error text: an import continues at the block where it stopped.\<close>

theorem failed_history_resumes_in_place:
  assumes "reachable L d"
    and "r \<in> set (db_coverage d)" "cv_scope r = history_scope st stream slot inst" "cv_status r = Running"
    and "scope_current st slot inst d"
    and "settle_history_failure st stream slot inst err d = (Inr status, d1)"
  shows "r\<lparr> cv_status := ErrorStatus, cv_error := Some err \<rparr> \<in> set (db_coverage d1) \<and>
    (\<exists>d2. resume_history st stream slot inst d1 = (Inr (), d2) \<and>
       r\<lparr> cv_error := None \<rparr> \<in> set (db_coverage d2) \<and>
       map cv_scope (db_coverage d2) = map cv_scope (db_coverage d))"
proof -
  let ?s = "history_scope st stream slot inst"
  let ?p = "\<lambda>r. cv_scope r = ?s \<and> cv_status r = Running"
  let ?e = "settle_row True err"
  let ?f = "\<lambda>r. r\<lparr> cv_status := Running, cv_error := None \<rparr>"
  have inv: "coverage_inv d"
    using reachable_store_inv [OF assms(1)] by (simp add: store_inv_def record_inv_def)
  from assms(6) obtain n where upd: "update_coverage ?p ?e d = Inr (n, d1)"
    and valid: "validate_history_scope slot inst = Inr ()"
    by (rule settle_history_Inr) (simp add: assms(5))
  then have cov: "db_coverage d1 = update_where ?p ?e (db_coverage d)" by (auto elim: update_coverageE)
  have inv1: "coverage_inv d1"
    by (rule keepsD [OF update_coverage_inv upd inv]) (simp add: settle_row_def)
  have row: "?e r \<in> set (db_coverage d1)" unfolding cov set_update_where using assms(2-4) by blast
  have row_eq: "?e r = r\<lparr> cv_status := ErrorStatus, cv_error := Some err \<rparr>"
    by (simp add: settle_row_def)
  have next_hash: "cv_next_hash r \<noteq> None"
    using inv assms(2,4) by (auto simp: coverage_inv_def coverage_checks_def)
  have res: "resumable ?s (?e r)" using assms(3) next_hash by (simp add: row_eq resumable_def)
  have ok: "coverage_checks (?f q) \<and> cv_status (?f q) \<noteq> Complete"
    if "q \<in> set (db_coverage d1)" "resumable ?s q" for q
    using that inv1 by (auto simp: coverage_inv_def coverage_checks_def resumable_def)
  have count: "count_where (resumable ?s) (db_coverage d1) = 1"
  proof (rule antisym)
    show "count_where (resumable ?s) (db_coverage d1) \<le> 1"
      by (rule count_scope_le_1 [OF inv1]) (auto simp: resumable_def)
    have "0 < count_where (resumable ?s) (db_coverage d1)"
      unfolding count_where_pos using row res by blast
    then show "1 \<le> count_where (resumable ?s) (db_coverage d1)" by simp
  qed
  obtain d2 where d2: "update_coverage (resumable ?s) ?f d1 = Inr (1, d2)"
    and cov2: "db_coverage d2 = update_where (resumable ?s) ?f (db_coverage d1)"
    by (rule that, rule update_coverage_ok [of d1 "resumable ?s" ?f, OF ok, unfolded count]) simp_all
  have "resume_history st stream slot inst d1 = (Inr (), d2)"
    by (simp add: resume_history_def run_tx_def bind_tx_def lift_tx_def valid d2)
  moreover have "?f (?e r) \<in> set (db_coverage d2)"
    unfolding cov2 set_update_where using row res by blast
  moreover have "?f (?e r) = r\<lparr> cv_error := None \<rparr>" using assms(4) by (cases r) (simp add: settle_row_def)
  moreover have "map cv_scope (db_coverage d2) = map cv_scope (db_coverage d)"
    unfolding cov2 cov update_where_def by (simp add: settle_row_def)
  ultimately show ?thesis using row row_eq by auto
qed

lemma sample_settle:
  "fst (settle_history_failure sample_store ''mainchain_block'' None None ''rpc'' sample_db2) = Inr ErrorStatus"
  by code_simp

theorem failed_history_resumes_in_place_witness:
  "\<exists>d2. resume_history sample_store ''mainchain_block'' None None
      (snd (settle_history_failure sample_store ''mainchain_block'' None None ''rpc'' sample_db2))
      = (Inr (), d2) \<and> (hd (db_coverage sample_db2))\<lparr> cv_error := None \<rparr> \<in> set (db_coverage d2)"
proof -
  have r: "hd (db_coverage sample_db2) \<in> set (db_coverage sample_db2)" by code_simp
  have s: "cv_scope (hd (db_coverage sample_db2)) =
      history_scope sample_store ''mainchain_block'' None None"
    "cv_status (hd (db_coverage sample_db2)) = Running" by code_simp+
  have cur: "scope_current sample_store None None sample_db2" by (simp add: scope_current_def)
  have run: "settle_history_failure sample_store ''mainchain_block'' None None ''rpc'' sample_db2 =
      (Inr ErrorStatus, snd (settle_history_failure sample_store ''mainchain_block'' None None ''rpc'' sample_db2))"
    using sample_settle by (simp add: prod_eq_iff)
  from failed_history_resumes_in_place [OF sample_reachable2 r s cur run] show ?thesis by blast
qed

end
