(* ===== verification/Reading_Properties.thy ===== *)
theory Reading_Properties
  imports Coverage_Properties
begin

text \<open>
  What an active-sidechains reading does to the current instances, the instance identifier, the
  rendered payload, and the schema migrations.
\<close>

section \<open>Current instances\<close>

definition filed :: "string \<Rightarrow> (int \<times> string) list \<Rightarrow> current_row list \<Rightarrow> bool" where
  "filed ds current rows \<longleftrightarrow>
     (\<forall>c \<in> set rows. cu_dataset c = ds \<longrightarrow> (cu_sidechain c, cu_instance c) \<in> set current)"

lemma filed_retire: "filed ds current (retire_replaced ds current rows)"
  by (auto simp: filed_def retire_replaced_def)

lemma filed_insert: "filed ds current rows \<Longrightarrow> set new \<subseteq> set current \<Longrightarrow> filed ds current (insert_current ds at new rows)"
proof (induction ds at new rows rule: insert_current.induct)
  case (1 ds at rows)
  then show ?case by simp
next
  case (2 ds at slot inst new rows)
  have "filed ds current (if \<exists>c \<in> set rows. cu_dataset c = ds \<and> cu_sidechain c = slot then rows
      else rows @ [\<lparr> cu_dataset = ds, cu_sidechain = slot, cu_instance = inst, cu_at = at \<rparr>])"
    using "2.prems" by (simp add: filed_def)
  moreover have "set new \<subseteq> set current" using "2.prems"(2) by simp
  ultimately show ?case unfolding insert_current.simps by (rule "2.IH")
qed

lemma insert_current_prefix: "set rows \<subseteq> set (insert_current ds at new rows)"
proof (induction ds at new rows rule: insert_current.induct)
  case (1 ds at rows)
  then show ?case by simp
next
  case (2 ds at slot inst current rows)
  then show ?case by (auto split: if_splits)
qed

lemma insert_current_slots:
  "(slot, inst) \<in> set new \<Longrightarrow>
     \<exists>c \<in> set (insert_current ds at new rows). cu_dataset c = ds \<and> cu_sidechain c = slot"
proof (induction ds at new rows rule: insert_current.induct)
  case (1 ds at rows)
  then show ?case by simp
next
  case (2 ds at s i current rows)
  let ?rows = "if \<exists>c \<in> set rows. cu_dataset c = ds \<and> cu_sidechain c = s then rows
        else rows @ [\<lparr> cu_dataset = ds, cu_sidechain = s, cu_instance = i, cu_at = at \<rparr>]"
  show ?case
  proof (cases "(slot, inst) \<in> set current")
    case True
    with 2 show ?thesis by simp
  next
    case False
    with "2.prems" have "s = slot" by simp
    then have "\<exists>c \<in> set ?rows. cu_dataset c = ds \<and> cu_sidechain c = slot" by auto
    with insert_current_prefix [of ?rows ds at current] show ?thesis
      by (simp only: insert_current.simps) blast
  qed
qed

lemma current_after_reading:
  assumes "distinct (map fst current)"
  shows "current_sidechain_instance ds slot (set_current ds at current d) = map_of (rev current) slot"
proof -
  let ?rows = "insert_current ds at current (retire_replaced ds current (db_current d))"
  have filed: "filed ds current ?rows" by (intro filed_insert filed_retire order_refl)
  have dist: "distinct (map fst (rev current))" using assms by (simp flip: rev_map)
  show ?thesis
  proof (cases "find (\<lambda>c. cu_dataset c = ds \<and> cu_sidechain c = slot) ?rows")
    case None
    then have "\<nexists>inst. (slot, inst) \<in> set current"
      using insert_current_slots [of slot _ current ds at "retire_replaced ds current (db_current d)"]
      by (auto simp: find_None_iff)
    then have "map_of (rev current) slot = None" by (auto simp: map_of_eq_None_iff image_iff)
    with None show ?thesis by (simp add: current_sidechain_instance_def set_current_def)
  next
    case (Some c)
    then have "c \<in> set ?rows" "cu_dataset c = ds" "cu_sidechain c = slot" by (auto dest: find_SomeD)
    with filed have "(slot, cu_instance c) \<in> set (rev current)" by (auto simp: filed_def)
    then have "map_of (rev current) slot = Some (cu_instance c)" using dist by (rule map_of_is_SomeI [rotated])
    with Some show ?thesis by (simp add: current_sidechain_instance_def set_current_def)
  qed
qed

lemma record_instance_slot:
  "record_instance L ds at sc current d = Inr (current', d') \<Longrightarrow>
     \<exists>inst. current' = current @ [(uint (as_sidechain sc), inst)]"
  by (auto simp: record_instance_def res_simps i16_of_u32_def split: if_splits)

lemma record_instances_slots:
  "fold_tx (record_instance L ds at) snapshot current d = Inr (current', d') \<Longrightarrow>
     map fst current' = map fst current @ map (\<lambda>sc. uint (as_sidechain sc)) snapshot"
proof (induction snapshot arbitrary: current d)
  case Nil
  then show ?case by simp
next
  case (Cons sc snapshot)
  from Cons.prems obtain c1 d1 where one: "record_instance L ds at sc current d = Inr (c1, d1)"
    and rest: "fold_tx (record_instance L ds at) snapshot c1 d1 = Inr (current', d')"
    by (auto simp: res_simps)
  from record_instance_slot [OF one] Cons.IH [OF rest] show ?case by auto
qed


definition sample_sidechain :: "u32 \<Rightarrow> u32 \<Rightarrow> active_sidechain" where
  "sample_sidechain slot height = \<lparr> as_sidechain = slot, as_raw_description = [1, 7], as_vote_count = 0,
     as_proposal_height = 1, as_activation_height = height, as_declaration = None,
     as_description_hash = rev (sample_digest [7]) \<rparr>"

definition sample_reading :: "active_sidechain list \<Rightarrow> event" where
  "sample_reading l = \<lparr> ev_timestamp = 5, ev_anchor = Some (sample_block 2),
     ev_payload = Some (Enforcer (Some (ActiveSidechains l))) \<rparr>"

definition reading_outcome :: "active_sidechain list \<Rightarrow> int \<Rightarrow> (string option \<times> string option) option" where
  "reading_outcome l slot =
     (case update_sidechain_instances sample_libs ''ds'' (sample_reading l) 5 True Map.empty sample_db1 of
        Inl e \<Rightarrow> None
      | Inr (cache, d) \<Rightarrow> Some (cache slot, current_sidechain_instance ''ds'' slot d))"

lemma sample_reading_ok:
  "is_ok (update_sidechain_instances sample_libs ''ds''
     (sample_reading [sample_sidechain 3 5, sample_sidechain 4 6]) 5 True Map.empty sample_db1)"
  by code_simp


text \<open>
  With one slot listed twice the two disagree: the cache keeps the last instance, the table the
  first. (The conversion of a reply never checks that its slots are distinct.)
\<close>

lemma repeated_slot_disagrees:
  "\<exists>a b. reading_outcome [sample_sidechain 3 5, sample_sidechain 3 6] 3 = Some (Some a, Some b) \<and> a \<noteq> b"
proof -
  have "(case reading_outcome [sample_sidechain 3 5, sample_sidechain 3 6] 3 of
      Some (Some a, Some b) \<Rightarrow> a \<noteq> b | _ \<Rightarrow> False)" by code_simp
  then show ?thesis by (auto split: option.splits)
qed

section \<open>Snapshots that are not authoritative\<close>

lemma insert_event_unauthoritative:
  assumes run: "insert_event L st method (Some gid) es ei seq event c d = Inr ((n, c'), d')"
    and grp: "find (\<lambda>r. gr_id r = gid) (db_groups d) = Some g"
      "gr_consistency g \<notin> {''stable'', ''tip_matched''}"
  shows "db_current d' = db_current d \<and> db_groups d' = db_groups d"
  using run
proof (cases rule: insert_eventE)
  case (1 f payload m auth cache1 d1 inst new i d2)
  from 1(3) grp have auth: "\<not> auth" by (auto simp: group_authoritative_def res_simps)
  have upsert: "rel_tx (\<lambda>d d'. db_current d' = db_current d) (upsert_instance r)" for r
    by (auto simp: rel_tx_def upsert_instance_def res_simps bail_def split: if_splits)
  have "rel_tx (\<lambda>d d'. db_current d' = db_current d) (record_instance L (st_dataset st) t sc cur)" for t sc cur
    using upsert by (auto simp: rel_tx_def record_instance_def res_simps)
  then have fold: "db_current d' = db_current d"
    if "fold_tx (record_instance L (st_dataset st) t) scs cur d = Inr (x, d')" for t scs cur x d d'
    using that by (induction scs arbitrary: cur d) (auto simp: res_simps rel_tx_def)
  have "db_current d1 = db_current d"
    using 1(4) auth by (auto simp: update_sidechain_instances_def res_simps split: option.splits dest: fold)
  moreover have "db_current d2 = db_current d1" using 1(6) by (elim insert_fact_cases) simp_all
  moreover have "db_groups d' = db_groups d" by (rule record_frameD(5) [OF rel_txD [OF insert_event_frame run]])
  ultimately show ?thesis using insert_observation_Inr [OF 1(7)] by simp
qed

lemma insert_all_unauthoritative:
  assumes "insert_all L st method (Some gid) es ei first events d = Inr (n, d')"
    and "find (\<lambda>r. gr_id r = gid) (db_groups d) = Some g"
      "gr_consistency g \<notin> {''stable'', ''tip_matched''}"
  shows "db_current d' = db_current d"
proof -
  let ?P = "\<lambda>s. find (\<lambda>r. gr_id r = gid) (db_groups s) = Some g \<and> db_current s = db_current d"
  have "keeps ?P (insert_event L st method (Some gid) es ei seq event c)" for seq event c
    by (rule keepsI) (use assms(3) in \<open>auto dest!: insert_event_unauthoritative\<close>)
  from keepsD [OF insert_all_keeps [OF this] assms(1)] assms(2) show ?thesis by simp
qed

text \<open>A state snapshot taken while the tip moved (its consistency is neither stable nor
  tip-matched) never changes which sidechain instance is current, though its events and the
  instances they mention are recorded.\<close>

theorem moving_snapshot_keeps_current:
  assumes "sm_consistency m \<in> {UnknownConsistency, Changed}"
  shows "db_current (snd (record_snapshot L st gid events method m d)) = db_current d"
proof (cases "events = [] \<or> (\<exists>e. record_snapshot_tx L st gid events method m d = Inl e)")
  case True
  then show ?thesis by (auto simp: record_snapshot_def run_tx_def)
next
  case False
  then obtain n d' where run: "record_snapshot_tx L st gid events method m d = Inr (n, d')"
    and ne: "events \<noteq> []"
    by (cases "record_snapshot_tx L st gid events method m d") auto
  from run obtain row d0 first d1 d2 where
    steps: "insert_group row d = Inr ((), d0)"
    and row: "gr_id row = gid" "gr_consistency row = consistency_str (sm_consistency m)"
    and steps': "reserve_capture_sequences (st_run st) (length events) d0 = Inr (first, d1)"
    "insert_all L st method (Some gid) None None first events d1 = Inr (n, d2)"
    "update_extractor_status st (sm_tip_after m) d2 = Inr ((), d')"
    unfolding record_snapshot_tx_def by (auto simp: res_simps)
  from steps have d0: "db_groups d0 = db_groups d @ [row]" "db_current d0 = db_current d"
    "\<forall>q \<in> set (db_groups d). gr_id q \<noteq> gid"
    using row(1) by (auto simp: insert_group_def res_simps)
  have d1: "db_groups d1 = db_groups d0" "db_current d1 = db_current d0"
    using steps'(1) by (auto elim!: reserve_Inr)
  have "find (\<lambda>r. gr_id r = gid) (db_groups d) = None" using d0(3) by (simp add: find_None_iff)
  then have grp: "find (\<lambda>r. gr_id r = gid) (db_groups d1) = Some row"
    by (simp add: d0(1) d1(1) find_append_none row(1))
  have "gr_consistency row \<notin> {''stable'', ''tip_matched''}" using assms row(2) by auto
  from insert_all_unauthoritative [OF steps'(2) grp this] d0 d1
    update_extractor_status_Inr [OF steps'(3)] run ne show ?thesis
    by (auto simp: record_snapshot_def run_tx_def)
qed

definition sample_metadata :: "snapshot_consistency \<Rightarrow> snapshot_metadata" where
  "sample_metadata c = \<lparr> sm_revision_before = None, sm_revision_after = None, sm_started_at = 1,
     sm_finished_at = 2, sm_tip_before = sample_block 1, sm_tip_after = sample_block 2,
     sm_consistency = c, sm_attempts = 3 \<rparr>"

theorem moving_snapshot_keeps_current_witness:
  "db_current (snd (record_snapshot sample_libs sample_store ''g'' [sample_reading [sample_sidechain 3 5]]
     Startup (sample_metadata Changed) sample_db1)) = db_current sample_db1"
  by (rule moving_snapshot_keeps_current) (simp add: sample_metadata_def)

section \<open>Identifiers, rendering and migrations\<close>

text \<open>The identifier of a sidechain instance determines the activation it names: two accepted
  readings with the same identifier have the same slot, proposal height, activation height and
  description hash (hexadecimal encoding being injective).\<close>

theorem instance_identifier_determines_activation:
  assumes "hex_injective L"
    and "sidechain_instance_identity L a = Inr (r, h)"
    and "sidechain_instance_identity L b = Inr (r', h')"
    and "ir_instance_id r = ir_instance_id r'"
  shows "as_sidechain a = as_sidechain b \<and> as_proposal_height a = as_proposal_height b \<and>
    as_activation_height a = as_activation_height b \<and>
    as_description_hash a = as_description_hash b \<and> r = r'"
proof -
  from assms(2) obtain slot where a: "u8_of_u32 (as_sidechain a) = Some slot" "as_description_hash a = h"
    "r = InstanceRef slot (instance_id_str L slot (as_proposal_height a) (as_activation_height a) h)
       (as_activation_height a)" by (auto simp: sidechain_instance_identity_Inr)
  from assms(3) obtain slot' where b: "u8_of_u32 (as_sidechain b) = Some slot'" "as_description_hash b = h'"
    "r' = InstanceRef slot' (instance_id_str L slot' (as_proposal_height b) (as_activation_height b) h')
       (as_activation_height b)" by (auto simp: sidechain_instance_identity_Inr)
  from assms(4) a b have eq: "slot = slot'" "as_proposal_height a = as_proposal_height b"
    "as_activation_height a = as_activation_height b" "h = h'"
    by (auto simp: instance_id_str_inject [OF assms(1)])
  have "unat (as_sidechain a) = unat (as_sidechain b)"
    using u8_of_u32_unat [OF a(1)] u8_of_u32_unat [OF b(1)] eq(1) by simp
  with a b eq show ?thesis by (simp add: word_unat_eq_iff)
qed

theorem instance_identifier_determines_activation_witness:
  "is_ok (sidechain_instance_identity sample_libs (sample_sidechain 3 5)) \<and>
   as_activation_height (sample_sidechain 3 5) = as_activation_height (sample_sidechain 3 5)"
proof -
  have ok: "is_ok (sidechain_instance_identity sample_libs (sample_sidechain 3 5))" by code_simp
  then obtain r h where "sidechain_instance_identity sample_libs (sample_sidechain 3 5) = Inr (r, h)"
    unfolding is_ok_iff by auto
  from instance_identifier_determines_activation [OF sample_libs_hex_injective this this refl] ok
  show ?thesis by simp
qed

text \<open>A rendered event carries no raw bytes: wherever its JSON has one of the byte fields of the
  contract, at any depth, the value is a string or null.\<close>

theorem rendered_event_has_no_raw_bytes:
  assumes "render L event = Inr v"
  shows "bytes_rendered v"
  using render_rendered [OF assms] .

definition json_libs :: libs where
  "json_libs = sample_libs\<lparr> event_to_value := (\<lambda>_. Some (JObj [(''block_hash'', JArr [JNum 1, JNum 255])])) \<rparr>"

lemma sample_render:
  "render json_libs (sample_event 1 []) = Inr (JObj [(''block_hash'', JStr ''01ff'')])"
  by code_simp

theorem rendered_event_has_no_raw_bytes_witness:
  "bytes_rendered (JObj [(''block_hash'', JStr ''01ff'')])"
  by (rule rendered_event_has_no_raw_bytes [OF sample_render])

text \<open>Once the record was migrated, migrating it again applies no statement and changes nothing,
  whatever the statements are, as long as they leave the version table to the migrator.\<close>

theorem migrating_twice_is_migrating_once:
  assumes "migrate statements d = (Inr (), d')"
    and "\<And>v d x d'. statements v d = Inr (x, d') \<Longrightarrow> db_schema d' = db_schema d"
  shows "migrate statements' d' = (Inr (), d')"
proof -
  have "set (db_schema d') = set [1..<MIGRATION_COUNT + 1] \<union> set (db_schema d)"
    using assms(1) unfolding migrate_def by (rule apply_migrations_applied) (rule assms(2))
  then show ?thesis unfolding migrate_def by (intro apply_migrations_done) simp
qed

theorem migrating_twice_is_migrating_once_witness:
  "migrate (\<lambda>v. ret_tx ()) (empty_db\<lparr> db_schema := [1..<11] \<rparr>) =
     (Inr (), empty_db\<lparr> db_schema := [1..<11] \<rparr>)"
proof -
  have "migrate (\<lambda>v. ret_tx ()) empty_db = (Inr (), empty_db\<lparr> db_schema := [1..<11] \<rparr>)"
    by code_simp
  from migrating_twice_is_migrating_once [OF this, of "\<lambda>v. ret_tx ()"]
  show ?thesis by (simp add: ret_tx_def)
qed

end
