(* ===== verification/Convert_Properties.thy ===== *)
theory Convert_Properties
  imports Convert Reading_Properties
begin

text \<open>
  What a converted reply guarantees to the record: hashes of the right width, a canonical auction
  snapshot, sidechains with an identity, and blocks whose facts the record can file and certify.
\<close>

section \<open>Widths\<close>

lemma require_32_Inr [res_simps]: "require_32_bytes v field = Inr w \<longleftrightarrow> length v = 32 \<and> w = v"
  by (auto simp: require_32_bytes_def bail_def)

lemma required_Inr [res_simps]: "required v field = Inr w \<longleftrightarrow> v = Some w"
  by (simp add: required_def res_simps)

lemma convert_slot_Inr [res_simps]: "convert_slot v field = Inr w \<longleftrightarrow> v \<le> 255 \<and> w = v"
  by (auto simp: convert_slot_def bail_def not_less)

lemma hash_from_reverse_length: "hash_from_reverse L v field = Inr h \<Longrightarrow> length h = 32"
  by (auto simp: hash_from_reverse_def res_simps)

lemma fixed_consensus_length: "fixed_consensus_hex L v field = Inr h \<Longrightarrow> length h = 32"
  by (auto simp: fixed_consensus_hex_def res_simps)

lemma convert_header_Inr:
  "convert_header L h = Inr header \<Longrightarrow>
     length (hdr_hash header) = 32 \<and> length (hdr_previous header) = 32 \<and>
     length (hdr_block_work header) = 32 \<and> hdr_cumulative_work header = [] \<and>
     hdr_height header = uh_height h \<and> hdr_timestamp header = uh_timestamp h"
  by (auto simp: convert_header_def res_simps dest: hash_from_reverse_length fixed_consensus_length)

lemma connected_block_Inr:
  assumes "connected_block L slot header info = Inr e"
  obtains h commitment events where
    "e = BlockConnected \<lparr> bcn_header = Some h, bcn_sidechain = ucast slot,
       bcn_commitment = commitment, bcn_events = events \<rparr>"
    "convert_header L header = Inr h" "opt_ok (\<lambda>c. length c = 32) commitment"
    "length events = length (ub_events info)"
  using assms
  by (auto simp: connected_block_def res_simps collect_at_def opt_ok_def
      dest!: collect_res_length dest: fixed_consensus_length split: option.splits)

section \<open>The auction snapshot\<close>

lemma check_identities_Inr:
  "check_identities seen rs = Inr u \<longleftrightarrow>
     distinct (map bmm_identity rs) \<and> set (map bmm_identity rs) \<inter> set seen = {}"
  by (induction seen rs rule: check_identities.induct) (auto simp: bail_def)

lemma bmm_rank_inj: "distinct (map bmm_identity rs) \<Longrightarrow> inj_on bmm_rank (set rs)"
  by (auto simp: distinct_map inj_on_def bmm_rank_def bmm_identity_def)

lemma collect_res_map: "collect_res f xs = Inr ys \<Longrightarrow> ys = map (\<lambda>x. projr (f x)) xs"
  by (induction xs arbitrary: ys) (auto simp: res_simps)

lemma collect_res_perm:
  assumes "collect_res f xs = Inr ys" and "mset xs' = mset xs"
  shows "\<exists>ys'. collect_res f xs' = Inr ys' \<and> mset ys' = mset ys"
proof -
  have "f x = Inr (projr (f x))" if "x \<in> set xs'" for x
  proof -
    from that assms(2) have "x \<in> set xs" by (metis mset_eq_setD)
    with assms(1) show ?thesis by (induction xs arbitrary: ys) (auto simp: res_simps)
  qed
  then have "collect_res f xs' = Inr (map (\<lambda>x. projr (f x)) xs')" by (rule collect_res_total)
  with collect_res_map [OF assms(1)] assms(2) show ?thesis by simp
qed

lemma convert_bmm_request_Inr:
  "convert_bmm_request L r = Inr q \<Longrightarrow>
     bmm_sidechain q \<le> 255 \<and> length (bmm_txid q) = 32 \<and> length (bmm_critical q) = 32 \<and>
     bmm_sidechain q = um_sidechain r \<and> bmm_bid_sats q = um_bid_sats r"
  by (auto simp: convert_bmm_request_def res_simps bail_def split: if_splits
      dest: hash_from_reverse_length fixed_consensus_length)


definition hex_of :: "bytes \<Rightarrow> hex_field" where
  "hex_of bs = Some (Some (sample_hex bs))"

definition sample_bid :: "u32 \<Rightarrow> u8 \<Rightarrow> u64 \<Rightarrow> up_bmm_request" where
  "sample_bid slot k sats = \<lparr> um_sidechain = slot, um_txid = hex_of (sample_hash k),
     um_critical = hex_of (sample_hash 7), um_bid_sats = sats \<rparr>"

lemma sample_auction:
  "is_ok (convert_bmm_requests sample_libs (sample_hash 1) [sample_bid 9 2 10, sample_bid 3 1 2, sample_bid 9 5 20])"
  by code_simp


section \<open>Sidechains\<close>

lemma u8_of_u32_fits: "v \<le> 255 \<Longrightarrow> u8_of_u32 v = Some (ucast v)"
proof -
  assume "v \<le> 255"
  then have "uint v < 256" by (simp add: word_le_def)
  then show ?thesis by (simp add: u8_of_u32_def)
qed

text \<open>Every sidechain of a converted reply has an instance identity: the record's own check of
  slot and description hash accepts what the conversion produced, with the slot and activation
  height the validator reported.\<close>

theorem converted_sidechain_has_identity:
  assumes "convert_active L s = Inr a"
  shows "\<exists>r h. sidechain_instance_identity L a = Inr (r, h) \<and> h = as_description_hash a \<and>
     us_sidechain s = Some (as_sidechain a) \<and> unat (ir_sidechain r) = unat (as_sidechain a) \<and>
     us_activation_height s = Some (ir_activation r)"
proof -
  from assms have a: "as_sidechain a \<le> 255" "us_sidechain s = Some (as_sidechain a)"
    "sidechain_description_hash L (as_raw_description a) = Inr (as_description_hash a)"
    "us_activation_height s = Some (as_activation_height a)"
    by (auto simp: convert_active_def res_simps)
  note slot = u8_of_u32_fits [OF a(1)]
  show ?thesis
    by (intro exI conjI, rule sidechain_instance_identity_Inr [THEN iffD2])
      (use a slot u8_of_u32_unat [OF slot] in auto)
qed

definition sample_info :: up_sidechain_info where
  "sample_info = \<lparr> us_sidechain = Some 3, us_description = hex_of [1, 7], us_vote_count = Some 0,
     us_proposal_height = Some 1, us_activation_height = Some 5, us_declaration = None \<rparr>"

lemma sample_active: "is_ok (convert_active sample_libs sample_info)"
  by code_simp

theorem converted_sidechain_has_identity_witness:
  "\<exists>a r h. convert_active sample_libs sample_info = Inr a \<and>
     sidechain_instance_identity sample_libs a = Inr (r, h)"
proof -
  obtain a where "convert_active sample_libs sample_info = Inr a"
    using sample_active unfolding is_ok_iff by blast
  with converted_sidechain_has_identity [OF this] show ?thesis by blast
qed

section \<open>Blocks\<close>

text \<open>C34: A converted block, put in an envelope anchored at its own header, yields a fact the record
  can file and later certify: it is a block fact of its slot, with a 32-byte hash and parent and
  the height the validator reported (when that height fits the record's signed column).\<close>

theorem converted_block_is_certifiable:
  assumes "connected_block L slot header info = Inr e" and "e = BlockConnected b" and "bcn_header b = Some h"
    and "envelope now (Some e) (at_height (hdr_hash h) (hdr_height h)) = Inr event"
    and "uint (uh_height header) < 2 ^ 31"
  shows "facts event = Inr \<lparr> fc_kind = ''block_connected'', fc_sidechain = Some (i16_of_u8 slot),
      fc_block_hash = Some (hdr_hash h), fc_height = Some (uint (uh_height header)) \<rparr> \<and>
    certifiable (fact_row L st event \<lparr> fc_kind = ''block_connected'', fc_sidechain = Some (i16_of_u8 slot),
      fc_block_hash = Some (hdr_hash h), fc_height = Some (uint (uh_height header)) \<rparr> inst payload m)"
proof -
  from assms(1) obtain h' where "convert_header L header = Inr h'"
    and b: "e = BlockConnected b" "bcn_header b = Some h'" "bcn_sidechain b = ucast slot"
    by (rule connected_block_Inr) (use assms(2) in auto)
  then have h: "length (hdr_hash h) = 32" "length (hdr_previous h) = 32" "hdr_height h = uh_height header"
    using assms(2,3) convert_header_Inr by auto
  have ev: "ev_payload event = Some (Enforcer (Some (BlockConnected b)))"
    "ev_anchor event = Some (at_height (hdr_hash h) (hdr_height h))"
    using assms(4) b(1) by (auto simp: res_simps state_read_def)
  have "uint slot < 2 ^ 32" using unsigned_less [of slot, where 'a = int] by simp
  then have "uint (ucast slot :: u32) = uint slot" by (simp add: unsigned_ucast_eq take_bit_int_eq_self)
  then have slot: "i16_of_u32 (bcn_sidechain b) = Some (i16_of_u8 slot)"
    using i16_of_u8_range [of slot] by (simp add: i16_of_u32_def i16_of_u8_def b(3))
  have height: "i32_of_u32 (hdr_height h) = Some (uint (uh_height header))"
    using assms(5) h(3) by (simp add: i32_of_u32_def)
  have "previous_hash_of event = Some (hdr_previous h)"
    by (simp add: previous_hash_of_def ev assms(3))
  then show ?thesis
    using h(1,2) by (simp add: facts_def ev anchor_height_def slot height try_from_def certifiable_def
        fact_row_def)
qed

definition sample_up_header :: "u8 \<Rightarrow> up_header" where
  "sample_up_header k = \<lparr> uh_block_hash = hex_of (sample_hash k), uh_previous = hex_of (sample_hash (k - 1)),
     uh_height = ucast k, uh_work = hex_of (sample_hash 1), uh_timestamp = 0 \<rparr>"

definition sample_up_block :: up_block_info where
  "sample_up_block = \<lparr> ub_commitment = None, ub_events = [] \<rparr>"

definition sample_connected :: "u8 \<Rightarrow> block_connected" where
  "sample_connected k = \<lparr> bcn_header = Some \<lparr> hdr_hash = sample_hash k, hdr_previous = sample_hash (k - 1),
       hdr_height = ucast k, hdr_block_work = sample_hash 1, hdr_cumulative_work = [], hdr_timestamp = 0 \<rparr>,
     bcn_sidechain = 3, bcn_commitment = None, bcn_events = [] \<rparr>"

lemma sample_connected_ok:
  "connected_block sample_libs 3 (sample_up_header 2) sample_up_block = Inr (BlockConnected (sample_connected 2))"
  by code_simp

theorem converted_block_is_certifiable_witness:
  "\<exists>event f. envelope 5 (Some (BlockConnected (sample_connected 2))) (at_height (sample_hash 2) 2) = Inr event \<and>
     facts event = Inr f"
proof -
  obtain event where event: "envelope 5 (Some (BlockConnected (sample_connected 2)))
      (at_height (sample_hash 2) 2) = Inr event"
    by (simp add: res_simps)
  have "bcn_header (sample_connected 2) = Some (the (bcn_header (sample_connected 2)))"
    "hdr_hash (the (bcn_header (sample_connected 2))) = sample_hash 2"
    "hdr_height (the (bcn_header (sample_connected 2))) = 2"
    "uint (uh_height (sample_up_header 2)) < 2 ^ 31"
    by (simp_all add: sample_connected_def sample_up_header_def)
  with converted_block_is_certifiable [OF sample_connected_ok refl, of _ 5 event] event show ?thesis by metis
qed

end
