(* ===== verification/Effects.thy ===== *)
theory Effects
  imports Reading_Properties
begin

text \<open>
  Asynchronous code as actions. An action runs in a state with two parts: the record, and the
  world outside the process (the validator, the node, the clock and the shutdown flag, all kept
  abstract in a type variable). It ends with a value or an error, and whatever it had done to
  either part stays done. While an action awaits the world, other workers may write to the record;
  that is why a call to the world may return another record.
\<close>

type_synonym 'w st = "'w \<times> db"
type_synonym ('w, 'a) act = "'w \<times> db \<Rightarrow> 'a res \<times> ('w \<times> db)"

definition ret_act :: "'a \<Rightarrow> ('w, 'a) act" where
  "ret_act x s = (Inr x, s)"

definition fail_act :: "error \<Rightarrow> ('w, 'a) act" where
  "fail_act e s = (Inl e, s)"

definition bind_act :: "('w, 'a) act \<Rightarrow> ('a \<Rightarrow> ('w, 'b) act) \<Rightarrow> ('w, 'b) act" where
  "bind_act m f s = (case m s of (Inl e, s') \<Rightarrow> (Inl e, s') | (Inr x, s') \<Rightarrow> f x s')"

definition lift_act :: "'a res \<Rightarrow> ('w, 'a) act" where
  "lift_act r s = (r, s)"

text \<open>A match on the result of a call instead of the question mark.\<close>

definition attempt :: "('w, 'a) act \<Rightarrow> ('w, 'a res) act" where
  "attempt m s = (case m s of (r, s') \<Rightarrow> (Inr r, s'))"

definition context_act :: "string \<Rightarrow> ('w, 'a) act \<Rightarrow> ('w, 'a) act" where
  "context_act msg m s = (case m s of (r, s') \<Rightarrow> (with_context msg r, s'))"

text \<open>An operation of the store, and a read of the record.\<close>

definition on_db :: "(db \<Rightarrow> 'a res \<times> db) \<Rightarrow> ('w, 'a) act" where
  "on_db f s = (case f (snd s) of (r, d) \<Rightarrow> (r, (fst s, d)))"

definition read_db :: "(db \<Rightarrow> 'a res) \<Rightarrow> ('w, 'a) act" where
  "read_db f s = (f (snd s), s)"

text \<open>A value read from the world.\<close>

definition ask :: "('w \<times> db \<Rightarrow> 'a \<times> ('w \<times> db)) \<Rightarrow> ('w, 'a) act" where
  "ask f s = (case f s of (x, s') \<Rightarrow> (Inr x, s'))"

named_theorems act_simps \<open>how actions run\<close>

lemma run_acts [act_simps]:
  "ret_act x s = (Inr x, s)" "fail_act e s = (Inl e, s)" "lift_act r s = (r, s)"
  "read_db f s = (f (snd s), s)"
  by (simp_all add: ret_act_def fail_act_def lift_act_def read_db_def)

lemma bind_act_Inr:
  "bind_act m f s = (Inr y, t) \<longleftrightarrow> (\<exists>x s'. m s = (Inr x, s') \<and> f x s' = (Inr y, t))"
  by (auto simp: bind_act_def split: prod.splits sum.splits)

lemma attempt_iff: "attempt m s = (Inr r, t) \<longleftrightarrow> m s = (r, t)"
  by (auto simp: attempt_def split: prod.splits)

lemma context_act_Inr: "context_act msg m s = (Inr y, t) \<longleftrightarrow> m s = (Inr y, t)"
  by (auto simp: context_act_def res_simps split: prod.splits)

lemma on_db_iff: "on_db f s = (r, t) \<longleftrightarrow> (\<exists>d. f (snd s) = (r, d) \<and> t = (fst s, d))"
  by (auto simp: on_db_def split: prod.splits)

lemma ask_iff: "ask f s = (Inr x, t) \<longleftrightarrow> f s = (x, t)"
  by (auto simp: ask_def split: prod.splits)

lemma lift_act_Inr: "lift_act r s = (Inr x, t) \<longleftrightarrow> r = Inr x \<and> t = s"
  by (auto simp: lift_act_def)

lemma read_db_Inr: "read_db f s = (Inr x, t) \<longleftrightarrow> f (snd s) = Inr x \<and> t = s"
  by (auto simp: read_db_def)

lemma ret_act_Inr: "ret_act v s = (Inr x, t) \<longleftrightarrow> x = v \<and> t = s"
  by (auto simp: ret_act_def)

lemma fail_act_Inr: "fail_act e s = (Inr x, t) \<longleftrightarrow> False"
  by (simp add: fail_act_def)

lemmas act_Inr = bind_act_Inr attempt_iff context_act_Inr ask_iff lift_act_Inr read_db_Inr
  ret_act_Inr fail_act_Inr

section \<open>Triples\<close>

text \<open>Where an action that succeeds from a state with \<open>P\<close> ends.\<close>

definition triple :: "('w st \<Rightarrow> bool) \<Rightarrow> ('w, 'a) act \<Rightarrow> ('a \<Rightarrow> 'w st \<Rightarrow> bool) \<Rightarrow> bool" where
  "triple P m Q \<longleftrightarrow> (\<forall>s x t. P s \<longrightarrow> m s = (Inr x, t) \<longrightarrow> Q x t)"

lemma tripleI: "(\<And>s x t. P s \<Longrightarrow> m s = (Inr x, t) \<Longrightarrow> Q x t) \<Longrightarrow> triple P m Q"
  unfolding triple_def by blast

lemma tripleD: "triple P m Q \<Longrightarrow> m s = (Inr x, t) \<Longrightarrow> P s \<Longrightarrow> Q x t"
  unfolding triple_def by blast

lemma triple_bind: "triple P m R \<Longrightarrow> (\<And>x. triple (R x) (f x) Q) \<Longrightarrow> triple P (bind_act m f) Q"
  unfolding triple_def bind_act_Inr by blast

lemma triple_pre: "triple P m Q \<Longrightarrow> (\<And>s. P' s \<Longrightarrow> P s) \<Longrightarrow> triple P' m Q"
  unfolding triple_def by blast

lemma triple_lift_bind: "(\<And>x. r = Inr x \<Longrightarrow> triple P (f x) Q) \<Longrightarrow> triple P (bind_act (lift_act r) f) Q"
  unfolding triple_def bind_act_Inr lift_act_Inr by blast

lemma triple_ret: "(\<And>s. P s \<Longrightarrow> Q x s) \<Longrightarrow> triple P (ret_act x) Q"
  by (simp add: triple_def ret_act_Inr)

lemma triple_fail: "triple P (fail_act e) Q"
  by (simp add: triple_def fail_act_Inr)

lemma triple_any: "triple P m (\<lambda>_ _. True)"
  by (simp add: triple_def)

lemma triple_const: "(F \<Longrightarrow> triple (\<lambda>_. True) m Q) \<Longrightarrow> triple (\<lambda>_. F) m Q"
  unfolding triple_def by blast

lemma triple_fact: "(F \<Longrightarrow> triple P m Q) \<Longrightarrow> triple (\<lambda>t. P t \<and> F) m Q"
  unfolding triple_def by blast

lemma triple_post: "triple P m Q \<Longrightarrow> (\<And>x t. Q x t \<Longrightarrow> Q' x t) \<Longrightarrow> triple P m Q'"
  unfolding triple_def by blast

section \<open>What an action may do to the record\<close>

text \<open>
  A relation between the record before and after, kept by everything an action does. With the
  reachability relation of the store as the relation, this is the statement that an action writes
  only through the operations of the store.
\<close>

definition acts :: "(db \<Rightarrow> db \<Rightarrow> bool) \<Rightarrow> ('w, 'a) act \<Rightarrow> bool" where
  "acts R m \<longleftrightarrow> (\<forall>s. R (snd s) (snd (snd (m s))))"

lemma actsI: "(\<And>s. R (snd s) (snd (snd (m s)))) \<Longrightarrow> acts R m"
  by (simp add: acts_def)

lemma actsD: "acts R m \<Longrightarrow> m s = (r, t) \<Longrightarrow> R (snd s) (snd t)"
  unfolding acts_def by (metis snd_conv)

locale record_relation =
  fixes R :: "db \<Rightarrow> db \<Rightarrow> bool"
  assumes rel_refl: "R d d"
    and rel_trans: "R a b \<Longrightarrow> R b c \<Longrightarrow> R a c"
begin

lemma acts_ret: "acts R (ret_act x)"
  by (simp add: acts_def ret_act_def rel_refl)

lemma acts_fail: "acts R (fail_act e)"
  by (simp add: acts_def fail_act_def rel_refl)

lemma acts_lift: "acts R (lift_act r)"
  by (simp add: acts_def lift_act_def rel_refl)

lemma acts_read: "acts R (read_db f)"
  by (simp add: acts_def read_db_def rel_refl)

lemma acts_on_db: "(\<And>d. R d (snd (f d))) \<Longrightarrow> acts R (on_db f)"
  by (simp add: acts_def on_db_def case_prod_beta)

lemma acts_ask: "(\<And>s. R (snd s) (snd (snd (f s)))) \<Longrightarrow> acts R (ask f)"
  by (simp add: acts_def ask_def case_prod_beta)

lemma acts_attempt: "acts R m \<Longrightarrow> acts R (attempt m)"
  by (simp add: acts_def attempt_def case_prod_beta)

lemma acts_context: "acts R m \<Longrightarrow> acts R (context_act msg m)"
  by (simp add: acts_def context_act_def case_prod_beta)

lemma acts_bind: "acts R m \<Longrightarrow> (\<And>x. acts R (f x)) \<Longrightarrow> acts R (bind_act m f)"
  unfolding acts_def bind_act_def
  by (auto split: prod.splits sum.splits intro: rel_trans) (metis rel_trans snd_conv)+

lemma acts_if: "acts R m \<Longrightarrow> acts R n \<Longrightarrow> acts R (if b then m else n)"
  by simp

lemmas acts_rules = acts_ret acts_fail acts_lift acts_read acts_attempt acts_context acts_bind acts_if

end

definition store_steps :: "libs \<Rightarrow> db \<Rightarrow> db \<Rightarrow> bool" where
  "store_steps L d d' \<longleftrightarrow> (store_step L)\<^sup>*\<^sup>* d d'"

interpretation steps: record_relation "store_steps L" for L
  by unfold_locales (auto simp: store_steps_def)

lemma store_steps_reachable: "reachable L d \<Longrightarrow> store_steps L d d' \<Longrightarrow> reachable L d'"
  unfolding reachable_def store_steps_def by (rule rtranclp_trans)

lemma store_stepI: "store_step L d d' \<Longrightarrow> store_steps L d d'"
  by (simp add: store_steps_def)

end
