(* ===== verification/Backfill.thy ===== *)
theory Backfill
  imports Effects Convert
begin

text \<open>
  The bounded, resumable historical walk, from \<^verbatim>\<open>src/extractors/enforcer/src/backfill.rs\<close>: a
  newest-first cursor that fetches a page of blocks, checks it, stops at a certified ancestor, and
  commits the page and the next cursor together. A stream adapter supplies the fetch and the
  header of a payload; the loop is one definition per part of its body, run with fuel.
\<close>

section \<open>Settings, scopes, outcomes and adapters\<close>

datatype outcome =
    UpToDate observed_block
  | Completed observed_block nat nat
  | Deferred observed_block nat nat
  | SupersededRun observed_block nat nat
  | Interrupted observed_block nat nat
  | Quarantined observed_block

record stream_scope =
  hs_stream :: string
  hs_sidechain :: "u8 option"
  hs_instance :: "string option"
  hs_activation :: u32
  hs_start_hash :: "bytes option"

text \<open>The stream trait: the envelope takes the clock reading its event is stamped with.\<close>

record 'p adapter =
  ad_scope :: stream_scope
  ad_header :: "'p \<Rightarrow> block_header res"
  ad_envelope :: "int \<Rightarrow> 'p \<Rightarrow> observed_block \<Rightarrow> event res"
  ad_unavailable :: "error \<Rightarrow> bool"
  ad_inconclusive :: "error \<Rightarrow> bool"

text \<open>
  The world as the walk sees it: the two requests of the adapter's client, the shutdown flag, the
  pause between pages (true when the shutdown arrived during it), and the clock readings for the
  envelopes of one page.
\<close>

record ('w, 'p) world =
  wd_fetch :: "observed_block \<Rightarrow> u32 \<Rightarrow> ('w, 'p list) act"
  wd_tip :: "('w, observed_block) act"
  wd_stopped :: "'w \<times> db \<Rightarrow> bool \<times> ('w \<times> db)"
  wd_pause :: "'w \<times> db \<Rightarrow> bool \<times> ('w \<times> db)"
  wd_now :: "'w \<times> db \<Rightarrow> (nat \<Rightarrow> int) \<times> ('w \<times> db)"

section \<open>Errors\<close>

fun error_has_code :: "rpc_code \<Rightarrow> error \<Rightarrow> bool" where
  "error_has_code code (Status c) \<longleftrightarrow> c = code"
| "error_has_code code (Context msg e) \<longleftrightarrow> error_has_code code e"
| "error_has_code code e \<longleftrightarrow> False"

definition retryable_rpc_error :: "error \<Rightarrow> bool" where
  "retryable_rpc_error e \<longleftrightarrow>
     (\<exists>code \<in> set [Cancelled, DeadlineExceeded, ResourceExhausted, Unavailable]. error_has_code code e)"

definition page_too_large :: "error \<Rightarrow> bool" where
  "page_too_large e \<longleftrightarrow> (\<exists>code \<in> set [DeadlineExceeded, ResourceExhausted]. error_has_code code e)"

text \<open>\<open>error.is::<HistoryConflict>()\<close> looks through contexts.\<close>

fun is_history_conflict :: "error \<Rightarrow> bool" where
  "is_history_conflict HistoryConflict \<longleftrightarrow> True"
| "is_history_conflict (Context msg e) \<longleftrightarrow> is_history_conflict e"
| "is_history_conflict e \<longleftrightarrow> False"

section \<open>Pages\<close>

definition blocks_through_floor :: "u32 \<Rightarrow> u32 option \<Rightarrow> nat res" where
  "blocks_through_floor cursor floor =
     (case floor of
        Some f \<Rightarrow>
          ok_or ''history cursor is not above its exclusive floor''
            (Option.bind (checked_sub cursor f) (\<lambda>n. if 0 < n then Some (unat n) else None))
      | None \<Rightarrow> Inr (unat cursor + 1))"

definition pair_linked :: "block_header \<Rightarrow> block_header \<Rightarrow> bool" where
  "pair_linked newer older \<longleftrightarrow>
     hdr_previous newer = hdr_hash older \<and> hdr_height newer = saturating_add (hdr_height older) 1"

fun check_pairs :: "('p \<Rightarrow> block_header res) \<Rightarrow> 'p list \<Rightarrow> unit res" where
  "check_pairs header (a # b # ps) =
     bind_res (header a) (\<lambda>newer.
     bind_res (header b) (\<lambda>older.
     bind_res (ensure (pair_linked newer older) ''historical page breaks between heights'') (\<lambda>_.
     check_pairs header (b # ps))))"
| "check_pairs header ps = Inr ()"

definition verify_page_with :: "('p \<Rightarrow> block_header res) \<Rightarrow> 'p list \<Rightarrow> observed_block \<Rightarrow> u32 \<Rightarrow> unit res" where
  "verify_page_with header ps cursor requested =
     bind_res (ensure (\<not> (requested = 0 \<or> ps = []))
                 ''a historical page must request and return at least one block'') (\<lambda>_.
     bind_res (ensure (\<not> unat requested < length ps)
                 ''historical page returned more blocks than it requested'') (\<lambda>_.
     bind_res (required_height cursor) (\<lambda>cursor_height.
     bind_res (header (hd ps)) (\<lambda>newest.
     bind_res (ensure (\<not> (hdr_hash newest \<noteq> ob_hash cursor \<or> hdr_height newest \<noteq> cursor_height))
                 ''historical page begins at another block'') (\<lambda>_.
     bind_res (check_pairs header ps) (\<lambda>_.
     bind_res (header (last ps)) (\<lambda>oldest.
     bind_res (ok_or ''history page underflows genesis''
                 (checked_sub cursor_height (word_of_nat (length ps) - 1))) (\<lambda>expected_oldest.
     ensure (hdr_height oldest = expected_oldest) ''historical page ends at another height''))))))))"

definition validate_expected_start_hash :: "stream_scope \<Rightarrow> bytes option \<Rightarrow> bool \<Rightarrow> bytes \<Rightarrow> unit res" where
  "validate_expected_start_hash sc floor_hash completes oldest =
     ensure (\<not> (completes \<and> floor_hash = None \<and> hs_start_hash sc \<noteq> None \<and>
                hs_start_hash sc \<noteq> Some oldest))
       ''history stream reached another activation block''"

definition replacement_target ::
  "observed_block \<Rightarrow> observed_block \<Rightarrow> bool option \<Rightarrow> observed_block option" where
  "replacement_target current persisted availability =
     (if ob_hash current \<noteq> ob_hash persisted \<and> availability = Some False then Some current else None)"

definition historical_events :: "'p adapter \<Rightarrow> (nat \<Rightarrow> int) \<Rightarrow> 'p list \<Rightarrow> event list res" where
  "historical_events A now ps =
     collect_res (\<lambda>(i, p).
       bind_res (ad_header A p) (\<lambda>h.
       ad_envelope A (now i) p (at_height (hdr_hash h) (hdr_height h))))
       (enumerate 0 (rev ps))"

text \<open>The oldest block decides where the cursor goes next.\<close>

fun position :: "('a \<Rightarrow> bool) \<Rightarrow> 'a list \<Rightarrow> nat option" where
  "position p [] = None"
| "position p (x # xs) = (if p x then Some 0 else map_option Suc (position p xs))"

definition next_cursor :: "bool \<Rightarrow> block_header \<Rightarrow> observed_block option res" where
  "next_cursor completes oldest =
     (if completes then Inr None
      else map_ok (\<lambda>h. Some (at_height (hdr_previous oldest) h))
             (ok_or ''a non-final history page cannot end at genesis''
                (checked_sub (hdr_height oldest) 1)))"

section \<open>Cycles\<close>

definition read_coverage :: "store \<Rightarrow> stream_scope \<Rightarrow> ('w, history_coverage option) act" where
  "read_coverage st sc =
     context_act ''reading history coverage''
       (read_db (history_coverage st (hs_stream sc) (hs_sidechain sc) (hs_instance sc)))"

definition is_quarantined :: "store \<Rightarrow> stream_scope \<Rightarrow> ('w, bool) act" where
  "is_quarantined st sc =
     bind_act (read_coverage st sc) (\<lambda>coverage.
     ret_act (case coverage of
        None \<Rightarrow> False
      | Some c \<Rightarrow> hc_status c = ErrorStatus \<and> hc_error c = Some HISTORY_CONFLICT))"

definition scope_is_current :: "store \<Rightarrow> stream_scope \<Rightarrow> ('w, bool) act" where
  "scope_is_current st sc =
     (case (hs_sidechain sc, hs_instance sc) of
        (Some slot, Some inst) \<Rightarrow>
          bind_act (read_db (current_sidechain_instance_id st slot)) (\<lambda>current.
          ret_act (current = Some inst))
      | _ \<Rightarrow> ret_act True)"

definition mark_superseded :: "store \<Rightarrow> stream_scope \<Rightarrow> ('w, unit) act" where
  "mark_superseded st sc =
     (case (hs_sidechain sc, hs_instance sc) of
        (Some slot, Some inst) \<Rightarrow>
          on_db (supersede_history st (hs_stream sc) slot inst
                   ''sidechain instance is no longer active'')
      | _ \<Rightarrow> ret_act ())"

definition begin_full_cycle :: "store \<Rightarrow> stream_scope \<Rightarrow> observed_block \<Rightarrow> u32 \<Rightarrow> ('w, history_coverage) act" where
  "begin_full_cycle st sc tip page_blocks =
     context_act ''starting full history''
       (on_db (begin_history_cycle st (hs_stream sc) (hs_sidechain sc) (hs_instance sc)
                 (hs_activation sc) None tip None (checked_sub (hs_activation sc) 1) page_blocks))"

definition extend_cycle :: "store \<Rightarrow> stream_scope \<Rightarrow> observed_block \<Rightarrow> observed_block \<Rightarrow> u32 \<Rightarrow> ('w, history_coverage) act" where
  "extend_cycle st sc covered tip page_blocks =
     context_act ''extending history''
       (on_db (begin_history_cycle st (hs_stream sc) (hs_sidechain sc) (hs_instance sc)
                 (hs_activation sc) (Some covered) tip (Some (ob_hash covered)) (ob_height covered)
                 page_blocks))"

definition prepare_cycle :: "store \<Rightarrow> stream_scope \<Rightarrow> observed_block \<Rightarrow> u32 \<Rightarrow> ('w, history_coverage option) act" where
  "prepare_cycle st sc tip configured =
     bind_act (lift_act (required_height tip)) (\<lambda>tip_height.
     bind_act (lift_act (ensure (hs_activation sc \<le> tip_height)
                 ''history stream starts after the target tip'')) (\<lambda>_.
     bind_act (read_coverage st sc) (\<lambda>found.
     case found of
       None \<Rightarrow> bind_act (begin_full_cycle st sc tip configured) (\<lambda>c. ret_act (Some c))
     | Some existing \<Rightarrow>
         bind_act (lift_act (ensure (hc_start existing = hs_activation sc)
                     ''history stream starts at another height'')) (\<lambda>_.
         case hc_status existing of
           Running \<Rightarrow> ret_act (Some existing)
         | Complete \<Rightarrow>
             bind_act (lift_act (ok_or ''completed history coverage has no covered tip''
                         (hc_covered existing))) (\<lambda>covered.
             if ob_hash covered = ob_hash tip then ret_act None
             else
               let page_blocks = min (hc_page existing) configured in
               bind_act (lift_act (required_height covered)) (\<lambda>covered_height.
               bind_act (if covered_height < tip_height
                         then extend_cycle st sc covered tip page_blocks
                         else begin_full_cycle st sc tip page_blocks) (\<lambda>c.
               ret_act (Some c))))
         | _ \<Rightarrow>
             bind_act (context_act ''resuming history''
               (on_db (resume_history st (hs_stream sc) (hs_sidechain sc) (hs_instance sc)))) (\<lambda>_.
             ret_act (Some (existing\<lparr> hc_status := Running, hc_error := None \<rparr>)))))))"

section \<open>Failures\<close>

datatype failure_mode = FatalMode | DeferredMode

definition settle_failure ::
  "store \<Rightarrow> stream_scope \<Rightarrow> error \<Rightarrow> observed_block \<Rightarrow> nat \<Rightarrow> nat \<Rightarrow> failure_mode \<Rightarrow> ('w, outcome) act" where
  "settle_failure st sc e target blocks pages mode =
     bind_act (attempt (on_db (settle_history_failure st (hs_stream sc) (hs_sidechain sc)
                 (hs_instance sc) (render_error e)))) (\<lambda>settled.
     case settled of
       Inl mark_error \<Rightarrow>
         fail_act (Context (''also failed to settle the history error in Postgres: ''
                      @ render_error mark_error) e)
     | Inr Superseded \<Rightarrow> ret_act (SupersededRun target blocks pages)
     | Inr ErrorStatus \<Rightarrow>
         (case mode of DeferredMode \<Rightarrow> ret_act (Deferred target blocks pages) | FatalMode \<Rightarrow> fail_act e)
     | Inr status \<Rightarrow> fail_act (Context ''history failure settled to unexpected status'' e))"

section \<open>One iteration\<close>

record loop =
  lp_progress :: history_coverage
  lp_blocks :: nat
  lp_pages :: nat
  lp_restarted :: bool

text \<open>What an iteration ends with: the outcome it returns, or the state it continues with.\<close>

type_synonym step = "outcome + loop"

definition give_up :: "store \<Rightarrow> stream_scope \<Rightarrow> loop \<Rightarrow> error \<Rightarrow> failure_mode \<Rightarrow> ('w, step) act" where
  "give_up st sc l e mode =
     bind_act (settle_failure st sc e (hc_target (lp_progress l)) (lp_blocks l) (lp_pages l) mode)
       (\<lambda>o'. ret_act (Inl o'))"

text \<open>A repair starts the cycle over, toward the given target.\<close>

definition restart :: "store \<Rightarrow> stream_scope \<Rightarrow> loop \<Rightarrow> observed_block \<Rightarrow> ('w, step) act" where
  "restart st sc l target =
     bind_act (begin_full_cycle st sc target (hc_page (lp_progress l))) (\<lambda>progress.
     ret_act (Inr (l\<lparr> lp_progress := progress, lp_restarted := True \<rparr>)))"

definition reduced_page :: "u32 \<Rightarrow> u32" where
  "reduced_page n = max (n div 2) 1"

definition shrink_page :: "store \<Rightarrow> stream_scope \<Rightarrow> loop \<Rightarrow> error \<Rightarrow> ('w, step) act" where
  "shrink_page st sc l e =
     (let reduced = reduced_page (hc_page (lp_progress l)) in
      bind_act (attempt (on_db (resize_history_page st (hs_stream sc) (hs_sidechain sc)
                  (hs_instance sc) reduced (render_error e)))) (\<lambda>resized.
      case resized of
        Inl resize_error \<Rightarrow>
          give_up st sc l (Context ''persisting the reduced history page size'' resize_error) FatalMode
      | Inr _ \<Rightarrow> ret_act (Inr (l\<lparr> lp_progress := (lp_progress l)\<lparr> hc_page := reduced \<rparr> \<rparr>))))"

definition target_is_available ::
  "('w, 'p) world \<Rightarrow> 'p adapter \<Rightarrow> observed_block \<Rightarrow> ('w, bool option) act" where
  "target_is_available W A target =
     bind_act (attempt (wd_fetch W target 1)) (\<lambda>probe.
     case probe of
       Inr ps \<Rightarrow> ret_act (Some (ps \<noteq> []))
     | Inl e \<Rightarrow>
         if ad_inconclusive A e then ret_act None
         else if ad_unavailable A e then ret_act (Some False)
         else fail_act (Context ''probing the persisted history target'' e))"

definition unavailable_cursor ::
  "store \<Rightarrow> ('w, 'p) world \<Rightarrow> 'p adapter \<Rightarrow> loop \<Rightarrow> error \<Rightarrow> ('w, step) act" where
  "unavailable_cursor st W A l e =
     (let sc = ad_scope A; target = hc_target (lp_progress l) in
      bind_act (attempt (wd_tip W)) (\<lambda>tip.
      case tip of
        Inl tip_error \<Rightarrow>
          if retryable_rpc_error tip_error
          then give_up st sc l (Context (''reading the current tip after unavailable history cursor: ''
                 @ render_error e) tip_error) DeferredMode
          else give_up st sc l (Context ''reading the current tip after an unavailable history cursor''
                 tip_error) FatalMode
      | Inr current \<Rightarrow>
          bind_act (if ob_hash current = ob_hash target then ret_act (Some True)
                    else bind_act (attempt (target_is_available W A target)) (\<lambda>probe.
                         ret_act (case probe of Inr availability \<Rightarrow> availability | Inl _ \<Rightarrow> None)))
            (\<lambda>availability.
          case replacement_target current target availability of
            Some current \<Rightarrow> restart st sc l current
          | None \<Rightarrow> give_up st sc l e DeferredMode)))"

text \<open>
  A certified ancestor inside the page becomes the floor, and the page is cut right after it. The
  result is the page, the progress with its floor, and whether an ancestor was found.
\<close>

definition apply_floor ::
  "store \<Rightarrow> 'p adapter \<Rightarrow> history_coverage \<Rightarrow> observed_block \<Rightarrow> 'p list \<Rightarrow>
   ('w, history_coverage \<times> 'p list \<times> bool) act" where
  "apply_floor st A progress cursor ps =
     (let sc = ad_scope A in
      bind_act (lift_act (collect_res (\<lambda>p. map_ok hdr_hash (ad_header A p)) ps)) (\<lambda>hashes.
      bind_act (read_db (certified_history_floor st (hs_stream sc) (hs_sidechain sc) (hs_instance sc)
                  hashes)) (\<lambda>certified.
      case certified of
        None \<Rightarrow> ret_act (progress, ps, False)
      | Some ancestor \<Rightarrow>
          bind_act (lift_act (ok_or ''certified block was not in the requested page''
                      (position (\<lambda>h. h = ob_hash ancestor) hashes))) (\<lambda>index.
          bind_act (lift_act (ad_header A (ps ! index))) (\<lambda>header.
          let height = checked_sub (hdr_height header) 1;
              hash = map_option (\<lambda>_. hdr_previous header) height in
          bind_act (on_db (set_history_floor st (hs_stream sc) (hs_sidechain sc) (hs_instance sc)
                      cursor hash height)) (\<lambda>_.
          ret_act (progress\<lparr> hc_floor_hash := hash, hc_floor_height := height \<rparr>,
                   take (index + 1) ps, True)))))))"

text \<open>
  Recording the page: the pause, completion or the next iteration follow the commit, each with the
  totals that count the page.
\<close>

definition advance_loop :: "loop \<Rightarrow> observed_block option \<Rightarrow> nat \<Rightarrow> nat \<Rightarrow> loop" where
  "advance_loop l next inserted committed =
     l\<lparr> lp_progress := (lp_progress l)\<lparr> hc_rows := hc_rows (lp_progress l) + word_of_nat inserted,
                                        hc_next := next \<rparr>,
        lp_pages := lp_pages l + 1, lp_blocks := lp_blocks l + committed \<rparr>"

definition after_page :: "('w, 'p) world \<Rightarrow> bool \<Rightarrow> loop \<Rightarrow> ('w, step) act" where
  "after_page W paused l =
     (let target = hc_target (lp_progress l) in
      if hc_next (lp_progress l) = None
      then ret_act (Inl (Completed target (lp_blocks l) (lp_pages l)))
      else if \<not> paused then ret_act (Inr l)
      else bind_act (ask (wd_pause W)) (\<lambda>stopped.
           ret_act (if stopped then Inl (Interrupted target (lp_blocks l) (lp_pages l)) else Inr l)))"

definition record_page ::
  "libs \<Rightarrow> store \<Rightarrow> ('w, 'p) world \<Rightarrow> 'p adapter \<Rightarrow> bool \<Rightarrow> loop \<Rightarrow> observed_block \<Rightarrow>
   observed_block option \<Rightarrow> 'p list \<Rightarrow> ('w, step) act" where
  "record_page L st W A paused l cursor next ps =
     (let sc = ad_scope A in
      bind_act (ask (wd_now W)) (\<lambda>now.
      bind_act (lift_act (historical_events A now ps)) (\<lambda>events.
      bind_act (attempt (on_db (record_history_page L st events
                  \<lparr> hp_stream = hs_stream sc, hp_sidechain = hs_sidechain sc,
                    hp_instance = hs_instance sc, hp_expected_next = cursor, hp_next = next \<rparr>)))
        (\<lambda>recorded.
      case recorded of
        Inl e \<Rightarrow>
          if is_history_conflict e then ret_act (Inl (Quarantined (hc_target (lp_progress l))))
          else give_up st sc l (Context ''recording a historical page'' e) FatalMode
      | Inr inserted \<Rightarrow> after_page W paused (advance_loop l next inserted (length events))))))"

text \<open>What a verified page, cut at its floor, leads to.\<close>

definition judge_page ::
  "libs \<Rightarrow> store \<Rightarrow> ('w, 'p) world \<Rightarrow> 'p adapter \<Rightarrow> bool \<Rightarrow> loop \<Rightarrow> observed_block \<Rightarrow> nat \<Rightarrow>
   'p list \<Rightarrow> bool \<Rightarrow> ('w, step) act" where
  "judge_page L st W A paused l cursor remaining ps certified =
     (let sc = ad_scope A; progress = lp_progress l in
      bind_act (lift_act (bind_res (ensure (ps \<noteq> []) ''a verified historical page is not empty'')
                  (\<lambda>_. ad_header A (last ps)))) (\<lambda>oldest.
      let completes = certified \<or> length ps = remaining in
      case validate_expected_start_hash sc (hc_floor_hash progress) completes (hdr_hash oldest) of
        Inl e \<Rightarrow> give_up st sc l e FatalMode
      | Inr _ \<Rightarrow>
          if completes \<and> hc_floor_hash progress \<noteq> None \<and>
             hc_floor_hash progress \<noteq> Some (hdr_previous oldest)
          then if lp_restarted l
               then give_up st sc l (Message
                 ''history branch still failed to reach its floor after repairing toward a certified ancestor'')
                 FatalMode
               else restart st sc l (hc_target progress)
          else
            bind_act (lift_act (next_cursor completes oldest)) (\<lambda>next.
            record_page L st W A paused l cursor next ps)))"

definition commit_page ::
  "libs \<Rightarrow> store \<Rightarrow> ('w, 'p) world \<Rightarrow> 'p adapter \<Rightarrow> bool \<Rightarrow> loop \<Rightarrow> observed_block \<Rightarrow> nat \<Rightarrow> u32 \<Rightarrow>
   'p list \<Rightarrow> ('w, step) act" where
  "commit_page L st W A paused l cursor remaining requested ps =
     (case verify_page_with (ad_header A) ps cursor requested of
        Inl e \<Rightarrow> give_up st (ad_scope A) l (Context ''validating a historical page'' e) FatalMode
      | Inr _ \<Rightarrow>
          bind_act (apply_floor st A (lp_progress l) cursor ps) (\<lambda>(progress, ps, certified).
          judge_page L st W A paused (l\<lparr> lp_progress := progress \<rparr>) cursor remaining ps certified))"

definition fetched_page ::
  "libs \<Rightarrow> store \<Rightarrow> ('w, 'p) world \<Rightarrow> 'p adapter \<Rightarrow> bool \<Rightarrow> loop \<Rightarrow> observed_block \<Rightarrow> nat \<Rightarrow> u32 \<Rightarrow>
   'p list res \<Rightarrow> ('w, step) act" where
  "fetched_page L st W A paused l cursor remaining requested fetched =
     (let sc = ad_scope A in
      case fetched of
        Inr ps \<Rightarrow>
          if ps = [] then unavailable_cursor st W A l (Message
            (''history cursor '' @ hex_encode L (ob_hash cursor) @ '' was not found''))
          else commit_page L st W A paused l cursor remaining requested ps
      | Inl e \<Rightarrow>
          if ad_unavailable A e then unavailable_cursor st W A l e
          else if page_too_large e \<and> 1 < hc_page (lp_progress l) then shrink_page st sc l e
          else if retryable_rpc_error e
          then give_up st sc l (Context ''the history page request failed transiently'' e) DeferredMode
          else give_up st sc l e FatalMode)"

definition iteration ::
  "libs \<Rightarrow> store \<Rightarrow> ('w, 'p) world \<Rightarrow> 'p adapter \<Rightarrow> bool \<Rightarrow> loop \<Rightarrow> ('w, step) act" where
  "iteration L st W A paused l =
     (let sc = ad_scope A; progress = lp_progress l; target = hc_target progress in
      bind_act (ask (wd_stopped W)) (\<lambda>stopped.
      if stopped then ret_act (Inl (Interrupted target (lp_blocks l) (lp_pages l)))
      else
      bind_act (scope_is_current st sc) (\<lambda>current.
      if \<not> current
      then bind_act (mark_superseded st sc) (\<lambda>_.
           ret_act (Inl (SupersededRun target (lp_blocks l) (lp_pages l))))
      else
      bind_act (lift_act (ok_or ''a running history cursor is missing its next block''
                  (hc_next progress))) (\<lambda>cursor.
      bind_act (lift_act (required_height cursor)) (\<lambda>cursor_height.
      bind_act (lift_act (blocks_through_floor cursor_height (hc_floor_height progress))) (\<lambda>remaining.
      let requested = word_of_nat (min remaining (unat (hc_page progress))) in
      bind_act (attempt (wd_fetch W cursor requested)) (\<lambda>fetched.
      fetched_page L st W A paused l cursor remaining requested fetched)))))))"

section \<open>The walk\<close>

text \<open>The loop with fuel: \<open>None\<close> is a walk that has not returned within that many iterations.\<close>

fun run_loop ::
  "libs \<Rightarrow> store \<Rightarrow> ('w, 'p) world \<Rightarrow> 'p adapter \<Rightarrow> bool \<Rightarrow> nat \<Rightarrow> loop \<Rightarrow> ('w, outcome option) act" where
  "run_loop L st W A paused 0 l = ret_act None"
| "run_loop L st W A paused (Suc fuel) l =
     bind_act (iteration L st W A paused l) (\<lambda>step.
     case step of Inl o' \<Rightarrow> ret_act (Some o') | Inr l' \<Rightarrow> run_loop L st W A paused fuel l')"

definition start_loop :: "history_coverage \<Rightarrow> loop" where
  "start_loop progress = \<lparr> lp_progress = progress, lp_blocks = 0, lp_pages = 0,
     lp_restarted = (hc_floor_hash progress = None) \<rparr>"

definition run_history ::
  "libs \<Rightarrow> store \<Rightarrow> ('w, 'p) world \<Rightarrow> 'p adapter \<Rightarrow> bool \<Rightarrow> u32 \<Rightarrow> nat \<Rightarrow> observed_block \<Rightarrow>
   ('w, outcome option) act" where
  "run_history L st W A paused page_blocks fuel tip =
     (let sc = ad_scope A in
      bind_act (scope_is_current st sc) (\<lambda>current.
      if \<not> current
      then bind_act (mark_superseded st sc) (\<lambda>_. ret_act (Some (SupersededRun tip 0 0)))
      else
      bind_act (is_quarantined st sc) (\<lambda>quarantined.
      if quarantined then ret_act (Some (Quarantined tip))
      else
      bind_act (prepare_cycle st sc tip page_blocks) (\<lambda>prepared.
      case prepared of
        None \<Rightarrow> ret_act (Some (UpToDate tip))
      | Some progress \<Rightarrow> run_loop L st W A paused fuel (start_loop progress)))))"

section \<open>The slot stream\<close>

definition HISTORY_STREAM :: string where
  "HISTORY_STREAM = ''block''"

fun connected_header :: "enforcer_event \<Rightarrow> block_header res" where
  "connected_header (BlockConnected b) =
     ok_or ''a historical connected block is missing its header'' (bcn_header b)"
| "connected_header _ = bail ''a historical block carried an unexpected payload''"

definition block_history :: "instance_ref \<Rightarrow> enforcer_event adapter" where
  "block_history inst =
     \<lparr> ad_scope = \<lparr> hs_stream = HISTORY_STREAM, hs_sidechain = Some (ir_sidechain inst),
         hs_instance = Some (ir_instance_id inst), hs_activation = ir_activation inst,
         hs_start_hash = None \<rparr>,
       ad_header = connected_header,
       ad_envelope = (\<lambda>now payload anchor. envelope now (Some payload) anchor),
       ad_unavailable = error_has_code NotFound,
       ad_inconclusive = retryable_rpc_error \<rparr>"

text \<open>The slot stream's fetch: the request asks for the cursor and its ancestors below it.\<close>

definition slot_fetch ::
  "libs \<Rightarrow> (string \<Rightarrow> u8 \<Rightarrow> u32 option \<Rightarrow> ('w, up_info list) act) \<Rightarrow> instance_ref \<Rightarrow>
   observed_block \<Rightarrow> u32 \<Rightarrow> ('w, enforcer_event list) act" where
  "slot_fetch L get_block_info inst cursor requested =
     bind_act (get_block_info (hex_encode L (ob_hash cursor)) (ir_sidechain inst) (Some (requested - 1)))
       (\<lambda>infos. lift_act (convert_block_info L (ir_sidechain inst) infos))"

text \<open>Recovering one slot from its activation.\<close>

definition run_slot ::
  "libs \<Rightarrow> store \<Rightarrow> (string \<Rightarrow> u8 \<Rightarrow> u32 option \<Rightarrow> ('w, up_info list) act) \<Rightarrow>
   ('w, enforcer_event) world \<Rightarrow> instance_ref \<Rightarrow> bool \<Rightarrow> u32 \<Rightarrow> nat \<Rightarrow> observed_block \<Rightarrow>
   ('w, outcome option) act" where
  "run_slot L st get_block_info W inst paused page_blocks fuel tip =
     run_history L st (W\<lparr> wd_fetch := slot_fetch L get_block_info inst \<rparr>) (block_history inst) paused
       page_blocks fuel tip"

end
