(* ===== verification/Page_Checks.thy ===== *)
theory Page_Checks
  imports Backfill
begin

text \<open>
  The pure part of the walk: a verified page is exactly a contiguous piece of chain ending at the
  cursor, its events are in the record's order, and the next cursor is below it.
\<close>

section \<open>Contiguous pages\<close>

definition contiguous :: "block_header list \<Rightarrow> bytes \<Rightarrow> u32 \<Rightarrow> bool" where
  "contiguous hs cursor height \<longleftrightarrow>
     hs \<noteq> [] \<and> hdr_hash (hd hs) = cursor \<and>
     (\<forall>i < length hs. unat (hdr_height (hs ! i)) + i = unat height) \<and>
     (\<forall>i. Suc i < length hs \<longrightarrow> hdr_previous (hs ! i) = hdr_hash (hs ! Suc i))"

lemma check_pairs_Inr:
  assumes "collect_res header ps = Inr hs"
  shows "check_pairs header ps = Inr u \<longleftrightarrow> (\<forall>i. Suc i < length hs \<longrightarrow> pair_linked (hs ! i) (hs ! Suc i))"
  using assms
proof (induction header ps arbitrary: hs rule: check_pairs.induct)
  case (1 header a b ps)
  from "1.prems" obtain x y zs where h: "header a = Inr x" "header b = Inr y" "collect_res header ps = Inr zs"
    "hs = x # y # zs" by (auto simp: res_simps)
  have "collect_res header (b # ps) = Inr (y # zs)" using h by simp
  note ih = "1.IH" [OF this]
  show ?case
  proof (cases "pair_linked x y")
    case True
    have "(\<forall>i. Suc i < length hs \<longrightarrow> pair_linked (hs ! i) (hs ! Suc i)) \<longleftrightarrow>
        (\<forall>i. Suc i < length (y # zs) \<longrightarrow> pair_linked ((y # zs) ! i) ((y # zs) ! Suc i))"
      (is "?l \<longleftrightarrow> ?r")
    proof
      assume ?l
      then show ?r unfolding h(4) by (metis Suc_less_eq length_Cons nth_Cons_Suc)
    next
      assume r: ?r
      show ?l
      proof (intro allI impI)
        fix i assume "Suc i < length hs"
        with r True show "pair_linked (hs ! i) (hs ! Suc i)" unfolding h(4) by (cases i) auto
      qed
    qed
    with ih True h show ?thesis by simp
  next
    case False
    then have "\<not> pair_linked (hs ! 0) (hs ! Suc 0)" "Suc 0 < length hs" by (simp_all add: h(4))
    with False h show ?thesis by (auto simp: bail_def)
  qed
qed (auto simp: res_simps)

lemma check_pairs_headers:
  "check_pairs header ps = Inr u \<Longrightarrow> ps \<noteq> [] \<Longrightarrow> header (hd ps) = Inr h \<Longrightarrow> \<exists>hs. collect_res header ps = Inr hs"
proof (induction header ps arbitrary: h rule: check_pairs.induct)
  case (1 header a b ps)
  then obtain x y where h: "header a = Inr x" "header b = Inr y" "pair_linked x y"
    "check_pairs header (b # ps) = Inr u" by (auto simp: res_simps)
  from "1.IH" [OF h(4), of y] h obtain hs where "collect_res header (b # ps) = Inr hs" by auto
  with h(1) show ?case by (auto simp: res_simps)
qed auto

lemma heights_step:
  assumes "\<And>i. Suc i < n \<Longrightarrow> f i \<le> Suc (f (Suc i))" and "f 0 = f (n - 1) + (n - 1)" and "i < n"
  shows "f i + i = (f 0 :: nat)"
proof -
  have up: "j + k < n \<Longrightarrow> f j \<le> f (j + k) + k" for j k
  proof (induction k)
    case 0
    then show ?case by simp
  next
    case (Suc k)
    then have "f j \<le> f (j + k) + k" by simp
    also have "f (j + k) \<le> Suc (f (Suc (j + k)))" using Suc.prems by (intro assms(1)) simp
    finally show ?case by simp
  qed
  have "f 0 \<le> f i + i" using up [of 0 i] assms(3) by simp
  moreover have "f i \<le> f (n - 1) + (n - 1 - i)" using up [of i "n - 1 - i"] assms(3) by simp
  ultimately show ?thesis using assms(2,3) by simp
qed

lemma collect_res_nth: "collect_res f xs = Inr ys \<Longrightarrow> i < length xs \<Longrightarrow> f (xs ! i) = Inr (ys ! i)"
  unfolding collect_res_Inr_iff by (rule list_all2_nthD)

lemma saturating_step: "a = saturating_add b (1 :: u32) \<Longrightarrow> unat a \<le> Suc (unat b)"
  by (simp add: saturating_add_nat)

lemma word_pred_nat: "0 < n \<Longrightarrow> n < 2 ^ 32 \<Longrightarrow> unat (word_of_nat n - 1 :: u32) = n - 1"
proof -
  assume "0 < n" "n < 2 ^ 32"
  then have "(word_of_nat n - 1 :: u32) = word_of_nat (n - 1)" by (simp add: of_nat_diff)
  moreover have "unat (word_of_nat (n - 1) :: u32) = n - 1"
    using \<open>n < 2 ^ 32\<close> by (simp add: unsigned_of_nat take_bit_nat_eq_self)
  ultimately show ?thesis by simp
qed

lemma checked_page:
  "verify_page_with header ps cursor requested = Inr () \<longleftrightarrow>
     length ps \<le> unat requested \<and>
     (\<exists>hs height. collect_res header ps = Inr hs \<and> ob_height cursor = Some height \<and>
        contiguous hs (ob_hash cursor) height)"
proof
  assume ok: "verify_page_with header ps cursor requested = Inr ()"
  then obtain height newest oldest e where h: "requested \<noteq> 0" "ps \<noteq> []" "length ps \<le> unat requested"
    "ob_height cursor = Some height" "header (hd ps) = Inr newest" "hdr_hash newest = ob_hash cursor"
    "hdr_height newest = height" "check_pairs header ps = Inr ()" "header (last ps) = Inr oldest"
    "checked_sub height (word_of_nat (length ps) - 1) = Some e" "hdr_height oldest = e"
    by (auto simp: verify_page_with_def res_simps required_height_def not_less)
  from check_pairs_headers [OF h(8,2,5)] obtain hs where hs: "collect_res header ps = Inr hs" by blast
  have len: "length hs = length ps" "0 < length ps" using collect_res_length [OF hs] h(2) by simp_all
  have "hs ! 0 = newest" using collect_res_nth [OF hs, of 0] h(2,5) len by (simp add: hd_conv_nth)
  moreover have "hs ! (length hs - 1) = oldest"
    using collect_res_nth [OF hs, of "length ps - 1"] h(2,9) len by (simp add: last_conv_nth)
  moreover have linked: "pair_linked (hs ! i) (hs ! Suc i)" if "Suc i < length hs" for i
    using that h(8) check_pairs_Inr [OF hs] by blast
  moreover have small: "length ps < 2 ^ 32"
    using h(3) unsigned_less [of requested, where 'a = nat] by simp
  then have "unat (word_of_nat (length ps) - 1 :: u32) = length ps - 1"
    by (rule word_pred_nat [OF len(2)])
  then have "unat height = unat e + (length hs - 1)"
    using checked_sub_nat [OF h(10)] len by linarith
  ultimately have "unat (hdr_height (hs ! 0)) = unat (hdr_height (hs ! (length hs - 1))) + (length hs - 1)"
    using h(7,11) by simp
  then have "unat (hdr_height (hs ! i)) + i = unat height" if "i < length hs" for i
    using heights_step [of "length hs" "\<lambda>i. unat (hdr_height (hs ! i))" i] that linked saturating_step
      \<open>hs ! 0 = newest\<close> h(7) by (auto simp: pair_linked_def)
  moreover have "hs \<noteq> []" using len by auto
  ultimately have "contiguous hs (ob_hash cursor) height"
    using linked h(6) \<open>hs ! 0 = newest\<close> by (simp add: contiguous_def hd_conv_nth pair_linked_def)
  with hs h(3,4) show "length ps \<le> unat requested \<and> (\<exists>hs height. collect_res header ps = Inr hs \<and>
      ob_height cursor = Some height \<and> contiguous hs (ob_hash cursor) height)" by blast
next
  assume "length ps \<le> unat requested \<and> (\<exists>hs height. collect_res header ps = Inr hs \<and>
      ob_height cursor = Some height \<and> contiguous hs (ob_hash cursor) height)"
  then obtain hs height where len: "length ps \<le> unat requested" and hs: "collect_res header ps = Inr hs"
    and cur: "ob_height cursor = Some height" and c: "contiguous hs (ob_hash cursor) height" by blast
  have n: "length hs = length ps" "0 < length ps"
    using collect_res_length [OF hs] c by (auto simp: contiguous_def)
  then have "0 < unat requested" using len by linarith
  then have req: "requested \<noteq> 0" by auto
  have heights: "unat (hdr_height (hs ! i)) + i = unat height" if "i < length hs" for i
    using c that by (simp add: contiguous_def)
  have h0: "hdr_height (hs ! 0) = height" using heights [of 0] n by (simp add: word_unat_eq_iff)
  have "pair_linked (hs ! i) (hs ! Suc i)" if i: "Suc i < length hs" for i
  proof -
    have "unat (hdr_height (hs ! i)) = Suc (unat (hdr_height (hs ! Suc i)))"
      using heights [of i] heights [of "Suc i"] i by simp
    then have "unat (hdr_height (hs ! i)) = unat (saturating_add (hdr_height (hs ! Suc i)) 1)"
      using unsigned_less [of "hdr_height (hs ! i)", where 'a = nat] by (simp add: saturating_add_nat)
    then show ?thesis using c i by (simp add: pair_linked_def contiguous_def word_unat_eq_iff)
  qed
  then have pairs: "check_pairs header ps = Inr ()" using check_pairs_Inr [OF hs] by blast
  have small: "length ps < 2 ^ 32"
    using len unsigned_less [of requested, where 'a = nat] by simp
  then have sub: "unat (word_of_nat (length ps) - 1 :: u32) = length ps - 1"
    by (rule word_pred_nat [OF n(2)])
  have last: "unat (hdr_height (hs ! (length ps - 1))) + (length ps - 1) = unat height"
    by (rule heights) (use n in linarith)
  then have le: "word_of_nat (length ps) - 1 \<le> height" using sub by (simp add: word_le_nat_alt)
  then have "unat (height - (word_of_nat (length ps) - 1)) = unat height - (length ps - 1)"
    using sub by (simp add: unat_sub)
  with last have "hdr_height (hs ! (length ps - 1)) = height - (word_of_nat (length ps) - 1)"
    by (simp add: word_unat_eq_iff)
  moreover have "header (hd ps) = Inr (hs ! 0)" "header (last ps) = Inr (hs ! (length ps - 1))"
    using collect_res_nth [OF hs, of 0] collect_res_nth [OF hs, of "length ps - 1"] n
    by (simp_all add: hd_conv_nth last_conv_nth)
  moreover have "hdr_hash (hs ! 0) = ob_hash cursor" using c by (auto simp: contiguous_def hd_conv_nth)
  ultimately show "verify_page_with header ps cursor requested = Inr ()"
    using req n len cur pairs h0 le
    by (simp add: verify_page_with_def required_height_def checked_sub_def not_less)
qed

text \<open>C27: A page passes the check exactly when it is a contiguous piece of chain that starts at the
  cursor and is no longer than requested: each block is the recorded parent of the one before, and
  heights go down one by one. (The saturating comparison of neighbouring heights admits no gap,
  since the height of the oldest block is checked as well.)\<close>

theorem verified_page_iff_contiguous:
  "verify_page_with header ps cursor requested = Inr () \<longleftrightarrow>
     length ps \<le> unat requested \<and>
     (\<exists>hs height. collect_res header ps = Inr hs \<and> ob_height cursor = Some height \<and>
        contiguous hs (ob_hash cursor) height)"
  by (rule checked_page)

section \<open>What follows a page\<close>

lemma position_Some: "position p xs = Some i \<Longrightarrow> i < length xs \<and> p (xs ! i)"
  by (induction xs arbitrary: i) (auto split: if_splits)

lemma contiguous_take:
  "contiguous hs c h \<Longrightarrow> 0 < n \<Longrightarrow> contiguous (take n hs) c h"
  by (auto simp: contiguous_def hd_take)

lemma verified_page:
  assumes "verify_page_with header ps cursor requested = Inr ()"
  obtains hs height where "collect_res header ps = Inr hs" "ob_height cursor = Some height"
    "contiguous hs (ob_hash cursor) height" "length ps \<le> unat requested"
  using assms checked_page by blast

lemma next_cursor_below:
  assumes "next_cursor completes oldest = Inr (Some b)"
  shows "\<not> completes \<and> ob_hash b = hdr_previous oldest \<and>
    (\<exists>h. ob_height b = Some h \<and> Suc (unat h) = unat (hdr_height oldest))"
  using assms by (auto simp: next_cursor_def res_simps int_simps at_height_def word_le_nat_alt unat_sub
      split: if_splits)

end
