(* ===== verification/Walk_Laws.thy ===== *)
theory Walk_Laws
  imports Page_Checks
begin

text \<open>
  The walk against the record: it writes only through the store, its in-memory progress is the
  durable coverage row of its scope at the start of every iteration, and a walk that reports
  completion leaves its target certified. Other workers may write to the record between any two
  steps, as long as they leave the coverage row of this scope alone.
\<close>

section \<open>Other workers\<close>

definition scope_key :: "store \<Rightarrow> stream_scope \<Rightarrow> scope" where
  "scope_key st sc = history_scope st (hs_stream sc) (hs_sidechain sc) (hs_instance sc)"

definition own_row :: "store \<Rightarrow> stream_scope \<Rightarrow> db \<Rightarrow> coverage_row option" where
  "own_row st sc d = find (in_scope (scope_key st sc)) (db_coverage d)"

definition others :: "libs \<Rightarrow> store \<Rightarrow> stream_scope \<Rightarrow> db \<Rightarrow> db \<Rightarrow> bool" where
  "others L st sc d d' \<longleftrightarrow> store_steps L d d' \<and> own_row st sc d' = own_row st sc d"

interpretation oth: record_relation "others L st sc" for L st sc
  by unfold_locales (auto simp: others_def store_steps_def)

text \<open>What the walk relies on: nobody else touches its scope's row while it waits.\<close>

definition world_behaves :: "libs \<Rightarrow> store \<Rightarrow> stream_scope \<Rightarrow> ('w, 'p) world \<Rightarrow> bool" where
  "world_behaves L st sc W \<longleftrightarrow>
     (\<forall>c n. acts (others L st sc) (wd_fetch W c n)) \<and> acts (others L st sc) (wd_tip W) \<and>
     acts (others L st sc) (ask (wd_stopped W)) \<and> acts (others L st sc) (ask (wd_pause W)) \<and>
     acts (others L st sc) (ask (wd_now W))"

lemma othersD: "acts (others L st sc) m \<Longrightarrow> m s = (r, t) \<Longrightarrow>
    own_row st sc (snd t) = own_row st sc (snd s) \<and> (reachable L (snd s) \<longrightarrow> reachable L (snd t))"
  using actsD [of "others L st sc" m s r t] store_steps_reachable unfolding others_def by blast

section \<open>The row and the progress\<close>

definition row_matches :: "coverage_row \<Rightarrow> history_coverage \<Rightarrow> bool" where
  "row_matches r p \<longleftrightarrow>
     block_from_parts (Some (cv_target_hash r)) (Some (cv_target_height r)) = Inr (Some (hc_target p)) \<and>
     block_from_parts (cv_next_hash r) (cv_next_height r) = Inr (hc_next p) \<and>
     cv_floor_hash r = hc_floor_hash p \<and>
     traverse_opt height_from_i32 (cv_floor_height r) = Inr (hc_floor_height p) \<and>
     u32_of_int (cv_page r) = Some (hc_page p)"

definition tracks :: "store \<Rightarrow> stream_scope \<Rightarrow> db \<Rightarrow> history_coverage \<Rightarrow> bool" where
  "tracks st sc d p \<longleftrightarrow> (\<exists>r. own_row st sc d = Some r \<and> cv_status r = Running \<and> row_matches r p)"

lemma tracks_cong: "own_row st sc d' = own_row st sc d \<Longrightarrow> tracks st sc d' p \<longleftrightarrow> tracks st sc d p"
  by (simp add: tracks_def)

lemma from_row_matches:
  "history_coverage_from_row r = Inr p \<Longrightarrow> row_matches r p \<and> hc_status p = cv_status r"
  by (cases "cv_status r")
    (auto simp: history_coverage_from_row_def res_simps row_matches_def parse_history_status_def)

lemma find_update_scope:
  assumes "\<And>r. p r \<Longrightarrow> in_scope s r" and "\<And>r. in_scope s r \<Longrightarrow> in_scope s (f r)"
  shows "find (in_scope s) (update_where p f rows) =
    map_option (\<lambda>r. if p r then f r else r) (find (in_scope s) rows)"
  using assms by (induction rows) auto

text \<open>An update of exactly one row of the scope changes the row the scope has.\<close>

lemma update_own_row:
  assumes "update_coverage p f d = Inr (1, d')" and "coverage_inv d"
    and "\<And>r. p r \<Longrightarrow> in_scope (scope_key st sc) r" and "\<And>r. cv_scope (f r) = cv_scope r"
  obtains r where "own_row st sc d = Some r" "p r" "own_row st sc d' = Some (f r)" "f r \<in> set (db_coverage d')"
proof -
  from assms(1) have count: "count_where p (db_coverage d) = 1"
    and cov: "db_coverage d' = update_where p f (db_coverage d)" by (metis update_coverageE)+
  from count obtain r where r: "r \<in> set (db_coverage d)" "p r"
    using count_where_pos [of p "db_coverage d"] by auto
  from assms(3) [OF r(2)] have sr: "cv_scope r = scope_key st sc" by (simp add: in_scope_def)
  have "own_row st sc d = Some r"
  proof (cases "own_row st sc d")
    case None
    with r sr show ?thesis by (auto simp: own_row_def find_None_iff in_scope_def)
  next
    case (Some q)
    then have "q \<in> set (db_coverage d)" "cv_scope q = scope_key st sc"
      by (auto simp: own_row_def in_scope_def dest: find_SomeD)
    with coverage_scope_unique [OF assms(2)] r sr Some show ?thesis by metis
  qed
  moreover from this have "own_row st sc d' = Some (f r)"
    unfolding own_row_def cov using r(2) assms(3,4)
    by (subst find_update_scope) (auto simp: in_scope_def)
  moreover have "f r \<in> set (db_coverage d')" unfolding cov set_update_where using r by blast
  ultimately show thesis using r(2) that by blast
qed

lemma height_roundtrip: "height_to_i32 h = Inr i \<Longrightarrow> height_from_i32 i = Inr h"
  by (simp add: height_to_i32_def height_from_i32_def res_simps u32_i32_roundtrip)

lemma page_roundtrip: "height_to_i32 h = Inr i \<Longrightarrow> u32_of_int i = Some h"
  by (simp add: height_to_i32_def res_simps u32_i32_roundtrip)

lemma parts_roundtrip: "optional_block_parts b = Inr (hash, height) \<Longrightarrow> block_from_parts hash height = Inr b"
  by (cases b) (auto simp: res_simps required_height_def observed_block_eq_iff dest!: height_roundtrip)

lemma begin_history_cycleE:
  assumes "begin_history_cycle st stream slot inst start covered target fh ft page d = (Inr p, d')"
  obtains r where "find (in_scope (history_scope st stream slot inst)) (db_coverage d') = Some r"
    "history_coverage_from_row r = Inr p" "cv_status r = Running"
    "hc_next p = Some (hc_target p)" "hc_target p = target" "hc_page p = page" "hc_floor_hash p = fh"
    "hc_floor_height p = ft"
proof -
  let ?s = "history_scope st stream slot inst"
  from assms obtain row start' ch ct th ft' pb where
    up: "upsert_coverage (begin_cycle_row ?s start' ch ct (ob_hash target) th fh ft' pb (db_clock d)) d
      = Inr (row, d')"
    and hc: "history_coverage_from_row row = Inr p"
    and conv: "ob_height target \<noteq> None" "height_to_i32 (the (ob_height target)) = Inr th"
      "traverse_opt height_to_i32 ft = Inr ft'" "height_to_i32 page = Inr pb"
    unfolding begin_history_cycle_def
    by (auto simp: run_tx_def res_simps required_height_def split: sum.splits)
  from upsert_coverage_find [OF up] have "find (in_scope ?s) (db_coverage d') = Some row"
    by (simp add: begin_cycle_row_def)
  moreover have row: "cv_status row = Running" "cv_next_hash row = Some (ob_hash target)"
    "cv_next_height row = Some th" "cv_target_hash row = ob_hash target" "cv_target_height row = th"
    "cv_page row = pb" "cv_floor_hash row = fh" "cv_floor_height row = ft'"
    using up by (auto simp: upsert_coverage_def res_simps begin_cycle_row_def restart_cycle_def
        split: option.splits)
  from from_row_matches [OF hc] have m: "row_matches row p" by simp
  have blk: "block_from_parts (Some (ob_hash target)) (Some th) = Inr (Some target)"
    using conv(1,2) height_roundtrip by (auto simp: observed_block_eq_iff)
  have "hc_target p = target" "hc_next p = Some target" "hc_page p = page" "hc_floor_hash p = fh"
    using m blk row page_roundtrip [OF conv(4)]
    by (auto simp add: row_matches_def simp del: block_from_parts.simps)
  moreover have "hc_floor_height p = ft"
    using m row conv(3) by (auto simp: row_matches_def res_simps dest!: height_roundtrip)
  ultimately show thesis using hc row(1) by (intro that) simp_all
qed

lemma begin_full_cycle_tracks:
  assumes "begin_full_cycle st sc target page s = (Inr p, s')"
  shows "tracks st sc (snd s') p \<and> hc_next p = Some target \<and> hc_target p = target \<and> hc_page p = page"
proof -
  from assms obtain d' where run: "begin_history_cycle st (hs_stream sc) (hs_sidechain sc)
      (hs_instance sc) (hs_activation sc) None target None (checked_sub (hs_activation sc) 1) page (snd s)
      = (Inr p, d')" and "s' = (fst s, d')"
    by (auto simp: begin_full_cycle_def context_act_Inr on_db_iff)
  from run show ?thesis
    by (rule begin_history_cycleE)
      (auto simp: \<open>s' = (fst s, d')\<close> tracks_def own_row_def scope_key_def dest: from_row_matches)
qed

lemma resize_tracks:
  assumes "resize_history_page st (hs_stream sc) (hs_sidechain sc) (hs_instance sc) page err d = (Inr (), d')"
    and "tracks st sc d p" and "coverage_inv d"
  shows "tracks st sc d' (p\<lparr> hc_page := page \<rparr>)"
proof -
  from assms(1) obtain pb where pb: "height_to_i32 page = Inr pb"
    and upd: "update_coverage (\<lambda>r. cv_scope r = scope_key st sc \<and> cv_status r = Running)
       (\<lambda>r. r\<lparr> cv_page := pb, cv_error := Some err \<rparr>) d = Inr (1, d')"
    unfolding resize_history_page_def run_tx_Inr by (auto simp: res_simps scope_key_def)
  from upd assms(3) obtain r where "own_row st sc d = Some r"
    "own_row st sc d' = Some (r\<lparr> cv_page := pb, cv_error := Some err \<rparr>)"
    by (rule update_own_row [where st = st and sc = sc]) (auto simp: in_scope_def)
  with assms(2) page_roundtrip [OF pb] show ?thesis by (auto simp: tracks_def row_matches_def)
qed

lemma floor_tracks:
  assumes "set_history_floor st (hs_stream sc) (hs_sidechain sc) (hs_instance sc) cursor hash height d
      = (Inr (), d')"
    and "tracks st sc d p" and "coverage_inv d"
  shows "tracks st sc d' (p\<lparr> hc_floor_hash := hash, hc_floor_height := height \<rparr>)"
proof -
  from assms(1) obtain h where h: "traverse_opt height_to_i32 height = Inr h"
    and upd: "update_coverage (running_at (scope_key st sc) (ob_hash cursor))
       (\<lambda>r. r\<lparr> cv_floor_hash := hash, cv_floor_height := h \<rparr>) d = Inr (1, d')"
    unfolding set_history_floor_def run_tx_Inr by (auto simp: res_simps scope_key_def)
  from upd assms(3) obtain r where "own_row st sc d = Some r"
    "own_row st sc d' = Some (r\<lparr> cv_floor_hash := hash, cv_floor_height := h \<rparr>)"
    by (rule update_own_row [where st = st and sc = sc]) (auto simp: in_scope_def running_at_def)
  moreover have "traverse_opt height_from_i32 h = Inr height"
    using h by (auto simp: res_simps dest!: height_roundtrip)
  ultimately show ?thesis using assms(2) by (auto simp: tracks_def row_matches_def)
qed

section \<open>A recorded page\<close>

definition page_of :: "stream_scope \<Rightarrow> observed_block \<Rightarrow> observed_block option \<Rightarrow> history_page" where
  "page_of sc cursor next = \<lparr> hp_stream = hs_stream sc, hp_sidechain = hs_sidechain sc,
     hp_instance = hs_instance sc, hp_expected_next = cursor, hp_next = next \<rparr>"

lemma page_of_scope [simp]: "page_scope st (page_of sc cursor next) = scope_key st sc"
  by (simp add: page_scope_def page_of_def scope_key_def)

lemma page_of_next [simp]: "hp_next (page_of sc cursor next) = next"
  by (simp add: page_of_def)

lemma recorded_page_row:
  assumes inv: "store_inv d"
    and run: "record_history_page_tx L st events (page_of sc cursor next) d = Inr ((n, False), d')"
  obtains r nh nt now where "own_row st sc d = Some r" "optional_block_parts next = Inr (nh, nt)"
    "own_row st sc d' = Some (advance_row False (next = None) nh nt (int n) now r)"
  using run
proof (rule record_history_page_txE)
  fix expected next_hash next_height first d1 d2 kind
  assume parts: "optional_block_parts (hp_next (page_of sc cursor next)) = Inr (next_hash, next_height)"
    and res: "reserve_capture_sequences (st_run st) (length events) d = Inr (first, d1)"
    and ins: "insert_all L st Backfill None (map_option i16_of_u8 (hp_sidechain (page_of sc cursor next)))
        (hp_instance (page_of sc cursor next)) first events d1 = Inr (n, d2)"
    and upd: "update_coverage
         (page_predicate (page_scope st (page_of sc cursor next))
            (ob_hash (hp_expected_next (page_of sc cursor next))) expected)
         (advance_row False (hp_next (page_of sc cursor next) = None \<and> \<not> False)
            (if False then Some (ob_hash (hp_expected_next (page_of sc cursor next))) else next_hash)
            (if False then Some expected else next_height) (int n) (db_clock d2)) d2
         = Inr (1, d')"
  have "coverage_inv d2"
    using reserve_insert_store_inv [OF inv res ins] by (simp add: store_inv_def record_inv_def)
  from upd this obtain r where r: "own_row st sc d2 = Some r"
    "own_row st sc d' = Some (advance_row False (next = None) next_hash next_height (int n) (db_clock d2) r)"
    by (rule update_own_row [where st = st and sc = sc]) (auto simp: page_predicate_def in_scope_def)
  have "db_coverage d2 = db_coverage d"
    using record_frameD(10) [OF rel_txD [OF insert_all_frame ins]] reserve_frame(7) [OF res] by simp
  with r(1) have "own_row st sc d = Some r" by (simp add: own_row_def)
  with r(2) parts show thesis by (intro that) simp_all
qed

lemma recorded_page_tracks:
  assumes "reachable L d" and "tracks st sc d p"
    and "record_history_page L st events (page_of sc cursor (Some b)) d = (Inr n, d')"
  shows "tracks st sc d' (p\<lparr> hc_rows := k, hc_next := Some b \<rparr>)"
proof -
  from reachable_store_inv [OF assms(1)] record_history_page_Inr [OF assms(3)]
  obtain r nh nt now where r: "own_row st sc d = Some r" "optional_block_parts (Some b) = Inr (nh, nt)"
    "own_row st sc d' = Some (advance_row False (Some b = None) nh nt (int n) now r)"
    by (rule recorded_page_row)
  from parts_roundtrip [OF r(2)] have "block_from_parts nh nt = Inr (Some b)" .
  with r assms(2) show ?thesis by (auto simp: tracks_def row_matches_def advance_row_def)
qed

lemma last_page_row:
  assumes "reachable L d" and "tracks st sc d p"
    and "record_history_page L st events (page_of sc cursor None) d = (Inr n, d')"
  shows "\<exists>r. own_row st sc d' = Some r \<and> cv_status r = Complete \<and>
    block_from_parts (Some (cv_target_hash r)) (Some (cv_target_height r)) = Inr (Some (hc_target p)) \<and>
    is_certified (db_certified d') (scope_key st sc) (Some (ob_hash (hc_target p)))"
proof -
  have step: "store_step L d d'" using store_step.page [of L d st events "page_of sc cursor None"] assms(3) by simp
  have inv': "coverage_inv d'"
    using store_step_inv [OF step reachable_store_inv [OF assms(1)]] by (simp add: store_inv_def record_inv_def)
  from reachable_store_inv [OF assms(1)] record_history_page_Inr [OF assms(3)]
  obtain r nh nt now where r: "own_row st sc d = Some r"
    "own_row st sc d' = Some (advance_row False (None = (None :: observed_block option)) nh nt (int n) now r)"
    by (rule recorded_page_row)
  let ?r = "advance_row False True nh nt (int n) now r"
  have own: "?r \<in> set (db_coverage d')" "cv_scope ?r = scope_key st sc"
    using r(2) by (auto simp: own_row_def in_scope_def dest: find_SomeD)
  from last_page_certified [OF assms(1,3)] obtain q where q: "q \<in> set (db_coverage d')"
    "cv_scope q = scope_key st sc"
    "is_certified (db_certified d') (cv_scope q) (Some (cv_target_hash q))" by auto
  have "q = ?r" using coverage_scope_unique [OF inv' q(1) own(1)] q(2) own(2) by simp
  with q r assms(2) show ?thesis
    by (auto simp: tracks_def row_matches_def advance_row_def res_simps)
qed

end
