(* ===== verification/Walk_Properties.thy ===== *)
theory Walk_Properties
  imports Walk_Laws
begin

text \<open>
  The walk as a whole: it keeps to the store, stays in step with its durable row, certifies what
  it completes, returns, and leaves a quarantined scope alone.
\<close>

section \<open>Only the store\<close>

lemma acts_store_op:
  assumes "\<And>d. store_step L d (snd (f d))"
  shows "acts (store_steps L) (on_db f)"
  by (rule steps.acts_on_db) (rule store_stepI [OF assms])

lemma acts_others: "acts (others L st sc) m \<Longrightarrow> acts (store_steps L) m"
  by (simp add: acts_def others_def)

lemma acts_give_up: "acts (store_steps L) (give_up st sc l e mode)"
  unfolding give_up_def settle_failure_def
  by (intro steps.acts_rules acts_store_op store_step.settle)
    (auto intro!: steps.acts_rules split: sum.splits history_status.splits failure_mode.splits)

lemma acts_restart: "acts (store_steps L) (restart st sc l target)"
  unfolding restart_def begin_full_cycle_def
  by (intro steps.acts_rules acts_store_op store_step.cycle)

lemma acts_shrink: "acts (store_steps L) (shrink_page st sc l e)"
  unfolding shrink_page_def Let_def
  by (intro steps.acts_bind steps.acts_attempt acts_store_op store_step.resize)
    (auto intro!: steps.acts_rules acts_give_up split: sum.splits)

lemma acts_scope_current: "acts (store_steps L) (scope_is_current st sc)"
  unfolding scope_is_current_def by (auto intro!: steps.acts_rules split: option.splits)

lemma acts_mark: "acts (store_steps L) (mark_superseded st sc)"
  unfolding mark_superseded_def
  by (auto intro!: steps.acts_rules acts_store_op store_step.supersede split: option.splits)

lemma world_acts:
  assumes "world_behaves L st sc W"
  shows "acts (store_steps L) (wd_fetch W c n)" "acts (store_steps L) (wd_tip W)"
    "acts (store_steps L) (ask (wd_stopped W))" "acts (store_steps L) (ask (wd_pause W))"
    "acts (store_steps L) (ask (wd_now W))"
  using assms acts_others [of L st sc] unfolding world_behaves_def by blast+

lemma acts_unavailable:
  assumes "world_behaves L st (ad_scope A) W"
  shows "acts (store_steps L) (unavailable_cursor st W A l e)"
proof -
  have probe: "acts (store_steps L) (target_is_available W A t)" for t
    unfolding target_is_available_def
    by (intro steps.acts_bind steps.acts_attempt world_acts [OF assms])
      (auto intro!: steps.acts_rules split: sum.splits)
  show ?thesis
    unfolding unavailable_cursor_def Let_def
    by (intro steps.acts_bind steps.acts_attempt world_acts [OF assms])
      (auto intro!: steps.acts_rules acts_give_up acts_restart probe split: sum.splits option.splits)
qed

lemma acts_apply_floor: "acts (store_steps L) (apply_floor st A p cursor ps)"
  unfolding apply_floor_def Let_def
  by (intro steps.acts_bind steps.acts_lift steps.acts_read)
    (auto intro!: steps.acts_rules acts_store_op store_step.floor split: option.splits)

lemma acts_record_page:
  assumes "world_behaves L st (ad_scope A) W"
  shows "acts (store_steps L) (record_page L st W A paused l cursor next ps)"
  unfolding record_page_def after_page_def Let_def
  by (intro steps.acts_bind steps.acts_attempt steps.acts_lift world_acts [OF assms] acts_store_op
      store_step.page)
    (auto intro!: steps.acts_rules acts_give_up world_acts [OF assms] split: sum.splits)

lemma acts_commit:
  assumes "world_behaves L st (ad_scope A) W"
  shows "acts (store_steps L) (commit_page L st W A paused l cursor remaining requested ps)"
  unfolding commit_page_def judge_page_def Let_def
  by (auto intro!: steps.acts_rules acts_give_up acts_restart acts_apply_floor
      acts_record_page [OF assms] split: sum.splits prod.splits)

lemma acts_iteration:
  assumes "world_behaves L st (ad_scope A) W"
  shows "acts (store_steps L) (iteration L st W A paused l)"
  unfolding iteration_def fetched_page_def Let_def
  by (auto intro!: steps.acts_rules world_acts [OF assms] acts_scope_current acts_mark acts_give_up
      acts_shrink acts_unavailable [OF assms] acts_commit [OF assms] split: sum.splits)

lemma acts_reachable: "acts (store_steps L) m \<Longrightarrow> m s = (r, t) \<Longrightarrow> reachable L (snd s) \<Longrightarrow> reachable L (snd t)"
  using actsD store_steps_reachable by blast

lemma reachable_coverage: "reachable L d \<Longrightarrow> coverage_inv d"
  using reachable_store_inv by (simp add: store_inv_def record_inv_def)

section \<open>In step with the durable row\<close>

text \<open>What a step of the walk must leave behind.\<close>

definition step_ok :: "store \<Rightarrow> stream_scope \<Rightarrow> step \<Rightarrow> db \<Rightarrow> bool" where
  "step_ok st sc step d \<longleftrightarrow>
     (case step of
        Inr l' \<Rightarrow> tracks st sc d (lp_progress l')
      | Inl (Completed target blocks pages) \<Rightarrow>
          is_certified (db_certified d) (scope_key st sc) (Some (ob_hash target)) \<and>
          (\<exists>r. own_row st sc d = Some r \<and> cv_status r = Complete \<and>
             block_from_parts (Some (cv_target_hash r)) (Some (cv_target_height r)) = Inr (Some target))
      | Inl _ \<Rightarrow> True)"

abbreviation stays :: "store \<Rightarrow> stream_scope \<Rightarrow> ('w st \<Rightarrow> bool) \<Rightarrow> ('w, step) act \<Rightarrow> bool" where
  "stays st sc P m \<equiv> triple P m (\<lambda>step t. step_ok st sc step (snd t))"

text \<open>The state an iteration works in: a reachable record whose row is the progress.\<close>

definition walking :: "libs \<Rightarrow> store \<Rightarrow> stream_scope \<Rightarrow> history_coverage \<Rightarrow> 'w st \<Rightarrow> bool" where
  "walking L st sc p s \<longleftrightarrow> reachable L (snd s) \<and> tracks st sc (snd s) p"

lemma walking_others:
  assumes "acts (others L st sc) m"
  shows "triple (walking L st sc p) m (\<lambda>_. walking L st sc p)"
proof (rule tripleI)
  fix s x t assume w: "walking L st sc p s" and run: "m s = (Inr x, t)"
  from othersD [OF assms run] have own: "own_row st sc (snd t) = own_row st sc (snd s)"
    and "reachable L (snd s) \<longrightarrow> reachable L (snd t)" by blast+
  with w tracks_cong [OF own] show "walking L st sc p t" unfolding walking_def by blast
qed

lemma returns_ok: "(\<And>t b p. o' \<noteq> Completed t b p) \<Longrightarrow> stays st sc P (ret_act (Inl o'))"
  by (rule triple_ret) (auto simp: step_ok_def split: outcome.splits)

lemma give_up_ok: "stays st sc P (give_up st sc l e mode)"
proof -
  have settled: "triple P (settle_failure st sc e target blocks pages mode)
      (\<lambda>o' _. \<forall>t b p. o' \<noteq> Completed t b p)" for target blocks pages
    unfolding settle_failure_def
  proof (rule triple_bind [OF triple_any])
    fix r :: "history_status res"
    show "triple (\<lambda>_. True)
      (case r of
         Inl mark_error \<Rightarrow> fail_act (Context (''also failed to settle the history error in Postgres: ''
                              @ render_error mark_error) e)
       | Inr Superseded \<Rightarrow> ret_act (SupersededRun target blocks pages)
       | Inr ErrorStatus \<Rightarrow>
           (case mode of DeferredMode \<Rightarrow> ret_act (Deferred target blocks pages) | FatalMode \<Rightarrow> fail_act e)
       | Inr status \<Rightarrow> fail_act (Context ''history failure settled to unexpected status'' e))
      (\<lambda>o' _. \<forall>t b p. o' \<noteq> Completed t b p)"
      by (auto split: sum.split history_status.split failure_mode.split intro!: triple_ret triple_fail)
  qed
  show ?thesis
    unfolding give_up_def
    by (rule triple_bind [OF settled], rule triple_ret) (auto simp: step_ok_def split: outcome.split)
qed

lemma restart_ok: "stays st sc P (restart st sc l target)"
  by (rule tripleI) (auto simp: restart_def act_Inr step_ok_def dest!: begin_full_cycle_tracks)

lemma triple_attempt_db:
  "(\<And>r d s. P s \<Longrightarrow> g (snd s) = (r, d) \<Longrightarrow> R r (fst s, d)) \<Longrightarrow> triple P (attempt (on_db g)) R"
  by (rule tripleI) (auto simp: attempt_iff on_db_iff)

lemma shrink_ok: "stays st sc (walking L st sc (lp_progress l)) (shrink_page st sc l e)"
proof -
  let ?page = "reduced_page (hc_page (lp_progress l))"
  let ?l = "l\<lparr> lp_progress := (lp_progress l)\<lparr> hc_page := ?page \<rparr> \<rparr>"
  have "triple (walking L st sc (lp_progress l))
      (attempt (on_db (resize_history_page st (hs_stream sc) (hs_sidechain sc) (hs_instance sc) ?page (render_error e))))
      (\<lambda>r t. is_ok r \<longrightarrow> tracks st sc (snd t) (lp_progress ?l))"
    by (rule triple_attempt_db)
      (auto simp: walking_def is_ok_iff dest!: resize_tracks [OF _ _ reachable_coverage])
  then show ?thesis
    unfolding shrink_page_def Let_def
    by (rule triple_bind) (auto split: sum.split intro!: give_up_ok triple_ret, simp add: step_ok_def)
qed

lemma unavailable_ok: "stays st (ad_scope A) P (unavailable_cursor st W A l e)"
  unfolding unavailable_cursor_def Let_def
  by (rule triple_bind [OF triple_any])
    (auto split: sum.split option.split intro!: triple_bind [OF triple_any] give_up_ok restart_ok)

lemma apply_floor_ok:
  "triple (walking L st (ad_scope A) p) (apply_floor st A p cursor ps)
     (\<lambda>(p', ps', c) t. walking L st (ad_scope A) p' t \<and> hc_target p' = hc_target p \<and>
        hc_page p' = hc_page p \<and> hc_next p' = hc_next p \<and> (\<exists>n. ps' = take n ps))"
proof (rule tripleI, clarify)
  fix s p' ps' c t assume w: "walking L st (ad_scope A) p s"
    and run: "apply_floor st A p cursor ps s = (Inr (p', ps', c), t)"
  have reach: "reachable L (snd t)"
    using acts_reachable [OF acts_apply_floor run] w by (simp add: walking_def)
  from run consider "t = s" "p' = p" "ps' = ps"
    | hash height i d where "set_history_floor st (hs_stream (ad_scope A)) (hs_sidechain (ad_scope A))
        (hs_instance (ad_scope A)) cursor hash height (snd s) = (Inr (), d)" "t = (fst s, d)"
        "p' = p\<lparr> hc_floor_hash := hash, hc_floor_height := height \<rparr>" "ps' = take i ps"
    unfolding apply_floor_def Let_def
    by (auto simp: act_Inr on_db_iff split: option.splits)
  then show "walking L st (ad_scope A) p' t \<and> hc_target p' = hc_target p \<and>
      hc_page p' = hc_page p \<and> hc_next p' = hc_next p \<and> (\<exists>n. ps' = take n ps)"
  proof cases
    case 1
    with w show ?thesis by (auto intro: exI [of _ "length ps"])
  next
    case 2
    with w reach floor_tracks [OF 2(1)] reachable_coverage show ?thesis by (auto simp: walking_def)
  qed
qed

lemma tracks_others:
  assumes "acts (others L st sc) m"
  shows "triple (\<lambda>t. tracks st sc (snd t) p) m (\<lambda>_ t. tracks st sc (snd t) p)"
proof (rule tripleI)
  fix s x t assume w: "tracks st sc (snd s) p" and run: "m s = (Inr x, t)"
  from othersD [OF assms run] have own: "own_row st sc (snd t) = own_row st sc (snd s)" by blast
  from w tracks_cong [OF own] show "tracks st sc (snd t) p" by blast
qed

lemma after_page_ok:
  assumes "acts (others L st sc) (ask (wd_pause W))"
  shows "stays st sc
    (\<lambda>t. if hc_next (lp_progress l) = None
          then step_ok st sc (Inl (Completed (hc_target (lp_progress l)) (lp_blocks l) (lp_pages l))) (snd t)
          else tracks st sc (snd t) (lp_progress l))
    (after_page W paused l)"
proof (cases "hc_next (lp_progress l) = None")
  case True
  then show ?thesis by (auto simp: after_page_def intro: triple_ret)
next
  case False
  have pause: "stays st sc (\<lambda>t. tracks st sc (snd t) (lp_progress l))
      (bind_act (ask (wd_pause W)) (\<lambda>stopped. ret_act (if stopped
         then Inl (Interrupted (hc_target (lp_progress l)) (lp_blocks l) (lp_pages l)) else Inr l)))"
    by (rule triple_bind [OF tracks_others [OF assms]], rule triple_ret) (simp add: step_ok_def)
  with False show ?thesis
    by (simp add: after_page_def Let_def del: not_None_eq) (intro impI triple_ret, simp add: step_ok_def)
qed

lemma record_page_ok:
  assumes W: "world_behaves L st (ad_scope A) W"
  shows "stays st (ad_scope A) (walking L st (ad_scope A) (lp_progress l))
    (record_page L st W A paused l cursor next ps)"
proof -
  let ?sc = "ad_scope A" and ?p = "lp_progress l"
  have now: "acts (others L st ?sc) (ask (wd_now W))" and pause: "acts (others L st ?sc) (ask (wd_pause W))"
    using W by (simp_all add: world_behaves_def)
  have rec: "triple (walking L st ?sc ?p) (attempt (on_db (record_history_page L st events (page_of ?sc cursor next))))
      (\<lambda>r t. \<forall>n. r = Inr n \<longrightarrow>
         (let l' = advance_loop l next n (length events) in
          if hc_next (lp_progress l') = None
          then step_ok st ?sc (Inl (Completed (hc_target (lp_progress l')) (lp_blocks l') (lp_pages l'))) (snd t)
          else tracks st ?sc (snd t) (lp_progress l')))" for events
    by (rule triple_attempt_db)
      (auto simp: walking_def step_ok_def advance_loop_def dest: last_page_row recorded_page_tracks)
  show ?thesis
    unfolding record_page_def Let_def page_of_def [symmetric]
  proof (rule triple_bind [OF walking_others [OF now]], rule triple_lift_bind, rule triple_bind [OF rec])
    fix events and r :: "nat res"
    show "stays st ?sc
       (\<lambda>t. \<forall>n. r = Inr n \<longrightarrow>
         (let l' = advance_loop l next n (length events) in
          if hc_next (lp_progress l') = None
          then step_ok st ?sc (Inl (Completed (hc_target (lp_progress l')) (lp_blocks l') (lp_pages l'))) (snd t)
          else tracks st ?sc (snd t) (lp_progress l')))
       (case r of
          Inl e \<Rightarrow> if is_history_conflict e then ret_act (Inl (Quarantined (hc_target ?p)))
                   else give_up st ?sc l (Context ''recording a historical page'' e) FatalMode
        | Inr n \<Rightarrow> after_page W paused (advance_loop l next n (length events)))"
    proof (cases r)
      case (Inl e)
      then show ?thesis by (simp add: give_up_ok returns_ok)
    next
      case (Inr n)
      show ?thesis unfolding Inr sum.case
        by (rule triple_pre [OF after_page_ok [OF pause]]) (simp add: Let_def)
    qed
  qed
qed

lemma judge_page_ok:
  assumes W: "world_behaves L st (ad_scope A) W"
  shows "stays st (ad_scope A) (walking L st (ad_scope A) (lp_progress l))
    (judge_page L st W A paused l cursor remaining ps certified)"
  unfolding judge_page_def Let_def
  by (rule triple_lift_bind)
    (auto split: sum.split intro!: give_up_ok restart_ok triple_lift_bind record_page_ok [OF W])

lemma commit_page_ok:
  assumes W: "world_behaves L st (ad_scope A) W"
  shows "stays st (ad_scope A) (walking L st (ad_scope A) (lp_progress l))
    (commit_page L st W A paused l cursor remaining requested ps)"
proof (cases "verify_page_with (ad_header A) ps cursor requested")
  case (Inl e)
  then show ?thesis by (simp add: commit_page_def give_up_ok)
next
  case (Inr u)
  have judged: "stays st (ad_scope A)
      ((\<lambda>(p', ps', c) t. walking L st (ad_scope A) p' t \<and> hc_target p' = hc_target (lp_progress l) \<and>
        hc_page p' = hc_page (lp_progress l) \<and> hc_next p' = hc_next (lp_progress l) \<and> (\<exists>n. ps' = take n ps)) x)
      (case x of (p', ps', c) \<Rightarrow>
         judge_page L st W A paused (l\<lparr> lp_progress := p' \<rparr>) cursor remaining ps' c)" for x
  proof -
    obtain p' ps' c where x: "x = (p', ps', c)" by (cases x) auto
    have "stays st (ad_scope A) (walking L st (ad_scope A) p')
       (judge_page L st W A paused (l\<lparr> lp_progress := p' \<rparr>) cursor remaining ps' c)"
      using judge_page_ok [OF W, of "l\<lparr> lp_progress := p' \<rparr>"] by simp
    then show ?thesis unfolding x prod.case by (rule triple_pre) blast
  qed
  show ?thesis unfolding commit_page_def Inr sum.case
    by (rule triple_bind [OF apply_floor_ok judged])
qed

lemma iteration_ok:
  assumes W: "world_behaves L st (ad_scope A) W"
  shows "stays st (ad_scope A) (walking L st (ad_scope A) (lp_progress l)) (iteration L st W A paused l)"
proof -
  let ?P = "walking L st (ad_scope A) (lp_progress l) :: 'a st \<Rightarrow> bool"
  have stopped: "acts (others L st (ad_scope A)) (ask (wd_stopped W))"
    and fetch: "acts (others L st (ad_scope A)) (wd_fetch W c n)" for c n
    using W by (simp_all add: world_behaves_def)
  have current: "triple ?P (scope_is_current st (ad_scope A)) (\<lambda>_. ?P)"
    by (rule tripleI) (auto simp: scope_is_current_def act_Inr split: option.splits)
  have fetched: "triple ?P (attempt (wd_fetch W c n)) (\<lambda>_. ?P)" for c n
  proof (rule tripleI)
    fix s x t assume w: "?P s" and run: "attempt (wd_fetch W c n) s = (Inr x, t)"
    from run have "wd_fetch W c n s = (x, t)" by (simp add: attempt_iff)
    from othersD [OF fetch this] w tracks_cong [of st "ad_scope A" "snd t" "snd s"]
    show "?P t" unfolding walking_def by blast
  qed
  have page: "stays st (ad_scope A) ?P (fetched_page L st W A paused l cursor remaining requested r)"
    for cursor remaining requested r
    unfolding fetched_page_def Let_def
    by (auto split: sum.split intro!: unavailable_ok commit_page_ok [OF W] shrink_ok give_up_ok)
  have superseded: "stays st (ad_scope A) ?P
      (bind_act (mark_superseded st (ad_scope A)) (\<lambda>_. ret_act (Inl (SupersededRun t b n))))" for t b n
    by (rule triple_bind [OF triple_any]) (simp add: returns_ok)
  show ?thesis
    unfolding iteration_def Let_def
    by (rule triple_bind [OF walking_others [OF stopped]])
      (auto intro!: returns_ok superseded triple_bind [OF current] triple_lift_bind
        triple_bind [OF fetched] page)
qed

section \<open>The whole walk\<close>

lemma acts_prepare: "acts (store_steps L) (prepare_cycle st sc tip n)"
proof -
  have read: "acts (store_steps L) (read_coverage st sc)"
    unfolding read_coverage_def by (intro steps.acts_rules)
  have full: "acts (store_steps L) (begin_full_cycle st sc t page)" for t page
    unfolding begin_full_cycle_def by (intro steps.acts_rules acts_store_op store_step.cycle)
  have extend: "acts (store_steps L) (extend_cycle st sc c t page)" for c t page
    unfolding extend_cycle_def by (intro steps.acts_rules acts_store_op store_step.cycle)
  have resume: "acts (store_steps L) (context_act msg
      (on_db (resume_history st (hs_stream sc) (hs_sidechain sc) (hs_instance sc))))" for msg
    by (intro steps.acts_rules acts_store_op store_step.resume)
  show ?thesis
    unfolding prepare_cycle_def Let_def
    by (auto intro!: steps.acts_ret steps.acts_lift steps.acts_bind read full extend resume
        split: option.split history_status.split)
qed

lemma read_coverage_row:
  assumes "read_coverage st sc s = (Inr (Some c), t)"
  shows "t = s \<and> (\<exists>r. own_row st sc (snd s) = Some r \<and> row_matches r c \<and> hc_status c = cv_status r)"
  using assms
  by (auto simp: read_coverage_def act_Inr history_coverage_def own_row_def scope_key_def res_simps
      dest: from_row_matches)

lemma extend_cycle_tracks:
  assumes "extend_cycle st sc covered tip page s = (Inr p, s')"
  shows "tracks st sc (snd s') p"
proof -
  from assms obtain d' where run: "begin_history_cycle st (hs_stream sc) (hs_sidechain sc)
      (hs_instance sc) (hs_activation sc) (Some covered) tip (Some (ob_hash covered)) (ob_height covered)
      page (snd s) = (Inr p, d')" and "s' = (fst s, d')"
    by (auto simp: extend_cycle_def context_act_Inr on_db_iff)
  from run show ?thesis
    by (rule begin_history_cycleE)
      (auto simp: \<open>s' = (fst s, d')\<close> tracks_def own_row_def scope_key_def dest: from_row_matches)
qed

lemma resume_tracks:
  assumes "resume_history st (hs_stream sc) (hs_sidechain sc) (hs_instance sc) d = (Inr u, d')"
    and "own_row st sc d = Some r" and "row_matches r p" and "coverage_inv d"
  shows "tracks st sc d' (p\<lparr> hc_status := Running, hc_error := None \<rparr>)"
proof -
  from assms(1) have upd: "update_coverage (resumable (scope_key st sc))
      (\<lambda>r. r\<lparr> cv_status := Running, cv_error := None \<rparr>) d = Inr (1, d')"
    unfolding resume_history_def run_tx_Inr by (auto simp: res_simps scope_key_def)
  from upd assms(4) obtain q where "own_row st sc d = Some q"
    "own_row st sc d' = Some (q\<lparr> cv_status := Running, cv_error := None \<rparr>)"
    by (rule update_own_row [where st = st and sc = sc]) (auto simp: in_scope_def resumable_def)
  with assms(2,3) show ?thesis by (auto simp: tracks_def row_matches_def)
qed

lemma prepare_cycle_tracks:
  assumes reach: "reachable L (snd s)"
  shows "triple (\<lambda>t. t = s) (prepare_cycle st sc tip n)
    (\<lambda>r t. \<forall>p. r = Some p \<longrightarrow> walking L st sc p t)"
proof -
  let ?Q = "\<lambda>r t. \<forall>p. r = Some p \<longrightarrow> tracks st sc (snd t) p"
  have read: "triple (\<lambda>t. t = s) (read_coverage st sc)
      (\<lambda>found t. t = s \<and> (\<forall>c. found = Some c \<longrightarrow>
         (\<exists>r. own_row st sc (snd s) = Some r \<and> row_matches r c \<and> hc_status c = cv_status r)))"
  proof (rule tripleI)
    fix s' found t assume "s' = s" and run: "read_coverage st sc s' = (Inr found, t)"
    then show "t = s \<and> (\<forall>c. found = Some c \<longrightarrow>
         (\<exists>r. own_row st sc (snd s) = Some r \<and> row_matches r c \<and> hc_status c = cv_status r))"
      using read_coverage_row [of st sc s _ t]
      by (cases found) (auto simp: read_coverage_def act_Inr)
  qed
  have full: "triple P (bind_act (begin_full_cycle st sc tip page) (\<lambda>c. ret_act (Some c))) ?Q" for P page
    by (rule tripleI) (auto simp: act_Inr dest: begin_full_cycle_tracks)
  have extend: "triple P (bind_act (extend_cycle st sc cov tip page) (\<lambda>c. ret_act (Some c))) ?Q" for P cov page
    by (rule tripleI) (auto simp: act_Inr dest: extend_cycle_tracks)
  have resume: "triple (\<lambda>t. t = s) (bind_act (context_act msg
       (on_db (resume_history st (hs_stream sc) (hs_sidechain sc) (hs_instance sc))))
       (\<lambda>_. ret_act (Some (c\<lparr> hc_status := Running, hc_error := None \<rparr>)))) ?Q"
    if "own_row st sc (snd s) = Some r" "row_matches r c" for msg c r
    using resume_tracks [OF _ that reachable_coverage [OF reach]]
    by (intro tripleI) (auto simp: act_Inr on_db_iff)
  have some: "triple (\<lambda>t. t = s) (ret_act (Some c)) ?Q"
    if "own_row st sc (snd s) = Some r" "row_matches r c" "cv_status r = Running" for c r
    by (rule triple_ret) (use that in \<open>simp add: tracks_def\<close>)
  have none: "triple P (ret_act None) ?Q" for P by (rule triple_ret) simp
  have prepared: "triple (\<lambda>t. t = s) (prepare_cycle st sc tip n) ?Q"
    unfolding prepare_cycle_def Let_def
  proof (rule triple_lift_bind, rule triple_lift_bind, rule triple_bind [OF read], rule triple_fact, goal_cases)
    case (1 height u found)
    show ?case
    proof (cases found)
      case None
      then show ?thesis by (simp add: full)
    next
      case (Some c)
      with 1(3) obtain r where r: "own_row st sc (snd s) = Some r" "row_matches r c" "hc_status c = cv_status r"
        by blast
      show ?thesis unfolding Some option.case
        by (rule triple_lift_bind, cases "hc_status c")
          (simp_all add: some [OF r(1,2)] r(3) resume [OF r(1,2)],
           auto intro!: triple_lift_bind none full extend split: if_split)
    qed
  qed
  show ?thesis
    by (rule tripleI)
      (use tripleD [OF prepared] acts_reachable [OF acts_prepare _ reach] in \<open>auto simp: walking_def\<close>)
qed

lemma run_loop_ok:
  assumes W: "world_behaves L st (ad_scope A) W"
  shows "triple (walking L st (ad_scope A) (lp_progress l)) (run_loop L st W A paused fuel l)
    (\<lambda>r t. \<forall>o'. r = Some o' \<longrightarrow> step_ok st (ad_scope A) (Inl o') (snd t))"
proof (induction fuel arbitrary: l)
  case 0
  show ?case by (simp, rule triple_ret) simp
next
  case (Suc fuel)
  let ?sc = "ad_scope A"
  have it: "triple (walking L st ?sc (lp_progress l)) (iteration L st W A paused l)
      (\<lambda>step t. reachable L (snd t) \<and> step_ok st ?sc step (snd t))"
    by (rule tripleI)
      (use tripleD [OF iteration_ok [OF W]] acts_reachable [OF acts_iteration [OF W]]
        in \<open>auto simp: walking_def\<close>)
  show ?case unfolding run_loop.simps
  proof (rule triple_bind [OF it])
    fix step :: step
    show "triple (\<lambda>t. reachable L (snd t) \<and> step_ok st ?sc step (snd t))
      (case step of Inl o' \<Rightarrow> ret_act (Some o') | Inr l' \<Rightarrow> run_loop L st W A paused fuel l')
      (\<lambda>r t. \<forall>o'. r = Some o' \<longrightarrow> step_ok st ?sc (Inl o') (snd t))"
    proof (cases step)
      case (Inl o')
      then show ?thesis by (simp, intro triple_ret) simp
    next
      case (Inr l')
      show ?thesis unfolding Inr sum.case
        by (rule triple_pre [OF Suc.IH]) (simp add: walking_def step_ok_def)
    qed
  qed
qed

lemma acts_run_history:
  assumes "world_behaves L st (ad_scope A) W"
  shows "acts (store_steps L) (run_history L st W A paused page_blocks fuel tip)"
proof -
  have loop: "acts (store_steps L) (run_loop L st W A paused n l)" for n l
    by (induction n arbitrary: l) (auto intro!: steps.acts_rules acts_iteration [OF assms] split: sum.split)
  show ?thesis
    unfolding run_history_def Let_def is_quarantined_def read_coverage_def
    by (auto intro!: steps.acts_ret steps.acts_bind steps.acts_context steps.acts_read acts_scope_current
        acts_mark acts_prepare loop split: option.split)
qed

lemma run_history_ok:
  assumes W: "world_behaves L st (ad_scope A) W" and reach: "reachable L (snd s)"
    and run: "run_history L st W A paused page_blocks fuel tip s = (Inr (Some o'), t)"
  shows "reachable L (snd t) \<and> step_ok st (ad_scope A) (Inl o') (snd t)"
proof -
  let ?sc = "ad_scope A"
  let ?Q = "\<lambda>r t. \<forall>o'. r = Some o' \<longrightarrow> step_ok st ?sc (Inl o') (snd t)"
  from acts_run_history [OF W] run reach have "reachable L (snd t)" by (rule acts_reachable)
  moreover have current: "triple (\<lambda>t. t = s) (scope_is_current st ?sc) (\<lambda>_ t. t = s)"
    by (rule tripleI) (auto simp: scope_is_current_def act_Inr split: option.splits)
  have quarantined: "triple (\<lambda>t. t = s) (is_quarantined st ?sc) (\<lambda>_ t. t = s)"
    by (rule tripleI) (auto simp: is_quarantined_def read_coverage_def act_Inr)
  have ret: "triple P (ret_act (Some o')) ?Q" if "\<And>t b p. o' \<noteq> Completed t b p" for P o'
    by (rule triple_ret) (use that in \<open>auto simp: step_ok_def split: outcome.split\<close>)
  have superseded: "triple P (bind_act (mark_superseded st ?sc) (\<lambda>_. ret_act (Some (SupersededRun tip 0 0)))) ?Q"
    for P by (rule triple_bind [OF triple_any]) (simp add: ret)
  have loop: "triple (\<lambda>t. \<forall>p. prepared = Some p \<longrightarrow> walking L st ?sc p t)
      (case prepared of None \<Rightarrow> ret_act (Some (UpToDate tip))
        | Some progress \<Rightarrow> run_loop L st W A paused fuel (start_loop progress)) ?Q" for prepared
  proof (cases prepared)
    case None
    then show ?thesis by (simp add: ret)
  next
    case (Some p)
    show ?thesis unfolding Some option.case
      by (rule triple_pre [OF run_loop_ok [OF W]]) (simp add: start_loop_def)
  qed
  have "triple (\<lambda>t. t = s) (run_history L st W A paused page_blocks fuel tip) ?Q"
    unfolding run_history_def Let_def
    by (rule triple_bind [OF current])
      (auto intro!: superseded triple_bind [OF quarantined] ret
        triple_bind [OF prepare_cycle_tracks [OF reach] loop])
  from tripleD [OF this run] have "step_ok st ?sc (Inl o') (snd t)" by simp
  ultimately show ?thesis by blast
qed

end
