(* ===== verification/Walk_Returns.thy ===== *)
theory Walk_Returns
  imports Walk_Properties
begin

text \<open>
  The walk returns: every iteration that goes on has shrunk the page, moved the cursor down, or
  used up one of at most two restarts, as long as the validator keeps naming one tip.
\<close>

section \<open>What an iteration uses up\<close>

definition restarts_left :: "bytes \<Rightarrow> loop \<Rightarrow> nat" where
  "restarts_left tip l = (if ob_hash (hc_target (lp_progress l)) = tip then 0 else 1)
     + (if lp_restarted l then 0 else 1)"

definition cursor_height :: "history_coverage \<Rightarrow> nat" where
  "cursor_height p = (case Option.bind (hc_next p) ob_height of None \<Rightarrow> 0 | Some h \<Rightarrow> unat h)"

definition walk_measure :: "bytes \<Rightarrow> loop \<Rightarrow> nat" where
  "walk_measure tip l = unat (hc_page (lp_progress l)) + cursor_height (lp_progress l)
     + restarts_left tip l * 2 ^ 32"

definition goes_down :: "bytes \<Rightarrow> loop \<Rightarrow> step \<Rightarrow> bool" where
  "goes_down tip l step \<longleftrightarrow>
     (case step of Inl _ \<Rightarrow> True | Inr l' \<Rightarrow> walk_measure tip l' < walk_measure tip l)"

text \<open>The validator names one tip whenever it answers.\<close>

definition one_tip :: "('w, 'p) world \<Rightarrow> bytes \<Rightarrow> bool" where
  "one_tip W tip \<longleftrightarrow> (\<forall>s b t. wd_tip W s = (Inr b, t) \<longrightarrow> ob_hash b = tip)"

lemma cursor_height_less: "cursor_height p < 2 ^ 32"
proof -
  have "unat (h :: u32) < 2 ^ 32" for h using unsigned_less [of h, where 'a = nat] by simp
  then show ?thesis by (auto simp: cursor_height_def split: option.split)
qed

lemma ended_goes_down: "goes_down tip l (Inl o')"
  by (simp add: goes_down_def)

abbreviation falls :: "bytes \<Rightarrow> loop \<Rightarrow> ('w, step) act \<Rightarrow> bool" where
  "falls tip l m \<equiv> triple (\<lambda>_. True) m (\<lambda>step _. goes_down tip l step)"

lemma falls_ended: "falls tip l (ret_act (Inl o'))"
  by (rule triple_ret) (rule ended_goes_down)

lemma falls_give_up: "falls tip l (give_up st sc l' e mode)"
  unfolding give_up_def by (rule triple_bind [OF triple_any], rule triple_ret) (rule ended_goes_down)

lemma falls_restart:
  assumes "restarts_left tip l \<noteq> 0"
    and "ob_hash target = tip \<or> ob_hash target = ob_hash (hc_target (lp_progress l)) \<and> \<not> lp_restarted l"
    and "hc_page (lp_progress l') = hc_page (lp_progress l)"
  shows "falls tip l (restart st sc l' target)"
proof (rule tripleI)
  fix s step t assume "restart st sc l' target s = (Inr step, t)"
  then obtain p where p: "begin_full_cycle st sc target (hc_page (lp_progress l')) s = (Inr p, t)"
    and step: "step = Inr (l'\<lparr> lp_progress := p, lp_restarted := True \<rparr>)"
    by (auto simp: restart_def act_Inr)
  from begin_full_cycle_tracks [OF p]
  have q: "hc_target p = target" "hc_page p = hc_page (lp_progress l)" using assms(3) by simp_all
  let ?l = "l'\<lparr> lp_progress := p, lp_restarted := True \<rparr>"
  have "restarts_left tip ?l < restarts_left tip l"
    using assms(1,2) q(1) by (auto simp: restarts_left_def)
  then obtain k where k: "restarts_left tip l = Suc (restarts_left tip ?l + k)"
    using less_imp_Suc_add by blast
  show "goes_down tip l step"
    unfolding step goes_down_def sum.case walk_measure_def k
    using q(2) cursor_height_less [of p] by simp
qed

lemma reduced_page_less: "1 < n \<Longrightarrow> unat (reduced_page n) < unat n"
proof -
  assume "1 < n"
  then have n: "1 < unat n" by (simp add: word_less_nat_alt)
  then have "unat (n div 2) < unat n" by (simp add: unat_div)
  with n show ?thesis by (simp add: reduced_page_def max_def)
qed

lemma falls_shrink:
  assumes "1 < hc_page (lp_progress l)"
  shows "falls tip l (shrink_page st sc l e)"
proof -
  have "goes_down tip l (Inr (l\<lparr> lp_progress := (lp_progress l)\<lparr> hc_page := reduced_page (hc_page (lp_progress l)) \<rparr> \<rparr>))"
    using reduced_page_less [OF assms]
    by (simp add: goes_down_def walk_measure_def restarts_left_def cursor_height_def)
  then show ?thesis
    unfolding shrink_page_def Let_def
    by (intro triple_bind [OF triple_any]) (auto split: sum.split intro!: falls_give_up triple_ret)
qed

lemma falls_unavailable:
  assumes "one_tip W tip"
  shows "falls tip l (unavailable_cursor st W A l e)"
proof -
  let ?t = "hc_target (lp_progress l)"
  have known: "triple (\<lambda>_. True) (attempt (wd_tip W)) (\<lambda>r _. \<forall>b. r = Inr b \<longrightarrow> ob_hash b = tip)"
  proof (rule tripleI, intro allI impI)
    fix s x t b assume "attempt (wd_tip W) s = (Inr x, t)" and "x = Inr b"
    then have "wd_tip W s = (Inr b, t)" by (simp add: attempt_iff)
    then show "ob_hash b = tip" using assms unfolding one_tip_def by blast
  qed
  have go: "falls tip l (case replacement_target b ?t av of
      Some current \<Rightarrow> restart st (ad_scope A) l current | None \<Rightarrow> give_up st (ad_scope A) l e DeferredMode)"
    if "ob_hash b = tip" for b av
  proof (cases "replacement_target b ?t av")
    case None
    then show ?thesis by (simp add: falls_give_up)
  next
    case (Some c)
    then have "c = b" "ob_hash ?t \<noteq> tip" using that by (auto simp: replacement_target_def split: if_splits)
    then show ?thesis using Some that by (auto simp: restarts_left_def intro!: falls_restart)
  qed
  show ?thesis
    unfolding unavailable_cursor_def Let_def
  proof (rule triple_bind [OF known], rule triple_const)
    fix r :: "observed_block res" assume "\<forall>b. r = Inr b \<longrightarrow> ob_hash b = tip"
    then show "falls tip l (case r of
        Inl tip_error \<Rightarrow>
          if retryable_rpc_error tip_error
          then give_up st (ad_scope A) l (Context (''reading the current tip after unavailable history cursor: ''
                 @ render_error e) tip_error) DeferredMode
          else give_up st (ad_scope A) l (Context ''reading the current tip after an unavailable history cursor''
                 tip_error) FatalMode
      | Inr current \<Rightarrow>
          bind_act (if ob_hash current = ob_hash ?t then ret_act (Some True)
                    else bind_act (attempt (target_is_available W A ?t)) (\<lambda>probe.
                         ret_act (case probe of Inr availability \<Rightarrow> availability | Inl _ \<Rightarrow> None)))
            (\<lambda>availability.
          case replacement_target current ?t availability of
            Some current \<Rightarrow> restart st (ad_scope A) l current
          | None \<Rightarrow> give_up st (ad_scope A) l e DeferredMode))"
    proof (cases r)
      case (Inl e')
      then show ?thesis by (simp add: falls_give_up)
    next
      case (Inr b)
      with \<open>\<forall>b. r = Inr b \<longrightarrow> ob_hash b = tip\<close> have "ob_hash b = tip" by blast
      from go [OF this] show ?thesis unfolding Inr sum.case
        by (rule triple_bind [OF triple_any])
    qed
  qed
qed

text \<open>The floor moves neither the cursor nor the target, and the page it cuts is a prefix.\<close>

lemma apply_floor_keeps:
  "triple (\<lambda>_. True) (apply_floor st A p cursor ps)
     (\<lambda>(p', ps', c) _. hc_target p' = hc_target p \<and> hc_page p' = hc_page p \<and> hc_next p' = hc_next p \<and>
        (\<exists>n. ps' = take n ps))"
proof (rule tripleI, clarify)
  fix s p' ps' c t assume "apply_floor st A p cursor ps s = (Inr (p', ps', c), t)"
  then consider "p' = p" "ps' = ps"
    | hash height i where "p' = p\<lparr> hc_floor_hash := hash, hc_floor_height := height \<rparr>" "ps' = take i ps"
    unfolding apply_floor_def Let_def by (auto simp: act_Inr on_db_iff split: option.splits)
  then show "hc_target p' = hc_target p \<and> hc_page p' = hc_page p \<and> hc_next p' = hc_next p \<and>
      (\<exists>n. ps' = take n ps)"
    by cases (auto intro: exI [of _ "length ps"])
qed

lemma falls_record_page:
  assumes "hc_page (lp_progress l') = hc_page (lp_progress l)" "restarts_left tip l' = restarts_left tip l"
    and "\<And>b. next = Some b \<Longrightarrow> \<exists>h. ob_height b = Some h \<and> unat h < cursor_height (lp_progress l)"
  shows "falls tip l (record_page L st W A paused l' cursor next ps)"
proof -
  have page: "falls tip l (after_page W paused (advance_loop l' next n k))" for n k
  proof (cases "next")
    case None
    then show ?thesis by (simp add: after_page_def advance_loop_def Let_def falls_ended)
  next
    case (Some b)
    have "goes_down tip l (Inr (advance_loop l' next n k))"
      using assms Some
      by (auto simp: goes_down_def walk_measure_def advance_loop_def restarts_left_def cursor_height_def)
    then show ?thesis
      by (auto simp: after_page_def Let_def advance_loop_def Some
          intro!: triple_ret triple_bind [OF triple_any] ended_goes_down)
  qed
  show ?thesis
    unfolding record_page_def Let_def
    by (rule triple_bind [OF triple_any], rule triple_lift_bind, rule triple_bind [OF triple_any])
      (auto split: sum.split intro!: falls_ended falls_give_up page)
qed

lemma falls_judge_page:
  assumes "hc_page (lp_progress l') = hc_page (lp_progress l)" "restarts_left tip l' = restarts_left tip l"
    "lp_restarted l' = lp_restarted l" "hc_target (lp_progress l') = hc_target (lp_progress l)"
    and old: "\<And>h. ps \<noteq> [] \<Longrightarrow> ad_header A (last ps) = Inr h \<Longrightarrow>
      unat (hdr_height h) \<le> cursor_height (lp_progress l)"
  shows "falls tip l (judge_page L st W A paused l' cursor remaining ps certified)"
proof -
  have go_on: "falls tip l (bind_act (lift_act (next_cursor completes oldest))
      (\<lambda>next. record_page L st W A paused l' cursor next ps))"
    if "ps \<noteq> []" "ad_header A (last ps) = Inr oldest" for oldest completes
    by (rule triple_lift_bind, rule falls_record_page)
      (use assms(1,2) old [OF that] next_cursor_below in fastforce)+
  have again: "falls tip l (restart st (ad_scope A) l' (hc_target (lp_progress l')))" if "\<not> lp_restarted l'"
    by (rule falls_restart) (use that assms in \<open>auto simp: restarts_left_def\<close>)
  show ?thesis
    unfolding judge_page_def Let_def
    by (rule triple_lift_bind)
      (auto split: sum.split simp: res_simps intro!: falls_give_up again go_on)
qed

lemma verified_prefix_height:
  assumes "verify_page_with header ps cursor requested = Inr ()" and "ob_height cursor = Some h"
    and "take n ps \<noteq> []" and "header (last (take n ps)) = Inr x"
  shows "unat (hdr_height x) \<le> unat h"
proof -
  from assms(1) obtain hs height where hs: "collect_res header ps = Inr hs" "ob_height cursor = Some height"
    "contiguous hs (ob_hash cursor) height" by (rule verified_page)
  let ?i = "min n (length ps) - 1"
  have i: "?i < length ps" using assms(3) by (cases ps; cases n) auto
  have n: "0 < n" "ps \<noteq> []" using assms(3) by auto
  have "last (take n ps) = take n ps ! ?i" using assms(3) by (simp add: last_conv_nth min.commute)
  moreover have "take n ps ! ?i = ps ! ?i" by (rule nth_take) (use n in linarith)
  ultimately have "last (take n ps) = ps ! ?i" by simp
  with collect_res_nth [OF hs(1) i] assms(4) have "x = hs ! ?i" by simp
  moreover have "unat (hdr_height (hs ! ?i)) + ?i = unat height"
    using hs(3) i collect_res_length [OF hs(1)] unfolding contiguous_def by metis
  ultimately show ?thesis using hs(2) assms(2) by simp
qed

lemma falls_commit_page:
  assumes "hc_next (lp_progress l) = Some cursor" and "ob_height cursor = Some h"
  shows "falls tip l (commit_page L st W A paused l cursor remaining requested ps)"
proof (cases "verify_page_with (ad_header A) ps cursor requested")
  case (Inl e)
  then show ?thesis by (simp add: commit_page_def falls_give_up)
next
  case (Inr u)
  then have ok: "verify_page_with (ad_header A) ps cursor requested = Inr ()" by simp
  have height: "cursor_height (lp_progress l) = unat h" using assms by (simp add: cursor_height_def)
  have old: "unat (hdr_height x) \<le> cursor_height (lp_progress l)"
    if "take n ps \<noteq> []" "ad_header A (last (take n ps)) = Inr x" for n x
    unfolding height by (rule verified_prefix_height [OF ok assms(2) that])
  have judged: "triple
      ((\<lambda>(p', ps', c) _. hc_target p' = hc_target (lp_progress l) \<and> hc_page p' = hc_page (lp_progress l) \<and>
         hc_next p' = hc_next (lp_progress l) \<and> (\<exists>n. ps' = take n ps)) x)
      (case x of (p', ps', c) \<Rightarrow>
         judge_page L st W A paused (l\<lparr> lp_progress := p' \<rparr>) cursor remaining ps' c)
      (\<lambda>step _. goes_down tip l step)" for x
  proof -
    obtain p' ps' c where x: "x = (p', ps', c)" by (cases x) auto
    show ?thesis unfolding x prod.case
    proof (rule triple_const, elim conjE exE)
      fix n assume k: "hc_target p' = hc_target (lp_progress l)" "hc_page p' = hc_page (lp_progress l)"
        "hc_next p' = hc_next (lp_progress l)" "ps' = take n ps"
      have "unat (hdr_height h) \<le> cursor_height (lp_progress l)"
        if "ps' \<noteq> []" "ad_header A (last ps') = Inr h" for h
        using that unfolding k(4) by (rule old)
      then show "falls tip l (judge_page L st W A paused (l\<lparr> lp_progress := p' \<rparr>) cursor remaining ps' c)"
        using k(1-3) by (intro falls_judge_page) (simp_all add: restarts_left_def)
    qed
  qed
  show ?thesis
    unfolding commit_page_def Inr sum.case by (rule triple_bind [OF apply_floor_keeps judged])
qed

lemma falls_iteration:
  assumes "one_tip W tip"
  shows "falls tip l (iteration L st W A paused l)"
proof -
  have page: "falls tip l (fetched_page L st W A paused l cursor remaining requested r)"
    if "hc_next (lp_progress l) = Some cursor" "ob_height cursor = Some h" for cursor h remaining requested r
    unfolding fetched_page_def Let_def
    by (auto split: sum.split intro!: falls_unavailable [OF assms] falls_commit_page [OF that] falls_shrink
        falls_give_up)
  have cursor: "falls tip l
      (bind_act (lift_act (ok_or msg (hc_next (lp_progress l)))) (\<lambda>cursor.
       bind_act (lift_act (required_height cursor)) (\<lambda>height.
       bind_act (lift_act (blocks_through_floor height floor)) (\<lambda>remaining.
       bind_act (attempt (wd_fetch W cursor (requested remaining))) (\<lambda>fetched.
       fetched_page L st W A paused l cursor remaining (requested remaining) fetched)))))"
    for msg floor requested
    by (intro triple_lift_bind triple_bind [OF triple_any] page)
      (simp_all add: res_simps required_height_def)
  have superseded: "falls tip l (bind_act (mark_superseded st (ad_scope A)) (\<lambda>_. ret_act (Inl o')))" for o'
    by (rule triple_bind [OF triple_any], rule falls_ended)
  have rest: "falls tip l (bind_act (scope_is_current st (ad_scope A)) (\<lambda>current.
      if \<not> current
      then bind_act (mark_superseded st (ad_scope A)) (\<lambda>_. ret_act (Inl o'))
      else
      bind_act (lift_act (ok_or msg (hc_next (lp_progress l)))) (\<lambda>cursor.
      bind_act (lift_act (required_height cursor)) (\<lambda>height.
      bind_act (lift_act (blocks_through_floor height floor)) (\<lambda>remaining.
      bind_act (attempt (wd_fetch W cursor (requested remaining))) (\<lambda>fetched.
      fetched_page L st W A paused l cursor remaining (requested remaining) fetched))))))"
    for o' msg floor requested
    by (rule triple_bind [OF triple_any]) (simp add: superseded cursor)
  show ?thesis
    unfolding iteration_def Let_def
    by (rule triple_bind [OF triple_any]) (simp add: falls_ended rest)
qed

section \<open>Enough fuel\<close>

lemma run_loop_returns:
  assumes "one_tip W tip" and "walk_measure tip l < fuel"
  shows "fst (run_loop L st W A paused fuel l s) \<noteq> Inr None"
  using assms(2)
proof (induction fuel arbitrary: l s)
  case 0
  then show ?case by simp
next
  case (Suc fuel)
  show ?case
  proof -
    obtain r t where Pair: "iteration L st W A paused l s = (r, t)" by (cases "iteration L st W A paused l s")
    show ?thesis
    proof (cases r)
      case (Inl e)
      with Pair show ?thesis by (simp add: bind_act_def)
    next
      case (Inr step)
      with Pair have it: "iteration L st W A paused l s = (Inr step, t)" by simp
      from tripleD [OF falls_iteration [OF assms(1)] it] have down: "goes_down tip l step" by simp
      show ?thesis
      proof (cases step)
        case (Inl o')
        with it show ?thesis by (simp add: bind_act_def ret_act_def)
      next
        case (Inr l')
        with down Suc.prems have "walk_measure tip l' < fuel" by (simp add: goes_down_def)
        from Suc.IH [OF this, of t] it Inr show ?thesis by (simp add: bind_act_def)
      qed
    qed
  qed
qed

lemma walk_measure_bound: "walk_measure tip l < 2 ^ 34"
proof -
  have page: "unat (n :: u32) < 2 ^ 32" for n using unsigned_less [of n, where 'a = nat] by simp
  have two: "restarts_left tip l \<le> 2" by (simp add: restarts_left_def)
  have "restarts_left tip l * 2 ^ 32 \<le> 2 * 2 ^ 32" using two by (rule mult_right_mono) simp
  with page [of "hc_page (lp_progress l)"] cursor_height_less [of "lp_progress l"] show ?thesis
    unfolding walk_measure_def by simp
qed

end
