(* ===== verification/Recorder.thy ===== *)
theory Recorder
  imports Effects
begin

text \<open>
  Commit-then-publish recording, from \<^verbatim>\<open>src/shared/src/recorder.rs\<close>, over the best-effort
  publisher of \<^verbatim>\<open>src/shared/src/nats.rs\<close>. The NATS client is a parameter: whether it is
  connected, the hand-over of one message, the flush, and whether the flush budget has run out at
  an await.
\<close>

section \<open>Connection options\<close>

record nats_args =
  na_url :: string
  na_username :: "string option"
  na_password :: "string option"
  na_password_file :: "string option"
  na_flush_timeout_seconds :: u64

text \<open>\<open>trim_end_matches(['\r', '\n'])\<close>: the line ends are the characters 13 and 10.\<close>

definition trim_line_ends :: "string \<Rightarrow> string" where
  "trim_line_ends s = rev (dropWhile (\<lambda>c. of_char c \<in> {13, 10 :: nat}) (rev s))"

text \<open>The credentials of the connection; reading the password file is a parameter.\<close>

definition connect_options ::
  "(string \<Rightarrow> string res) \<Rightarrow> nats_args \<Rightarrow> (string \<times> string) option res" where
  "connect_options read_file args =
     bind_res
       (case (na_password args, na_password_file args) of
          (Some _, Some _) \<Rightarrow> bail ''only one of nats_password and nats_password_file may be set''
        | (Some password, None) \<Rightarrow> Inr (Some password)
        | (None, Some path) \<Rightarrow>
            bind_res (with_context ''reading NATS password file'' (read_file path)) (\<lambda>text.
            if trim_line_ends text = [] then bail ''NATS password file is empty''
            else Inr (Some (trim_line_ends text)))
        | (None, None) \<Rightarrow> Inr None) (\<lambda>password.
     case (na_username args, password) of
       (Some username, Some password) \<Rightarrow> Inr (Some (username, password))
     | (Some _, None) \<Rightarrow> bail ''a NATS username requires a password or password file''
     | (None, Some _) \<Rightarrow> bail ''a NATS password requires a username''
     | (None, None) \<Rightarrow> Inr None)"

section \<open>Best-effort publication\<close>

record 'w publisher =
  pb_connected :: "'w \<times> db \<Rightarrow> bool \<times> ('w \<times> db)"
  pb_client :: "string \<Rightarrow> bytes \<Rightarrow> ('w, unit) act"
  pb_flush :: "('w, unit) act"
  pb_expired :: "'w \<times> db \<Rightarrow> bool \<times> ('w \<times> db)"
  pb_budget :: nat

record fan_out =
  fo_observed :: nat
  fo_published :: nat
  fo_failure :: "string option"

definition dropped :: "fan_out \<Rightarrow> nat option" where
  "dropped f = (if fo_published f \<le> fo_observed f then Some (fo_observed f - fo_published f) else None)"

definition publish :: "libs \<Rightarrow> 'w publisher \<Rightarrow> subject \<Rightarrow> event \<Rightarrow> ('w, unit) act" where
  "publish L P sub e =
     context_act (''publishing event to NATS subject '' @ subject_str sub)
       (pb_client P (subject_str sub) (encode_event L e))"

definition first_failure :: "string option \<Rightarrow> string \<Rightarrow> string option" where
  "first_failure seen err = (case seen of None \<Rightarrow> Some err | Some e \<Rightarrow> Some e)"

text \<open>The loop under the time limit: whether it timed out, what was published, the first failure.\<close>

fun publish_all ::
  "libs \<Rightarrow> 'w publisher \<Rightarrow> subject \<Rightarrow> event list \<Rightarrow> nat \<Rightarrow> string option \<Rightarrow>
   ('w, bool \<times> nat \<times> string option) act" where
  "publish_all L P sub [] n failure = ret_act (False, n, failure)"
| "publish_all L P sub (e # es) n failure =
     bind_act (ask (pb_expired P)) (\<lambda>expired.
     if expired then ret_act (True, n, failure)
     else bind_act (attempt (publish L P sub e)) (\<lambda>r.
       case r of
         Inr _ \<Rightarrow> publish_all L P sub es (n + 1) failure
       | Inl err \<Rightarrow> publish_all L P sub es n (first_failure failure (render_error err))))"

definition publish_batch :: "libs \<Rightarrow> 'w publisher \<Rightarrow> subject \<Rightarrow> event list \<Rightarrow> ('w, fan_out) act" where
  "publish_batch L P sub es =
     (if es = [] then ret_act \<lparr> fo_observed = 0, fo_published = 0, fo_failure = None \<rparr>
      else
        bind_act (ask (pb_connected P)) (\<lambda>connected.
        if \<not> connected
        then ret_act \<lparr> fo_observed = length es, fo_published = 0,
               fo_failure = Some ''the Core NATS connection is not established'' \<rparr>
        else
          bind_act (publish_all L P sub es 0 None) (\<lambda>(expired, n, failure).
          if expired
          then ret_act \<lparr> fo_observed = length es, fo_published = n,
                 fo_failure = Some (''timed out after '' @ show_nat (pb_budget P)
                   @ ''s while publishing the batch'') \<rparr>
          else
            bind_act (attempt (pb_flush P)) (\<lambda>flushed.
            ret_act \<lparr> fo_observed = length es, fo_published = n,
              fo_failure = (case flushed of Inr _ \<Rightarrow> failure
                            | Inl err \<Rightarrow> first_failure failure (render_error err)) \<rparr>))))"

section \<open>Recording\<close>

record 'w recorder =
  rc_libs :: libs
  rc_store :: store
  rc_publisher :: "'w publisher"
  rc_subject :: subject

text \<open>The outcome of the fan-out is only reported.\<close>

definition fan_out_events :: "'w recorder \<Rightarrow> event list \<Rightarrow> ('w, unit) act" where
  "fan_out_events R es =
     bind_act (attempt (publish_batch (rc_libs R) (rc_publisher R) (rc_subject R) es)) (\<lambda>_. ret_act ())"

definition record_batch_with_method :: "'w recorder \<Rightarrow> event list \<Rightarrow> capture_method \<Rightarrow> ('w, unit) act" where
  "record_batch_with_method R es mth =
     (if es = [] then ret_act ()
      else
        bind_act (context_act ''recording observed events''
          (on_db (record_with_method (rc_libs R) (rc_store R) es mth))) (\<lambda>_.
        fan_out_events R es))"

definition recorder_record :: "'w recorder \<Rightarrow> event \<Rightarrow> ('w, unit) act" where
  "recorder_record R e = record_batch_with_method R [e] Live"

definition record_for_instance :: "'w recorder \<Rightarrow> event \<Rightarrow> instance_ref \<Rightarrow> ('w, unit) act" where
  "record_for_instance R e inst =
     bind_act (context_act ''recording an instance-scoped event''
       (on_db (record_with_method_for_instance (rc_libs R) (rc_store R) [e] Live inst))) (\<lambda>_.
     fan_out_events R [e])"

definition record_snapshot_batch ::
  "'w recorder \<Rightarrow> string \<Rightarrow> event list \<Rightarrow> capture_method \<Rightarrow> snapshot_metadata \<Rightarrow> ('w, unit) act" where
  "record_snapshot_batch R gid es mth m =
     (if es = [] then ret_act ()
      else
        bind_act (context_act ''recording an observed snapshot''
          (on_db (record_snapshot (rc_libs R) (rc_store R) gid es mth m))) (\<lambda>_.
        fan_out_events R es))"

definition recorder_fee_enrichment :: "'w recorder \<Rightarrow> int \<Rightarrow> event \<Rightarrow> ('w, unit) act" where
  "recorder_fee_enrichment R source_event e =
     bind_act (on_db (record_fee_enrichment (rc_libs R) (rc_store R) source_event e)) (\<lambda>_.
     fan_out_events R [e])"

definition recorder_tip ::
  "'w recorder \<Rightarrow> observed_block \<Rightarrow> observed_block option \<Rightarrow> capture_method \<Rightarrow> int \<Rightarrow> ('w, unit) act" where
  "recorder_tip R tip previous mth observed_at =
     on_db (record_tip_observation (rc_store R) tip previous mth observed_at)"

definition recorder_failure :: "'w recorder \<Rightarrow> worker \<Rightarrow> string \<Rightarrow> u32 \<Rightarrow> ('w, u32) act" where
  "recorder_failure R w err degraded_after = on_db (record_worker_failure (rc_store R) w err degraded_after)"

definition recorder_success :: "'w recorder \<Rightarrow> worker \<Rightarrow> ('w, unit) act" where
  "recorder_success R w = on_db (record_worker_success (rc_store R) w)"

definition recorder_init_workers :: "'w recorder \<Rightarrow> worker list \<Rightarrow> ('w, unit) act" where
  "recorder_init_workers R ws = on_db (initialize_worker_statuses (rc_store R) ws)"

definition recorder_finish :: "'w recorder \<Rightarrow> string \<Rightarrow> string option \<Rightarrow> ('w, unit) act" where
  "recorder_finish R status reason = on_db (finish_run (rc_store R) status reason)"

text \<open>The publisher is connected, and so validated, before a run is opened in the record.\<close>

definition recorder_connect ::
  "libs \<Rightarrow> 'w publisher res \<Rightarrow> (nat \<Rightarrow> unit tx) \<Rightarrow> string \<Rightarrow> manifest \<Rightarrow> string \<Rightarrow> string \<Rightarrow> subject \<Rightarrow>
   ('w, 'w recorder) act" where
  "recorder_connect L publisher statements source m fresh_dataset fresh_run sub =
     bind_act (lift_act (with_context ''connecting the live event publisher'' publisher)) (\<lambda>P.
     bind_act (context_act ''connecting the event record''
       (on_db (connect_with_manifest statements source m fresh_dataset fresh_run))) (\<lambda>st.
     ret_act \<lparr> rc_libs = L, rc_store = st, rc_publisher = P, rc_subject = sub \<rparr>))"

end
