(* ===== verification/Node.thy ===== *)
theory Node
  imports Backfill Recorder
begin

text \<open>
  The node's RPC evidence, from \<^verbatim>\<open>src/extractors/enforcer/src/node.rs\<close>: the read-only
  RPC client, the header, tip and block it reads and checks, and the global block stream as an
  adapter of the walk. The HTTP transport, the cookie file and Bitcoin's block decoding are
  parameters.
\<close>

section \<open>JSON access\<close>

fun jindex :: "json \<Rightarrow> string \<Rightarrow> json" where
  "jindex (JObj entries) k = (case map_of entries k of Some v \<Rightarrow> v | None \<Rightarrow> JNull)"
| "jindex v k = JNull"

fun jget :: "json \<Rightarrow> string \<Rightarrow> json option" where
  "jget (JObj entries) k = map_of entries k"
| "jget v k = None"

fun as_str :: "json \<Rightarrow> string option" where
  "as_str (JStr s) = Some s"
| "as_str v = None"

fun as_array :: "json \<Rightarrow> json list option" where
  "as_array (JArr vs) = Some vs"
| "as_array v = None"

fun as_u64 :: "json \<Rightarrow> u64 option" where
  "as_u64 (JNum n) = u64_of_int n"
| "as_u64 v = None"

fun as_i64 :: "json \<Rightarrow> int option" where
  "as_i64 (JNum n) = (if - (2 ^ 63) \<le> n \<and> n < 2 ^ 63 then Some n else None)"
| "as_i64 v = None"

definition u32_of_u64 :: "u64 \<Rightarrow> u32 option" where
  "u32_of_u64 n = u32_of_int (uint n)"

section \<open>The client\<close>

text \<open>\<open>Work\<close> is a 256-bit integer read from big-endian bytes and stored little-endian.\<close>

definition work_from_be :: "bytes \<Rightarrow> nat" where
  "work_from_be bs = foldl (\<lambda>n b. 256 * n + unat b) 0 bs"

fun le_bytes :: "nat \<Rightarrow> nat \<Rightarrow> bytes" where
  "le_bytes 0 n = []"
| "le_bytes (Suc k) n = word_of_nat (n mod 256) # le_bytes k (n div 256)"

definition work_to_le :: "nat \<Rightarrow> bytes" where
  "work_to_le n = le_bytes 32 n"

text \<open>What the Bitcoin library reads from a serialized block, hashes as it displays them.\<close>

record decoded_block =
  db_block_hash :: string
  db_prev_hash :: string
  db_time :: u32
  db_merkle_root_ok :: bool
  db_witness_ok :: bool
  db_work :: nat

record 'w node_client =
  nc_libs :: libs
  nc_cookie :: "('w, string) act"
  nc_post :: "string \<Rightarrow> string \<Rightarrow> json \<Rightarrow> ('w, bool \<times> json res) act"
  nc_decode :: "bytes \<Rightarrow> decoded_block option"

definition READ_ONLY_RPCS :: "string list" where
  "READ_ONLY_RPCS = [''getblockchaininfo'', ''getblockhash'', ''getblockheader'', ''getblock'']"

definition is_space :: "char \<Rightarrow> bool" where
  "is_space c \<longleftrightarrow> of_char c = (32 :: nat) \<or> 9 \<le> (of_char c :: nat) \<and> of_char c \<le> (13 :: nat)"

definition trim :: "string \<Rightarrow> string" where
  "trim s = rev (dropWhile is_space (rev (dropWhile is_space s)))"

fun split_once :: "char \<Rightarrow> string \<Rightarrow> (string \<times> string) option" where
  "split_once c [] = None"
| "split_once c (x # xs) =
     (if x = c then Some ([], xs) else map_option (\<lambda>(a, b). (x # a, b)) (split_once c xs))"

definition rpc_request :: "string \<Rightarrow> json list \<Rightarrow> json" where
  "rpc_request mth params =
     JObj [(''jsonrpc'', JStr ''2.0''), (''id'', JStr ''observer''), (''method'', JStr mth),
           (''params'', JArr params)]"

definition rpc_result :: "bool \<Rightarrow> json \<Rightarrow> json res" where
  "rpc_result success v =
     (if jindex v ''error'' \<noteq> JNull
      then if as_i64 (jindex (jindex v ''error'') ''code'') = Some (- 5)
           then Inl (Status NotFound) else Inl (Status Unavailable)
      else if \<not> success then Inl (Status Unavailable)
      else ok_or ''node response has no result'' (jget v ''result''))"

definition node_rpc :: "'w node_client \<Rightarrow> string \<Rightarrow> json list \<Rightarrow> ('w, json) act" where
  "node_rpc C mth params =
     bind_act (lift_act (ensure (mth \<in> set READ_ONLY_RPCS) ''RPC method is not read-only observer API'')) (\<lambda>_.
     bind_act (context_act ''reading node RPC cookie'' (nc_cookie C)) (\<lambda>cookie.
     bind_act (lift_act (ok_or ''invalid node RPC cookie shape'' (split_once (CHR '':'') (trim cookie))))
       (\<lambda>(user, password).
     bind_act (attempt (nc_post C user password (rpc_request mth params))) (\<lambda>sent.
     case sent of
       Inl _ \<Rightarrow> fail_act (Status Unavailable)
     | Inr (success, body) \<Rightarrow>
         bind_act (lift_act (with_context ''decoding node RPC response'' body)) (\<lambda>v.
         lift_act (rpc_result success v))))))"

section \<open>Headers, tips and blocks\<close>

definition hash_bytes :: "libs \<Rightarrow> json \<Rightarrow> bytes res" where
  "hash_bytes L v =
     bind_res (ok_or ''missing hash'' (as_str v)) (\<lambda>s.
     bind_res (ok_or ''invalid hexadecimal'' (hex_decode L s)) (\<lambda>bs.
     bind_res (ensure (length bs = 32) ''hash must have 32 bytes'') (\<lambda>_. Inr bs)))"

definition work :: "libs \<Rightarrow> json \<Rightarrow> nat res" where
  "work L v = map_ok work_from_be (hash_bytes L v)"

definition work_from_parent :: "libs \<Rightarrow> json \<Rightarrow> nat res" where
  "work_from_parent L v = work L (jindex v ''chainwork'')"

definition json_height :: "string \<Rightarrow> json \<Rightarrow> u32 res" where
  "json_height msg v =
     bind_res (ok_or msg (as_u64 v)) (\<lambda>n.
     ok_or ''out of range integral type conversion attempted'' (u32_of_u64 n))"

definition check_parent :: "libs \<Rightarrow> bytes \<Rightarrow> u32 \<Rightarrow> json \<Rightarrow> nat res" where
  "check_parent L previous height parent =
     bind_res (hash_bytes L (jindex parent ''hash'')) (\<lambda>hash.
     bind_res (ensure (hash = previous \<and>
                 as_u64 (jindex parent ''height'') = Some (ucast height - 1)) ''invalid parent header'') (\<lambda>_.
     work_from_parent L parent))"

definition client_header :: "'w node_client \<Rightarrow> bytes \<Rightarrow> ('w, block_header) act" where
  "client_header C hash =
     (let L = nc_libs C in
      bind_act (lift_act (ensure (length hash = 32) ''invalid requested block hash'')) (\<lambda>_.
      bind_act (node_rpc C ''getblockheader'' [JStr (hex_encode L hash), JBool True]) (\<lambda>v.
      bind_act (lift_act (hash_bytes L (jindex v ''hash''))) (\<lambda>named.
      bind_act (lift_act (ensure (named = hash) ''node returned another block'')) (\<lambda>_.
      bind_act (lift_act (json_height ''missing header height'' (jindex v ''height''))) (\<lambda>height.
      bind_act (if height = 0 then ret_act (replicate 32 0)
                else lift_act (hash_bytes L (jindex v ''previousblockhash''))) (\<lambda>previous.
      bind_act (lift_act (work L (jindex v ''chainwork''))) (\<lambda>total.
      bind_act (if height = 0 then ret_act 0
                else bind_act (node_rpc C ''getblockheader'' [JStr (hex_encode L previous), JBool True])
                       (\<lambda>parent. lift_act (check_parent L previous height parent))) (\<lambda>parent_work.
      bind_act (lift_act (ensure (parent_work < total) ''nonpositive block work'')) (\<lambda>_.
      bind_act (lift_act (ok_or ''missing block time'' (as_u64 (jindex v ''time'')))) (\<lambda>time.
      ret_act \<lparr> hdr_hash = hash, hdr_previous = previous, hdr_height = height,
                hdr_block_work = work_to_le (total - parent_work),
                hdr_cumulative_work = work_to_le total, hdr_timestamp = time \<rparr>)))))))))))"

definition client_tip :: "'w node_client \<Rightarrow> ('w, observed_block) act" where
  "client_tip C =
     bind_act (node_rpc C ''getblockchaininfo'' []) (\<lambda>info.
     bind_act (lift_act (ensure (jindex info ''initialblockdownload'' = JBool False)
                 ''node is still in initial download'')) (\<lambda>_.
     bind_act (lift_act (hash_bytes (nc_libs C) (jindex info ''bestblockhash''))) (\<lambda>hash.
     bind_act (lift_act (json_height ''missing node height'' (jindex info ''blocks''))) (\<lambda>height.
     ret_act (at_height hash height)))))"

definition check_block :: "libs \<Rightarrow> bytes \<Rightarrow> block_header \<Rightarrow> decoded_block \<Rightarrow> unit res" where
  "check_block L hash header b =
     bind_res (ensure (db_block_hash b = hex_encode L hash) ''raw block hash mismatch'') (\<lambda>_.
     bind_res (ensure (db_prev_hash b = hex_encode L (hdr_previous header) \<and>
                 ucast (db_time b) = hdr_timestamp header) ''node header fields differ from raw block'') (\<lambda>_.
     bind_res (ensure (db_merkle_root_ok b \<and> db_witness_ok b) ''invalid block transaction commitment'') (\<lambda>_.
     ensure (work_to_le (db_work b) = hdr_block_work header)
       ''node chainwork increment differs from header proof'')))"

text \<open>A \<open>MainchainBlock\<close> message: its header and its raw bytes.\<close>

type_synonym node_block = "block_header option \<times> bytes"

definition client_block :: "'w node_client \<Rightarrow> bytes \<Rightarrow> ('w, node_block) act" where
  "client_block C hash =
     (let L = nc_libs C in
      bind_act (client_header C hash) (\<lambda>header.
      bind_act (node_rpc C ''getblock'' [JStr (hex_encode L hash), JNum 0]) (\<lambda>raw.
      bind_act (lift_act (ok_or ''node block is not hex'' (as_str raw))) (\<lambda>text.
      bind_act (lift_act (ok_or ''invalid hexadecimal'' (hex_decode L text))) (\<lambda>raw_block.
      bind_act (lift_act (with_context ''invalid serialized node block''
                  (ok_or ''consensus decoding failed'' (nc_decode C raw_block)))) (\<lambda>b.
      bind_act (lift_act (check_block L hash header b)) (\<lambda>_.
      ret_act (Some header, raw_block))))))))"

section \<open>The node's history stream\<close>

definition new_node_event :: "int \<Rightarrow> node_event \<Rightarrow> observed_block \<Rightarrow> event res" where
  "new_node_event now e anchor = new_event now (Node (Some e)) (Some anchor)"

definition node_history :: "u32 \<Rightarrow> bytes option \<Rightarrow> node_block adapter" where
  "node_history activation start_hash =
     \<lparr> ad_scope = \<lparr> hs_stream = ''mainchain_block'', hs_sidechain = None, hs_instance = None,
         hs_activation = activation, hs_start_hash = start_hash \<rparr>,
       ad_header = (\<lambda>b. ok_or ''node block missing header'' (fst b)),
       ad_envelope = (\<lambda>now b anchor. new_node_event now (MainchainBlock (fst b) (snd b)) anchor),
       ad_unavailable = error_has_code NotFound,
       ad_inconclusive = retryable_rpc_error \<rparr>"

fun fetch_blocks :: "'w node_client \<Rightarrow> nat \<Rightarrow> bytes \<Rightarrow> ('w, node_block list) act" where
  "fetch_blocks C 0 hash = ret_act []"
| "fetch_blocks C (Suc n) hash =
     bind_act (client_block C hash) (\<lambda>block.
     bind_act (lift_act (ok_or ''missing header'' (fst block))) (\<lambda>header.
     bind_act (fetch_blocks C n (hdr_previous header)) (\<lambda>rest. ret_act (block # rest))))"

definition node_fetch :: "'w node_client \<Rightarrow> observed_block \<Rightarrow> u32 \<Rightarrow> ('w, node_block list) act" where
  "node_fetch C cursor requested = fetch_blocks C (unat requested) (ob_hash cursor)"

section \<open>The history worker\<close>

text \<open>What one pass of the worker's loop ends with: stop, or wait (seconds) and go on.\<close>

datatype pass = Stop | RetryAfter nat | NextPoll

definition deferred_message :: "libs \<Rightarrow> observed_block \<Rightarrow> string" where
  "deferred_message L target =
     ''node history toward '' @ hex_encode L (ob_hash target) @ '' deferred after a page failure''"

text \<open>How the outcome of a walk is recorded; running out of fuel never is (see the walk's bound).\<close>

definition record_outcome :: "'w recorder \<Rightarrow> outcome option res \<Rightarrow> ('w, pass) act" where
  "record_outcome R r =
     (case r of
        Inl e \<Rightarrow> bind_act (recorder_failure R NodeHistory (render_error e) 1) (\<lambda>_. fail_act e)
      | Inr None \<Rightarrow> ret_act NextPoll
      | Inr (Some o') \<Rightarrow>
          (case o' of
             UpToDate t \<Rightarrow> bind_act (recorder_success R NodeHistory) (\<lambda>_. ret_act NextPoll)
           | Completed t b p \<Rightarrow> bind_act (recorder_success R NodeHistory) (\<lambda>_. ret_act NextPoll)
           | Quarantined t \<Rightarrow>
               bind_act (recorder_failure R NodeHistory HISTORY_CONFLICT 1) (\<lambda>_. ret_act NextPoll)
           | Deferred t b p \<Rightarrow>
               bind_act (recorder_failure R NodeHistory (deferred_message (rc_libs R) t) 1)
                 (\<lambda>_. ret_act NextPoll)
           | Interrupted t b p \<Rightarrow> ret_act NextPoll
           | SupersededRun t b p \<Rightarrow> ret_act NextPoll))"

definition node_pass ::
  "('w, node_block) world \<Rightarrow> 'w node_client \<Rightarrow> 'w recorder \<Rightarrow> node_block adapter \<Rightarrow> bool \<Rightarrow> u32 \<Rightarrow> nat \<Rightarrow>
   ('w \<times> db \<Rightarrow> int \<times> ('w \<times> db)) \<Rightarrow> ('w, pass) act" where
  "node_pass W C R A paused page_blocks fuel clock =
     bind_act (ask (wd_stopped W)) (\<lambda>stopped.
     if stopped then ret_act Stop
     else
     bind_act (attempt (client_tip C)) (\<lambda>tip.
     case tip of
       Inl e \<Rightarrow> bind_act (recorder_failure R NodeHistory (render_error e) 1) (\<lambda>_. ret_act (RetryAfter 5))
     | Inr tip \<Rightarrow>
         bind_act (attempt (client_header C (ob_hash tip))) (\<lambda>header.
         case header of
           Inl e \<Rightarrow>
             bind_act (recorder_failure R NodeHistory (''reading the tip header: '' @ render_error e) 1)
               (\<lambda>_. ret_act (RetryAfter 5))
         | Inr header \<Rightarrow>
             bind_act (ask clock) (\<lambda>now.
             bind_act (lift_act (new_node_event now (NodeChainTip (Some header)) tip)) (\<lambda>event.
             bind_act (recorder_record R event) (\<lambda>_.
             bind_act (ask clock) (\<lambda>now.
             bind_act (recorder_tip R tip None Poll now) (\<lambda>_.
             bind_act (attempt (run_history (rc_libs R) (rc_store R) W A paused (min page_blocks 4) fuel tip))
               (\<lambda>r. record_outcome R r)))))))))"

end
