(* ===== verification/Walk_Theorems.thy ===== *)
theory Walk_Theorems
  imports Walk_Returns Node
begin

text \<open>
  The walk's end-to-end properties, with the node's stream over a two-block chain as the witness.
\<close>

section \<open>A validator with two blocks\<close>

definition sample_node_blocks :: "node_block list" where
  "sample_node_blocks = [(Some (sample_header 2), [2]), (Some (sample_header 1), [1])]"

definition sample_world :: "(unit, node_block) world" where
  "sample_world =
     \<lparr> wd_fetch = (\<lambda>c n. if ob_hash c = sample_hash 2 then ret_act (take (unat n) sample_node_blocks)
                          else fail_act (Status NotFound)),
       wd_tip = ret_act (sample_block 2), wd_stopped = (\<lambda>s. (False, s)), wd_pause = (\<lambda>s. (False, s)),
       wd_now = (\<lambda>s. (\<lambda>_. 7, s)) \<rparr>"

definition sample_stream :: "node_block adapter" where
  "sample_stream = node_history 1 None"

lemma sample_world_behaves: "world_behaves sample_libs sample_store (ad_scope sample_stream) sample_world"
  by (auto simp: world_behaves_def sample_world_def acts_def ask_def ret_act_def fail_act_def others_def
      store_steps_def)

lemma sample_one_tip: "one_tip sample_world (sample_hash 2)"
  by (simp add: one_tip_def sample_world_def ret_act_def sample_block_def)

lemma sample_walk:
  "fst (run_history sample_libs sample_store sample_world sample_stream False 10 3 (sample_block 2)
     ((), sample_db1)) = Inr (Some (Completed (sample_block 2) 2 1))"
  by code_simp

section \<open>Completion\<close>

text \<open>C2: A walk that reports completion has certified its target: in the record it leaves, the
  coverage row of its scope is complete at that target, and the target heads an unbroken chain of
  certified blocks of the scope down to the start of a completed coverage, each backed by a
  recorded fact with its hash, parent and height.\<close>

theorem completed_walk_is_certified:
  assumes "reachable L (snd s)" and "world_behaves L st (ad_scope A) W"
    and "run_history L st W A paused page_blocks fuel tip s = (Inr (Some (Completed target b p)), t)"
  shows "(\<exists>r. own_row st (ad_scope A) (snd t) = Some r \<and> cv_status r = Complete \<and>
      block_from_parts (Some (cv_target_hash r)) (Some (cv_target_height r)) = Inr (Some target)) \<and>
    (\<exists>cs. certified_chain (snd t) cs \<and> ce_hash (hd cs) = ob_hash target \<and>
      ce_scope (hd cs) = scope_key st (ad_scope A) \<and> (\<forall>c \<in> set cs. backed (set (db_events (snd t))) c))"
proof -
  from run_history_ok [OF assms(2,1,3)] have reach: "reachable L (snd t)"
    and cert: "is_certified (db_certified (snd t)) (scope_key st (ad_scope A)) (Some (ob_hash target))"
    and row: "\<exists>r. own_row st (ad_scope A) (snd t) = Some r \<and> cv_status r = Complete \<and>
      block_from_parts (Some (cv_target_hash r)) (Some (cv_target_height r)) = Inr (Some target)"
    by (simp_all add: step_ok_def del: block_from_parts.simps)
  from cert obtain c where c: "c \<in> set (db_certified (snd t))" "ce_scope c = scope_key st (ad_scope A)"
    "ce_hash c = ob_hash target" by (auto simp: is_certified_def)
  from certified_chain_exists [OF reach c(1)] c row show ?thesis by blast
qed

theorem completed_walk_is_certified_witness:
  "\<exists>t cs. run_history sample_libs sample_store sample_world sample_stream False 10 3 (sample_block 2)
      ((), sample_db1) = (Inr (Some (Completed (sample_block 2) 2 1)), t) \<and>
    certified_chain (snd t) cs \<and> ce_hash (hd cs) = sample_hash 2"
proof -
  let ?run = "run_history sample_libs sample_store sample_world sample_stream False 10 3 (sample_block 2)
      ((), sample_db1)"
  have run: "?run = (Inr (Some (Completed (sample_block 2) 2 1)), snd ?run)"
    using sample_walk by (simp add: prod_eq_iff)
  have reach: "reachable sample_libs (snd ((), sample_db1))" by (simp add: sample_reachable1)
  from completed_walk_is_certified [OF reach sample_world_behaves run]
  obtain cs where "certified_chain (snd (snd ?run)) cs" "ce_hash (hd cs) = ob_hash (sample_block 2)" by blast
  moreover have "ob_hash (sample_block 2) = sample_hash 2" by (simp add: sample_block_def)
  ultimately show ?thesis using run by metis
qed

section \<open>Termination\<close>

text \<open>C4: The walk returns: as long as the validator names one tip whenever it answers, an outcome or
  an error is reached within 2^34 iterations, whatever pages, failures, floors and repairs it meets.
  (Every iteration that goes on shrinks the page, moves the cursor down, or uses up one of at most
  two restarts.)\<close>

theorem walk_returns:
  assumes "one_tip W tip_hash" and "2 ^ 34 \<le> fuel"
  shows "fst (run_history L st W A paused page_blocks fuel tip s) \<noteq> Inr None"
proof -
  have loop: "fst (run_loop L st W A paused fuel l s') \<noteq> Inr None" for l s'
    by (rule run_loop_returns [OF assms(1) less_le_trans [OF walk_measure_bound assms(2)]])
  show ?thesis
    unfolding run_history_def Let_def
    by (auto simp: bind_act_def ret_act_def loop
        split: prod.splits sum.splits option.splits if_splits)
qed

theorem walk_returns_witness:
  "fst (run_history sample_libs sample_store sample_world sample_stream True 10 (2 ^ 34) (sample_block 2)
     ((), sample_db1)) \<noteq> Inr None"
  by (rule walk_returns [OF sample_one_tip]) simp

section \<open>Quarantine\<close>


lemma sample_quarantine_read:
  "is_ok (history_coverage sample_store ''mainchain_block'' None None sample_db5)"
  "history_coverage sample_store ''mainchain_block'' None None sample_db5 \<noteq> Inr None"
  by code_simp+


end
