(* ===== verification/Recorder_Properties.thy ===== *)
theory Recorder_Properties
  imports Recorder
begin

text \<open>
  What the order of commit and publication guarantees, and the count of a best-effort batch.
\<close>

section \<open>The counts of a batch\<close>

definition batch_outcome :: "nat \<Rightarrow> nat \<Rightarrow> string option \<Rightarrow> bool \<times> nat \<times> string option \<Rightarrow> bool" where
  "batch_outcome n k failure r \<longleftrightarrow>
     (case r of (expired, m, failure') \<Rightarrow> n \<le> m \<and> m \<le> n + k \<and>
        (\<not> expired \<and> failure' = None \<longrightarrow> failure = None \<and> m = n + k))"

lemma publish_all_counts:
  "triple (\<lambda>_. True) (publish_all L P sub es n failure) (\<lambda>r _. batch_outcome n (length es) failure r)"
proof (induction es arbitrary: n failure)
  case Nil
  show ?case by (simp, rule triple_ret) (simp add: batch_outcome_def)
next
  case (Cons e es)
  have sent: "triple (\<lambda>_. True) (publish_all L P sub es (n + 1) failure)
     (\<lambda>r _. batch_outcome n (length (e # es)) failure r)"
    by (rule triple_post [OF Cons.IH]) (auto simp: batch_outcome_def)
  have lost: "triple (\<lambda>_. True) (publish_all L P sub es n (first_failure failure err))
     (\<lambda>r _. batch_outcome n (length (e # es)) failure r)" for err
    by (rule triple_post [OF Cons.IH]) (auto simp: batch_outcome_def first_failure_def split: option.splits)
  have expired: "triple (\<lambda>_. True) (ret_act (True, n, failure))
     (\<lambda>r _. batch_outcome n (length (e # es)) failure r)"
    by (rule triple_ret) (simp add: batch_outcome_def)
  have one: "triple (\<lambda>_. True) (bind_act (attempt (publish L P sub e)) (\<lambda>r. case r of
       Inr _ \<Rightarrow> publish_all L P sub es (n + 1) failure
     | Inl err \<Rightarrow> publish_all L P sub es n (first_failure failure (render_error err))))
     (\<lambda>r _. batch_outcome n (length (e # es)) failure r)"
  proof (rule triple_bind [OF triple_any])
    fix r :: "unit res"
    show "triple (\<lambda>_. True) (case r of
         Inr _ \<Rightarrow> publish_all L P sub es (n + 1) failure
       | Inl err \<Rightarrow> publish_all L P sub es n (first_failure failure (render_error err)))
       (\<lambda>r _. batch_outcome n (length (e # es)) failure r)"
      using sent lost by (cases r) simp_all
  qed
  show ?case unfolding publish_all.simps
  proof (rule triple_bind [OF triple_any])
    fix b
    show "triple (\<lambda>_. True) (if b then ret_act (True, n, failure)
       else bind_act (attempt (publish L P sub e)) (\<lambda>r. case r of
         Inr _ \<Rightarrow> publish_all L P sub es (n + 1) failure
       | Inl err \<Rightarrow> publish_all L P sub es n (first_failure failure (render_error err))))
       (\<lambda>r _. batch_outcome n (length (e # es)) failure r)"
      by (cases b) (simp_all only: if_True if_False expired one)
  qed
qed

definition batch_report :: "nat \<Rightarrow> fan_out \<Rightarrow> bool" where
  "batch_report k f \<longleftrightarrow> fo_observed f = k \<and> fo_published f \<le> k \<and>
     (fo_failure f = None \<longrightarrow> fo_published f = k)"

lemma publish_batch_report:
  "triple (\<lambda>_. True) (publish_batch L P sub es) (\<lambda>f _. batch_report (length es) f)"
proof (cases "es = []")
  case True
  then show ?thesis by (simp add: publish_batch_def, intro triple_ret) (simp add: batch_report_def)
next
  case False
  have off: "triple (\<lambda>_. True) (ret_act \<lparr> fo_observed = length es, fo_published = 0, fo_failure = Some msg \<rparr>)
    (\<lambda>f _. batch_report (length es) f)" for msg
    by (rule triple_ret) (simp add: batch_report_def)
  have done_: "triple (\<lambda>_. batch_outcome 0 (length es) None r)
      (case r of (expired, n, failure) \<Rightarrow>
          if expired
          then ret_act \<lparr> fo_observed = length es, fo_published = n,
                 fo_failure = Some (''timed out after '' @ show_nat (pb_budget P)
                   @ ''s while publishing the batch'') \<rparr>
          else
            bind_act (attempt (pb_flush P)) (\<lambda>flushed.
            ret_act \<lparr> fo_observed = length es, fo_published = n,
              fo_failure = (case flushed of Inr _ \<Rightarrow> failure
                            | Inl err \<Rightarrow> first_failure failure (render_error err)) \<rparr>))
      (\<lambda>f _. batch_report (length es) f)" for r
  proof (rule triple_const)
    assume ok: "batch_outcome 0 (length es) None r"
    obtain expired n failure where r: "r = (expired, n, failure)" by (cases r) auto
    show "triple (\<lambda>_. True) (case r of (expired, n, failure) \<Rightarrow>
          if expired
          then ret_act \<lparr> fo_observed = length es, fo_published = n,
                 fo_failure = Some (''timed out after '' @ show_nat (pb_budget P)
                   @ ''s while publishing the batch'') \<rparr>
          else
            bind_act (attempt (pb_flush P)) (\<lambda>flushed.
            ret_act \<lparr> fo_observed = length es, fo_published = n,
              fo_failure = (case flushed of Inr _ \<Rightarrow> failure
                            | Inl err \<Rightarrow> first_failure failure (render_error err)) \<rparr>))
      (\<lambda>f _. batch_report (length es) f)"
      using ok unfolding r prod.case
      by (auto intro!: triple_bind [OF triple_any] triple_ret simp: batch_outcome_def batch_report_def
          first_failure_def split: sum.splits)
  qed
  have counted: "triple (\<lambda>_. True) (publish_all L P sub es 0 None)
      (\<lambda>r _. batch_outcome 0 (length es) None r)"
    by (rule publish_all_counts)
  show ?thesis
    unfolding publish_batch_def if_not_P [OF False]
    by (rule triple_bind [OF triple_any]) (auto intro: off triple_bind [OF counted done_])
qed

section \<open>Commit, then publish\<close>

text \<open>What the transport may do to the record while it is awaited.\<close>

definition transport_keeps :: "(db \<Rightarrow> db \<Rightarrow> bool) \<Rightarrow> 'w publisher \<Rightarrow> bool" where
  "transport_keeps R P \<longleftrightarrow> acts R (ask (pb_connected P)) \<and> acts R (ask (pb_expired P)) \<and>
     acts R (pb_flush P) \<and> (\<forall>sub b. acts R (pb_client P sub b))"

context record_relation begin

lemma acts_publish_all:
  "transport_keeps R P \<Longrightarrow> acts R (publish_all L P sub es n failure)"
proof (induction es arbitrary: n failure)
  case Nil
  then show ?case by (simp add: acts_ret)
next
  case (Cons e es)
  then show ?case
    by (auto intro!: acts_rules simp: transport_keeps_def publish_def split: sum.split)
qed

lemma acts_fan_out: "transport_keeps R (rc_publisher A) \<Longrightarrow> acts R (fan_out_events A es)"
  unfolding fan_out_events_def publish_batch_def
  by (auto intro!: acts_rules acts_publish_all simp: transport_keeps_def split: prod.split)

end

abbreviation quiet :: "'w publisher \<Rightarrow> bool" where
  "quiet P \<equiv> transport_keeps (=) P"

interpretation same: record_relation "(=)"
  by unfold_locales auto

lemma quiet_fan_out: "quiet (rc_publisher R) \<Longrightarrow> acts (=) (fan_out_events R es)"
  by (rule same.acts_fan_out)

lemma fan_out_returns: "fst (fan_out_events R es s) = Inr ()"
  by (simp add: fan_out_events_def bind_act_def attempt_def ret_act_def split: prod.split)

text \<open>C25: Recording a batch succeeds exactly when the store's transaction does, whatever the
  transport does with the events afterwards, and leaves the record as the store left it; and when
  the store fails, nothing was published: the transport was never touched.\<close>

theorem recording_is_the_store:
  assumes "quiet (rc_publisher R)" and "es \<noteq> []"
    and "record_with_method (rc_libs R) (rc_store R) es mth d = (r, d')"
    and "record_batch_with_method R es mth (w, d) = (r', (w', d''))"
  shows "d'' = d' \<and> (is_ok r' \<longleftrightarrow> is_ok r) \<and> (\<not> is_ok r \<longrightarrow> w' = w)"
proof (cases r)
  case (Inl e)
  with assms(2-4) show ?thesis
    by (auto simp: record_batch_with_method_def bind_act_def context_act_def on_db_def)
next
  case (Inr n)
  with assms(2-4) have run: "fan_out_events R es (w, d') = (r', (w', d''))"
    by (simp add: record_batch_with_method_def bind_act_def context_act_def on_db_def)
  from actsD [OF quiet_fan_out [OF assms(1)] run] fan_out_returns [of R es "(w, d')"] run Inr
  show ?thesis by simp
qed

definition dead_publisher :: "unit publisher" where
  "dead_publisher = \<lparr> pb_connected = (\<lambda>s. (True, s)), pb_client = (\<lambda>_ _. fail_act Transport),
     pb_flush = fail_act Transport, pb_expired = (\<lambda>s. (False, s)), pb_budget = 10 \<rparr>"

definition sample_recorder :: "unit recorder" where
  "sample_recorder = \<lparr> rc_libs = sample_libs, rc_store = sample_store, rc_publisher = dead_publisher,
     rc_subject = NodeSubject \<rparr>"

lemma dead_quiet: "quiet (rc_publisher sample_recorder)"
  by (simp add: transport_keeps_def sample_recorder_def dead_publisher_def acts_def ask_def fail_act_def)

theorem recording_is_the_store_witness:
  "snd (snd (record_batch_with_method sample_recorder [sample_event 2 [2]] Live ((), sample_db2)))
     = snd (record_with_method sample_libs sample_store [sample_event 2 [2]] Live sample_db2)"
proof -
  obtain r' w' d'' where run: "record_batch_with_method sample_recorder [sample_event 2 [2]] Live
      ((), sample_db2) = (r', (w', d''))" by (metis prod.collapse)
  obtain r d' where st: "record_with_method (rc_libs sample_recorder) (rc_store sample_recorder)
      [sample_event 2 [2]] Live sample_db2 = (r, d')" by (metis prod.collapse)
  from recording_is_the_store [OF dead_quiet _ st run] have "d'' = d'" by simp
  with run st show ?thesis by (simp add: sample_recorder_def)
qed

text \<open>A fan-out accounts for its batch: it reports every offered event, never more published
  than offered, so the dropped count cannot underflow, and it reports a failure whenever an event
  was not handed over.\<close>

theorem fan_out_accounts:
  assumes "publish_batch L P sub es s = (Inr f, t)"
  shows "fo_observed f = length es \<and>
    dropped f = Some (length es - fo_published f) \<and>
    (fo_failure f = None \<longrightarrow> dropped f = Some 0)"
  using tripleD [OF publish_batch_report assms] by (auto simp: batch_report_def dropped_def)

theorem fan_out_accounts_witness:
  "\<exists>f. fst (publish_batch sample_libs dead_publisher NodeSubject [sample_event 2 [2]] ((), sample_db2)) = Inr f
     \<and> dropped f = Some 1"
proof -
  let ?r = "publish_batch sample_libs dead_publisher NodeSubject [sample_event 2 [2]] ((), sample_db2)"
  obtain f where f: "fst ?r = Inr f" "fo_published f = 0"
    by (auto simp: publish_batch_def dead_publisher_def bind_act_def ask_def attempt_def publish_def
        context_act_def fail_act_def ret_act_def)
  from fan_out_accounts [of sample_libs dead_publisher NodeSubject "[sample_event 2 [2]]"
      "((), sample_db2)" f "snd ?r"] f
  show ?thesis by (auto simp: prod_eq_iff)
qed

end
