(* ===== verification/State.thy ===== *)
theory State
  imports Recorder Convert
begin

text \<open>
  The mutable state that is read again as the chain advances, from
  \<^verbatim>\<open>src/extractors/enforcer/src/state.rs\<close>: one reading with its anchor and its
  consistency, the payloads of a reading, and the tracker that says which payloads changed. The
  validator's replies are parameters, one action per request.
\<close>

section \<open>The validator's requests\<close>

record 'w enforcer =
  en_chain_tip :: "('w, up_header option) act"
  en_proposals :: "('w, up_proposal list) act"
  en_sidechains :: "('w, up_sidechain_info list) act"
  en_ctip :: "u8 \<Rightarrow> ('w, up_ctip option) act"
  en_bundles :: "u8 \<Rightarrow> ('w, up_bundle_proposal list) act"
  en_clock :: "'w \<times> db \<Rightarrow> int \<times> ('w \<times> db)"

section \<open>Anchors and instances\<close>

fun tip_anchor :: "enforcer_event option \<Rightarrow> observed_block res" where
  "tip_anchor (Some (ChainTip header)) =
     bind_res (ok_or ''chain-tip event is missing its block header'' header) (\<lambda>h.
     Inr (at_height (hdr_hash h) (hdr_height h)))"
| "tip_anchor payload = bail ''expected a chain-tip event while reading the enforcer tip''"

fun block_anchor :: "enforcer_event option \<Rightarrow> observed_block res" where
  "block_anchor None = bail ''live event is missing its concrete event''"
| "block_anchor (Some (BlockConnected b)) =
     bind_res (ok_or ''connected block is missing its header'' (bcn_header b)) (\<lambda>h.
     Inr (at_height (hdr_hash h) (hdr_height h)))"
| "block_anchor (Some (BlockDisconnected hash slot)) = Inr (without_height hash)"
| "block_anchor (Some payload) = bail ''a live event carried an unexpected payload for a block anchor''"

fun active_instances :: "libs \<Rightarrow> enforcer_event option \<Rightarrow> instance_ref list res option" where
  "active_instances L (Some (ActiveSidechains ss)) = Some (collect_res (sidechain_instance_ref L) ss)"
| "active_instances L payload = None"

section \<open>Collecting a reading\<close>

fun collect_slots :: "libs \<Rightarrow> 'w enforcer \<Rightarrow> instance_ref list \<Rightarrow> ('w, enforcer_event list) act" where
  "collect_slots L E [] = ret_act []"
| "collect_slots L E (i # is) =
     bind_act (en_ctip E (ir_sidechain i)) (\<lambda>c.
     bind_act (lift_act (convert_ctip L (ir_sidechain i) c)) (\<lambda>ctip.
     bind_act (en_bundles E (ir_sidechain i)) (\<lambda>b.
     bind_act (lift_act (convert_bundle_proposals L (ir_sidechain i) b)) (\<lambda>bundles.
     bind_act (collect_slots L E is) (\<lambda>rest. ret_act (ctip # bundles # rest))))))"

definition selected_instances :: "u8 list \<Rightarrow> bool \<Rightarrow> instance_ref list \<Rightarrow> instance_ref list" where
  "selected_instances sidechains discover is =
     filter (\<lambda>i. discover \<or> ir_sidechain i \<in> set sidechains) is"

definition collect_payloads ::
  "libs \<Rightarrow> 'w enforcer \<Rightarrow> u8 list \<Rightarrow> bool \<Rightarrow> ('w, enforcer_event list) act" where
  "collect_payloads L E sidechains discover =
     bind_act (en_proposals E) (\<lambda>ps.
     bind_act (lift_act (convert_proposals L ps)) (\<lambda>proposals.
     bind_act (en_sidechains E) (\<lambda>ss.
     bind_act (lift_act (convert_actives L ss)) (\<lambda>active.
     bind_act (lift_act (bind_res
                (ok_or ''expected an active-sidechains payload while collecting state''
                  (active_instances L (Some active))) (\<lambda>r. r))) (\<lambda>instances.
     bind_act (collect_slots L E (selected_instances sidechains discover instances)) (\<lambda>slots.
     ret_act (proposals # active # slots)))))))"

record reading =
  rd_anchor :: observed_block
  rd_payloads :: "enforcer_event list"
  rd_metadata :: snapshot_metadata

definition read_tip :: "libs \<Rightarrow> 'w enforcer \<Rightarrow> ('w, observed_block) act" where
  "read_tip L E =
     bind_act (en_chain_tip E) (\<lambda>r.
     lift_act (bind_res (convert_chain_tip L r) (\<lambda>payload. tip_anchor (Some payload))))"

definition collect :: "libs \<Rightarrow> 'w enforcer \<Rightarrow> u8 list \<Rightarrow> bool \<Rightarrow> ('w, reading) act" where
  "collect L E sidechains discover =
     bind_act (ask (en_clock E)) (\<lambda>started.
     bind_act (read_tip L E) (\<lambda>before.
     bind_act (collect_payloads L E sidechains discover) (\<lambda>payloads.
     bind_act (read_tip L E) (\<lambda>after.
     bind_act (ask (en_clock E)) (\<lambda>finished.
     ret_act
       \<lparr> rd_anchor = before, rd_payloads = payloads,
         rd_metadata =
           \<lparr> sm_revision_before = None, sm_revision_after = None, sm_started_at = started,
             sm_finished_at = finished, sm_tip_before = before, sm_tip_after = after,
             sm_consistency = (if ob_hash before = ob_hash after then TipMatched else Changed),
             sm_attempts = 1 \<rparr> \<rparr>)))))"

section \<open>The tracker\<close>

datatype state_key = ProposalsKey | ActiveKey | CtipKey u32 | BundlesKey u32

fun payload_key :: "enforcer_event \<Rightarrow> state_key res" where
  "payload_key (SidechainProposals _) = Inr ProposalsKey"
| "payload_key (ActiveSidechains _) = Inr ActiveKey"
| "payload_key (Ctip c) = Inr (CtipKey (cs_sidechain c))"
| "payload_key (WithdrawalBundleProposals slot _) = Inr (BundlesKey slot)"
| "payload_key _ = bail ''mutable state collection contains an unexpected payload''"

record tracker =
  tk_last :: "enforcer_event list"
  tk_consistency :: snapshot_consistency

definition new_tracker :: "enforcer_event list \<Rightarrow> tracker" where
  "new_tracker published = \<lparr> tk_last = published, tk_consistency = TipMatched \<rparr>"

definition with_consistency :: "snapshot_consistency \<Rightarrow> tracker \<Rightarrow> tracker" where
  "with_consistency c t = t\<lparr> tk_consistency := c \<rparr>"

definition needs_retry :: "tracker \<Rightarrow> bool" where
  "needs_retry t \<longleftrightarrow> tk_consistency t = Changed"

fun changed_payloads :: "enforcer_event list \<Rightarrow> enforcer_event list \<Rightarrow> enforcer_event list res" where
  "changed_payloads prior [] = Inr []"
| "changed_payloads prior (p # ps) =
     bind_res (payload_key p) (\<lambda>key.
     map_ok (\<lambda>rest. if find (\<lambda>q. payload_key q = Inr key) prior = Some p then rest else p # rest)
       (changed_payloads prior ps))"

text \<open>The tracker keeps its last values when a payload is not mutable state.\<close>

definition take_changed :: "enforcer_event list \<Rightarrow> tracker \<Rightarrow> enforcer_event list res \<times> tracker" where
  "take_changed current t =
     (case changed_payloads (tk_last t) current of
        Inl e \<Rightarrow> (Inl e, t)
      | Inr changed \<Rightarrow> (Inr changed, t\<lparr> tk_last := current \<rparr>))"

record publication =
  pu_payloads :: "enforcer_event list"
  pu_changed :: "enforcer_event list"

definition active_sidechains_changed :: "libs \<Rightarrow> publication \<Rightarrow> bool" where
  "active_sidechains_changed L p \<longleftrightarrow> list_ex (\<lambda>e. active_instances L (Some e) \<noteq> None) (pu_changed p)"

definition take_observation ::
  "enforcer_event list \<Rightarrow> snapshot_consistency \<Rightarrow> tracker \<Rightarrow> publication res \<times> tracker" where
  "take_observation current consistency t =
     (let t1 = t\<lparr> tk_consistency := consistency \<rparr> in
      case take_changed current t1 of
        (Inl e, t2) \<Rightarrow> (Inl e, t2)
      | (Inr changed, t2) \<Rightarrow>
          (Inr \<lparr> pu_payloads = current, pu_changed = changed \<rparr>,
           if consistency = TipMatched then t2 else t2\<lparr> tk_last := tk_last t \<rparr>))"

section \<open>Laws\<close>

lemma changed_payloads_Inr:
  "changed_payloads prior ps = Inr changed \<Longrightarrow>
     changed = filter (\<lambda>p. find (\<lambda>q. payload_key q = payload_key p) prior \<noteq> Some p) ps \<and>
     (\<forall>p \<in> set ps. \<exists>k. payload_key p = Inr k)"
proof (induction ps arbitrary: changed)
  case Nil
  then show ?case by simp
next
  case (Cons p ps)
  from Cons.prems obtain key rest where k: "payload_key p = Inr key" "changed_payloads prior ps = Inr rest"
    "changed = (if find (\<lambda>q. payload_key q = Inr key) prior = Some p then rest else p # rest)"
    by (auto simp: res_simps)
  from Cons.IH [OF k(2)] k(1,3) show ?case by auto
qed

lemma changed_payloads_total:
  "(\<forall>p \<in> set ps. \<exists>k. payload_key p = Inr k) \<Longrightarrow> \<exists>changed. changed_payloads prior ps = Inr changed"
  by (induction ps) auto

text \<open>A reading of every slot, keys in order.\<close>

lemma find_own_key:
  "distinct (map payload_key ps) \<Longrightarrow> p \<in> set ps \<Longrightarrow> find (\<lambda>q. payload_key q = payload_key p) ps = Some p"
  by (simp add: find_Some_iff_unique [where key = payload_key])

end
