(* ===== verification/State_Properties.thy ===== *)
theory State_Properties
  imports State
begin

text \<open>
  What the tracker reports: changes are measured against the last reading taken at one tip, except
  after an unstable startup reading, which is a baseline from the start.
\<close>

section \<open>Baselines\<close>

lemma take_observation_Inr:
  assumes "take_observation current c t = (Inr p, t')"
  shows "pu_payloads p = current"
    "pu_changed p = filter (\<lambda>e. find (\<lambda>q. payload_key q = payload_key e) (tk_last t) \<noteq> Some e) current"
    "t' = \<lparr> tk_last = (if c = TipMatched then current else tk_last t), tk_consistency = c \<rparr>"
    "\<forall>e \<in> set current. \<exists>k. payload_key e = Inr k"
proof -
  from assms obtain changed where ch: "changed_payloads (tk_last t) current = Inr changed"
    and p: "p = \<lparr> pu_payloads = current, pu_changed = changed \<rparr>"
    and t: "t' = (if c = TipMatched then t\<lparr> tk_consistency := c, tk_last := current \<rparr>
                  else t\<lparr> tk_consistency := c, tk_last := tk_last t \<rparr>)"
    by (cases t) (auto simp: take_observation_def take_changed_def Let_def split: sum.splits if_splits)
  from changed_payloads_Inr [OF ch] p t show
    "pu_payloads p = current"
    "pu_changed p = filter (\<lambda>e. find (\<lambda>q. payload_key q = payload_key e) (tk_last t) \<noteq> Some e) current"
    "t' = \<lparr> tk_last = (if c = TipMatched then current else tk_last t), tk_consistency = c \<rparr>"
    "\<forall>e \<in> set current. \<exists>k. payload_key e = Inr k"
    by (cases t; simp)+
qed

lemma take_observation_total:
  assumes "\<forall>e \<in> set current. \<exists>k. payload_key e = Inr k"
  obtains p t' where "take_observation current c t = (Inr p, t')"
proof -
  from changed_payloads_total [OF assms] obtain changed
    where "changed_payloads (tk_last t) current = Inr changed" by blast
  then show thesis by (intro that) (simp add: take_observation_def take_changed_def Let_def)
qed

text \<open>A reading taken while the tip moved is published but is no baseline: it asks for a retry and
  leaves the tracker's values alone, so the stable retry of the same state reports exactly the same
  changes again.\<close>

theorem unstable_reading_is_no_baseline:
  assumes "take_observation current Changed t = (Inr p, t')"
  shows "needs_retry t' \<and> tk_last t' = tk_last t \<and> pu_payloads p = current \<and>
    fst (take_observation current TipMatched t') = Inr p"
proof -
  note first = take_observation_Inr [OF assms]
  obtain q t'' where again: "take_observation current TipMatched t' = (Inr q, t'')"
    using first(4) by (rule take_observation_total)
  have "tk_last t' = tk_last t" using first(3) by simp
  with take_observation_Inr(1,2) [OF again] first(1,2) have "q = p" by (cases p; cases q) simp
  with first again show ?thesis by (simp add: needs_retry_def)
qed

definition sample_ctip :: "u64 \<Rightarrow> enforcer_event" where
  "sample_ctip v = Ctip \<lparr> cs_sidechain = 1, cs_ctip = Some \<lparr> ct_txid = replicate 32 0, ct_vout = 0,
     ct_value_sats = v, ct_sequence_number = 1 \<rparr> \<rparr>"

theorem unstable_reading_is_no_baseline_witness:
  "\<exists>p t'. take_observation [SidechainProposals [], sample_ctip 5] Changed
      (new_tracker [SidechainProposals [], sample_ctip 4]) = (Inr p, t') \<and>
    pu_changed p = [sample_ctip 5] \<and>
    fst (take_observation [SidechainProposals [], sample_ctip 5] TipMatched t') = Inr p"
proof -
  let ?now = "[SidechainProposals [], sample_ctip 5]"
  let ?t = "new_tracker [SidechainProposals [], sample_ctip 4]"
  have keys: "\<forall>e \<in> set ?now. \<exists>k. payload_key e = Inr k" by (simp add: sample_ctip_def)
  then obtain p t' where run: "take_observation ?now Changed ?t = (Inr p, t')"
    by (rule take_observation_total)
  from take_observation_Inr(2) [OF run] have "pu_changed p = [sample_ctip 5]"
    by (simp add: new_tracker_def sample_ctip_def)
  with run unstable_reading_is_no_baseline [OF run] show ?thesis by blast
qed

text \<open>A reading taken at one tip becomes the baseline: it needs no retry, and reading the same
  state again, with every payload under its own key, reports nothing changed although every payload
  is published again.\<close>

theorem stable_reading_is_the_baseline:
  assumes "take_observation current TipMatched t = (Inr p, t')" and "distinct (map payload_key current)"
  shows "\<not> needs_retry t' \<and> pu_payloads p = current \<and>
    fst (take_observation current c t') = Inr \<lparr> pu_payloads = current, pu_changed = [] \<rparr>"
proof -
  note first = take_observation_Inr [OF assms(1)]
  obtain q t'' where again: "take_observation current c t' = (Inr q, t'')"
    using first(4) by (rule take_observation_total)
  have "tk_last t' = current" using first(3) by simp
  with take_observation_Inr(2) [OF again] find_own_key [OF assms(2)] have "pu_changed q = []"
    by (simp add: filter_empty_conv)
  with take_observation_Inr(1) [OF again] have "q = \<lparr> pu_payloads = current, pu_changed = [] \<rparr>"
    by (cases q) simp
  with first again show ?thesis by (simp add: needs_retry_def)
qed

theorem stable_reading_is_the_baseline_witness:
  "\<exists>p t'. take_observation [SidechainProposals [], sample_ctip 5] TipMatched (new_tracker []) = (Inr p, t') \<and>
    fst (take_observation [SidechainProposals [], sample_ctip 5] TipMatched t')
      = Inr \<lparr> pu_payloads = [SidechainProposals [], sample_ctip 5], pu_changed = [] \<rparr>"
proof -
  let ?now = "[SidechainProposals [], sample_ctip 5]"
  have keys: "\<forall>e \<in> set ?now. \<exists>k. payload_key e = Inr k" by (simp add: sample_ctip_def)
  then obtain p t' where run: "take_observation ?now TipMatched (new_tracker []) = (Inr p, t')"
    by (rule take_observation_total)
  have "distinct (map payload_key ?now)" by (simp add: sample_ctip_def)
  from run stable_reading_is_the_baseline [OF run this, of TipMatched] show ?thesis by blast
qed



end
