(* ===== verification/Fees.thy ===== *)
theory Fees
  imports Node
begin

text \<open>
  Confirmed BMM fees, from \<^verbatim>\<open>src/extractors/enforcer/src/fees.rs\<close>: the exact fee of a
  transaction with its previous outputs, the enrichment of one block by the officially observed
  bids, and one pass of the worker. Parsing an amount in bitcoin is a parameter.
\<close>

section \<open>Amounts\<close>

definition show_int :: "int \<Rightarrow> string" where
  "show_int n = (if n < 0 then ''-'' @ show_nat (nat (- n)) else show_nat (nat n))"

fun sats :: "(string \<Rightarrow> u64 option) \<Rightarrow> json \<Rightarrow> u64 res" where
  "sats amount (JStr s) = ok_or ''invalid amount'' (amount s)"
| "sats amount (JNum n) = ok_or ''invalid amount'' (amount (show_int n))"
| "sats amount (JDec s) = ok_or ''invalid amount'' (amount s)"
| "sats amount v = bail ''missing amount''"

fun add_amounts :: "string \<Rightarrow> (json \<Rightarrow> u64 res) \<Rightarrow> json list \<Rightarrow> u64 \<Rightarrow> u64 res" where
  "add_amounts msg f [] acc = Inr acc"
| "add_amounts msg f (v # vs) acc =
     bind_res (f v) (\<lambda>n.
     bind_res (ok_or msg (checked_add acc n)) (\<lambda>acc. add_amounts msg f vs acc))"

definition input_value :: "(string \<Rightarrow> u64 option) \<Rightarrow> json \<Rightarrow> u64 res" where
  "input_value amount i = sats amount (jindex (jindex i ''prevout'') ''value'')"

definition output_value :: "(string \<Rightarrow> u64 option) \<Rightarrow> json \<Rightarrow> u64 res" where
  "output_value amount out = sats amount (jindex out ''value'')"

definition transaction_fee :: "(string \<Rightarrow> u64 option) \<Rightarrow> json \<Rightarrow> u64 res" where
  "transaction_fee amount tx =
     bind_res (ok_or ''missing inputs'' (as_array (jindex tx ''vin''))) (\<lambda>inputs.
     bind_res (ensure (inputs \<noteq> []) ''empty input list'') (\<lambda>_.
     bind_res (add_amounts ''input amount overflow'' (input_value amount) inputs 0) (\<lambda>input.
     bind_res (ok_or ''missing outputs'' (as_array (jindex tx ''vout''))) (\<lambda>outputs.
     bind_res (add_amounts ''output amount overflow'' (output_value amount) outputs 0) (\<lambda>output.
     ok_or ''negative transaction fee'' (checked_sub input output))))))"

section \<open>Enriching a block\<close>

definition candidate_fee ::
  "libs \<Rightarrow> (string \<Rightarrow> u64 option) \<Rightarrow> json list \<Rightarrow> u32 \<times> bytes \<Rightarrow> confirmed_fee option" where
  "candidate_fee L amount txs c =
     (case c of (slot, txid) \<Rightarrow>
        (case find (\<lambda>t. as_str (jindex t ''txid'') = Some (hex_encode L txid)) txs of
           None \<Rightarrow> None
         | Some tx \<Rightarrow>
             (case transaction_fee amount tx of
                Inr fee \<Rightarrow> Some \<lparr> cf_sidechain = slot, cf_txid = txid, cf_fee_sats = Some fee,
                                  cf_unavailable_reason = [] \<rparr>
              | Inl e \<Rightarrow> Some \<lparr> cf_sidechain = slot, cf_txid = txid, cf_fee_sats = None,
                                cf_unavailable_reason = ''prevout_missing_or_invalid'' \<rparr>)))"

definition block_fees ::
  "libs \<Rightarrow> (string \<Rightarrow> u64 option) \<Rightarrow> (u32 \<times> bytes) list \<Rightarrow> json list \<Rightarrow> confirmed_fee list" where
  "block_fees L amount candidates txs = List.map_filter (candidate_fee L amount txs) candidates"

definition enrich ::
  "'w node_client \<Rightarrow> 'w recorder \<Rightarrow> (string \<Rightarrow> u64 option) \<Rightarrow> ('w \<times> db \<Rightarrow> int \<times> ('w \<times> db)) \<Rightarrow>
   observed_block \<Rightarrow> ('w, event) act" where
  "enrich C R amount clock block =
     (let L = rc_libs R in
      bind_act (client_header C (ob_hash block)) (\<lambda>header.
      bind_act (read_db (observed_bmm_candidates L (rc_store R) (ob_hash block) (hdr_previous header)))
        (\<lambda>candidates.
      bind_act (node_rpc C ''getblock'' [JStr (hex_encode L (ob_hash block)), JNum 3]) (\<lambda>data.
      bind_act (lift_act (ensure (as_str (jindex data ''hash'') = Some (hex_encode L (ob_hash block)))
                  ''fee response is for another block'')) (\<lambda>_.
      bind_act (lift_act (ok_or ''missing block transactions'' (as_array (jindex data ''tx'')))) (\<lambda>txs.
      bind_act (ask clock) (\<lambda>now.
      lift_act (new_node_event now
        (ConfirmedBmmFees (Some header) (block_fees L amount candidates txs)
           ''ecash-node:getblock:3;observed_bids_only'') block))))))))"

text \<open>
  One pass of the worker: a block that cannot be enriched is scheduled for a bounded retry; the
  pauses between passes are the caller's.
\<close>

definition fee_pass ::
  "'w node_client \<Rightarrow> 'w recorder \<Rightarrow> (string \<Rightarrow> u64 option) \<Rightarrow> ('w \<times> db \<Rightarrow> int \<times> ('w \<times> db)) \<Rightarrow> ('w, pass) act" where
  "fee_pass C R amount clock =
     bind_act (read_db (next_fee_block (rc_store R))) (\<lambda>due.
     case due of
       None \<Rightarrow> ret_act (RetryAfter 5)
     | Some (source_id, block) \<Rightarrow>
         bind_act (attempt (bind_act (enrich C R amount clock block) (recorder_fee_enrichment R source_id)))
           (\<lambda>outcome.
         case outcome of
           Inr _ \<Rightarrow> bind_act (recorder_success R ConfirmedBmmFeesWorker) (\<lambda>_. ret_act NextPoll)
         | Inl e \<Rightarrow>
             bind_act (on_db (record_fee_failure (rc_store R) source_id (render_error e))) (\<lambda>_.
             bind_act (recorder_failure R ConfirmedBmmFeesWorker (render_error e) 1) (\<lambda>_.
             ret_act (RetryAfter 30)))))"

section \<open>Laws\<close>

lemma add_amounts_Inr:
  "add_amounts msg f vs acc = Inr s \<longleftrightarrow>
     (\<exists>ns. collect_res f vs = Inr ns \<and> unat s = unat acc + sum_list (map unat ns))"
proof (induction vs arbitrary: acc)
  case Nil
  show ?case by (auto simp: word_unat_eq_iff)
next
  case (Cons v vs)
  show ?case
  proof
    assume "add_amounts msg f (v # vs) acc = Inr s"
    then obtain n t where n: "f v = Inr n" "checked_add acc n = Some t" "add_amounts msg f vs t = Inr s"
      by (auto simp: res_simps)
    from n(3) [unfolded Cons.IH] obtain ns where "collect_res f vs = Inr ns"
      "unat s = unat t + sum_list (map unat ns)" by blast
    with n(1) checked_add_nat [OF n(2)]
    show "\<exists>ns. collect_res f (v # vs) = Inr ns \<and> unat s = unat acc + sum_list (map unat ns)"
      by (intro exI [of _ "n # ns"]) (simp add: res_simps)
  next
    assume "\<exists>ns. collect_res f (v # vs) = Inr ns \<and> unat s = unat acc + sum_list (map unat ns)"
    then obtain n ns where n: "f v = Inr n" "collect_res f vs = Inr ns"
      "unat s = unat acc + unat n + sum_list (map unat ns)" by (auto simp: res_simps)
    have "unat acc + unat n < 2 ^ 64" using n(3) unsigned_less [of s, where 'a = nat] by simp
    then obtain t where t: "checked_add acc n = Some t"
      using checked_add_None [of acc n] by (cases "checked_add acc n") auto
    from checked_add_nat [OF t] n have "add_amounts msg f vs t = Inr s" unfolding Cons.IH by auto
    with n(1) t show "add_amounts msg f (v # vs) acc = Inr s" by simp
  qed
qed

text \<open>C39: A fee is reported exactly when every input names its previous output's amount, there is an
  input, no sum overflows 64 bits and the outputs do not exceed the inputs; and it is then exactly
  the sum of the inputs less the sum of the outputs, in satoshis. Anything else is unknown, never
  zero.\<close>

theorem fee_is_exact:
  "transaction_fee amount tx = Inr fee \<longleftrightarrow>
     (\<exists>inputs outputs ins outs.
        as_array (jindex tx ''vin'') = Some inputs \<and> inputs \<noteq> [] \<and>
        as_array (jindex tx ''vout'') = Some outputs \<and>
        collect_res (input_value amount) inputs = Inr ins \<and>
        collect_res (output_value amount) outputs = Inr outs \<and>
        sum_list (map unat ins) < 2 ^ 64 \<and>
        unat fee + sum_list (map unat outs) = sum_list (map unat ins))"
  (is "?l \<longleftrightarrow> ?r")
proof
  assume ?l
  then obtain inputs isum outputs osum where h: "as_array (jindex tx ''vin'') = Some inputs" "inputs \<noteq> []"
    "add_amounts ''input amount overflow'' (input_value amount) inputs 0 = Inr isum"
    "as_array (jindex tx ''vout'') = Some outputs"
    "add_amounts ''output amount overflow'' (output_value amount) outputs 0 = Inr osum"
    "checked_sub isum osum = Some fee"
    by (auto simp: transaction_fee_def res_simps)
  from h(3,5) [unfolded add_amounts_Inr] obtain ins outs where
    "collect_res (input_value amount) inputs = Inr ins" "unat isum = sum_list (map unat ins)"
    "collect_res (output_value amount) outputs = Inr outs" "unat osum = sum_list (map unat outs)" by auto
  with h checked_sub_nat [OF h(6)] unsigned_less [of isum, where 'a = nat] show ?r by force
next
  assume ?r
  then obtain inputs outputs ins outs where h: "as_array (jindex tx ''vin'') = Some inputs" "inputs \<noteq> []"
    "as_array (jindex tx ''vout'') = Some outputs"
    "collect_res (input_value amount) inputs = Inr ins" "collect_res (output_value amount) outputs = Inr outs"
    and sums: "sum_list (map unat ins) < 2 ^ 64"
      "unat fee + sum_list (map unat outs) = sum_list (map unat ins)" by blast
  define isum :: u64 where "isum = word_of_nat (sum_list (map unat ins))"
  define osum :: u64 where "osum = word_of_nat (sum_list (map unat outs))"
  have out_small: "sum_list (map unat outs) < 2 ^ 64" using sums by linarith
  have u: "unat isum = sum_list (map unat ins)" "unat osum = sum_list (map unat outs)"
    unfolding isum_def osum_def using sums(1) out_small
    by (simp_all add: unsigned_of_nat take_bit_nat_eq_self)
  have "add_amounts ''input amount overflow'' (input_value amount) inputs 0 = Inr isum"
    "add_amounts ''output amount overflow'' (output_value amount) outputs 0 = Inr osum"
    unfolding add_amounts_Inr using h(4,5) u by auto
  moreover have "checked_sub isum osum = Some fee"
    using u sums(2) by (simp add: int_simps word_le_nat_alt word_unat_eq_iff unat_sub)
  ultimately show ?l using h by (simp add: transaction_fee_def)
qed

end
