(* ===== verification/Mainchain.thy ===== *)
theory Mainchain
  imports State
begin

text \<open>
  Global observations over the slot subscription, from
  \<^verbatim>\<open>src/extractors/enforcer/src/mainchain.rs\<close>: the boundary event that opens a
  subscription and names the gap before it, the transition of one stream item, and the
  reconciliation of the tip after it. The two watch channels the worker shares with others are
  parameters: the tip last sent, and the sending of a tip and of a block hash.
\<close>

record 'w channels =
  ch_tip :: "'w \<times> db \<Rightarrow> observed_block \<times> ('w \<times> db)"
  ch_send_block :: "bytes \<Rightarrow> ('w, unit) act"
  ch_send_tip :: "observed_block \<Rightarrow> ('w, unit) act"

definition SUBSCRIPTION_BOUNDARY :: int where
  "SUBSCRIPTION_BOUNDARY = 3"

definition gap_ref :: "observed_block \<Rightarrow> block_ref res" where
  "gap_ref b =
     bind_res (ok_or ''gap start without height'' (ob_height b)) (\<lambda>h.
     Inr \<lparr> br_hash = ob_hash b, br_height = h \<rparr>)"

fun boundary_event ::
  "enforcer_event option \<Rightarrow> observed_block option \<Rightarrow> (enforcer_event \<times> observed_block) res" where
  "boundary_event (Some (ChainTip header)) gap_start =
     bind_res (ok_or ''chain tip without header'' header) (\<lambda>h.
     bind_res (traverse_opt gap_ref gap_start) (\<lambda>gap.
     Inr (MainchainTransition \<lparr> tr_action = SUBSCRIPTION_BOUNDARY, tr_header = Some h, tr_gap_start = gap \<rparr>,
          at_height (hdr_hash h) (hdr_height h))))"
| "boundary_event payload gap_start = bail ''expected a chain tip for the subscription boundary''"

definition subscription_boundary ::
  "libs \<Rightarrow> 'w enforcer \<Rightarrow> observed_block option \<Rightarrow> ('w, enforcer_event \<times> observed_block) act" where
  "subscription_boundary L E gap_start =
     bind_act (en_chain_tip E) (\<lambda>r.
     lift_act (bind_res (convert_chain_tip L r) (\<lambda>tip. boundary_event (Some tip) gap_start)))"

fun transition_parts :: "enforcer_event \<Rightarrow> (block_header option \<times> observed_block \<times> int) res" where
  "transition_parts (BlockConnected b) =
     bind_res (ok_or ''connection without header'' (bcn_header b)) (\<lambda>h.
     Inr (Some h, at_height (hdr_hash h) (hdr_height h), 1))"
| "transition_parts (BlockDisconnected hash slot) = Inr (None, without_height hash, 2)"
| "transition_parts e = bail ''unexpected subscription event''"

definition global_event :: "libs \<Rightarrow> up_stream_item \<Rightarrow> (enforcer_event \<times> observed_block) res" where
  "global_event L response =
     bind_res (subscription_event L 0 response) (\<lambda>e.
     bind_res (transition_parts e) (\<lambda>(header, anchor, action).
     Inr (MainchainTransition \<lparr> tr_action = action, tr_header = header, tr_gap_start = None \<rparr>, anchor)))"

text \<open>Only a tip that differs from the channel's is recorded and sent.\<close>

definition reconcile_tip :: "'w enforcer \<Rightarrow> 'w recorder \<Rightarrow> 'w channels \<Rightarrow> ('w, unit) act" where
  "reconcile_tip E R H =
     (let L = rc_libs R in
      bind_act (attempt (bind_act (en_chain_tip E) (\<lambda>r. lift_act (convert_chain_tip L r)))) (\<lambda>read.
      case read of
        Inr payload \<Rightarrow>
          bind_act (lift_act (tip_anchor (Some payload))) (\<lambda>tip.
          bind_act (ask (ch_tip H)) (\<lambda>prior.
          bind_act (if tip = prior then ret_act ()
                    else bind_act (ask (en_clock E)) (\<lambda>now.
                         bind_act (recorder_tip R tip (Some prior) Poll now) (\<lambda>_.
                         bind_act (ch_send_block H (ob_hash tip)) (\<lambda>_. ch_send_tip H tip)))) (\<lambda>_.
          recorder_success R MainchainEvents)))
      | Inl e \<Rightarrow>
          bind_act (recorder_failure R MainchainEvents (''tip reconciliation: '' @ render_error e) 1)
            (\<lambda>_. ret_act ())))"

definition record_transition :: "'w enforcer \<Rightarrow> 'w recorder \<Rightarrow> enforcer_event \<times> observed_block \<Rightarrow> ('w, unit) act" where
  "record_transition E R t =
     bind_act (ask (en_clock E)) (\<lambda>now.
     bind_act (lift_act (new_event now (Enforcer (Some (fst t))) (Some (snd t)))) (\<lambda>event.
     recorder_record R event))"

section \<open>One subscription\<close>

text \<open>
  The items of one subscription: \<open>Inl\<close> is the message it broke off with, \<open>None\<close> the shutdown. The
  result is the failure message, or \<open>None\<close> at the shutdown; the outer option is the fuel.
\<close>

type_synonym 'w stream_next = "'w \<times> db \<Rightarrow> (string + up_stream_item) option \<times> ('w \<times> db)"

fun follow_stream ::
  "nat \<Rightarrow> 'w enforcer \<Rightarrow> 'w recorder \<Rightarrow> 'w channels \<Rightarrow> 'w stream_next \<Rightarrow> ('w, string option option) act" where
  "follow_stream 0 E R H items = ret_act None"
| "follow_stream (Suc fuel) E R H items =
     bind_act (ask items) (\<lambda>item.
     case item of
       None \<Rightarrow> ret_act (Some None)
     | Some (Inl failure) \<Rightarrow> ret_act (Some (Some failure))
     | Some (Inr response) \<Rightarrow>
         bind_act (lift_act (global_event (rc_libs R) response)) (\<lambda>t.
         bind_act (record_transition E R t) (\<lambda>_.
         bind_act (reconcile_tip E R H) (\<lambda>_. follow_stream fuel E R H items))))"

text \<open>
  One turn of the monitor: the boundary, the stream until it breaks off, and the gap start the next
  boundary will name: the tip of the channel once a boundary was recorded, else the old gap start.
  \<open>Inr\<close> is the new gap start, \<open>Inl\<close> the end of the worker.
\<close>

definition subscription_turn ::
  "nat \<Rightarrow> 'w enforcer \<Rightarrow> 'w recorder \<Rightarrow> 'w channels \<Rightarrow> 'w stream_next \<Rightarrow> observed_block option \<Rightarrow>
   ('w, (unit + observed_block option) option) act" where
  "subscription_turn fuel E R H items gap_start =
     bind_act (attempt (subscription_boundary (rc_libs R) E gap_start)) (\<lambda>opened.
     case opened of
       Inl e \<Rightarrow>
         bind_act (recorder_failure R MainchainEvents (''subscription boundary: '' @ render_error e) 1)
           (\<lambda>_. ret_act (Some (Inr gap_start)))
     | Inr boundary \<Rightarrow>
         bind_act (record_transition E R boundary) (\<lambda>_.
         bind_act (recorder_success R MainchainEvents) (\<lambda>_.
         bind_act (follow_stream fuel E R H items) (\<lambda>ended.
         case ended of
           None \<Rightarrow> ret_act None
         | Some None \<Rightarrow> ret_act (Some (Inl ()))
         | Some (Some failure) \<Rightarrow>
             bind_act (ask (ch_tip H)) (\<lambda>tip.
             bind_act (recorder_failure R MainchainEvents failure 1) (\<lambda>_.
             ret_act (Some (Inr (Some tip)))))))))"

definition resubscribe_delay :: "nat \<Rightarrow> nat" where
  "resubscribe_delay d = min (2 * d) 30"

end
