(* ===== verification/Config.thy ===== *)
theory Config
  imports Recorder Upstream
begin

text \<open>
  Configuration: the validation of the extractor's arguments and the manifest they name, from
  \<^verbatim>\<open>src/extractors/enforcer/src/config.rs\<close>, and the connection string of the record,
  from \<^verbatim>\<open>src/shared/src/store.rs\<close>.
\<close>

section \<open>Postgres\<close>

record postgres_args =
  pg_host :: string
  pg_port :: nat
  pg_db :: string
  pg_user :: string
  pg_password :: "string option"
  pg_password_file :: "string option"
  pg_connect_timeout_seconds :: nat

definition BACKSLASH :: char where
  "BACKSLASH = char_of (92 :: nat)"

definition QUOTE :: char where
  "QUOTE = char_of (39 :: nat)"

text \<open>\<open>str::replace\<close> with a one-character pattern.\<close>

definition replace_char :: "char \<Rightarrow> string \<Rightarrow> string \<Rightarrow> string" where
  "replace_char c by s = concat (map (\<lambda>x. if x = c then by else [x]) s)"

definition escape :: "string \<Rightarrow> string" where
  "escape v =
     [QUOTE] @ replace_char QUOTE [BACKSLASH, QUOTE] (replace_char BACKSLASH [BACKSLASH, BACKSLASH] v)
       @ [QUOTE]"

fun join_spaces :: "string list \<Rightarrow> string" where
  "join_spaces [] = []"
| "join_spaces [p] = p"
| "join_spaces (p # ps) = p @ '' '' @ join_spaces ps"

definition connection_string :: "(string \<Rightarrow> string res) \<Rightarrow> postgres_args \<Rightarrow> string res" where
  "connection_string read_file args =
     bind_res
       (case (pg_password args, pg_password_file args) of
          (Some _, Some _) \<Rightarrow> bail ''only one of postgres_password and postgres_password_file may be set''
        | (Some password, None) \<Rightarrow> Inr (Some password)
        | (None, Some path) \<Rightarrow>
            bind_res (with_context ''reading Postgres password file'' (read_file path)) (\<lambda>text.
            if trim_line_ends text = [] then bail ''Postgres password file is empty''
            else Inr (Some (trim_line_ends text)))
        | (None, None) \<Rightarrow> Inr None) (\<lambda>password.
     Inr (join_spaces
       ([''host='' @ escape (pg_host args), ''port='' @ show_nat (pg_port args),
         ''dbname='' @ escape (pg_db args), ''user='' @ escape (pg_user args),
         ''connect_timeout='' @ show_nat (pg_connect_timeout_seconds args),
         ''application_name='' @ escape ''bip300-monitor'']
        @ (case password of None \<Rightarrow> [] | Some p \<Rightarrow> [''password='' @ escape p]))))"

section \<open>Arguments of the extractor\<close>

record args =
  ar_node_rpc_endpoint :: "string option"
  ar_node_rpc_cookie_file :: "string option"
  ar_nats :: nats_args
  ar_network_id :: string
  ar_activation_height :: u32
  ar_activation_block_hash :: string
  ar_allow_unknown_network_preset :: bool
  ar_expected_enforcer_network :: "string option"
  ar_node_commit :: string
  ar_enforcer_commit :: string
  ar_monitor_commit :: string
  ar_sidechains :: "u8 list"
  ar_backfill_page_blocks :: u32
  ar_backfill_page_pause_ms :: u64
  ar_tip_poll_interval_seconds :: u64
  ar_confirmed_bmm_fees :: bool
  ar_stream_stall_timeout_seconds :: u64
  ar_shutdown_timeout_seconds :: u64

definition char_in :: "nat \<Rightarrow> nat \<Rightarrow> char \<Rightarrow> bool" where
  "char_in lo hi c \<longleftrightarrow> lo \<le> of_char c \<and> (of_char c :: nat) \<le> hi"

definition network_char :: "char \<Rightarrow> bool" where
  "network_char c \<longleftrightarrow> char_in 97 122 c \<or> char_in 48 57 c \<or> c = CHR ''-''"

definition hex_char :: "char \<Rightarrow> bool" where
  "hex_char c \<longleftrightarrow> char_in 48 57 c \<or> char_in 97 102 c \<or> char_in 65 70 c"

definition validate_hex :: "string \<Rightarrow> nat \<Rightarrow> string \<Rightarrow> unit res" where
  "validate_hex v n name =
     ensure (length v = n \<and> list_all hex_char v) (name @ '' must contain exactly '' @ show_nat n
       @ '' hexadecimal characters'')"

text \<open>\<open>Network::from_str_name\<close>: the names and numbers of the protobuf enum.\<close>

definition network_from_str_name :: "string \<Rightarrow> int option" where
  "network_from_str_name name =
     map_of [(''NETWORK_UNSPECIFIED'', 0), (''NETWORK_UNKNOWN'', 1), (''NETWORK_MAINNET'', 2),
             (''NETWORK_REGTEST'', 3), (''NETWORK_SIGNET'', 4), (''NETWORK_TESTNET'', 5)] name"

definition production_identity :: "args \<Rightarrow> bool" where
  "production_identity a \<longleftrightarrow>
     ar_activation_height a \<noteq> 0 \<or> ar_activation_block_hash a \<noteq> ''unknown'' \<or>
     ar_node_commit a \<noteq> ''unknown'' \<or> ar_enforcer_commit a \<noteq> ''unknown'' \<or>
     ar_monitor_commit a \<noteq> ''unknown''"

definition validate_identity :: "args \<Rightarrow> unit res" where
  "validate_identity a =
     bind_res (ensure (ar_network_id a \<noteq> [] \<and> list_all network_char (ar_network_id a))
       ''network id must contain only lowercase ASCII letters, digits, or hyphens'') (\<lambda>_.
     if production_identity a
     then
       bind_res (validate_hex (ar_activation_block_hash a) 64 ''activation block hash'') (\<lambda>_.
       bind_res (validate_hex (ar_node_commit a) 40 ''node commit'') (\<lambda>_.
       bind_res (validate_hex (ar_enforcer_commit a) 40 ''enforcer commit'') (\<lambda>_.
       bind_res (validate_hex (ar_monitor_commit a) 40 ''monitor commit'') (\<lambda>_.
       bind_res (ok_or ''expected enforcer network must be configured for a production dataset''
                   (ar_expected_enforcer_network a)) (\<lambda>name.
       bind_res (ok_or ''unknown enforcer network'' (network_from_str_name name)) (\<lambda>n.
       ensure (\<not> (n = 0 \<or> n = 1)) ''expected enforcer network must be a concrete network''))))))
     else
       (case ar_expected_enforcer_network a of
          None \<Rightarrow> Inr ()
        | Some name \<Rightarrow> map_ok (\<lambda>_. ()) (ok_or ''unknown enforcer network'' (network_from_str_name name))))"

text \<open>Whether the removed environment variable is still set is an argument.\<close>

definition validate_args :: "bool \<Rightarrow> args \<Rightarrow> unit res" where
  "validate_args max_blocks_set a =
     bind_res (ensure ((ar_node_rpc_endpoint a \<noteq> None) = (ar_node_rpc_cookie_file a \<noteq> None))
       ''node RPC endpoint and cookie file must be configured together'') (\<lambda>_.
     bind_res (ensure (\<not> max_blocks_set) ''BIP300_MONITOR_BACKFILL_MAX_BLOCKS was removed'') (\<lambda>_.
     bind_res (ensure (na_flush_timeout_seconds (ar_nats a) < ar_shutdown_timeout_seconds a)
       ''shutdown timeout must be greater than the NATS flush timeout'') (\<lambda>_.
     bind_res (ensure (ar_tip_poll_interval_seconds a \<le> ar_stream_stall_timeout_seconds a)
       ''stream stall timeout must be at least the tip poll interval'') (\<lambda>_.
     bind_res (ensure (distinct (ar_sidechains a)) ''a sidechain slot was configured more than once'') (\<lambda>_.
     validate_identity a)))))"

definition activation_block_hash_bytes :: "libs \<Rightarrow> args \<Rightarrow> bytes option res" where
  "activation_block_hash_bytes L a =
     (if ar_activation_block_hash a = ''unknown'' then Inr None
      else
        bind_res (with_context ''decoding the configured activation block hash''
          (ok_or ''invalid hexadecimal'' (hex_decode L (ar_activation_block_hash a)))) (\<lambda>hash.
        bind_res (ensure (length hash = 32) ''activation block hash must decode to exactly 32 bytes'') (\<lambda>_.
        Inr (Some hash))))"

definition base_capabilities :: "string list" where
  "base_capabilities =
     [''event_facts'', ''event_observations'', ''tip_observations'', ''snapshot_consistency'',
      ''extractor_status'', ''per_worker_health'', ''resumable_sidechain_history'',
      ''live_bmm_bid_snapshots'', ''bip300_description_hash_identity'', ''validated_chain_identity'',
      ''orphan_run_reconciliation'', ''global_mainchain_transitions'', ''certified_hash_history'',
      ''immutable_fact_conflicts'', ''official_enforcer_api'', ''tip_matched_snapshots'',
      ''bmm_readiness_unknown'']"

definition dataset_manifest :: "args \<Rightarrow> manifest" where
  "dataset_manifest a =
     \<lparr> dm_network = ar_network_id a, dm_activation_height = ar_activation_height a,
       dm_activation_hash = ar_activation_block_hash a, dm_node_commit = ar_node_commit a,
       dm_enforcer_commit = ar_enforcer_commit a, dm_monitor_commit = ar_monitor_commit a,
       dm_version = EVENT_CONTRACT_VERSION,
       dm_capabilities = JArr (map JStr
         (base_capabilities
          @ (if ar_node_rpc_endpoint a \<noteq> None
             then [''node_block_evidence'', ''absolute_chain_work'', ''resumable_node_history''] else [])
          @ (if ar_confirmed_bmm_fees a \<and> ar_node_rpc_endpoint a \<noteq> None
             then [''observed_bmm_confirmed_fees''] else []))),
       dm_reason = ''Drivechain Observatory official-source contract ''
         @ show_nat (unat EVENT_CONTRACT_VERSION) @ '' dataset'' \<rparr>"

section \<open>Quoting\<close>

text \<open>
  How libpq reads a quoted value: up to the closing quote, with a backslash taking the next
  character as it is. The result is the value and the rest of the string.
\<close>

fun read_quoted :: "string \<Rightarrow> (string \<times> string) option" where
  "read_quoted [] = None"
| "read_quoted (c # s) =
     (if c = QUOTE then Some ([], s)
      else if c = BACKSLASH
      then (case s of [] \<Rightarrow> None | x # s' \<Rightarrow> map_option (\<lambda>(v, r). (x # v, r)) (read_quoted s'))
      else map_option (\<lambda>(v, r). (c # v, r)) (read_quoted s))"

definition read_value :: "string \<Rightarrow> (string \<times> string) option" where
  "read_value s = (case s of c # s' \<Rightarrow> if c = QUOTE then read_quoted s' else None | [] \<Rightarrow> None)"

lemma quote_not_backslash: "QUOTE \<noteq> BACKSLASH" "BACKSLASH \<noteq> QUOTE"
  by (simp_all add: QUOTE_def BACKSLASH_def)

lemma escape_body:
  "read_quoted (replace_char QUOTE [BACKSLASH, QUOTE] (replace_char BACKSLASH [BACKSLASH, BACKSLASH] v)
     @ QUOTE # rest) = Some (v, rest)"
proof (induction v)
  case Nil
  show ?case by (simp add: replace_char_def)
next
  case (Cons c v)
  then show ?case
    by (cases "c = BACKSLASH"; cases "c = QUOTE") (simp_all add: replace_char_def quote_not_backslash)
qed


section \<open>Validated arguments\<close>

text \<open>What the hexadecimal decoder is relied on for: an even number of digits is accepted.\<close>

definition hex_decodes :: "libs \<Rightarrow> bool" where
  "hex_decodes L \<longleftrightarrow> (\<forall>s. list_all hex_char s \<longrightarrow> even (length s) \<longrightarrow>
     (\<exists>b. hex_decode L s = Some b \<and> length b = length s div 2))"

text \<open>Arguments that pass validation name a dataset the record can hold: a production identity has
  an activation hash that decodes to 32 bytes and is read as one, three full commits and a concrete
  expected network; the slots are distinct; and the timeouts are ordered.\<close>

theorem validated_arguments:
  assumes "validate_args max_blocks_set a = Inr ()"
    and "hex_decodes L"
  shows "distinct (ar_sidechains a) \<and> ar_network_id a \<noteq> [] \<and>
    na_flush_timeout_seconds (ar_nats a) < ar_shutdown_timeout_seconds a \<and>
    ar_tip_poll_interval_seconds a \<le> ar_stream_stall_timeout_seconds a \<and>
    (if production_identity a
     then (\<exists>b. activation_block_hash_bytes L a = Inr (Some b) \<and> length b = 32) \<and>
       (\<exists>name n. ar_expected_enforcer_network a = Some name \<and> network_from_str_name name = Some n \<and> 2 \<le> n)
     else activation_block_hash_bytes L a = Inr None)"
proof -
  from assms(1) have basic: "distinct (ar_sidechains a)" "ar_network_id a \<noteq> []"
    "na_flush_timeout_seconds (ar_nats a) < ar_shutdown_timeout_seconds a"
    "ar_tip_poll_interval_seconds a \<le> ar_stream_stall_timeout_seconds a"
    "validate_identity a = Inr ()"
    by (auto simp: validate_args_def validate_identity_def res_simps split: if_splits)
  show ?thesis
  proof (cases "production_identity a")
    case True
    with basic(5) obtain name n where h: "length (ar_activation_block_hash a) = 64"
      "list_all hex_char (ar_activation_block_hash a)" "ar_expected_enforcer_network a = Some name"
      "network_from_str_name name = Some n" "n \<noteq> 0" "n \<noteq> 1"
      by (auto simp: validate_identity_def validate_hex_def res_simps)
    have "2 \<le> n" using h(4-6) by (auto simp: network_from_str_name_def split: if_splits)
    moreover from assms(2) h(1,2) obtain b where "hex_decode L (ar_activation_block_hash a) = Some b"
      "length b = 32" by (fastforce simp: hex_decodes_def)
    moreover from this h(1) have "activation_block_hash_bytes L a = Inr (Some b)"
      by (auto simp: activation_block_hash_bytes_def)
    ultimately show ?thesis using True basic h(3,4) by auto
  next
    case False
    then have "activation_block_hash_bytes L a = Inr None"
      by (simp add: activation_block_hash_bytes_def production_identity_def)
    with False basic show ?thesis by simp
  qed
qed

lemma hex_value_char: "hex_char c \<Longrightarrow> \<exists>n. hex_value c = Some n"
  by (auto simp: hex_char_def char_in_def hex_value_def Let_def)

lemma sample_unhex_total:
  "list_all hex_char s \<Longrightarrow> even (length s) \<Longrightarrow> \<exists>b. sample_unhex s = Some b \<and> length b = length s div 2"
proof (induction s rule: sample_unhex.induct)
  case (3 a b s)
  then obtain bs where "sample_unhex s = Some bs" "length bs = length s div 2" by auto
  moreover from "3.prems" obtain x y where "hex_value a = Some x" "hex_value b = Some y"
    using hex_value_char by fastforce
  ultimately show ?case by simp
qed auto

lemma sample_libs_hex_decodes: "hex_decodes sample_libs"
  using sample_unhex_total by (simp add: hex_decodes_def sample_libs_def)

definition sample_args :: args where
  "sample_args =
     \<lparr> ar_node_rpc_endpoint = None, ar_node_rpc_cookie_file = None,
       ar_nats = \<lparr> na_url = ''nats://127.0.0.1:4222'', na_username = None, na_password = None,
         na_password_file = None, na_flush_timeout_seconds = 10 \<rparr>,
       ar_network_id = ''mainnet'', ar_activation_height = 973728,
       ar_activation_block_hash = replicate 64 (CHR ''a''), ar_allow_unknown_network_preset = False,
       ar_expected_enforcer_network = Some ''NETWORK_MAINNET'',
       ar_node_commit = replicate 40 (CHR ''1''), ar_enforcer_commit = replicate 40 (CHR ''2''),
       ar_monitor_commit = replicate 40 (CHR ''3''), ar_sidechains = [1, 2],
       ar_backfill_page_blocks = 128, ar_backfill_page_pause_ms = 100,
       ar_tip_poll_interval_seconds = 30, ar_confirmed_bmm_fees = False,
       ar_stream_stall_timeout_seconds = 60, ar_shutdown_timeout_seconds = 15 \<rparr>"

lemma sample_args_valid: "validate_args False sample_args = Inr ()"
  by code_simp

lemma sample_args_production: "production_identity sample_args"
  by (simp add: production_identity_def sample_args_def)

theorem validated_arguments_witness:
  "\<exists>b. activation_block_hash_bytes sample_libs sample_args = Inr (Some b) \<and> length b = 32"
  using validated_arguments [OF sample_args_valid sample_libs_hex_decodes] sample_args_production by simp

end
