(* ===== verification/Startup.thy ===== *)
theory Startup
  imports State Config
begin

text \<open>
  Starting the enforcer extractor, from \<^verbatim>\<open>src/extractors/enforcer/src/snapshot.rs\<close> and
  the first half of \<^verbatim>\<open>runtime.rs\<close>: the initial snapshot and its bounded consistency
  retry, the selection of the active instances and the bounded lifecycle retry around it, the check
  of the chain's identity, and the opening of the record after every probe has succeeded.
\<close>

section \<open>Snapshots\<close>

record initial_snapshot =
  is_constants :: "enforcer_event list"
  is_state :: "enforcer_event list"
  is_anchor :: observed_block

definition collect_snapshot ::
  "libs \<Rightarrow> 'w enforcer \<Rightarrow> ('w, up_chain_info) act \<Rightarrow> u8 list \<Rightarrow> ('w, initial_snapshot) act" where
  "collect_snapshot L E get_chain_info sidechains =
     bind_act (en_chain_tip E) (\<lambda>r.
     bind_act (lift_act (convert_chain_tip L r)) (\<lambda>chain_tip.
     bind_act (lift_act (tip_anchor (Some chain_tip))) (\<lambda>anchor.
     bind_act get_chain_info (\<lambda>info.
     bind_act (lift_act (convert_chain_info info)) (\<lambda>chain_info.
     bind_act (collect_payloads L E sidechains False) (\<lambda>state.
     ret_act \<lparr> is_constants = [chain_info, chain_tip], is_state = state, is_anchor = anchor \<rparr>))))))"

text \<open>The clock reading of each envelope is taken from a function of its position.\<close>

definition snapshot_events :: "(nat \<Rightarrow> int) \<Rightarrow> initial_snapshot \<Rightarrow> event list res" where
  "snapshot_events now s =
     collect_res (\<lambda>(i, payload). envelope (now i) (Some payload) (is_anchor s))
       (enumerate 0 (is_constants s @ is_state s))"

definition record_initial_snapshot ::
  "'w recorder \<Rightarrow> string \<Rightarrow> (nat \<Rightarrow> int) \<Rightarrow> initial_snapshot \<Rightarrow> snapshot_metadata \<Rightarrow> ('w, unit) act" where
  "record_initial_snapshot R gid now s m =
     bind_act (lift_act (snapshot_events now s)) (\<lambda>events. record_snapshot_batch R gid events Startup m)"

definition SNAPSHOT_MAX_ATTEMPTS :: nat where
  "SNAPSHOT_MAX_ATTEMPTS = 3"

definition snapshot_tips_are_consistent :: "bytes \<Rightarrow> bytes \<Rightarrow> bytes \<Rightarrow> bool" where
  "snapshot_tips_are_consistent before snapshot after \<longleftrightarrow> before = snapshot \<and> snapshot = after"

text \<open>The sources the startup reads, one action each.\<close>

record ('w, 's) startup_source =
  su_instances :: "('w, instance_ref list) act"
  su_subscribe :: "u8 \<Rightarrow> ('w, 's) act"
  su_tip :: "('w, observed_block) act"
  su_snapshot :: "u8 list \<Rightarrow> ('w, initial_snapshot) act"
  su_clock :: "'w \<times> db \<Rightarrow> int \<times> ('w \<times> db)"

definition one_snapshot_attempt ::
  "('w, 's) startup_source \<Rightarrow> u8 list \<Rightarrow> ('w, observed_block \<times> initial_snapshot \<times> observed_block) act" where
  "one_snapshot_attempt S sidechains =
     bind_act (context_act ''reading the mainchain tip before collecting the snapshot'' (su_tip S)) (\<lambda>before.
     bind_act (context_act ''collecting the initial enforcer snapshot'' (su_snapshot S sidechains)) (\<lambda>snapshot.
     bind_act (context_act ''reading the mainchain tip after collecting the snapshot'' (su_tip S)) (\<lambda>after.
     ret_act (before, snapshot, after))))"

text \<open>\<open>left\<close> more attempts may follow the one numbered \<open>n\<close>.\<close>

fun snapshot_attempts ::
  "('w, 's) startup_source \<Rightarrow> u8 list \<Rightarrow> int \<Rightarrow> nat \<Rightarrow> nat \<Rightarrow> ('w, initial_snapshot \<times> snapshot_metadata) act" where
  "snapshot_attempts S sidechains started left n =
     bind_act (one_snapshot_attempt S sidechains) (\<lambda>(before, snapshot, after).
     let consistent = snapshot_tips_are_consistent (ob_hash before) (ob_hash (is_anchor snapshot)) (ob_hash after) in
     case (consistent, left) of
       (False, Suc left') \<Rightarrow> snapshot_attempts S sidechains started left' (n + 1)
     | _ \<Rightarrow>
         bind_act (ask (su_clock S)) (\<lambda>finished.
         ret_act (snapshot,
           \<lparr> sm_revision_before = None, sm_revision_after = None, sm_started_at = started,
             sm_finished_at = finished, sm_tip_before = before, sm_tip_after = after,
             sm_consistency = (if consistent then TipMatched else Changed),
             sm_attempts = word_of_nat n \<rparr>)))"

declare snapshot_attempts.simps [simp del]

definition collect_initial_snapshot_attempts ::
  "('w, 's) startup_source \<Rightarrow> u8 list \<Rightarrow> int \<Rightarrow> ('w, initial_snapshot \<times> snapshot_metadata) act" where
  "collect_initial_snapshot_attempts S sidechains started =
     snapshot_attempts S sidechains started (SNAPSHOT_MAX_ATTEMPTS - 1) 1"

section \<open>Instances\<close>

text \<open>An ordered map keyed by slot, as the sorted list of its entries.\<close>

fun put :: "u8 \<Rightarrow> 'a \<Rightarrow> (u8 \<times> 'a) list \<Rightarrow> (u8 \<times> 'a) list" where
  "put k v [] = [(k, v)]"
| "put k v ((k', v') # m) =
     (if k < k' then (k, v) # (k', v') # m
      else if k = k' then (k, v) # m else (k', v') # put k v m)"

definition drop_key :: "u8 \<Rightarrow> (u8 \<times> 'a) list \<Rightarrow> (u8 \<times> 'a) list" where
  "drop_key k m = filter (\<lambda>e. fst e \<noteq> k) m"

fun select_slots :: "(u8 \<times> instance_ref) list \<Rightarrow> instance_ref list \<Rightarrow> instance_ref list res" where
  "select_slots m [] = Inr (map snd m)"
| "select_slots m (i # is) =
     (if map_of m (ir_sidechain i) \<noteq> None
      then bail ''active-sidechains snapshot contains a duplicate slot''
      else select_slots (put (ir_sidechain i) i m) is)"

definition select_active_instances :: "instance_ref list \<Rightarrow> u8 list \<Rightarrow> instance_ref list res" where
  "select_active_instances active configured =
     select_slots [] (filter (\<lambda>i. configured = [] \<or> ir_sidechain i \<in> set configured) active)"

fun find_map :: "('a \<Rightarrow> 'b option) \<Rightarrow> 'a list \<Rightarrow> 'b option" where
  "find_map f [] = None"
| "find_map f (x # xs) = (case f x of Some y \<Rightarrow> Some y | None \<Rightarrow> find_map f xs)"

definition active_instances_from_state :: "libs \<Rightarrow> enforcer_event list \<Rightarrow> instance_ref list res" where
  "active_instances_from_state L state =
     bind_res (ok_or ''initial snapshot has no active-sidechains payload''
       (find_map (\<lambda>e. active_instances L (Some e)) state)) (\<lambda>r. r)"

definition active_instances_for_slots :: "libs \<Rightarrow> enforcer_event list \<Rightarrow> u8 list \<Rightarrow> instance_ref list res" where
  "active_instances_for_slots L state sidechains =
     bind_res (active_instances_from_state L state) (\<lambda>is. select_active_instances is sidechains)"

section \<open>Subscriptions before the snapshot\<close>

record 's observation =
  po_streams :: "(u8 \<times> 's) list"
  po_snapshot :: initial_snapshot
  po_metadata :: snapshot_metadata

fun open_streams :: "('w, 's) startup_source \<Rightarrow> u8 list \<Rightarrow> ('w, (u8 \<times> 's) list) act" where
  "open_streams S [] = ret_act []"
| "open_streams S (slot # slots) =
     bind_act (context_act ''subscribing to sidechain events'' (su_subscribe S slot)) (\<lambda>stream.
     bind_act (open_streams S slots) (\<lambda>rest. ret_act ((slot, stream) # rest)))"

definition prepare_observation ::
  "('w, 's) startup_source \<Rightarrow> u8 list \<Rightarrow> u8 list \<Rightarrow> ('w, 's observation) act" where
  "prepare_observation S subscription_slots sidechains =
     bind_act (context_act ''opening all sidechain subscriptions'' (open_streams S subscription_slots)) (\<lambda>streams.
     bind_act (ask (su_clock S)) (\<lambda>started.
     bind_act (collect_initial_snapshot_attempts S sidechains started) (\<lambda>(snapshot, m).
     ret_act \<lparr> po_streams = streams, po_snapshot = snapshot, po_metadata = m \<rparr>)))"

fun stable_observation ::
  "libs \<Rightarrow> ('w, 's) startup_source \<Rightarrow> u8 list \<Rightarrow> nat \<Rightarrow> ('w, u8 list \<times> 's observation) act" where
  "stable_observation L S configured 0 =
     lift_act (bail ''active sidechain identities changed during every startup attempt'')"
| "stable_observation L S configured (Suc left) =
     bind_act (context_act ''reading active sidechains before opening subscriptions'' (su_instances S)) (\<lambda>is.
     bind_act (lift_act (select_active_instances is configured)) (\<lambda>expected.
     let sidechains = (if configured = [] then map ir_sidechain expected else configured) in
     bind_act (prepare_observation S (map ir_sidechain expected) sidechains) (\<lambda>observation.
     bind_act (lift_act (bind_res (active_instances_from_state L (is_state (po_snapshot observation)))
                (\<lambda>is. select_active_instances is configured))) (\<lambda>actual.
     if actual = expected then ret_act (sidechains, observation)
     else stable_observation L S configured left))))"

definition prepare_stable_observation ::
  "libs \<Rightarrow> ('w, 's) startup_source \<Rightarrow> u8 list \<Rightarrow> ('w, u8 list \<times> 's observation) act" where
  "prepare_stable_observation L S configured = stable_observation L S configured SNAPSHOT_MAX_ATTEMPTS"

section \<open>The chain's identity\<close>

record preset =
  ps_network_id :: string
  ps_activation_height :: u32
  ps_thresholds :: "u32 list"

definition NETWORK_PRESETS :: "preset list" where
  "NETWORK_PRESETS =
     [\<lparr> ps_network_id = ''mainnet'', ps_activation_height = 973728,
        ps_thresholds = [12096, 6048, 12096, 6048, 2016, 1815] \<rparr>,
      \<lparr> ps_network_id = ''betanet'', ps_activation_height = 967680,
        ps_thresholds = [26300, 13150, 26300, 13150, 2016, 1008] \<rparr>,
      \<lparr> ps_network_id = ''alphanet'', ps_activation_height = 963648,
        ps_thresholds = [144, 72, 144, 72, 36, 30] \<rparr>]"

definition reported_thresholds :: "bip300_constants \<Rightarrow> u32 list" where
  "reported_thresholds c =
     [bc_withdrawal_bundle_max_age c, bc_withdrawal_bundle_inclusion_threshold c,
      bc_used_proposal_max_age c, bc_used_activation_threshold c, bc_unused_proposal_max_age c,
      bc_unused_activation_threshold c]"

fun chain_info_of :: "enforcer_event \<Rightarrow> chain_info option" where
  "chain_info_of (ChainInfo i) = Some i"
| "chain_info_of e = None"

definition check_preset :: "args \<Rightarrow> bip300_constants \<Rightarrow> unit res" where
  "check_preset a c =
     (case find (\<lambda>p. ps_network_id p = ar_network_id a) NETWORK_PRESETS of
        Some p \<Rightarrow>
          bind_res (ensure (ps_activation_height p = ar_activation_height a)
            ''network activates at another height than the dataset is locked to'') (\<lambda>_.
          ensure (reported_thresholds c = ps_thresholds p) ''enforcer BIP300 thresholds are not the preset'')
      | None \<Rightarrow>
          ensure (\<not> (ar_expected_enforcer_network a \<noteq> None \<and> \<not> ar_allow_unknown_network_preset a))
            ''network has no known enforcer preset to verify'')"

definition validate_chain_identity :: "args \<Rightarrow> initial_snapshot \<Rightarrow> unit res" where
  "validate_chain_identity a s =
     bind_res (ok_or ''initial snapshot has no chain-info payload''
       (find_map chain_info_of (is_constants s))) (\<lambda>info.
     bind_res (ok_or ''chain info has no BIP300 constants'' (ci_constants info)) (\<lambda>c.
     bind_res (ensure (bc_activation_height c = ar_activation_height a)
       ''enforcer BIP300 activation height is not the expected one'') (\<lambda>_.
     bind_res
       (case ar_expected_enforcer_network a of
          None \<Rightarrow> Inr ()
        | Some name \<Rightarrow>
            bind_res (ok_or ''unknown expected enforcer network'' (network_from_str_name name)) (\<lambda>expected.
            ensure (ci_raw_network info = expected) ''enforcer network is not the expected one'')) (\<lambda>_.
     check_preset a c))))"

section \<open>Opening the record\<close>

definition INITIAL_WORKERS :: "worker list" where
  "INITIAL_WORKERS = [MainchainTip, BmmRequestsWorker, MainchainEvents, EnforcerState]"

text \<open>
  The recorder is connected, and so a run opened, only after every read-only probe succeeded;
  \<open>connect\<close> is the connection of the recorder with the manifest of the arguments.
\<close>

definition prepare_startup ::
  "libs \<Rightarrow> args \<Rightarrow> ('w, 's) startup_source \<Rightarrow> (manifest \<Rightarrow> ('w, 'w recorder) act) \<Rightarrow>
   ('w, 'w recorder \<times> 's \<times> u8 list \<times> 's observation) act" where
  "prepare_startup L a S connect =
     bind_act (su_subscribe S 0) (\<lambda>mainchain_stream.
     bind_act (context_act ''preparing enforcer subscriptions and initial snapshot''
       (prepare_stable_observation L S (ar_sidechains a))) (\<lambda>(sidechains, observation).
     bind_act (lift_act (with_context ''validating the enforcer chain identity''
       (validate_chain_identity a (po_snapshot observation)))) (\<lambda>_.
     bind_act (context_act ''connecting the event recorder'' (connect (dataset_manifest a))) (\<lambda>R.
     bind_act (context_act ''initializing extractor worker status''
       (recorder_init_workers R INITIAL_WORKERS)) (\<lambda>_.
     ret_act (R, mainchain_stream, sidechains, observation))))))"

end
