(* ===== verification/Startup_Properties.thy ===== *)
theory Startup_Properties
  imports Startup
begin

text \<open>
  What a successful startup has established: an honestly labelled snapshot, a stream for every
  selected active slot, and a chain that is the one the dataset is about.
\<close>

section \<open>The snapshot's label\<close>

definition honest :: "nat \<Rightarrow> nat \<Rightarrow> initial_snapshot \<times> snapshot_metadata \<Rightarrow> bool" where
  "honest left n r \<longleftrightarrow>
     (case r of (s, m) \<Rightarrow>
        \<exists>k. n \<le> k \<and> k \<le> n + left \<and> sm_attempts m = word_of_nat k \<and>
        (sm_consistency m = TipMatched \<longleftrightarrow>
           ob_hash (sm_tip_before m) = ob_hash (is_anchor s) \<and>
           ob_hash (is_anchor s) = ob_hash (sm_tip_after m)) \<and>
        (sm_consistency m = TipMatched \<or> sm_consistency m = Changed \<and> k = n + left))"

lemma honest_Suc: "honest left (n + 1) r \<Longrightarrow> honest (Suc left) n r"
proof -
  assume "honest left (n + 1) r"
  moreover obtain s m where r: "r = (s, m)" by (cases r) auto
  ultimately obtain k where "n + 1 \<le> k" "k \<le> n + 1 + left" "sm_attempts m = word_of_nat k"
    "sm_consistency m = TipMatched \<longleftrightarrow>
       ob_hash (sm_tip_before m) = ob_hash (is_anchor s) \<and> ob_hash (is_anchor s) = ob_hash (sm_tip_after m)"
    "sm_consistency m = TipMatched \<or> sm_consistency m = Changed \<and> k = n + 1 + left"
    unfolding honest_def by blast
  then show ?thesis unfolding honest_def r by (intro prod.case [THEN iffD2] exI [of _ k]) simp
qed

lemma snapshot_attempts_honest:
  "triple (\<lambda>_. True) (snapshot_attempts S sidechains started left n) (\<lambda>r _. honest left n r)"
proof (induction left arbitrary: n)
  case 0
  show ?case
    unfolding snapshot_attempts.simps [of S sidechains started 0]
    by (rule triple_bind [OF triple_any])
      (auto simp: Let_def honest_def snapshot_tips_are_consistent_def split: prod.split bool.split
        intro!: triple_bind [OF triple_any] triple_ret)
next
  case (Suc left)
  have again: "triple (\<lambda>_. True) (snapshot_attempts S sidechains started left (n + 1)) (\<lambda>r _. honest (Suc left) n r)"
    by (rule triple_post [OF Suc.IH]) (rule honest_Suc)
  show ?case
    unfolding snapshot_attempts.simps [of S sidechains started "Suc left"]
  proof (rule triple_bind [OF triple_any], goal_cases)
    case (1 x)
    obtain before snapshot after where x: "x = (before, snapshot, after)" by (cases x) auto
    have matched: "triple (\<lambda>_. True) (bind_act (ask (su_clock S)) (\<lambda>finished.
       ret_act (snapshot,
           \<lparr> sm_revision_before = None, sm_revision_after = None, sm_started_at = started,
             sm_finished_at = finished, sm_tip_before = before, sm_tip_after = after,
             sm_consistency = (if True then TipMatched else Changed),
             sm_attempts = word_of_nat n \<rparr>))) (\<lambda>r _. honest (Suc left) n r)"
      if "snapshot_tips_are_consistent (ob_hash before) (ob_hash (is_anchor snapshot)) (ob_hash after)"
      by (rule triple_bind [OF triple_any], rule triple_ret)
        (use that in \<open>auto simp: honest_def snapshot_tips_are_consistent_def\<close>)
    show ?case unfolding x prod.case Let_def
      by (cases "snapshot_tips_are_consistent (ob_hash before) (ob_hash (is_anchor snapshot)) (ob_hash after)")
        (use matched again in simp_all)
  qed
qed

text \<open>The initial snapshot takes one to three attempts and is labelled as it is: tip-matched exactly
  when the tip before it, its own anchor and the tip after it are one block, and changed only when the
  tip moved during all three attempts.\<close>

theorem snapshot_label_is_honest:
  assumes "collect_initial_snapshot_attempts S sidechains started s = (Inr (snapshot, m), t)"
  shows "sm_attempts m \<in> {1, 2, 3} \<and>
    (sm_consistency m = TipMatched \<longleftrightarrow>
       ob_hash (sm_tip_before m) = ob_hash (is_anchor snapshot) \<and>
       ob_hash (is_anchor snapshot) = ob_hash (sm_tip_after m)) \<and>
    (sm_consistency m = TipMatched \<or> sm_consistency m = Changed \<and> sm_attempts m = 3)"
proof -
  from tripleD [OF snapshot_attempts_honest assms [unfolded collect_initial_snapshot_attempts_def]]
  have "honest 2 1 (snapshot, m)" by (simp add: SNAPSHOT_MAX_ATTEMPTS_def)
  then obtain k where k: "1 \<le> k" "k \<le> 1 + 2" "sm_attempts m = word_of_nat k"
    and rest: "sm_consistency m = TipMatched \<longleftrightarrow>
       ob_hash (sm_tip_before m) = ob_hash (is_anchor snapshot) \<and>
       ob_hash (is_anchor snapshot) = ob_hash (sm_tip_after m)"
      "sm_consistency m = TipMatched \<or> sm_consistency m = Changed \<and> k = 1 + 2"
    unfolding honest_def prod.case by blast
  have "k = 1 \<or> k = 2 \<or> k = 3" using k(1,2) by linarith
  with k(3) rest show ?thesis by auto
qed

section \<open>Selected instances\<close>

lemma put_keys: "set (map fst (put k v m)) = insert k (set (map fst m))"
proof (induction m)
  case (Cons e m)
  then show ?case by (cases e) (simp add: insert_commute)
qed simp

lemma put_sorted: "sorted_wrt (<) (map fst m) \<Longrightarrow> sorted_wrt (<) (map fst (put k v m))"
proof (induction m)
  case Nil
  show ?case by simp
next
  case (Cons e m)
  obtain k' v' where e: "e = (k', v')" by (cases e) auto
  consider "k < k'" | "k = k'" | "k' < k" by fastforce
  then show ?case
  proof cases
    case 1
    then show ?thesis using Cons.prems e by auto
  next
    case 2
    then show ?thesis using Cons.prems e by auto
  next
    case 3
    moreover from this Cons e have "sorted_wrt (<) (map fst (put k v m))" by simp
    moreover have "\<forall>x \<in> set (map fst (put k v m)). k' < x"
      using Cons.prems e 3 unfolding put_keys by auto
    ultimately show ?thesis using e by auto
  qed
qed

lemma put_values: "map_of m k = None \<Longrightarrow> set (put k v m) = insert (k, v) (set m)"
  by (induction m) (auto split: if_splits)

lemma select_slots_Inr:
  assumes "select_slots m is = Inr out" and "sorted_wrt (<) (map fst m)"
    and "\<And>k v. (k, v) \<in> set m \<Longrightarrow> ir_sidechain v = k"
  shows "sorted_wrt (<) (map ir_sidechain out) \<and> set out = snd ` set m \<union> set is"
  using assms
proof (induction m "is" rule: select_slots.induct)
  case (1 m)
  have keys: "map ir_sidechain (map snd m) = map fst m" using "1.prems"(3) by (auto simp: case_prod_beta)
  have "out = map snd m" using "1.prems"(1) by simp
  then have "map ir_sidechain out = map fst m" using keys by (simp only:)
  then have "sorted_wrt (<) (map ir_sidechain out)" using "1.prems"(2) by (simp only:)
  moreover have "set out = snd ` set m \<union> set []" by (simp add: \<open>out = map snd m\<close>)
  ultimately show ?case by (intro conjI)
next
  case (2 m i "is")
  from "2.prems"(1) have new: "map_of m (ir_sidechain i) = None"
    and rest: "select_slots (put (ir_sidechain i) i m) is = Inr out"
    by (auto simp: bail_def split: if_splits)
  have entries: "ir_sidechain v = k" if "(k, v) \<in> set (put (ir_sidechain i) i m)" for k v
    using that "2.prems"(3) unfolding put_values [OF new] by auto
  have "\<not> map_of m (ir_sidechain i) \<noteq> None" using new by simp
  from "2.IH" [OF this rest put_sorted [OF "2.prems"(2)] entries]
  show ?case unfolding put_values [OF new] by simp
qed

lemma select_active_Inr:
  assumes "select_active_instances active configured = Inr out"
  shows "sorted_wrt (<) (map ir_sidechain out) \<and>
    set out = {i \<in> set active. configured = [] \<or> ir_sidechain i \<in> set configured}"
  using select_slots_Inr [OF assms [unfolded select_active_instances_def]] by auto

lemma open_streams_slots:
  "open_streams S slots s = (Inr streams, t) \<Longrightarrow> map fst streams = slots"
  by (induction slots arbitrary: s streams t) (fastforce simp: act_Inr)+


text \<open>Under a known network name, a chain that passes the identity check reports exactly that
  network's preset: the activation height the dataset is locked to is the preset's and the enforcer's,
  and all six thresholds are the preset's, so an enforcer running another preset is refused.\<close>

theorem known_network_is_its_preset:
  assumes "validate_chain_identity a s = Inr ()" and "p \<in> set NETWORK_PRESETS"
    and "ps_network_id p = ar_network_id a"
  shows "\<exists>info c. ChainInfo info \<in> set (is_constants s) \<and> ci_constants info = Some c \<and>
    bc_activation_height c = ps_activation_height p \<and> ar_activation_height a = ps_activation_height p \<and>
    reported_thresholds c = ps_thresholds p \<and>
    (\<forall>name. ar_expected_enforcer_network a = Some name \<longrightarrow> network_from_str_name name = Some (ci_raw_network info))"
proof -
  have found: "find_map f xs = Some y \<Longrightarrow> \<exists>x \<in> set xs. f x = Some y" for f xs and y :: chain_info
    by (induction xs) (auto split: option.splits)
  have info: "chain_info_of e = Some i \<Longrightarrow> e = ChainInfo i" for e i by (cases e) auto
  have "distinct (map ps_network_id NETWORK_PRESETS)" by code_simp
  then have preset: "find (\<lambda>p. ps_network_id p = ar_network_id a) NETWORK_PRESETS = Some p"
    using assms(2,3) by (simp add: find_Some_iff_unique)
  from assms(1) obtain i c where i: "find_map chain_info_of (is_constants s) = Some i" "ci_constants i = Some c"
    "bc_activation_height c = ar_activation_height a" "check_preset a c = Inr ()"
    "\<forall>name. ar_expected_enforcer_network a = Some name \<longrightarrow> network_from_str_name name = Some (ci_raw_network i)"
    unfolding validate_chain_identity_def by (auto simp: res_simps split: option.splits)
  from i(4) have "ps_activation_height p = ar_activation_height a" "reported_thresholds c = ps_thresholds p"
    unfolding check_preset_def preset by (simp_all add: res_simps)
  with i found [OF i(1)] info show ?thesis by metis
qed

section \<open>A startup\<close>

definition sample_constants :: bip300_constants where
  "sample_constants = \<lparr> bc_withdrawal_bundle_max_age = 12096, bc_withdrawal_bundle_inclusion_threshold = 6048,
     bc_used_proposal_max_age = 12096, bc_used_activation_threshold = 6048,
     bc_unused_proposal_max_age = 2016, bc_unused_activation_threshold = 1815,
     bc_activation_height = 973728 \<rparr>"

definition sample_initial :: initial_snapshot where
  "sample_initial =
     \<lparr> is_constants = [ChainInfo \<lparr> ci_network = network_value NetworkMainnet, ci_constants = Some sample_constants,
         ci_raw_network = 2 \<rparr>],
       is_state = [SidechainProposals [], ActiveSidechains [sample_sidechain 3 5, sample_sidechain 1 5]],
       is_anchor = sample_block 2 \<rparr>"

definition sample_actives :: "instance_ref list" where
  "sample_actives =
     (case active_instances_from_state sample_libs (is_state sample_initial) of Inr is \<Rightarrow> is | Inl _ \<Rightarrow> [])"

definition sample_source :: "(unit, u8) startup_source" where
  "sample_source =
     \<lparr> su_instances = ret_act sample_actives, su_subscribe = (\<lambda>slot. ret_act slot),
       su_tip = ret_act (sample_block 1), su_snapshot = (\<lambda>_. ret_act sample_initial),
       su_clock = (\<lambda>s. (7, s)) \<rparr>"

lemma sample_startup:
  "is_ok (fst (prepare_stable_observation sample_libs sample_source [] ((), empty_db)))"
  "is_ok (fst (collect_initial_snapshot_attempts sample_source [1] 5 ((), empty_db)))"
  by code_simp+

theorem snapshot_label_is_honest_witness:
  "\<exists>snapshot m t. collect_initial_snapshot_attempts sample_source [1] 5 ((), empty_db) = (Inr (snapshot, m), t) \<and>
     sm_attempts m \<in> {1, 2, 3}"
proof -
  obtain snapshot m t where run:
    "collect_initial_snapshot_attempts sample_source [1] 5 ((), empty_db) = (Inr (snapshot, m), t)"
    using sample_startup(2) unfolding is_ok_iff by (metis prod.collapse)
  with snapshot_label_is_honest [OF run] show ?thesis by blast
qed


lemma sample_chain_identity: "validate_chain_identity sample_args sample_initial = Inr ()"
  by code_simp

theorem known_network_is_its_preset_witness:
  "\<exists>info c. ChainInfo info \<in> set (is_constants sample_initial) \<and> ci_constants info = Some c \<and>
     reported_thresholds c = [12096, 6048, 12096, 6048, 2016, 1815]"
  using known_network_is_its_preset [OF sample_chain_identity, of "hd NETWORK_PRESETS"]
  by (auto simp: NETWORK_PRESETS_def sample_args_def)

end
