(* ===== verification/Live.thy ===== *)
theory Live
  imports Startup Mainchain
begin

text \<open>
  The live workers of \<^verbatim>\<open>src/extractors/enforcer/src/runtime.rs\<close> that poll or follow the
  validator: the tip worker, the sampling of the BMM auction, and the worker of one slot's event
  stream with its watchdog. A loop is one definition for its body and a recursion with fuel over
  what the select statement at its head resolved to. Log lines are left out.
\<close>

section \<open>Channels\<close>

text \<open>The channels of the mainchain worker and the block last sent on the block channel.\<close>

record 'w watches =
  wa_channels :: "'w channels"
  wa_block :: "'w \<times> db \<Rightarrow> bytes \<times> ('w \<times> db)"

text \<open>\<open>let _ = ..\<close> and the failures that are only logged.\<close>

definition ignore :: "('w, 'a) act \<Rightarrow> ('w, unit) act" where
  "ignore m = bind_act (attempt m) (\<lambda>_. ret_act ())"

definition announce_block :: "'w watches \<Rightarrow> event \<Rightarrow> ('w, unit) act" where
  "announce_block W e =
     (case ev_anchor e of
        None \<Rightarrow> ret_act ()
      | Some anchor \<Rightarrow> ignore (ch_send_block (wa_channels W) (ob_hash anchor)))"

section \<open>The tip worker\<close>

text \<open>
  One tick of \<open>announce_tip_changes\<close>, with the read, the two callbacks and the heartbeat as
  arguments; the flag says whether the last read failed.
\<close>

definition announce_tip ::
  "('w, observed_block) act \<Rightarrow>
   (observed_block \<Rightarrow> observed_block option \<Rightarrow> bool \<Rightarrow> bool \<Rightarrow> ('w, unit) act) \<Rightarrow>
   (string \<Rightarrow> ('w, unit) act) \<Rightarrow> ('w, unit) act \<Rightarrow> 'w watches \<Rightarrow> bool \<Rightarrow> ('w, bool) act" where
  "announce_tip read observe report beat W read_failed =
     bind_act (attempt read) (\<lambda>r.
     case r of
       Inr tip \<Rightarrow>
         bind_act (ask (ch_tip (wa_channels W))) (\<lambda>previous.
         let moved = ob_hash previous \<noteq> ob_hash tip in
         bind_act (observe tip (if moved then Some previous else None) moved read_failed) (\<lambda>_.
         bind_act (ignore beat) (\<lambda>_.
         bind_act (if moved then ignore (ch_send_tip (wa_channels W) tip) else ret_act ()) (\<lambda>_.
         bind_act (ask (wa_block W)) (\<lambda>block.
         bind_act (if block \<noteq> ob_hash tip then ignore (ch_send_block (wa_channels W) (ob_hash tip))
                   else ret_act ()) (\<lambda>_.
         ret_act False))))))
     | Inl e \<Rightarrow>
         bind_act (if read_failed then ret_act () else report (render_error e)) (\<lambda>_. ret_act True))"

text \<open>The tick: true when the shutdown arrived during the wait.\<close>

fun announce_tip_changes ::
  "nat \<Rightarrow> ('w \<times> db \<Rightarrow> bool \<times> ('w \<times> db)) \<Rightarrow> ('w, observed_block) act \<Rightarrow>
   (observed_block \<Rightarrow> observed_block option \<Rightarrow> bool \<Rightarrow> bool \<Rightarrow> ('w, unit) act) \<Rightarrow>
   (string \<Rightarrow> ('w, unit) act) \<Rightarrow> ('w, unit) act \<Rightarrow> 'w watches \<Rightarrow> bool \<Rightarrow> ('w, unit option) act" where
  "announce_tip_changes 0 tick read observe report beat W read_failed = ret_act None"
| "announce_tip_changes (Suc fuel) tick read observe report beat W read_failed =
     bind_act (ask tick) (\<lambda>stopped.
     if stopped then ret_act (Some ())
     else bind_act (announce_tip read observe report beat W read_failed)
            (announce_tip_changes fuel tick read observe report beat W))"

definition observe_tip ::
  "'w enforcer \<Rightarrow> 'w recorder \<Rightarrow> observed_block \<Rightarrow> observed_block option \<Rightarrow> bool \<Rightarrow> bool \<Rightarrow> ('w, unit) act" where
  "observe_tip E R tip previous moved recovered =
     bind_act
       (if moved
        then bind_act (ask (en_clock E)) (\<lambda>now.
             context_act ''recording a polled mainchain tip'' (recorder_tip R tip previous Poll now))
        else ret_act ()) (\<lambda>_.
     ignore (recorder_success R MainchainTip))"

definition report_tip_error :: "'w recorder \<Rightarrow> string \<Rightarrow> ('w, unit) act" where
  "report_tip_error R msg = ignore (recorder_failure R MainchainTip msg 1)"

definition tip_tick :: "'w enforcer \<Rightarrow> 'w recorder \<Rightarrow> ('w, unit) act \<Rightarrow> 'w watches \<Rightarrow> bool \<Rightarrow> ('w, bool) act" where
  "tip_tick E R beat W =
     announce_tip (read_tip (rc_libs R) E) (observe_tip E R) (report_tip_error R) beat W"

definition monitor_tip ::
  "nat \<Rightarrow> ('w \<times> db \<Rightarrow> bool \<times> ('w \<times> db)) \<Rightarrow> 'w enforcer \<Rightarrow> 'w recorder \<Rightarrow> ('w, unit) act \<Rightarrow>
   'w watches \<Rightarrow> ('w, unit option) act" where
  "monitor_tip fuel tick E R beat W =
     announce_tip_changes fuel tick (read_tip (rc_libs R) E) (observe_tip E R) (report_tip_error R)
       beat W False"

section \<open>The BMM auction\<close>

record 'w bmm_source =
  bm_revision :: "('w, string option) act"
  bm_tip :: "('w, observed_block) act"
  bm_requests :: "bytes \<Rightarrow> ('w, up_bmm_request list) act"
  bm_clock :: "'w \<times> db \<Rightarrow> int \<times> ('w \<times> db)"
  bm_instant :: "'w \<times> db \<Rightarrow> int \<times> ('w \<times> db)"

text \<open>The validator names no revision.\<close>

definition enforcer_bmm ::
  "libs \<Rightarrow> 'w enforcer \<Rightarrow> (string \<Rightarrow> ('w, up_bmm_request list) act) \<Rightarrow>
   ('w \<times> db \<Rightarrow> int \<times> ('w \<times> db)) \<Rightarrow> 'w bmm_source" where
  "enforcer_bmm L E get_seen_bmm_requests instant =
     \<lparr> bm_revision = ret_act None, bm_tip = read_tip L E,
       bm_requests = (\<lambda>parent. get_seen_bmm_requests (hex_encode L parent)),
       bm_clock = en_clock E, bm_instant = instant \<rparr>"

definition bmm_consistency :: "snapshot_consistency \<Rightarrow> int \<Rightarrow> int \<Rightarrow> snapshot_consistency" where
  "bmm_consistency sampled now ready_at =
     (if now < ready_at \<and> sampled = TipMatched then UnknownConsistency else sampled)"

text \<open>The attempts that are left, and the number of the next one.\<close>

fun bmm_attempts ::
  "libs \<Rightarrow> 'w bmm_source \<Rightarrow> int \<Rightarrow> nat \<Rightarrow> nat \<Rightarrow> ('w, enforcer_event \<times> snapshot_metadata) act" where
  "bmm_attempts L S started 0 n =
     lift_act (bail ''mainchain tip changed during every BMM snapshot attempt'')"
| "bmm_attempts L S started (Suc left) n =
     bind_act (bm_revision S) (\<lambda>revision_before.
     bind_act (context_act ''reading the mainchain tip before sampling BMM requests'' (bm_tip S)) (\<lambda>before.
     bind_act (context_act ''sampling live BMM requests'' (bm_requests S (ob_hash before))) (\<lambda>response.
     bind_act (context_act ''reading the mainchain tip after sampling BMM requests'' (bm_tip S)) (\<lambda>after.
     bind_act (bm_revision S) (\<lambda>revision_after.
     if ob_hash before = ob_hash after \<and> revision_before = revision_after
     then bind_act (lift_act (with_context ''converting live BMM requests''
                      (convert_bmm_requests L (ob_hash before) response))) (\<lambda>payload.
          bind_act (ask (bm_clock S)) (\<lambda>finished.
          ret_act (payload,
            \<lparr> sm_revision_before = revision_before, sm_revision_after = revision_after,
              sm_started_at = started, sm_finished_at = finished, sm_tip_before = before,
              sm_tip_after = after, sm_consistency = TipMatched, sm_attempts = word_of_nat n \<rparr>)))
     else bmm_attempts L S started left (n + 1))))))"

declare bmm_attempts.simps [simp del]

definition collect_bmm_sample ::
  "libs \<Rightarrow> 'w bmm_source \<Rightarrow> nat \<Rightarrow> ('w, enforcer_event \<times> snapshot_metadata) act" where
  "collect_bmm_sample L S max_attempts =
     bind_act (ask (bm_clock S)) (\<lambda>started. bmm_attempts L S started max_attempts 1)"

definition DEGRADED_AFTER_FAILURES :: u32 where
  "DEGRADED_AFTER_FAILURES = 3"

text \<open>One sample of the worker; the result is the number of consecutive failures.\<close>

definition bmm_pass :: "'w recorder \<Rightarrow> 'w bmm_source \<Rightarrow> string \<Rightarrow> int \<Rightarrow> u32 \<Rightarrow> ('w, u32) act" where
  "bmm_pass R S gid ready_at failures =
     bind_act (attempt (collect_bmm_sample (rc_libs R) S SNAPSHOT_MAX_ATTEMPTS)) (\<lambda>sample.
     case sample of
       Inr (payload, m) \<Rightarrow>
         bind_act (ask (bm_instant S)) (\<lambda>now.
         let m' = m\<lparr> sm_consistency := bmm_consistency (sm_consistency m) now ready_at \<rparr> in
         bind_act (ask (bm_clock S)) (\<lambda>at.
         bind_act (lift_act (envelope at (Some payload) (sm_tip_before m'))) (\<lambda>event.
         bind_act (context_act ''recording a live BMM request snapshot''
                     (record_snapshot_batch R gid [event] Poll m')) (\<lambda>_.
         bind_act (ignore (recorder_success R BmmRequestsWorker)) (\<lambda>_. ret_act 0)))))
     | Inl e \<Rightarrow>
         bind_act (ignore (recorder_failure R BmmRequestsWorker
                     (''live BMM request poll failed: '' @ render_error e) DEGRADED_AFTER_FAILURES)) (\<lambda>_.
         ret_act (saturating_add failures 1)))"

text \<open>What the wait between two samples ended with; the samples' identifiers come from the world.\<close>

datatype bmm_wake = BmmShutdown | BmmTipClosed | BmmAgain

fun monitor_bmm_requests ::
  "nat \<Rightarrow> 'w recorder \<Rightarrow> 'w bmm_source \<Rightarrow> ('w \<times> db \<Rightarrow> string \<times> ('w \<times> db)) \<Rightarrow>
   ('w \<times> db \<Rightarrow> bmm_wake \<times> ('w \<times> db)) \<Rightarrow> int \<Rightarrow> u32 \<Rightarrow> ('w, unit option) act" where
  "monitor_bmm_requests 0 R S fresh wait ready_at failures = ret_act None"
| "monitor_bmm_requests (Suc fuel) R S fresh wait ready_at failures =
     bind_act (ask fresh) (\<lambda>gid.
     bind_act (bmm_pass R S gid ready_at failures) (\<lambda>failures.
     bind_act (ask wait) (\<lambda>wake.
     case wake of
       BmmShutdown \<Rightarrow> ret_act (Some ())
     | BmmTipClosed \<Rightarrow> lift_act (bail ''mainchain tip observer stopped while BMM polling was running'')
     | BmmAgain \<Rightarrow> monitor_bmm_requests fuel R S fresh wait ready_at failures)))"

end
