(* ===== verification/Streams.thy ===== *)
theory Streams
  imports Live
begin

text \<open>
  The worker of one slot's live event stream, from
  \<^verbatim>\<open>src/extractors/enforcer/src/runtime.rs\<close>: the watchdog that fails a stream which
  stays silent while the polled tip advances, the forwarding of one item, and the loop around them.
\<close>

section \<open>The watchdog\<close>

record watchdog =
  wg_live :: u64
  wg_checked :: u64
  wg_stalled :: "observed_block option"
  wg_deadline :: "int option"

definition fresh_watchdog :: watchdog where
  "fresh_watchdog = \<lparr> wg_live = 0, wg_checked = 0, wg_stalled = None, wg_deadline = None \<rparr>"

text \<open>The polled tip changed at the instant \<open>now\<close>.\<close>

definition on_tip :: "int \<Rightarrow> int \<Rightarrow> observed_block \<Rightarrow> watchdog \<Rightarrow> watchdog" where
  "on_tip timeout now tip g =
     (if wg_live g = wg_checked g
      then g\<lparr> wg_stalled := Some tip,
              wg_deadline := (case wg_deadline g of None \<Rightarrow> Some (now + timeout) | Some d \<Rightarrow> Some d),
              wg_checked := wg_live g \<rparr>
      else g\<lparr> wg_stalled := None, wg_deadline := None, wg_checked := wg_live g \<rparr>)"

text \<open>An item was forwarded.\<close>

definition on_item :: "watchdog \<Rightarrow> watchdog" where
  "on_item g = g\<lparr> wg_live := saturating_add (wg_live g) 1, wg_stalled := None, wg_deadline := None \<rparr>"

section \<open>One turn\<close>

datatype stream_exit = ShutdownExit | StoppedExit

text \<open>
  What the two nested select statements resolved to: the worker's own stop flag, the shutdown, a
  change of the tip channel (\<open>None\<close> when its sender is gone), the stall deadline, and an item of
  the stream (\<open>None\<close> when it ended).
\<close>

datatype turn =
    StopTurn
  | ShutdownTurn
  | TipTurn "observed_block option"
  | StallTurn
  | ItemTurn "(rpc_code + up_stream_item) option"

text \<open>The select is told the deadline; the clocks are the monotonic one and the system's.\<close>

record 'w stream_world =
  sw_turn :: "int option \<Rightarrow> 'w \<times> db \<Rightarrow> turn \<times> ('w \<times> db)"
  sw_now :: "'w \<times> db \<Rightarrow> int \<times> ('w \<times> db)"
  sw_clock :: "'w \<times> db \<Rightarrow> int \<times> ('w \<times> db)"

definition forward_item ::
  "libs \<Rightarrow> u8 \<Rightarrow> ('w \<times> db \<Rightarrow> int \<times> ('w \<times> db)) \<Rightarrow> (event \<Rightarrow> ('w, unit) act) \<Rightarrow> up_stream_item \<Rightarrow>
   ('w, unit) act" where
  "forward_item L slot clock forward response =
     bind_act (lift_act (with_context ''converting a live event'' (subscription_event L slot response))) (\<lambda>payload.
     bind_act (lift_act (with_context ''anchoring a live event'' (block_anchor (Some payload)))) (\<lambda>anchor.
     bind_act (ask clock) (\<lambda>now.
     bind_act (lift_act (envelope now (Some payload) anchor)) (\<lambda>event.
     context_act ''forwarding a live event'' (forward event)))))"

definition stall_message :: "libs \<Rightarrow> observed_block \<Rightarrow> string" where
  "stall_message L tip =
     ''event stream delivered no event after the mainchain tip advanced to '' @ hex_encode L (ob_hash tip)"

text \<open>
  One turn: the worker's exit, or the watchdog to continue with. A deadline without a tip would be
  a panic of the source's \<^verbatim>\<open>expect\<close>.
\<close>

definition stream_turn ::
  "libs \<Rightarrow> 'w stream_world \<Rightarrow> u8 \<Rightarrow> int \<Rightarrow> (event \<Rightarrow> ('w, unit) act) \<Rightarrow> watchdog \<Rightarrow> turn \<Rightarrow>
   ('w, stream_exit + watchdog) act" where
  "stream_turn L S slot timeout forward g t =
     (case t of
        StopTurn \<Rightarrow> ret_act (Inl StoppedExit)
      | ShutdownTurn \<Rightarrow> ret_act (Inl ShutdownExit)
      | TipTurn None \<Rightarrow> lift_act (bail ''mainchain tip observer stopped while the sidechain was running'')
      | TipTurn (Some tip) \<Rightarrow>
          bind_act (ask (sw_now S)) (\<lambda>now. ret_act (Inr (on_tip timeout now tip g)))
      | StallTurn \<Rightarrow>
          (case wg_stalled g of
             None \<Rightarrow> lift_act (bail ''panic: a stream stall deadline has an observed tip'')
           | Some tip \<Rightarrow> lift_act (bail (stall_message L tip)))
      | ItemTurn None \<Rightarrow> lift_act (bail ''sidechain event stream ended unexpectedly'')
      | ItemTurn (Some (Inl code)) \<Rightarrow> fail_act (Context ''receiving a live event'' (Status code))
      | ItemTurn (Some (Inr response)) \<Rightarrow>
          bind_act (forward_item L slot (sw_clock S) forward response) (\<lambda>_.
          ret_act (Inr (on_item g))))"

fun forward_stream ::
  "nat \<Rightarrow> libs \<Rightarrow> 'w stream_world \<Rightarrow> u8 \<Rightarrow> int \<Rightarrow> (event \<Rightarrow> ('w, unit) act) \<Rightarrow> watchdog \<Rightarrow>
   ('w, stream_exit option) act" where
  "forward_stream 0 L S slot timeout forward g = ret_act None"
| "forward_stream (Suc fuel) L S slot timeout forward g =
     bind_act (ask (sw_turn S (wg_deadline g))) (\<lambda>t.
     bind_act (stream_turn L S slot timeout forward g t) (\<lambda>r.
     case r of
       Inl exit \<Rightarrow> ret_act (Some exit)
     | Inr g' \<Rightarrow> forward_stream fuel L S slot timeout forward g'))"

text \<open>A live event is announced only after the record holds it.\<close>

definition publish_live :: "'w recorder \<Rightarrow> 'w watches \<Rightarrow> instance_ref \<Rightarrow> event \<Rightarrow> ('w, unit) act" where
  "publish_live R W inst event =
     bind_act (context_act ''recording a live event'' (record_for_instance R event inst)) (\<lambda>_.
     announce_block W event)"

definition monitor_sidechain ::
  "nat \<Rightarrow> 'w recorder \<Rightarrow> 'w watches \<Rightarrow> 'w stream_world \<Rightarrow> instance_ref \<Rightarrow> int \<Rightarrow> ('w, stream_exit option) act" where
  "monitor_sidechain fuel R W S inst timeout =
     forward_stream fuel (rc_libs R) S (ir_sidechain inst) timeout (publish_live R W inst) fresh_watchdog"

section \<open>The watchdog over a history of turns\<close>

text \<open>What the watchdog sees: a polled tip with its instant, or a forwarded item.\<close>

datatype sight = Polled int observed_block | Delivered

fun watch :: "int \<Rightarrow> sight list \<Rightarrow> watchdog \<Rightarrow> watchdog" where
  "watch timeout [] g = g"
| "watch timeout (Polled now tip # ss) g = watch timeout ss (on_tip timeout now tip g)"
| "watch timeout (Delivered # ss) g = watch timeout ss (on_item g)"

lemma watch_append: "watch timeout (ss @ ts) g = watch timeout ts (watch timeout ss g)"
  by (induction timeout ss g rule: watch.induct) auto

text \<open>A deadline always has a tip, so the panic is unreachable.\<close>

definition watchdog_ok :: "watchdog \<Rightarrow> bool" where
  "watchdog_ok g \<longleftrightarrow> (wg_deadline g = None \<longleftrightarrow> wg_stalled g = None)"

lemma watchdog_ok_fresh: "watchdog_ok fresh_watchdog"
  by (simp add: watchdog_ok_def fresh_watchdog_def)

lemma watchdog_ok_tip: "watchdog_ok (on_tip timeout now tip g)"
  by (simp add: watchdog_ok_def on_tip_def split: option.splits)

lemma watchdog_ok_item: "watchdog_ok (on_item g)"
  by (simp add: watchdog_ok_def on_item_def)

lemma watchdog_ok_watch: "watchdog_ok g \<Longrightarrow> watchdog_ok (watch timeout ss g)"
  by (induction timeout ss g rule: watch.induct) (simp_all add: watchdog_ok_tip watchdog_ok_item)

end
