(* ===== verification/Announcements.thy ===== *)
theory Announcements
  imports Stream_Properties Walk_Returns Recorder_Properties
begin

text \<open>
  Record first, announce second: the blocks and tips that the workers send on their channels are on
  record when they are sent. The order is stated by channels that refuse anything else: the workers
  cannot tell them from the real ones.
\<close>

section \<open>Channels that refuse what is not on record\<close>

definition block_recorded :: "bytes \<Rightarrow> db \<Rightarrow> bool" where
  "block_recorded h d \<longleftrightarrow> (\<exists>e \<in> set (db_events d). er_block_hash e = Some h)"

definition tip_recorded :: "bytes \<Rightarrow> db \<Rightarrow> bool" where
  "tip_recorded h d \<longleftrightarrow> (\<exists>r \<in> set (db_tips d). tp_hash r = h)"

definition strict_blocks :: "'w watches \<Rightarrow> 'w watches" where
  "strict_blocks W = W\<lparr> wa_channels := (wa_channels W)\<lparr> ch_send_block := (\<lambda>h s.
     if block_recorded h (snd s) then ch_send_block (wa_channels W) h s
     else (Inl (Message ''block is not on record''), s)) \<rparr> \<rparr>"

definition strict_tips :: "'w channels \<Rightarrow> 'w channels" where
  "strict_tips H = H\<lparr> ch_send_tip := (\<lambda>b s.
     if tip_recorded (ob_hash b) (snd s) then ch_send_tip H b s
     else (Inl (Message ''tip is not on record''), s)) \<rparr>"

lemma steps_grow: "store_steps L d d' \<Longrightarrow> append_only d d'"
  unfolding store_steps_def
  by (induction rule: rtranclp_induct) (auto intro: grows.step_refl grows.step_trans step_grows)

lemma block_recorded_mono: "append_only d d' \<Longrightarrow> block_recorded h d \<Longrightarrow> block_recorded h d'"
  unfolding block_recorded_def append_only_def using set_mono_prefix by blast

lemma tip_recorded_mono: "append_only d d' \<Longrightarrow> tip_recorded h d \<Longrightarrow> tip_recorded h d'"
  unfolding tip_recorded_def append_only_def using set_mono_prefix by blast

section \<open>What a successful write leaves on record\<close>

lemma record_for_instance_recorded:
  assumes "record_with_method_for_instance L st [event] mth inst d = (Inr n, d')"
    and "ev_anchor event = Some anchor"
  shows "block_recorded (ob_hash anchor) d'"
proof -
  from assms(1) have "record_batch_tx L st [event] mth (Some inst) d = Inr (n, d')"
    by (simp add: record_with_method_for_instance_def record_batch_def res_simps)
  then obtain first d1 where
    "insert_all L st mth None (Some (i16_of_u8 (ir_sidechain inst))) (Some (ir_instance_id inst))
       first [event] d1 = Inr (n, d')"
    by (rule record_batch_txE) auto
  from insert_all_facts [OF this] have "fact_known L st (Some (ir_instance_id inst)) d' event" by simp
  then obtain f m r where f: "facts event = Inr f" "r \<in> set (db_events d')"
    "same_fact (fact_row L st event f (Some (ir_instance_id inst)) JNull m) r"
    unfolding fact_known_def by blast
  have "fc_block_hash f = Some (ob_hash anchor)"
    using f(1) assms(2) by (auto simp: facts_def res_simps split: option.splits monitor_event.splits)
  with f(2,3) show ?thesis unfolding block_recorded_def same_fact_def fact_row_def by auto
qed

lemma record_tip_recorded:
  assumes "record_tip_observation st tip previous mth now d = (Inr u, d')"
  shows "tip_recorded (ob_hash tip) d'"
proof -
  from assms obtain h ph pt first d1 row d2 where steps:
    "row = tip_observation_row st tip h ph pt mth now first" "insert_tip row d1 = Inr ((), d2)"
    "update_extractor_status st tip d2 = Inr (u, d')"
    unfolding record_tip_observation_def run_tx_Inr record_tip_tx_def by (auto simp: res_simps)
  have d2: "d2 = d1\<lparr> db_tips := db_tips d1 @ [row] \<rparr>"
    using steps(2) by (auto simp: insert_tip_def res_simps)
  have "row \<in> set (db_tips d')" "tp_hash row = ob_hash tip"
    using update_extractor_status_Inr [OF steps(3)] d2 steps(1) by (auto simp: tip_observation_row_def)
  then show ?thesis unfolding tip_recorded_def by blast
qed

section \<open>The recorder keeps to the store\<close>

lemma acts_ignore: "acts (store_steps L) m \<Longrightarrow> acts (store_steps L) (ignore m)"
  unfolding ignore_def by (intro steps.acts_rules)

lemma acts_recorder_status:
  "acts (store_steps L) (recorder_failure R w err n)" "acts (store_steps L) (recorder_success R w)"
  "acts (store_steps L) (recorder_tip R tip previous mth now)"
  "acts (store_steps L) (recorder_init_workers R ws)" "acts (store_steps L) (recorder_finish R status reason)"
  unfolding recorder_failure_def recorder_success_def recorder_tip_def recorder_init_workers_def
    recorder_finish_def
  by (rule acts_store_op; rule store_step.intros)+

lemma acts_recorder_facts:
  assumes "transport_keeps (store_steps (rc_libs R)) (rc_publisher R)"
  shows "acts (store_steps (rc_libs R)) (recorder_record R e)"
    "acts (store_steps (rc_libs R)) (record_for_instance R e inst)"
    "acts (store_steps (rc_libs R)) (record_snapshot_batch R gid es mth m)"
    "acts (store_steps (rc_libs R)) (recorder_fee_enrichment R src e)"
  unfolding recorder_record_def record_batch_with_method_def record_for_instance_def
    record_snapshot_batch_def recorder_fee_enrichment_def record_with_method_def
    record_with_method_for_instance_def
  by (auto intro!: steps.acts_rules steps.acts_fan_out [OF assms] acts_store_op store_step.batch
      store_step.snapshot store_step.fees)

lemma acts_observe_tip:
  assumes "acts (store_steps L) (ask (en_clock E))"
  shows "acts (store_steps L) (observe_tip E R tip previous moved recovered)"
  unfolding observe_tip_def
  by (intro steps.acts_rules acts_ignore acts_recorder_status assms)

section \<open>The order\<close>

lemma bind_act_cong:
  "(\<And>x t. m s = (Inr x, t) \<Longrightarrow> f x t = g x t) \<Longrightarrow> bind_act m f s = bind_act m g s"
  unfolding bind_act_def by (auto split: prod.split sum.split)

lemma strict_send_block:
  "block_recorded h (snd s) \<Longrightarrow>
     ch_send_block (wa_channels (strict_blocks W)) h s = ch_send_block (wa_channels W) h s"
  by (simp add: strict_blocks_def)

lemma strict_send_tip:
  "tip_recorded (ob_hash b) (snd s) \<Longrightarrow> ch_send_tip (strict_tips H) b s = ch_send_tip H b s"
  by (simp add: strict_tips_def)

lemma strict_tips_sel [simp]: "ch_tip (strict_tips H) = ch_tip H" "ch_send_block (strict_tips H) = ch_send_block H"
  by (simp_all add: strict_tips_def)

lemma watches_update [simp]:
  "wa_channels (W\<lparr> wa_channels := H \<rparr>) = H" "wa_block (W\<lparr> wa_channels := H \<rparr>) = wa_block W"
  by simp_all

lemma live_event_announced:
  assumes "transport_keeps (store_steps (rc_libs R)) (rc_publisher R)"
  shows "publish_live R (strict_blocks W) inst event s = publish_live R W inst event s"
  unfolding publish_live_def
proof (rule bind_act_cong)
  fix x t assume "context_act ''recording a live event'' (record_for_instance R event inst) s = (Inr x, t)"
  then have "record_for_instance R event inst s = (Inr x, t)" by (simp add: context_act_Inr)
  then obtain n d where rec: "record_with_method_for_instance (rc_libs R) (rc_store R) [event] Live inst (snd s)
      = (Inr n, d)" and out: "fan_out_events R [event] (fst s, d) = (Inr x, t)"
    unfolding record_for_instance_def bind_act_Inr context_act_Inr on_db_iff by blast
  from steps_grow [OF actsD [OF steps.acts_fan_out [OF assms] out]] have grow: "append_only d (snd t)" by simp
  show "announce_block (strict_blocks W) event t = announce_block W event t"
  proof (cases "ev_anchor event")
    case (Some anchor)
    from block_recorded_mono [OF grow record_for_instance_recorded [OF rec Some]]
    show ?thesis by (simp add: announce_block_def Some ignore_def bind_act_def attempt_def strict_send_block)
  qed (simp add: announce_block_def)
qed

lemma observed_tip_recorded:
  assumes "observe_tip E R tip previous True recovered s = (Inr x, t)"
  shows "tip_recorded (ob_hash tip) (snd t)"
proof -
  from assms obtain now s1 u s2 where
    rec: "recorder_tip R tip previous Poll now s1 = (Inr u, s2)"
    and rest: "ignore (recorder_success R MainchainTip) s2 = (Inr x, t)"
    unfolding observe_tip_def if_True bind_act_Inr context_act_Inr by blast
  from rec obtain d where "record_tip_observation (rc_store R) tip previous Poll now (snd s1) = (Inr u, d)"
      "s2 = (fst s1, d)"
    unfolding recorder_tip_def on_db_iff by blast
  then have "tip_recorded (ob_hash tip) (snd s2)" by (simp add: record_tip_recorded)
  with tip_recorded_mono [OF steps_grow [OF actsD [OF acts_ignore [OF acts_recorder_status(2)] rest]]]
  show ?thesis .
qed

lemma ticked_tip_announced:
  assumes "acts (store_steps (rc_libs R)) beat"
  shows "tip_tick E R beat (W\<lparr> wa_channels := strict_tips (wa_channels W) \<rparr>) failed s = tip_tick E R beat W failed s"
  unfolding tip_tick_def announce_tip_def
proof (rule bind_act_cong, goal_cases)
  case (1 r s1)
  show ?case
  proof (cases r)
    case (Inr tip)
    show ?thesis unfolding Inr sum.case watches_update strict_tips_sel Let_def
  proof (intro bind_act_cong, goal_cases)
    case (1 previous s2 u s3 v s4)
    show ?case
    proof (cases "ob_hash previous \<noteq> ob_hash tip")
      case True
      with 1(2) have "tip_recorded (ob_hash tip) (snd s3)" by (simp add: observed_tip_recorded)
      with tip_recorded_mono [OF steps_grow [OF actsD [OF acts_ignore [OF assms] 1(3)]]]
      have "tip_recorded (ob_hash tip) (snd s4)" .
      then show ?thesis
        by (simp add: ignore_def bind_act_def attempt_def strict_send_tip)
    qed simp
  qed
  qed simp
qed

lemma reconciled_tip_announced:
  assumes "\<And>h. acts (store_steps (rc_libs R)) (ch_send_block H h)"
  shows "reconcile_tip E R (strict_tips H) s = reconcile_tip E R H s"
  unfolding reconcile_tip_def Let_def
proof (rule bind_act_cong, goal_cases)
  case (1 r s1)
  show ?case
  proof (cases r)
    case (Inr payload)
    show ?thesis unfolding Inr sum.case strict_tips_sel
  proof (intro bind_act_cong, goal_cases)
    case (1 tip s2 prior s3)
    have "(if tip = prior then ret_act ()
        else bind_act (ask (en_clock E)) (\<lambda>now. bind_act (recorder_tip R tip (Some prior) Poll now) (\<lambda>_.
             bind_act (ch_send_block H (ob_hash tip)) (\<lambda>_. ch_send_tip (strict_tips H) tip)))) s3
      = (if tip = prior then ret_act ()
        else bind_act (ask (en_clock E)) (\<lambda>now. bind_act (recorder_tip R tip (Some prior) Poll now) (\<lambda>_.
             bind_act (ch_send_block H (ob_hash tip)) (\<lambda>_. ch_send_tip H tip)))) s3"
    proof (cases "tip = prior")
      case False
      show ?thesis unfolding if_not_P [OF False]
    proof (intro bind_act_cong, goal_cases)
      case (1 now s4 u s5 v s6)
      from 1(2) obtain d where "record_tip_observation (rc_store R) tip (Some prior) Poll now (snd s4) = (Inr u, d)"
          "s5 = (fst s4, d)"
        unfolding recorder_tip_def on_db_iff by blast
      then have "tip_recorded (ob_hash tip) (snd s5)" by (simp add: record_tip_recorded)
      with tip_recorded_mono [OF steps_grow [OF actsD [OF assms 1(3)]]] show ?case
        by (simp add: strict_send_tip)
    qed
    qed simp
    then show ?case by (simp add: bind_act_def)
  qed
  qed simp
qed

text \<open>C12: What the live workers announce is already on record: a slot's live event is sent on the
  block channel only after its fact is in the record, and the tip poll and the mainchain worker send
  a new tip only after its observation is. Channels that refuse anything not on record change
  nothing, so a reader woken by an announcement always finds what it announces.\<close>

theorem announcements_follow_the_record:
  assumes "transport_keeps (store_steps (rc_libs R)) (rc_publisher R)"
    and "acts (store_steps (rc_libs R)) beat"
    and "\<And>h. acts (store_steps (rc_libs R)) (ch_send_block (wa_channels W) h)"
  shows "publish_live R (strict_blocks W) inst event s = publish_live R W inst event s \<and>
    tip_tick E R beat (W\<lparr> wa_channels := strict_tips (wa_channels W) \<rparr>) failed s = tip_tick E R beat W failed s \<and>
    reconcile_tip E R (strict_tips (wa_channels W)) s = reconcile_tip E R (wa_channels W) s"
  using live_event_announced [OF assms(1)] ticked_tip_announced [OF assms(2)]
    reconciled_tip_announced [OF assms(3)] by blast

text \<open>Channels that count what was sent, on the record that holds one live block.\<close>

definition counting_watches :: "nat watches" where
  "counting_watches = \<lparr>
     wa_channels = \<lparr> ch_tip = (\<lambda>s. (sample_block 1, s)),
       ch_send_block = (\<lambda>h s. (Inr (), (fst s + 1, snd s))),
       ch_send_tip = (\<lambda>b s. (Inr (), (fst s + 10, snd s))) \<rparr>,
     wa_block = (\<lambda>s. (sample_hash 1, s)) \<rparr>"

definition counting_recorder :: "nat recorder" where
  "counting_recorder = \<lparr> rc_libs = sample_libs, rc_store = sample_store,
     rc_publisher = \<lparr> pb_connected = (\<lambda>s. (False, s)), pb_client = (\<lambda>_ _. fail_act Transport),
       pb_flush = fail_act Transport, pb_expired = (\<lambda>s. (False, s)), pb_budget = 10 \<rparr>,
     rc_subject = NodeSubject \<rparr>"

definition one_tip :: "nat enforcer" where
  "one_tip = \<lparr> en_chain_tip = ret_act (Some \<lparr>
       uh_block_hash = Some (Some (sample_hex (sample_hash 2))),
       uh_previous = Some (Some (sample_hex (sample_hash 1))), uh_height = 2,
       uh_work = Some (Some (sample_hex (sample_hash 5))), uh_timestamp = 0 \<rparr>),
     en_proposals = ret_act [], en_sidechains = ret_act [], en_ctip = (\<lambda>_. ret_act None),
     en_bundles = (\<lambda>_. ret_act []), en_clock = (\<lambda>s. (5, s)) \<rparr>"

theorem announcements_follow_the_record_witness:
  "fst (snd (tip_tick one_tip counting_recorder (ret_act ())
      (counting_watches\<lparr> wa_channels := strict_tips (wa_channels counting_watches) \<rparr>) False (0, sample_db2))) = 11"
proof -
  have quiet: "transport_keeps (store_steps (rc_libs counting_recorder)) (rc_publisher counting_recorder)"
    unfolding transport_keeps_def counting_recorder_def
    by (simp add: acts_def ask_def fail_act_def store_steps_def)
  have send: "acts (store_steps (rc_libs counting_recorder)) (ch_send_block (wa_channels counting_watches) h)" for h
    by (simp add: acts_def counting_watches_def store_steps_def)
  have run: "fst (snd (tip_tick one_tip counting_recorder (ret_act ()) counting_watches False (0, sample_db2))) = 11"
    by code_simp
  show ?thesis
    using announcements_follow_the_record [OF quiet steps.acts_ret send] run by metis
qed

end
