(* ===== verification/Scheduler.thy ===== *)
theory Scheduler
  imports Live Backfill
begin

text \<open>
  The worker that recovers history behind the live streams, \<^verbatim>\<open>backfill_sidechains\<close> of
  \<^verbatim>\<open>src/extractors/enforcer/src/runtime.rs\<close>: requests for the history of an active
  instance, one pending request per slot, retries deferred by one interval and deduplicated by
  instance, and the reconciliation of a finished pass with the tip it left behind.
\<close>

section \<open>Requests and queues\<close>

record backfill_request =
  bq_instance :: instance_ref
  bq_target :: observed_block

text \<open>
  The ordered maps are the sorted lists of their entries. The sleeping retries are the futures of
  the source, in no particular order.
\<close>

record scheduler =
  sc_open :: bool
  sc_tips_open :: bool
  sc_activations :: "(u8 \<times> instance_ref) list"
  sc_pending :: "(u8 \<times> backfill_request) list"
  sc_deferred :: "string list"
  sc_retries :: "backfill_request list"

definition start_scheduler :: scheduler where
  "start_scheduler = \<lparr> sc_open = True, sc_tips_open = True, sc_activations = [], sc_pending = [],
     sc_deferred = [], sc_retries = [] \<rparr>"

definition request_id :: "backfill_request \<Rightarrow> string" where
  "request_id r = ir_instance_id (bq_instance r)"

definition schedule_backfill_retry :: "backfill_request \<Rightarrow> scheduler \<Rightarrow> scheduler" where
  "schedule_backfill_retry r q =
     (if request_id r \<in> set (sc_deferred q) then q
      else q\<lparr> sc_deferred := request_id r # sc_deferred q, sc_retries := sc_retries q @ [r] \<rparr>)"

fun queue_tip_reconciliations ::
  "(u8 \<times> instance_ref) list \<Rightarrow> observed_block \<Rightarrow> (u8 \<times> backfill_request) list \<Rightarrow> (u8 \<times> backfill_request) list" where
  "queue_tip_reconciliations [] target pending = pending"
| "queue_tip_reconciliations ((slot, inst) # m) target pending =
     queue_tip_reconciliations m target (put slot \<lparr> bq_instance = inst, bq_target = target \<rparr> pending)"

section \<open>Choosing the next request\<close>

text \<open>
  What the select resolved to: a request of the channel (\<open>None\<close> when it is closed), the retry at a
  position of the sleeping ones, or a change of the tip (\<open>None\<close> when its sender is gone).
\<close>

datatype pick =
    PickShutdown
  | PickRequest "backfill_request option"
  | PickRetry nat
  | PickTip "observed_block option"

definition drop_at :: "nat \<Rightarrow> 'a list \<Rightarrow> 'a list" where
  "drop_at n xs = take n xs @ drop (Suc n) xs"

text \<open>
  The head of the loop: it ends the worker, goes round again, or has a request to handle with
  whether it is a deferred retry. Guarded branches of the select that are closed cannot be picked;
  a pick of one goes round.
\<close>

datatype chosen =
    Finished
  | Again scheduler
  | Handle backfill_request bool scheduler

definition finished :: "scheduler \<Rightarrow> bool" where
  "finished q \<longleftrightarrow> \<not> sc_open q \<and> sc_pending q = [] \<and> sc_retries q = []"

definition pick_request :: "pick \<Rightarrow> scheduler \<Rightarrow> chosen" where
  "pick_request p q =
     (case p of
        PickShutdown \<Rightarrow> Finished
      | PickRequest (Some r) \<Rightarrow> if sc_open q then Handle r False q else Again q
      | PickRequest None \<Rightarrow> Again (q\<lparr> sc_open := False \<rparr>)
      | PickRetry n \<Rightarrow>
          if n < length (sc_retries q)
          then Handle (sc_retries q ! n) True (q\<lparr> sc_retries := drop_at n (sc_retries q) \<rparr>)
          else Again q
      | PickTip None \<Rightarrow> Again (q\<lparr> sc_tips_open := False \<rparr>)
      | PickTip (Some target) \<Rightarrow>
          if sc_tips_open q
          then Again (q\<lparr> sc_pending := queue_tip_reconciliations (sc_activations q) target (sc_pending q) \<rparr>)
          else Again q)"

section \<open>One pass\<close>

text \<open>The walk of \<^verbatim>\<open>backfill.rs\<close> for an instance and a target, and the tip read after it.\<close>

record 'w history_world =
  hw_run :: "instance_ref \<Rightarrow> observed_block \<Rightarrow> ('w, outcome option) act"
  hw_tip :: "('w, observed_block) act"

datatype pass_end = WorkerEnds | Settled scheduler | NextTarget observed_block | WalkRunsOn

definition retire :: "instance_ref \<Rightarrow> scheduler \<Rightarrow> scheduler" where
  "retire inst q = q\<lparr> sc_activations := drop_key (ir_sidechain inst) (sc_activations q) \<rparr>"

text \<open>A pass that reached its target: another one follows when the tip has moved on.\<close>

definition after_pass ::
  "'w recorder \<Rightarrow> 'w history_world \<Rightarrow> instance_ref \<Rightarrow> observed_block \<Rightarrow> scheduler \<Rightarrow> ('w, pass_end) act" where
  "after_pass R H inst target q =
     bind_act (context_act ''rechecking active history instance''
       (read_db (current_sidechain_instance_id (rc_store R) (ir_sidechain inst)))) (\<lambda>current.
     if current \<noteq> Some (ir_instance_id inst) then ret_act (Settled (retire inst q))
     else
       bind_act (attempt (hw_tip H)) (\<lambda>tip.
       case tip of
         Inr tip \<Rightarrow> ret_act (if ob_hash tip = ob_hash target then Settled q else NextTarget tip)
       | Inl e \<Rightarrow>
           if retryable_rpc_error e
           then ret_act (Settled (schedule_backfill_retry \<lparr> bq_instance = inst, bq_target = target \<rparr> q))
           else fail_act (Context ''reconciling sidechain history with the tip'' e)))"

definition quarantine_message :: "instance_ref \<Rightarrow> string" where
  "quarantine_message inst = ''slot '' @ show_nat (unat (ir_sidechain inst)) @ '': '' @ HISTORY_CONFLICT"

definition one_pass ::
  "'w recorder \<Rightarrow> 'w history_world \<Rightarrow> instance_ref \<Rightarrow> observed_block \<Rightarrow> scheduler \<Rightarrow> ('w, pass_end) act" where
  "one_pass R H inst target q =
     bind_act (context_act ''backfilling sidechain'' (hw_run H inst target)) (\<lambda>ran.
     case ran of
       None \<Rightarrow> ret_act WalkRunsOn
     | Some (Interrupted t blocks pages) \<Rightarrow> ret_act WorkerEnds
     | Some (SupersededRun t blocks pages) \<Rightarrow> ret_act (Settled (retire inst q))
     | Some (Quarantined t) \<Rightarrow>
         bind_act (recorder_failure R BlockHistory (quarantine_message inst) 1) (\<lambda>_. ret_act (Settled q))
     | Some (Deferred t blocks pages) \<Rightarrow>
         ret_act (Settled (schedule_backfill_retry \<lparr> bq_instance = inst, bq_target = t \<rparr> q))
     | Some (UpToDate t) \<Rightarrow> after_pass R H inst t q
     | Some (Completed t blocks pages) \<Rightarrow> after_pass R H inst t q)"

text \<open>
  The passes of one request, with fuel. The result is \<open>None\<close> when they do not settle within it,
  \<open>Some None\<close> when the worker ends at a shutdown, and the scheduler otherwise.
\<close>

fun reconcile ::
  "nat \<Rightarrow> 'w recorder \<Rightarrow> 'w history_world \<Rightarrow> instance_ref \<Rightarrow> observed_block \<Rightarrow> scheduler \<Rightarrow>
   ('w, scheduler option option) act" where
  "reconcile 0 R H inst target q = ret_act None"
| "reconcile (Suc fuel) R H inst target q =
     bind_act (one_pass R H inst target q) (\<lambda>r.
     case r of
       WorkerEnds \<Rightarrow> ret_act (Some None)
     | WalkRunsOn \<Rightarrow> ret_act None
     | Settled q' \<Rightarrow> ret_act (Some (Some q'))
     | NextTarget tip \<Rightarrow> reconcile fuel R H inst tip q)"

section \<open>Handling a request\<close>

definition undefer :: "bool \<Rightarrow> backfill_request \<Rightarrow> scheduler \<Rightarrow> scheduler" where
  "undefer retry r q =
     (if retry then q\<lparr> sc_deferred := filter (\<lambda>i. i \<noteq> request_id r) (sc_deferred q) \<rparr> else q)"

text \<open>A request of an instance that is not current is dropped, with its activation.\<close>

definition discard :: "backfill_request \<Rightarrow> scheduler \<Rightarrow> scheduler" where
  "discard r q =
     (if map_of (sc_activations q) (ir_sidechain (bq_instance r)) = Some (bq_instance r)
      then retire (bq_instance r) q else q)"

text \<open>A request of the current instance is an activation, and subsumes its own pending request.\<close>

definition accept :: "backfill_request \<Rightarrow> scheduler \<Rightarrow> scheduler" where
  "accept r q =
     (let inst = bq_instance r; slot = ir_sidechain inst in
      q\<lparr> sc_activations := put slot inst (sc_activations q),
         sc_pending := (case map_of (sc_pending q) slot of
            Some queued \<Rightarrow> if bq_instance queued = inst then drop_key slot (sc_pending q) else sc_pending q
          | None \<Rightarrow> sc_pending q) \<rparr>)"

definition handle_request ::
  "nat \<Rightarrow> 'w recorder \<Rightarrow> 'w history_world \<Rightarrow> backfill_request \<Rightarrow> bool \<Rightarrow> scheduler \<Rightarrow>
   ('w, scheduler option option) act" where
  "handle_request fuel R H r retry q =
     (let inst = bq_instance r; q' = undefer retry r q in
      bind_act (context_act ''checking active history instance''
        (read_db (current_sidechain_instance_id (rc_store R) (ir_sidechain inst)))) (\<lambda>current.
      if current \<noteq> Some (ir_instance_id inst) then ret_act (Some (Some (discard r q')))
      else reconcile fuel R H inst (bq_target r) (accept r q')))"

definition scheduler_turn ::
  "nat \<Rightarrow> 'w recorder \<Rightarrow> 'w history_world \<Rightarrow> (scheduler \<Rightarrow> 'w \<times> db \<Rightarrow> pick \<times> ('w \<times> db)) \<Rightarrow> scheduler \<Rightarrow>
   ('w, scheduler option option) act" where
  "scheduler_turn fuel R H select q =
     (if finished q then ret_act (Some None)
      else case sc_pending q of
        (slot, r) # rest \<Rightarrow> handle_request fuel R H r False (q\<lparr> sc_pending := rest \<rparr>)
      | [] \<Rightarrow>
          bind_act (ask (select q)) (\<lambda>p.
          case pick_request p q of
            Finished \<Rightarrow> ret_act (Some None)
          | Again q' \<Rightarrow> ret_act (Some (Some q'))
          | Handle r retry q' \<Rightarrow> handle_request fuel R H r retry q'))"

text \<open>The worker: \<open>turns\<close> bounds the turns, \<open>fuel\<close> the passes of each.\<close>

fun backfill_sidechains ::
  "nat \<Rightarrow> nat \<Rightarrow> 'w recorder \<Rightarrow> 'w history_world \<Rightarrow> (scheduler \<Rightarrow> 'w \<times> db \<Rightarrow> pick \<times> ('w \<times> db)) \<Rightarrow>
   scheduler \<Rightarrow> ('w, unit option) act" where
  "backfill_sidechains 0 fuel R H select q = ret_act None"
| "backfill_sidechains (Suc turns) fuel R H select q =
     bind_act (scheduler_turn fuel R H select q) (\<lambda>r.
     case r of
       None \<Rightarrow> ret_act None
     | Some None \<Rightarrow> ret_act (Some ())
     | Some (Some q') \<Rightarrow> backfill_sidechains turns fuel R H select q')"

end
