(* ===== verification/Scheduler_Properties.thy ===== *)
theory Scheduler_Properties
  imports Scheduler Startup_Properties Announcements
begin

text \<open>
  The scheduler of historical passes: its queues agree with each other, an active instance stays
  known and every tip change asks for it again, and a quarantined scope ends the worker.
\<close>

section \<open>Ordered maps\<close>

definition keyed :: "('a \<Rightarrow> u8) \<Rightarrow> (u8 \<times> 'a) list \<Rightarrow> bool" where
  "keyed key m \<longleftrightarrow> sorted_wrt (<) (map fst m) \<and> (\<forall>(k, v) \<in> set m. key v = k)"

lemma map_of_put: "sorted_wrt (<) (map fst m) \<Longrightarrow> map_of (put k v m) = (map_of m)(k \<mapsto> v)"
proof (induction m)
  case (Cons e m)
  obtain k' v' where e: "e = (k', v')" by (cases e)
  show ?case
  proof (cases "k = k'")
    case False
    with Cons e show ?thesis by (auto simp: fun_eq_iff)
  qed (use e in \<open>auto simp: fun_eq_iff\<close>)
qed simp

lemma put_set: "set (put k v m) \<subseteq> insert (k, v) (set m)"
  by (induction k v m rule: put.induct) auto

lemma keyed_put: "keyed key m \<Longrightarrow> key v = k \<Longrightarrow> keyed key (put k v m)"
  using put_sorted [of m k v] put_set [of k v m] unfolding keyed_def by fast

lemma keyed_drop: "keyed key m \<Longrightarrow> keyed key (drop_key k m)"
  unfolding keyed_def drop_key_def by (auto simp: sorted_wrt_map sorted_wrt_filter)

lemma keyed_tl: "keyed key (e # m) \<Longrightarrow> keyed key m"
  by (simp add: keyed_def)

lemma keyed_Nil: "keyed key []"
  by (simp add: keyed_def)

lemma keyed_map_of: "keyed key m \<Longrightarrow> map_of m k = Some v \<Longrightarrow> key v = k"
  by (auto simp: keyed_def dest!: map_of_SomeD)

section \<open>The queues agree\<close>

definition scheduler_inv :: "scheduler \<Rightarrow> bool" where
  "scheduler_inv q \<longleftrightarrow>
     keyed ir_sidechain (sc_activations q) \<and> keyed (ir_sidechain \<circ> bq_instance) (sc_pending q) \<and>
     distinct (map request_id (sc_retries q)) \<and> set (sc_deferred q) = set (map request_id (sc_retries q))"

lemma start_scheduler_inv: "scheduler_inv start_scheduler"
  by (simp add: scheduler_inv_def start_scheduler_def keyed_Nil)

lemma schedule_retry_inv: "scheduler_inv q \<Longrightarrow> scheduler_inv (schedule_backfill_retry r q)"
  by (auto simp: scheduler_inv_def schedule_backfill_retry_def)

lemma retire_inv: "scheduler_inv q \<Longrightarrow> scheduler_inv (retire inst q)"
  by (simp add: scheduler_inv_def retire_def keyed_drop)

lemma accept_inv: "scheduler_inv q \<Longrightarrow> scheduler_inv (accept r q)"
  unfolding scheduler_inv_def accept_def Let_def
  by (auto intro: keyed_put keyed_drop split: option.splits)

lemma queue_keyed:
  "keyed ir_sidechain m \<Longrightarrow> keyed (ir_sidechain \<circ> bq_instance) pending \<Longrightarrow>
     keyed (ir_sidechain \<circ> bq_instance) (queue_tip_reconciliations m target pending)"
proof (induction m target pending rule: queue_tip_reconciliations.induct)
  case (2 slot inst m target pending)
  from "2.prems"(1) have "keyed ir_sidechain m" "ir_sidechain inst = slot"
    by (auto simp: keyed_def)
  with "2.prems"(2) have "keyed (ir_sidechain \<circ> bq_instance)
      (put slot \<lparr> bq_instance = inst, bq_target = target \<rparr> pending)"
    by (intro keyed_put) (simp_all add: comp_def)
  from "2.IH" [OF \<open>keyed ir_sidechain m\<close> this] show ?case by simp
qed simp

text \<open>The requests a tip change leaves: one per known slot, for the new tip.\<close>

lemma map_of_queue:
  "sorted_wrt (<) (map fst m) \<Longrightarrow> sorted_wrt (<) (map fst pending) \<Longrightarrow>
     map_of (queue_tip_reconciliations m target pending) slot =
       (case map_of m slot of Some inst \<Rightarrow> Some \<lparr> bq_instance = inst, bq_target = target \<rparr>
        | None \<Rightarrow> map_of pending slot)"
proof (induction m target pending rule: queue_tip_reconciliations.induct)
  case (2 slot' inst m target pending)
  have "slot' \<notin> fst ` set m" using "2.prems"(1) by auto
  then have none: "map_of m slot' = None" by (simp add: map_of_eq_None_iff)
  let ?pending = "put slot' \<lparr> bq_instance = inst, bq_target = target \<rparr> pending"
  from "2.IH" [OF _ put_sorted [OF "2.prems"(2)]] "2.prems"(1)
  have "map_of (queue_tip_reconciliations m target ?pending) slot =
      (case map_of m slot of Some inst \<Rightarrow> Some \<lparr> bq_instance = inst, bq_target = target \<rparr>
       | None \<Rightarrow> map_of ?pending slot)" by simp
  with none map_of_put [OF "2.prems"(2)] show ?case by (auto split: option.split)
qed simp

lemma drop_at_ids:
  assumes "distinct (map f xs)" and "n < length xs"
  shows "distinct (map f (drop_at n xs)) \<and> set (map f (drop_at n xs)) = set (map f xs) - {f (xs ! n)}"
proof -
  have xs: "xs = take n xs @ xs ! n # drop (Suc n) xs" by (rule id_take_nth_drop [OF assms(2)])
  from assms(1) have "distinct (map f (take n xs) @ f (xs ! n) # map f (drop (Suc n) xs))"
    by (subst (asm) xs) simp
  moreover have "set (map f xs) = set (map f (take n xs)) \<union> {f (xs ! n)} \<union> set (map f (drop (Suc n) xs))"
    by (subst xs) auto
  ultimately show ?thesis unfolding drop_at_def by auto
qed

text \<open>A retry that woke up is no longer among the sleeping ones; handling it forgets its mark.\<close>

lemma retry_inv:
  assumes "scheduler_inv q" and "n < length (sc_retries q)"
  shows "scheduler_inv (undefer True (sc_retries q ! n) (q\<lparr> sc_retries := drop_at n (sc_retries q) \<rparr>))"
  using assms drop_at_ids [of request_id "sc_retries q" n]
  by (auto simp: scheduler_inv_def undefer_def)

lemma discard_inv: "scheduler_inv q \<Longrightarrow> scheduler_inv (discard r q)"
  by (simp add: discard_def retire_inv)

section \<open>A turn keeps them\<close>

definition pass_ok :: "(scheduler \<Rightarrow> bool) \<Rightarrow> pass_end \<Rightarrow> bool" where
  "pass_ok P r \<longleftrightarrow> (\<forall>q. r = Settled q \<longrightarrow> P q)"

definition turn_ok :: "(scheduler \<Rightarrow> bool) \<Rightarrow> scheduler option option \<Rightarrow> bool" where
  "turn_ok P r \<longleftrightarrow> (\<forall>q. r = Some (Some q) \<longrightarrow> P q)"

lemma pass_ok_simps [simp]:
  "pass_ok P (Settled q) \<longleftrightarrow> P q" "pass_ok P WorkerEnds" "pass_ok P WalkRunsOn" "pass_ok P (NextTarget t)"
  by (simp_all add: pass_ok_def)

lemma turn_ok_simps [simp]:
  "turn_ok P (Some (Some q)) \<longleftrightarrow> P q" "turn_ok P (Some None)" "turn_ok P None"
  by (simp_all add: turn_ok_def)

lemma after_pass_inv:
  "scheduler_inv q \<Longrightarrow> triple (\<lambda>_. True) (after_pass R H inst target q) (\<lambda>r _. pass_ok scheduler_inv r)"
  unfolding after_pass_def
  by (auto intro!: triple_bind [OF triple_any] triple_ret triple_fail retire_inv schedule_retry_inv
      split: sum.split)

lemma one_pass_inv:
  "scheduler_inv q \<Longrightarrow> triple (\<lambda>_. True) (one_pass R H inst target q) (\<lambda>r _. pass_ok scheduler_inv r)"
  unfolding one_pass_def
  by (auto intro!: triple_bind [OF triple_any] triple_ret after_pass_inv retire_inv schedule_retry_inv
      split: option.split outcome.split)

lemma reconcile_inv:
  "scheduler_inv q \<Longrightarrow> triple (\<lambda>_. True) (reconcile fuel R H inst target q) (\<lambda>r _. turn_ok scheduler_inv r)"
proof (induction fuel arbitrary: target)
  case 0
  show ?case by (auto intro: triple_ret)
next
  case (Suc fuel)
  show ?case unfolding reconcile.simps
    by (rule triple_bind [OF one_pass_inv [OF Suc.prems]])
      (auto intro!: triple_const triple_ret Suc split: pass_end.split)
qed

lemma handle_request_inv:
  "scheduler_inv (undefer retry r q) \<Longrightarrow>
     triple (\<lambda>_. True) (handle_request fuel R H r retry q) (\<lambda>r _. turn_ok scheduler_inv r)"
  unfolding handle_request_def Let_def
  by (auto intro!: triple_bind [OF triple_any] triple_ret reconcile_inv accept_inv discard_inv)

lemma scheduler_turn_inv:
  assumes "scheduler_inv q"
  shows "triple (\<lambda>_. True) (scheduler_turn fuel R H select q) (\<lambda>r _. turn_ok scheduler_inv r)"
proof (cases "sc_pending q")
  case Nil
  have picked: "triple (\<lambda>_. True)
      (case pick_request p q of Finished \<Rightarrow> ret_act (Some None) | Again q' \<Rightarrow> ret_act (Some (Some q'))
       | Handle r retry q' \<Rightarrow> handle_request fuel R H r retry q') (\<lambda>r _. turn_ok scheduler_inv r)" for p
  proof (cases p)
    case (PickRetry n)
    then show ?thesis
      using assms by (auto intro!: triple_ret handle_request_inv retry_inv
          simp: pick_request_def)
  next
    case (PickTip target)
    with assms show ?thesis
      by (auto intro!: triple_ret queue_keyed simp: pick_request_def scheduler_inv_def
          split: option.splits)
  qed (use assms in \<open>auto intro!: triple_ret handle_request_inv
        simp: pick_request_def undefer_def scheduler_inv_def split: option.splits\<close>)
  show ?thesis unfolding scheduler_turn_def Nil list.case
    by (auto intro!: triple_ret triple_bind [OF triple_any] picked)
next
  case (Cons e rest)
  obtain slot r where e: "e = (slot, r)" by (cases e)
  have "scheduler_inv (undefer False r (q\<lparr> sc_pending := rest \<rparr>))"
    using assms Cons keyed_tl [of "ir_sidechain \<circ> bq_instance" e rest]
    by (simp add: scheduler_inv_def undefer_def)
  then show ?thesis unfolding scheduler_turn_def Cons list.case e prod.case
    by (auto intro!: triple_ret handle_request_inv)
qed

section \<open>Every reachable scheduler\<close>

definition scheduler_step ::
  "nat \<Rightarrow> 'w recorder \<Rightarrow> 'w history_world \<Rightarrow> (scheduler \<Rightarrow> 'w \<times> db \<Rightarrow> pick \<times> ('w \<times> db)) \<Rightarrow>
   scheduler \<times> 'w st \<Rightarrow> scheduler \<times> 'w st \<Rightarrow> bool" where
  "scheduler_step fuel R H select x y \<longleftrightarrow>
     scheduler_turn fuel R H select (fst x) (snd x) = (Inr (Some (Some (fst y))), snd y)"

lemma scheduler_step_inv: "scheduler_inv (fst x) \<Longrightarrow> scheduler_step fuel R H select x y \<Longrightarrow> scheduler_inv (fst y)"
  using tripleD [OF scheduler_turn_inv] by (fastforce simp: scheduler_step_def)

interpretation scheduler: step_system "\<lambda>x. fst x = start_scheduler" "scheduler_step fuel R H select"
    "\<lambda>x. scheduler_inv (fst x)" for fuel R H select
  by unfold_locales (auto simp: start_scheduler_inv intro: scheduler_step_inv)

text \<open>C7: In every state the historical scheduler reaches, at most one deferred retry sleeps per
  sidechain instance and its mark exists exactly while it sleeps, and the known activations and the
  pending requests are ordered maps with one entry per slot, each filed under its own slot. So a
  slot that keeps failing costs one timer, and a retry that woke can always be deferred again.\<close>

theorem scheduler_queues_agree:
  assumes "(scheduler_step fuel R H select)\<^sup>*\<^sup>* (start_scheduler, s) (q, t)"
  shows "distinct (map request_id (sc_retries q)) \<and>
    set (sc_deferred q) = set (map request_id (sc_retries q)) \<and>
    sorted_wrt (<) (map fst (sc_activations q)) \<and> (\<forall>(slot, inst) \<in> set (sc_activations q). ir_sidechain inst = slot) \<and>
    sorted_wrt (<) (map fst (sc_pending q)) \<and>
    (\<forall>(slot, r) \<in> set (sc_pending q). ir_sidechain (bq_instance r) = slot)"
  using scheduler.reachable_inv [OF assms] by (simp add: scheduler_inv_def keyed_def)

text \<open>Two requests of one instance, deferred one after the other.\<close>

definition sample_instance :: instance_ref where
  "sample_instance = InstanceRef 7 ''7:1:2:ab'' 2"

definition deferring_world :: "unit history_world" where
  "deferring_world = \<lparr> hw_run = (\<lambda>i t. ret_act (Some (Deferred t 0 0))), hw_tip = ret_act (sample_block 2) \<rparr>"

definition sample_request :: backfill_request where
  "sample_request = \<lparr> bq_instance = sample_instance, bq_target = sample_block 2 \<rparr>"

definition active_db :: db where
  "active_db = empty_db\<lparr> db_current := [\<lparr> cu_dataset = ''ds'', cu_sidechain = 7,
     cu_instance = ''7:1:2:ab'', cu_at = 0 \<rparr>] \<rparr>"

definition asking :: "scheduler \<Rightarrow> unit st \<Rightarrow> pick \<times> unit st" where
  "asking q s = (PickRequest (Some sample_request), s)"

definition deferred_once :: scheduler where
  "deferred_once = start_scheduler\<lparr> sc_activations := [(7, sample_instance)],
     sc_deferred := [''7:1:2:ab''], sc_retries := [sample_request] \<rparr>"

lemma sample_turns:
  "scheduler_turn 1 sample_recorder deferring_world asking start_scheduler ((), active_db)
     = (Inr (Some (Some deferred_once)), ((), active_db))"
  "scheduler_turn 1 sample_recorder deferring_world asking deferred_once ((), active_db)
     = (Inr (Some (Some deferred_once)), ((), active_db))"
  by (simp_all add: scheduler_turn_def finished_def start_scheduler_def asking_def pick_request_def
      deferred_once_def bind_act_def ask_def handle_request_def Let_def undefer_def context_act_def
      read_db_def current_sidechain_instance_id_def current_sidechain_instance_def sample_recorder_def
      active_db_def sample_request_def sample_instance_def sample_store_def i16_of_u8_def accept_def
      ret_act_def reconcile.simps one_pass_def deferring_world_def schedule_backfill_retry_def
      request_id_def)

theorem scheduler_queues_agree_witness:
  "distinct (map request_id (sc_retries deferred_once)) \<and> sc_retries deferred_once = [sample_request]"
proof -
  let ?step = "scheduler_step 1 sample_recorder deferring_world asking"
  have "?step (start_scheduler, ((), active_db)) (deferred_once, ((), active_db))"
    "?step (deferred_once, ((), active_db)) (deferred_once, ((), active_db))"
    unfolding scheduler_step_def fst_conv snd_conv by (rule sample_turns)+
  then have "?step\<^sup>*\<^sup>* (start_scheduler, ((), active_db)) (deferred_once, ((), active_db))"
    by (rule rtranclp.rtrancl_into_rtrancl [OF r_into_rtranclp])
  from scheduler_queues_agree [OF this] show ?thesis by (simp add: deferred_once_def)
qed

section \<open>An active instance is not forgotten\<close>

text \<open>
  The instance stays the current one of its slot, whatever the passes and the tip reads do, and no
  pass finds it superseded.
\<close>

definition is_current :: "'w recorder \<Rightarrow> instance_ref \<Rightarrow> 'w st \<Rightarrow> bool" where
  "is_current R inst s \<longleftrightarrow>
     current_sidechain_instance_id (rc_store R) (ir_sidechain inst) (snd s) = Inr (Some (ir_instance_id inst))"

definition stays_active :: "'w recorder \<Rightarrow> 'w history_world \<Rightarrow> instance_ref \<Rightarrow> bool" where
  "stays_active R H inst \<longleftrightarrow>
     (\<forall>target s r t. hw_run H inst target s = (r, t) \<longrightarrow> is_current R inst s \<longrightarrow>
        is_current R inst t \<and> (\<forall>t' b p. r \<noteq> Inr (Some (SupersededRun t' b p)))) \<and>
     (\<forall>s r t. hw_tip H s = (r, t) \<longrightarrow> is_current R inst s \<longrightarrow> is_current R inst t)"

definition knows :: "instance_ref \<Rightarrow> scheduler \<Rightarrow> bool" where
  "knows inst q \<longleftrightarrow> scheduler_inv q \<and> map_of (sc_activations q) (ir_sidechain inst) = Some inst"

lemma schedule_activations [simp]: "sc_activations (schedule_backfill_retry r q) = sc_activations q"
  by (simp add: schedule_backfill_retry_def)

lemma knows_schedule: "knows inst q \<Longrightarrow> knows inst (schedule_backfill_retry r q)"
  by (simp add: knows_def schedule_retry_inv)

lemma knows_accept: "scheduler_inv q \<Longrightarrow> knows (bq_instance r) (accept r q)"
  unfolding knows_def
  by (intro conjI accept_inv) (auto simp: accept_def Let_def scheduler_inv_def keyed_def map_of_put)

lemma read_current:
  "triple (is_current R inst) (context_act msg (read_db (current_sidechain_instance_id (rc_store R) (ir_sidechain inst))))
     (\<lambda>c s. is_current R inst s \<and> c = Some (ir_instance_id inst))"
  by (rule tripleI) (auto simp: context_act_Inr read_db_Inr is_current_def)

lemma after_pass_knows:
  assumes "stays_active R H inst" and "knows inst q"
  shows "triple (is_current R inst) (after_pass R H inst target q)
    (\<lambda>r s. pass_ok (knows inst) r \<and> is_current R inst s)"
  unfolding after_pass_def
proof (rule triple_bind [OF read_current], rule triple_fact, goal_cases)
  case (1 c)
  have tip: "triple (is_current R inst) (attempt (hw_tip H)) (\<lambda>_. is_current R inst)"
    using assms(1) by (auto simp: triple_def attempt_iff stays_active_def)
  show ?case unfolding 1 if_not_P [OF not_not [THEN iffD2, OF refl]]
    by (rule triple_bind [OF tip])
      (auto intro!: triple_ret triple_fail knows_schedule assms(2) split: sum.split)
qed

lemma one_pass_knows:
  assumes "stays_active R H inst" and "knows inst q"
  shows "triple (is_current R inst) (one_pass R H inst target q)
    (\<lambda>r s. pass_ok (knows inst) r \<and> is_current R inst s)"
proof -
  have run: "triple (is_current R inst) (context_act ''backfilling sidechain'' (hw_run H inst target))
      (\<lambda>ran s. is_current R inst s \<and> (\<forall>t b p. ran \<noteq> Some (SupersededRun t b p)))"
  proof (rule tripleI)
    fix s ran t assume "is_current R inst s"
      and "context_act ''backfilling sidechain'' (hw_run H inst target) s = (Inr ran, t)"
    with assms(1) show "is_current R inst t \<and> (\<forall>t b p. ran \<noteq> Some (SupersededRun t b p))"
      unfolding context_act_Inr stays_active_def by blast
  qed
  have failure: "triple (is_current R inst) (recorder_failure R w err n) (\<lambda>_. is_current R inst)" for w err n
  proof (rule tripleI)
    fix s x t assume cur: "is_current R inst s" and "recorder_failure R w err n s = (Inr x, t)"
    then obtain d where "record_worker_failure (rc_store R) w err n (snd s) = (Inr x, d)" "t = (fst s, d)"
      unfolding recorder_failure_def on_db_iff by blast
    then have "health_frame (snd s) (snd t)"
      unfolding record_worker_failure_def run_tx_Inr by (simp add: rel_txD [OF record_worker_failure_frame])
    from health_frameD [OF this] cur show "is_current R inst t"
      by (simp add: is_current_def current_sidechain_instance_id_def current_sidechain_instance_def)
  qed
  show ?thesis unfolding one_pass_def
  proof (rule triple_bind [OF run], rule triple_fact, goal_cases)
    case (1 ran)
    then show ?case
      by (auto intro!: triple_ret triple_bind [OF failure] after_pass_knows [OF assms] knows_schedule
          assms(2) split: option.split outcome.split)
  qed
qed

lemma reconcile_knows:
  assumes "stays_active R H inst" and "knows inst q"
  shows "triple (is_current R inst) (reconcile fuel R H inst target q)
    (\<lambda>r s. turn_ok (knows inst) r \<and> is_current R inst s)"
proof (induction fuel arbitrary: target)
  case 0
  show ?case by (auto intro: triple_ret)
next
  case (Suc fuel)
  have rest: "triple (\<lambda>s. pass_ok (knows inst) r \<and> is_current R inst s)
      (case r of WorkerEnds \<Rightarrow> ret_act (Some None) | Settled q' \<Rightarrow> ret_act (Some (Some q'))
       | NextTarget tip \<Rightarrow> reconcile fuel R H inst tip q | WalkRunsOn \<Rightarrow> ret_act None)
      (\<lambda>r s. turn_ok (knows inst) r \<and> is_current R inst s)" for r
    by (cases r) (auto intro: triple_ret Suc)
  show ?case unfolding reconcile.simps by (rule triple_bind [OF one_pass_knows [OF assms] rest])
qed

text \<open>C8: The history of an active instance is not forgotten: while the record keeps an instance as
  the current one of its slot, handling a request for it, whether it completes, is deferred,
  quarantined or keeps chasing the tip, leaves it among the known activations, and the next tip
  change queues it for that tip, whatever else was queued.\<close>

theorem active_history_is_kept:
  assumes "stays_active R H (bq_instance r)" and "is_current R (bq_instance r) s"
    and "scheduler_inv (undefer retry r q)"
    and "handle_request fuel R H r retry q s = (Inr (Some (Some q')), t)"
  shows "map_of (sc_activations q') (ir_sidechain (bq_instance r)) = Some (bq_instance r) \<and>
    map_of (queue_tip_reconciliations (sc_activations q') tip (sc_pending q')) (ir_sidechain (bq_instance r))
      = Some \<lparr> bq_instance = bq_instance r, bq_target = tip \<rparr> \<and>
    is_current R (bq_instance r) t"
proof -
  let ?inst = "bq_instance r"
  have turn: "triple (is_current R ?inst) (handle_request fuel R H r retry q)
      (\<lambda>r s. turn_ok (knows ?inst) r \<and> is_current R ?inst s)"
    unfolding handle_request_def Let_def
  proof (rule triple_bind [OF read_current], rule triple_fact, goal_cases)
    case (1 c)
    show ?case unfolding 1 if_not_P [OF not_not [THEN iffD2, OF refl]]
      by (rule reconcile_knows [OF assms(1) knows_accept [OF assms(3)]])
  qed
  from tripleD [OF turn assms(4,2)] have q': "knows ?inst q'" "is_current R ?inst t" by simp_all
  then show ?thesis by (simp add: knows_def scheduler_inv_def keyed_def map_of_queue)
qed

theorem active_history_is_kept_witness:
  "map_of (queue_tip_reconciliations (sc_activations deferred_once) (sample_block 3) (sc_pending deferred_once)) 7
     = Some \<lparr> bq_instance = sample_instance, bq_target = sample_block 3 \<rparr>"
proof -
  have stays: "stays_active sample_recorder deferring_world sample_instance"
    by (auto simp: stays_active_def deferring_world_def ret_act_def)
  have current: "is_current sample_recorder sample_instance ((), active_db)"
    by (simp add: is_current_def current_sidechain_instance_id_def current_sidechain_instance_def
        active_db_def sample_recorder_def sample_store_def sample_instance_def i16_of_u8_def)
  have "handle_request 1 sample_recorder deferring_world sample_request False start_scheduler ((), active_db)
      = (Inr (Some (Some deferred_once)), ((), active_db))"
    using sample_turns(1) by (simp add: scheduler_turn_def finished_def start_scheduler_def asking_def
        pick_request_def bind_act_def ask_def)
  from active_history_is_kept [OF _ _ _ this, of "sample_block 3"] stays current start_scheduler_inv
  show ?thesis by (simp add: sample_request_def undefer_def sample_instance_def)
qed

section \<open>A quarantined scope\<close>

text \<open>C23: A quarantined scope ends the worker instead of leaving live capture running: the failure is
  reported for the block-history worker, which startup never gives a status row, so the report is an
  error, nothing is recorded, and the error leaves the scheduler. (The log line promises that live
  capture continues.)\<close>

theorem quarantine_ends_the_scheduler:
  assumes "hw_run H inst target s = (Inr (Some (Quarantined tip)), t)"
    and "\<forall>row \<in> set (db_workers (snd t)). \<not> worker_key (st_run (rc_store R)) BlockHistory row"
  shows "BlockHistory \<notin> set INITIAL_WORKERS \<and>
    reconcile (Suc fuel) R H inst target q s = (Inl (Message ''worker status was not initialized''), t)"
proof -
  have "record_worker_failure (rc_store R) BlockHistory (quarantine_message inst) 1 (snd t)
      = (Inl (Message ''worker status was not initialized''), snd t)"
    using uninitialized_worker_fails [OF assms(2), of 1] by simp
  with assms(1) show ?thesis
    by (simp add: INITIAL_WORKERS_def one_pass_def bind_act_def context_act_def recorder_failure_def on_db_def)
qed

text \<open>The record that startup leaves for the extractor's run.\<close>

definition started_db :: db where
  "started_db = snd (initialize_worker_statuses sample_store INITIAL_WORKERS sample_db1)"

definition quarantined_world :: "unit history_world" where
  "quarantined_world = \<lparr> hw_run = (\<lambda>i t. ret_act (Some (Quarantined t))), hw_tip = ret_act (sample_block 2) \<rparr>"

theorem quarantine_ends_the_scheduler_witness:
  "fst (reconcile 1 sample_recorder quarantined_world sample_instance (sample_block 2) start_scheduler
      ((), started_db)) = Inl (Message ''worker status was not initialized'') \<and>
    length (db_workers started_db) = 4"
proof -
  have rows: "\<forall>row \<in> set (db_workers started_db). \<not> worker_key (st_run sample_store) BlockHistory row"
    "length (db_workers started_db) = 4"
    by code_simp+
  from quarantine_ends_the_scheduler [of quarantined_world sample_instance "sample_block 2" "((), started_db)"
      "sample_block 2" "((), started_db)" sample_recorder 0 start_scheduler] rows
  show ?thesis by (simp add: quarantined_world_def ret_act_def sample_recorder_def)
qed

end
