(* ===== verification/Manager.thy ===== *)
theory Manager
  imports Scheduler Streams
begin

text \<open>
  The manager of the slot workers, \<^verbatim>\<open>monitor_sidechains\<close> of
  \<^verbatim>\<open>src/extractors/enforcer/src/runtime.rs\<close>: it starts one stream worker per active
  instance, stops those the record no longer has, retries activations that failed transiently, and
  queues the history of every instance it starts to observe. Spawning, stopping and aborting a task,
  and the queue of the scheduler, are parameters.
\<close>

section \<open>State and world\<close>

record manager =
  mg_managed :: "(u8 \<times> instance_ref) list"
  mg_deferred :: "string list"
  mg_retries :: "string list"

definition fresh_manager :: manager where
  "fresh_manager = \<lparr> mg_managed = [], mg_deferred = [], mg_retries = [] \<rparr>"

record ('w, 's) manager_world =
  mw_subscribe :: "u8 \<Rightarrow> ('w, 's) act"
  mw_tip :: "('w, observed_block) act"
  mw_spawn :: "instance_ref \<Rightarrow> 's \<Rightarrow> ('w, unit) act"
  mw_stop :: "instance_ref \<Rightarrow> ('w, unit) act"
  mw_abort :: "('w, unit) act"
  mw_enqueue :: "backfill_request \<Rightarrow> ('w, unit) act"

text \<open>How a worker task ended: an exit, an error, or a panic that the join reports.\<close>

datatype joined =
    JoinedExit instance_ref stream_exit
  | JoinedError instance_ref error
  | JoinedPanic error

text \<open>The sleeping retry at a position, and the change (or the end, false) of the state channel.\<close>

datatype mg_pick =
    MgShutdown
  | MgJoined bool joined
  | MgState bool
  | MgRetry nat

section \<open>Activations\<close>

definition prepare_sidechain_activation ::
  "('w, 's) manager_world \<Rightarrow> u8 \<Rightarrow> ('w, 's \<times> observed_block) act" where
  "prepare_sidechain_activation W slot =
     bind_act (context_act ''subscribing to newly active sidechain'' (mw_subscribe W slot)) (\<lambda>stream.
     bind_act (context_act ''anchoring newly active sidechain'' (mw_tip W)) (\<lambda>target.
     ret_act (stream, target)))"

definition schedule_sidechain_activation_retry :: "instance_ref \<Rightarrow> manager \<Rightarrow> manager" where
  "schedule_sidechain_activation_retry inst m =
     (if ir_instance_id inst \<in> set (mg_deferred m) then m
      else m\<lparr> mg_deferred := ir_instance_id inst # mg_deferred m,
              mg_retries := mg_retries m @ [ir_instance_id inst] \<rparr>)"

definition manage :: "instance_ref \<Rightarrow> manager \<Rightarrow> manager" where
  "manage inst m = m\<lparr> mg_managed := put (ir_sidechain inst) inst (mg_managed m) \<rparr>"

definition unmanage :: "u8 \<Rightarrow> manager \<Rightarrow> manager" where
  "unmanage slot m = m\<lparr> mg_managed := drop_key slot (mg_managed m) \<rparr>"

text \<open>The streams opened at startup, each with the instance of its slot.\<close>

fun adopt_streams ::
  "('w, 's) manager_world \<Rightarrow> (u8 \<times> instance_ref) list \<Rightarrow> (u8 \<times> 's) list \<Rightarrow> manager \<Rightarrow> ('w, manager) act" where
  "adopt_streams W instances [] m = ret_act m"
| "adopt_streams W instances ((slot, stream) # streams) m =
     bind_act (lift_act (ok_or ''initial stream has no instance'' (map_of instances slot))) (\<lambda>inst.
     bind_act (mw_spawn W inst stream) (\<lambda>_.
     adopt_streams W instances streams (m\<lparr> mg_managed := put slot inst (mg_managed m) \<rparr>)))"

section \<open>Following the record\<close>

text \<open>The instances the record has current, restricted to the wanted slots, by slot.\<close>

fun by_slot :: "instance_ref list \<Rightarrow> (u8 \<times> instance_ref) list \<Rightarrow> (u8 \<times> instance_ref) list" where
  "by_slot [] m = m"
| "by_slot (i # is) m = by_slot is (put (ir_sidechain i) i m)"

definition wanted :: "bool \<Rightarrow> u8 list \<Rightarrow> instance_ref list \<Rightarrow> (u8 \<times> instance_ref) list" where
  "wanted discover configured is =
     by_slot (filter (\<lambda>i. discover \<or> ir_sidechain i \<in> set configured) is) []"

definition retired :: "(u8 \<times> instance_ref) list \<Rightarrow> manager \<Rightarrow> (u8 \<times> instance_ref) list" where
  "retired active m = filter (\<lambda>(slot, inst). map_of active slot \<noteq> Some inst) (mg_managed m)"

fun stop_retired :: "('w, 's) manager_world \<Rightarrow> (u8 \<times> instance_ref) list \<Rightarrow> manager \<Rightarrow> ('w, manager) act" where
  "stop_retired W [] m = ret_act m"
| "stop_retired W ((slot, inst) # gone) m =
     bind_act (ignore (mw_stop W inst)) (\<lambda>_. stop_retired W gone (unmanage slot m))"

definition additions :: "(u8 \<times> instance_ref) list \<Rightarrow> manager \<Rightarrow> instance_ref list" where
  "additions active m =
     filter (\<lambda>i. map_of (mg_managed m) (ir_sidechain i) = None \<and> ir_instance_id i \<notin> set (mg_deferred m))
       (map snd active)"

fun start_additions :: "('w, 's) manager_world \<Rightarrow> instance_ref list \<Rightarrow> manager \<Rightarrow> ('w, manager) act" where
  "start_additions W [] m = ret_act m"
| "start_additions W (inst # is) m =
     bind_act (attempt (prepare_sidechain_activation W (ir_sidechain inst))) (\<lambda>prepared.
     case prepared of
       Inl e \<Rightarrow>
         if retryable_rpc_error e
         then start_additions W is (schedule_sidechain_activation_retry inst m)
         else fail_act e
     | Inr (stream, target) \<Rightarrow>
         bind_act (mw_spawn W inst stream) (\<lambda>_.
         bind_act (context_act ''queueing a newly active sidechain backfill''
           (mw_enqueue W \<lparr> bq_instance = inst, bq_target = target \<rparr>)) (\<lambda>_.
         start_additions W is (manage inst m))))"

definition follow_record ::
  "store \<Rightarrow> ('w, 's) manager_world \<Rightarrow> bool \<Rightarrow> u8 list \<Rightarrow> manager \<Rightarrow> ('w, manager) act" where
  "follow_record st W discover configured m =
     bind_act (context_act ''reading the durable active sidechain snapshot''
       (read_db (current_sidechain_instances st))) (\<lambda>is.
     let active = wanted discover configured is in
     bind_act (stop_retired W (retired active m) m) (\<lambda>m.
     start_additions W (additions active m) m))"

section \<open>One turn\<close>

text \<open>
  What a joined worker means: the manager goes on to follow the record, goes round again, or fails
  after aborting the others. The flag is whether the shutdown was requested.
\<close>

datatype verdict = Follow manager | Round | Abort error

definition manages :: "manager \<Rightarrow> instance_ref \<Rightarrow> bool" where
  "manages m inst \<longleftrightarrow> map_of (mg_managed m) (ir_sidechain inst) = Some inst"

fun judge_join :: "bool \<Rightarrow> manager \<Rightarrow> joined \<Rightarrow> verdict" where
  "judge_join stopping m (JoinedExit inst StoppedExit) =
     Follow (if manages m inst then unmanage (ir_sidechain inst) m else m)"
| "judge_join stopping m (JoinedExit inst ShutdownExit) =
     (if stopping \<or> \<not> manages m inst then Round
      else Abort (Message ''sidechain event worker stopped unexpectedly''))"
| "judge_join stopping m (JoinedError inst e) = (if manages m inst then Abort e else Round)"
| "judge_join stopping m (JoinedPanic e) = Abort (Context ''joining a sidechain subscription task'' e)"

definition judge_pick :: "manager \<Rightarrow> mg_pick \<Rightarrow> verdict" where
  "judge_pick m p =
     (case p of
        MgShutdown \<Rightarrow> Round
      | MgJoined stopping j \<Rightarrow> judge_join stopping m j
      | MgState True \<Rightarrow> Follow m
      | MgState False \<Rightarrow> Abort (Message ''durable sidechain-state observer stopped unexpectedly'')
      | MgRetry n \<Rightarrow>
          if n < length (mg_retries m)
          then Follow (m\<lparr> mg_deferred := filter (\<lambda>i. i \<noteq> mg_retries m ! n) (mg_deferred m),
                          mg_retries := drop_at n (mg_retries m) \<rparr>)
          else Round)"

text \<open>One turn of the loop; \<open>None\<close> is the end of the manager at the shutdown.\<close>

definition manager_turn ::
  "store \<Rightarrow> ('w, 's) manager_world \<Rightarrow> (manager \<Rightarrow> 'w \<times> db \<Rightarrow> mg_pick \<times> ('w \<times> db)) \<Rightarrow> bool \<Rightarrow> u8 list \<Rightarrow> manager \<Rightarrow>
   ('w, manager option) act" where
  "manager_turn st W select discover configured m =
     bind_act (ask (select m)) (\<lambda>p.
     if p = MgShutdown then bind_act (mw_abort W) (\<lambda>_. ret_act None)
     else case judge_pick m p of
       Round \<Rightarrow> ret_act (Some m)
     | Follow m' \<Rightarrow> bind_act (follow_record st W discover configured m') (\<lambda>m'. ret_act (Some m'))
     | Abort e \<Rightarrow> bind_act (mw_abort W) (\<lambda>_. fail_act e))"

fun manage_sidechains ::
  "nat \<Rightarrow> store \<Rightarrow> ('w, 's) manager_world \<Rightarrow> (manager \<Rightarrow> 'w \<times> db \<Rightarrow> mg_pick \<times> ('w \<times> db)) \<Rightarrow> bool \<Rightarrow> u8 list \<Rightarrow>
   manager \<Rightarrow> ('w, unit option) act" where
  "manage_sidechains 0 st W select discover configured m = ret_act None"
| "manage_sidechains (Suc fuel) st W select discover configured m =
     bind_act (manager_turn st W select discover configured m) (\<lambda>r.
     case r of
       None \<Rightarrow> ret_act (Some ())
     | Some m' \<Rightarrow> manage_sidechains fuel st W select discover configured m')"

definition monitor_sidechains ::
  "nat \<Rightarrow> store \<Rightarrow> ('w, 's) manager_world \<Rightarrow> (manager \<Rightarrow> 'w \<times> db \<Rightarrow> mg_pick \<times> ('w \<times> db)) \<Rightarrow> bool \<Rightarrow> u8 list \<Rightarrow>
   (u8 \<times> 's) list \<Rightarrow> instance_ref list \<Rightarrow> ('w, unit option) act" where
  "monitor_sidechains fuel st W select discover configured streams initial =
     bind_act (adopt_streams W (by_slot initial []) streams fresh_manager) (\<lambda>m.
     manage_sidechains fuel st W select discover configured m)"

end
