(* ===== verification/Manager_Properties.thy ===== *)
theory Manager_Properties
  imports Manager Scheduler_Properties
begin

text \<open>
  The manager of the slot workers: its timers and its workers agree in every state it reaches, and
  after every turn that reads the record the observed instances are the active ones.
\<close>

section \<open>The manager's state\<close>

definition manager_inv :: "manager \<Rightarrow> bool" where
  "manager_inv m \<longleftrightarrow>
     keyed ir_sidechain (mg_managed m) \<and> distinct (mg_retries m) \<and> set (mg_deferred m) = set (mg_retries m)"

lemma fresh_manager_inv: "manager_inv fresh_manager"
  by (simp add: manager_inv_def fresh_manager_def keyed_Nil)

lemma manage_inv: "manager_inv m \<Longrightarrow> manager_inv (manage inst m)"
  by (simp add: manager_inv_def manage_def keyed_put)

lemma unmanage_inv: "manager_inv m \<Longrightarrow> manager_inv (unmanage slot m)"
  by (simp add: manager_inv_def unmanage_def keyed_drop)

lemma activation_retry_inv: "manager_inv m \<Longrightarrow> manager_inv (schedule_sidechain_activation_retry inst m)"
  by (auto simp: manager_inv_def schedule_sidechain_activation_retry_def)

lemma woken_inv:
  assumes "manager_inv m" and "n < length (mg_retries m)"
  shows "manager_inv (m\<lparr> mg_deferred := filter (\<lambda>i. i \<noteq> mg_retries m ! n) (mg_deferred m),
    mg_retries := drop_at n (mg_retries m) \<rparr>)"
  using assms drop_at_ids [of "\<lambda>i. i" "mg_retries m" n] by (auto simp: manager_inv_def)

lemma judge_join_inv: "manager_inv m \<Longrightarrow> judge_join stopping m j = Follow m' \<Longrightarrow> manager_inv m'"
  by (cases "(stopping, m, j)" rule: judge_join.cases) (auto simp: unmanage_inv split: if_splits)

lemma judge_pick_inv: "manager_inv m \<Longrightarrow> judge_pick m p = Follow m' \<Longrightarrow> manager_inv m'"
  by (auto simp: judge_pick_def woken_inv intro: judge_join_inv split: mg_pick.splits bool.splits if_splits)

lemma keyed_by_slot: "keyed ir_sidechain m \<Longrightarrow> keyed ir_sidechain (by_slot is m)"
  by (induction "is" m rule: by_slot.induct) (simp_all add: keyed_put)

lemma keyed_wanted: "keyed ir_sidechain (wanted discover configured is)"
  by (simp add: wanted_def keyed_by_slot keyed_Nil)

lemma adopt_streams_inv:
  "keyed ir_sidechain instances \<Longrightarrow> manager_inv m \<Longrightarrow>
     triple (\<lambda>_. True) (adopt_streams W instances streams m) (\<lambda>m' _. manager_inv m')"
proof (induction W instances streams m rule: adopt_streams.induct)
  case (1 W instances m)
  then show ?case by (auto intro: triple_ret)
next
  case (2 W instances slot stream streams m)
  show ?case unfolding adopt_streams.simps
  proof (rule triple_lift_bind, rule triple_bind [OF triple_any], goal_cases)
    case (1 inst)
    then have "map_of instances slot = Some inst" by (simp add: res_simps)
    with "2.prems" have "manager_inv (m\<lparr> mg_managed := put slot inst (mg_managed m) \<rparr>)"
      by (auto simp: manager_inv_def intro: keyed_put keyed_map_of)
    then show ?case by (rule "2.IH" [OF "2.prems"(1)])
  qed
qed

section \<open>Following the record\<close>

lemma stop_retired_result:
  "triple (\<lambda>_. True) (stop_retired W gone m)
     (\<lambda>m' _. m' = m\<lparr> mg_managed := filter (\<lambda>(k, v). k \<notin> fst ` set gone) (mg_managed m) \<rparr>)"
proof (induction W gone m rule: stop_retired.induct)
  case (2 W slot inst gone m)
  show ?case unfolding stop_retired.simps
    by (rule triple_bind [OF triple_any], rule triple_post [OF "2.IH"])
      (auto simp: unmanage_def drop_key_def case_prod_beta conj_commute intro!: filter_cong)
qed (auto intro: triple_ret)

lemma keyed_slots:
  assumes "keyed ir_sidechain m"
  shows "distinct (map ir_sidechain (map snd m))"
    and "i \<in> set (map snd m) \<longleftrightarrow> map_of m (ir_sidechain i) = Some i"
proof -
  have slots: "map ir_sidechain (map snd m) = map fst m" and sorted: "sorted_wrt (<) (map fst m)"
    using assms by (auto simp: keyed_def)
  from sorted have distinct: "distinct (map fst m)" by (rule strict_sorted_iff [THEN iffD1, THEN conjunct2])
  then show "distinct (map ir_sidechain (map snd m))" unfolding slots .
  show "i \<in> set (map snd m) \<longleftrightarrow> map_of m (ir_sidechain i) = Some i"
    using assms distinct by (force simp: keyed_def map_of_eq_Some_iff image_iff)
qed

definition started :: "instance_ref list \<Rightarrow> manager \<Rightarrow> manager \<Rightarrow> bool" where
  "started is m m' \<longleftrightarrow>
     manager_inv m' \<and> set (mg_deferred m) \<subseteq> set (mg_deferred m') \<and>
     (\<forall>slot. slot \<notin> ir_sidechain ` set is \<longrightarrow> map_of (mg_managed m') slot = map_of (mg_managed m) slot) \<and>
     (\<forall>i \<in> set is. map_of (mg_managed m') (ir_sidechain i) = Some i \<or>
        map_of (mg_managed m') (ir_sidechain i) = map_of (mg_managed m) (ir_sidechain i) \<and>
        ir_instance_id i \<in> set (mg_deferred m'))"

lemma started_retry:
  assumes "started is (schedule_sidechain_activation_retry inst m) m'"
    and "ir_sidechain inst \<notin> ir_sidechain ` set is"
  shows "started (inst # is) m m'"
proof -
  have "mg_managed (schedule_sidechain_activation_retry inst m) = mg_managed m"
    "insert (ir_instance_id inst) (set (mg_deferred m)) = set (mg_deferred (schedule_sidechain_activation_retry inst m))"
    by (auto simp: schedule_sidechain_activation_retry_def)
  with assms show ?thesis unfolding started_def by auto
qed

lemma started_manage:
  assumes "started is (manage inst m) m'" and "manager_inv m"
    and "ir_sidechain inst \<notin> ir_sidechain ` set is"
  shows "started (inst # is) m m'"
proof -
  have "map_of (mg_managed (manage inst m)) = (map_of (mg_managed m))(ir_sidechain inst \<mapsto> inst)"
    "mg_deferred (manage inst m) = mg_deferred m"
    using assms(2) by (simp_all add: manage_def manager_inv_def keyed_def map_of_put)
  moreover from assms(3) have "i \<in> set is \<Longrightarrow> ir_sidechain i \<noteq> ir_sidechain inst" for i
    by (metis imageI)
  ultimately show ?thesis using assms(1,3) unfolding started_def by (simp add: image_iff)
qed

lemma start_additions_started:
  "manager_inv m \<Longrightarrow> distinct (map ir_sidechain is) \<Longrightarrow>
     triple (\<lambda>_. True) (start_additions W is m) (\<lambda>m' _. started is m m')"
proof (induction "is" arbitrary: m)
  case Nil
  then show ?case by (auto simp: started_def intro: triple_ret)
next
  case (Cons inst "is")
  let ?retry = "schedule_sidechain_activation_retry inst m"
  have rest: "triple (\<lambda>_. True) (start_additions W is ?retry) (\<lambda>m' _. started (inst # is) m m')"
    "triple (\<lambda>_. True) (start_additions W is (manage inst m)) (\<lambda>m' _. started (inst # is) m m')"
    using Cons.prems
    by (auto intro!: triple_post [OF Cons.IH] activation_retry_inv manage_inv
        intro: started_retry started_manage)
  show ?case unfolding start_additions.simps
    by (auto intro!: triple_bind [OF triple_any] triple_fail rest split: sum.split)
qed

text \<open>The observed instances of a manager that has followed the record.\<close>

definition observes :: "(u8 \<times> instance_ref) list \<Rightarrow> manager \<Rightarrow> bool" where
  "observes active m \<longleftrightarrow>
     (\<forall>slot. case map_of active slot of
        None \<Rightarrow> map_of (mg_managed m) slot = None
      | Some inst \<Rightarrow> map_of (mg_managed m) slot = Some inst \<or>
          map_of (mg_managed m) slot = None \<and> ir_instance_id inst \<in> set (mg_retries m))"

lemma started_observes:
  assumes active: "keyed ir_sidechain active" and "manager_inv m"
    and kept: "\<And>slot i. map_of (mg_managed m) slot = Some i \<Longrightarrow> map_of active slot = Some i"
    and ok: "started (additions active m) m m'"
  shows "observes active m'"
  unfolding observes_def
proof
  fix slot
  have mem: "i \<in> set (additions active m) \<longleftrightarrow> map_of active (ir_sidechain i) = Some i \<and>
      map_of (mg_managed m) (ir_sidechain i) = None \<and> ir_instance_id i \<notin> set (mg_deferred m)" for i
    using keyed_slots(2) [OF active, of i] by (simp add: additions_def del: set_map)
  have key: "ir_sidechain i = slot" if "map_of active slot = Some i" for i
    using keyed_map_of [OF active that] .
  have retries: "set (mg_deferred m') = set (mg_retries m')" and more: "set (mg_deferred m) \<subseteq> set (mg_deferred m')"
    and same: "slot \<notin> ir_sidechain ` set (additions active m) \<Longrightarrow>
      map_of (mg_managed m') slot = map_of (mg_managed m) slot"
    and added: "i \<in> set (additions active m) \<Longrightarrow> map_of (mg_managed m') (ir_sidechain i) = Some i \<or>
      map_of (mg_managed m') (ir_sidechain i) = map_of (mg_managed m) (ir_sidechain i) \<and>
      ir_instance_id i \<in> set (mg_deferred m')" for i
    using ok unfolding started_def manager_inv_def by blast+
  have other: "slot \<notin> ir_sidechain ` set (additions active m)"
    if "\<And>i. map_of active slot = Some i \<Longrightarrow> i \<notin> set (additions active m)"
    using that mem by fastforce
  show "case map_of active slot of None \<Rightarrow> map_of (mg_managed m') slot = None
    | Some inst \<Rightarrow> map_of (mg_managed m') slot = Some inst \<or>
        map_of (mg_managed m') slot = None \<and> ir_instance_id inst \<in> set (mg_retries m')"
  proof (cases "map_of active slot")
    case None
    with other same kept [of slot] show ?thesis by (cases "map_of (mg_managed m) slot") auto
  next
    case (Some inst)
    note slot = key [OF Some]
    show ?thesis
    proof (cases "inst \<in> set (additions active m)")
      case True
      with added [OF True] mem slot Some retries show ?thesis by simp
    next
      case False
      with other Some same have now: "map_of (mg_managed m') slot = map_of (mg_managed m) slot" by simp
      show ?thesis
      proof (cases "map_of (mg_managed m) slot")
        case None
        with False mem slot Some more retries now show ?thesis by auto
      next
        case (Some i)
        with kept [OF Some] now \<open>map_of active slot = Some inst\<close> show ?thesis by simp
      qed
    qed
  qed
qed

lemma follow_record_observes:
  assumes "manager_inv m" and "follow_record st W discover configured m s = (Inr m', t)"
  obtains "is" where "current_sidechain_instances st (snd s) = Inr is"
    and "observes (wanted discover configured is) m'" and "manager_inv m'"
proof -
  from assms(2) obtain "is" m1 s1 where "is": "current_sidechain_instances st (snd s) = Inr is"
    and stop: "stop_retired W (retired (wanted discover configured is) m) m s = (Inr m1, s1)"
    and start: "start_additions W (additions (wanted discover configured is) m1) m1 s1 = (Inr m', t)"
    unfolding follow_record_def Let_def bind_act_Inr context_act_Inr read_db_Inr by auto
  let ?active = "wanted discover configured is"
  note active = keyed_slots [OF keyed_wanted [of discover configured "is"]]
  let ?gone = "fst ` set (retired ?active m)"
  have m1: "m1 = m\<lparr> mg_managed := filter (\<lambda>(k, v). k \<notin> ?gone) (mg_managed m) \<rparr>"
    using tripleD [OF stop_retired_result stop] by simp
  from assms(1) have key: "keyed ir_sidechain (mg_managed m)" by (simp add: manager_inv_def)
  then have inv1: "manager_inv m1"
    using assms(1) unfolding m1 manager_inv_def by (auto simp: keyed_def sorted_wrt_map sorted_wrt_filter)
  then have key1: "keyed ir_sidechain (mg_managed m1)" by (simp add: manager_inv_def)
  have kept: "map_of (mg_managed m1) slot = Some i \<Longrightarrow> map_of ?active slot = Some i" for slot i
  proof -
    assume "map_of (mg_managed m1) slot = Some i"
    then have "(slot, i) \<in> set (mg_managed m1)" by (rule map_of_SomeD)
    then have mem: "(slot, i) \<in> set (mg_managed m)" and "slot \<notin> ?gone" by (simp_all add: m1)
    then have "(slot, i) \<notin> set (retired ?active m)" by (metis fst_conv imageI)
    with mem show "map_of ?active slot = Some i" by (simp add: retired_def)
  qed
  have "distinct (map ir_sidechain (additions ?active m1))"
    using active(1) unfolding additions_def by (rule distinct_map_filter)
  from tripleD [OF start_additions_started [OF inv1 this] start]
  have ok: "started (additions ?active m1) m1 m'" by simp
  have "observes ?active m'"
    by (rule started_observes [OF keyed_wanted inv1 kept ok])
  with that "is" ok show thesis by (simp add: started_def)
qed

section \<open>Every turn\<close>

lemma manager_turn_follows:
  assumes "manager_inv m" and "select m s = (p, t)" and "judge_pick m p = Follow m1"
    and "manager_turn st W select discover configured m s = (Inr (Some m'), u)"
  obtains "is" where "current_sidechain_instances st (snd t) = Inr is"
    and "observes (wanted discover configured is) m'" and "manager_inv m'"
proof -
  have "p \<noteq> MgShutdown" using assms(3) by (auto simp: judge_pick_def)
  with assms(2-4) have "follow_record st W discover configured m1 t = (Inr m', u)"
    unfolding manager_turn_def bind_act_Inr by (auto simp: ask_iff act_Inr)
  from follow_record_observes [OF judge_pick_inv [OF assms(1,3)] this] that show thesis .
qed

definition manager_step ::
  "store \<Rightarrow> ('w, 's) manager_world \<Rightarrow> (manager \<Rightarrow> 'w \<times> db \<Rightarrow> mg_pick \<times> ('w \<times> db)) \<Rightarrow> bool \<Rightarrow> u8 list \<Rightarrow>
   manager \<times> 'w st \<Rightarrow> manager \<times> 'w st \<Rightarrow> bool" where
  "manager_step st W select discover configured x y \<longleftrightarrow>
     manager_turn st W select discover configured (fst x) (snd x) = (Inr (Some (fst y)), snd y)"

lemma manager_step_inv:
  assumes "manager_inv (fst x)" and "manager_step st W select discover configured x y"
  shows "manager_inv (fst y)"
proof -
  obtain p t where p: "select (fst x) (snd x) = (p, t)" by (cases "select (fst x) (snd x)")
  note turn = assms(2) [unfolded manager_step_def]
  show ?thesis
  proof (cases "judge_pick (fst x) p")
    case (Follow m1)
    show ?thesis by (rule manager_turn_follows [OF assms(1) p Follow turn])
  qed (use assms(1) turn p in \<open>auto simp: manager_turn_def bind_act_def ask_def act_simps split: if_splits prod.splits sum.splits\<close>)
qed

interpretation manager: step_system "\<lambda>x. fst x = fresh_manager" "manager_step st W select discover configured"
    "\<lambda>x. manager_inv (fst x)" for st W select discover configured
  by unfold_locales (auto simp: fresh_manager_inv intro: manager_step_inv)

text \<open>C9: Observation follows the record: in every state the manager reaches from the streams opened
  at startup, a turn that reads the record leaves exactly the active instances of the wanted slots
  observed. A slot the record has no instance for is not observed, a slot whose instance was
  replaced is not observed under the old one, and an active instance that is not observed has one
  sleeping retry. The snapshot is the one the record held when the turn read it.\<close>

theorem observation_follows_the_record:
  assumes "adopt_streams W (by_slot initial []) streams fresh_manager s0 = (Inr m0, s1)"
    and "(manager_step st W select discover configured)\<^sup>*\<^sup>* (m0, s1) (m, s)"
    and "select m s = (p, t)" and "judge_pick m p = Follow m1"
    and "manager_turn st W select discover configured m s = (Inr (Some m'), u)"
  shows "\<exists>is. current_sidechain_instances st (snd t) = Inr is \<and>
    (\<forall>slot. case map_of (wanted discover configured is) slot of
       None \<Rightarrow> map_of (mg_managed m') slot = None
     | Some inst \<Rightarrow> map_of (mg_managed m') slot = Some inst \<or>
         map_of (mg_managed m') slot = None \<and> ir_instance_id inst \<in> set (mg_retries m')) \<and>
    distinct (mg_retries m')"
proof -
  have "manager_inv m0"
    using tripleD [OF adopt_streams_inv assms(1)] fresh_manager_inv by (simp add: keyed_by_slot keyed_Nil)
  with manager.steps_inv [OF assms(2)] have inv: "manager_inv m" by simp
  obtain "is" where "current_sidechain_instances st (snd t) = Inr is"
    "observes (wanted discover configured is) m'" "manager_inv m'"
    by (rule manager_turn_follows [OF inv assms(3-5)])
  then show ?thesis unfolding observes_def manager_inv_def by (intro exI conjI; (elim conjE)?)
qed

text \<open>A slot whose instance was replaced while its worker ran.\<close>

definition replaced_instance :: instance_ref where
  "replaced_instance = InstanceRef 7 ''7:0:0:cd'' 1"

definition replacing_db :: db where
  "replacing_db = active_db\<lparr> db_instances := [\<lparr> in_dataset = ''ds'', in_id = ''7:1:2:ab'', in_sidechain = 7,
     in_raw_description = [], in_description_sha = [], in_proposal_height = 1, in_activation_height = 2,
     in_first_seen = 0, in_last_seen = 0 \<rparr>] \<rparr>"

definition spawning_world :: "(unit, unit) manager_world" where
  "spawning_world = \<lparr> mw_subscribe = (\<lambda>_. ret_act ()), mw_tip = ret_act (sample_block 2),
     mw_spawn = (\<lambda>_ _. ret_act ()), mw_stop = (\<lambda>_. ret_act ()), mw_abort = ret_act (),
     mw_enqueue = (\<lambda>_. ret_act ()) \<rparr>"

definition state_changed :: "manager \<Rightarrow> unit st \<Rightarrow> mg_pick \<times> unit st" where
  "state_changed m s = (MgState True, s)"

definition managing :: "instance_ref \<Rightarrow> manager" where
  "managing inst = manage inst fresh_manager"

theorem observation_follows_the_record_witness:
  "map_of (mg_managed (managing replaced_instance)) 7 = Some replaced_instance \<and>
   map_of (mg_managed (managing sample_instance)) 7 = Some sample_instance"
proof -
  have adopt: "adopt_streams spawning_world (by_slot [replaced_instance] []) [(7, ())] fresh_manager ((), replacing_db)
      = (Inr (managing replaced_instance), ((), replacing_db))"
    by (simp add: spawning_world_def replaced_instance_def managing_def manage_def fresh_manager_def
        bind_act_def act_simps)
  have snapshot: "current_sidechain_instances sample_store replacing_db = Inr [sample_instance]"
    by code_simp
  have turn: "manager_turn sample_store spawning_world state_changed True [] (managing replaced_instance) ((), replacing_db)
      = (Inr (Some (managing sample_instance)), ((), replacing_db))"
    by (simp add: manager_turn_def state_changed_def judge_pick_def follow_record_def bind_act_def ask_def
        act_simps context_act_def snapshot Let_def wanted_def retired_def additions_def managing_def
        manage_def unmanage_def drop_key_def fresh_manager_def replaced_instance_def sample_instance_def
        ignore_def attempt_def spawning_world_def prepare_sidechain_activation_def)
  have "map_of (wanted True [] [sample_instance]) 7 = Some sample_instance"
    by (simp add: wanted_def sample_instance_def)
  moreover have "mg_retries (managing sample_instance) = []"
    by (simp add: managing_def manage_def fresh_manager_def)
  ultimately show ?thesis
    using observation_follows_the_record [OF adopt rtranclp.rtrancl_refl _ _ turn, of "MgState True"]
    by (simp add: snapshot state_changed_def judge_pick_def managing_def manage_def fresh_manager_def
        replaced_instance_def sample_instance_def split: option.splits)
qed

end
