(* ===== verification/Refresh.thy ===== *)
theory Refresh
  imports Live
begin

text \<open>
  The state worker of \<^verbatim>\<open>src/extractors/enforcer/src/runtime.rs\<close>: it reads the mutable
  state again once per announced block, up to three times while the tip moves, publishes every
  reading, and retries after thirty seconds what failed or stayed unstable.
\<close>

section \<open>One wake\<close>

record refresher =
  rf_tracker :: tracker
  rf_at :: bytes
  rf_failed :: bool

text \<open>The readings of one wake: \<open>left\<close> more may follow the one numbered \<open>n\<close>.\<close>

fun refresh_attempts ::
  "libs \<Rightarrow> ('w, reading) act \<Rightarrow> (observed_block \<Rightarrow> publication \<Rightarrow> snapshot_metadata \<Rightarrow> ('w, unit) act) \<Rightarrow>
   (string option \<Rightarrow> ('w, unit) act) \<Rightarrow> bytes \<Rightarrow> nat \<Rightarrow> nat \<Rightarrow> refresher \<Rightarrow> ('w, refresher) act" where
  "refresh_attempts L read present health block left n r =
     bind_act (attempt (context_act (''refreshing enforcer state at block '' @ hex_encode L block) read)) (\<lambda>got.
     case got of
       Inl e \<Rightarrow>
         bind_act (health (Some (render_error e))) (\<lambda>_. ret_act (r\<lparr> rf_failed := True \<rparr>))
     | Inr reading \<Rightarrow>
         bind_act (health None) (\<lambda>_.
         let m = (rd_metadata reading)\<lparr> sm_attempts := word_of_nat n \<rparr>;
             taken = take_observation (rd_payloads reading) (sm_consistency m) (rf_tracker r) in
         bind_act (lift_act (fst taken)) (\<lambda>publication.
         bind_act (context_act ''publishing refreshed enforcer state''
                     (present (rd_anchor reading) publication m)) (\<lambda>_.
         let r' = \<lparr> rf_tracker = snd taken, rf_at = block, rf_failed = False \<rparr> in
         case (needs_retry (rf_tracker r'), left) of
           (True, Suc left') \<Rightarrow> refresh_attempts L read present health block left' (n + 1) r'
         | _ \<Rightarrow> ret_act r'))))"

declare refresh_attempts.simps [simp del]

definition refresh_wake ::
  "libs \<Rightarrow> ('w, reading) act \<Rightarrow> (observed_block \<Rightarrow> publication \<Rightarrow> snapshot_metadata \<Rightarrow> ('w, unit) act) \<Rightarrow>
   (string option \<Rightarrow> ('w, unit) act) \<Rightarrow> bytes \<Rightarrow> refresher \<Rightarrow> ('w, refresher) act" where
  "refresh_wake L read present health block r =
     (if block = rf_at r \<and> \<not> needs_retry (rf_tracker r) \<and> \<not> rf_failed r then ret_act r
      else refresh_attempts L read present health block (SNAPSHOT_MAX_ATTEMPTS - 1) 1 r)"

text \<open>
  What the wait ended with. The retry timer runs only when \<open>rf_waits\<close> holds, so the world is told.
\<close>

datatype refresh_turn = RefreshShutdown | RefreshClosed | RefreshBlock bytes

definition rf_waits :: "refresher \<Rightarrow> bool" where
  "rf_waits r \<longleftrightarrow> needs_retry (rf_tracker r) \<or> rf_failed r"

fun refresh_on_new_blocks ::
  "nat \<Rightarrow> libs \<Rightarrow> ('w, reading) act \<Rightarrow> (observed_block \<Rightarrow> publication \<Rightarrow> snapshot_metadata \<Rightarrow> ('w, unit) act) \<Rightarrow>
   (string option \<Rightarrow> ('w, unit) act) \<Rightarrow> (bool \<Rightarrow> 'w \<times> db \<Rightarrow> refresh_turn \<times> ('w \<times> db)) \<Rightarrow> refresher \<Rightarrow>
   ('w, unit option) act" where
  "refresh_on_new_blocks 0 L read present health wait r = ret_act None"
| "refresh_on_new_blocks (Suc fuel) L read present health wait r =
     bind_act (ask (wait (rf_waits r))) (\<lambda>t.
     case t of
       RefreshShutdown \<Rightarrow> ret_act (Some ())
     | RefreshClosed \<Rightarrow> ret_act (Some ())
     | RefreshBlock block \<Rightarrow>
         bind_act (refresh_wake L read present health block r)
           (refresh_on_new_blocks fuel L read present health wait))"

section \<open>The worker\<close>

record 'w refresh_world =
  rw_fresh :: "'w \<times> db \<Rightarrow> string \<times> ('w \<times> db)"
  rw_now :: "'w \<times> db \<Rightarrow> (nat \<Rightarrow> int) \<times> ('w \<times> db)"
  rw_bump :: "('w, unit) act"
  rw_wait :: "bool \<Rightarrow> 'w \<times> db \<Rightarrow> refresh_turn \<times> ('w \<times> db)"

text \<open>
  Every payload of a reading is recorded, changed or not, as one snapshot group; the managers of
  the slots are woken only by a change of the active set that was read at one tip.
\<close>

definition publish_state ::
  "'w recorder \<Rightarrow> 'w refresh_world \<Rightarrow> observed_block \<Rightarrow> publication \<Rightarrow> snapshot_metadata \<Rightarrow> ('w, unit) act" where
  "publish_state R W anchor p m =
     bind_act (ask (rw_now W)) (\<lambda>now.
     bind_act (lift_act (collect_res (\<lambda>(i, payload). envelope (now i) (Some payload) anchor)
                 (enumerate 0 (pu_payloads p)))) (\<lambda>events.
     bind_act (ask (rw_fresh W)) (\<lambda>gid.
     bind_act (context_act ''recording refreshed enforcer state'' (record_snapshot_batch R gid events Poll m)) (\<lambda>_.
     if active_sidechains_changed (rc_libs R) p \<and> sm_consistency m = TipMatched
     then rw_bump W else ret_act ()))))"

definition state_health :: "'w recorder \<Rightarrow> string option \<Rightarrow> ('w, unit) act" where
  "state_health R failure =
     (case failure of
        Some err \<Rightarrow> bind_act (recorder_failure R EnforcerState err 1) (\<lambda>_. ret_act ())
      | None \<Rightarrow> recorder_success R EnforcerState)"

definition start_refresher :: "tracker \<Rightarrow> bytes \<Rightarrow> refresher" where
  "start_refresher t snapshot_block = \<lparr> rf_tracker = t, rf_at = snapshot_block, rf_failed = False \<rparr>"

definition monitor_state ::
  "nat \<Rightarrow> 'w enforcer \<Rightarrow> 'w recorder \<Rightarrow> 'w refresh_world \<Rightarrow> u8 list \<Rightarrow> bool \<Rightarrow> tracker \<Rightarrow> bytes \<Rightarrow>
   ('w, unit option) act" where
  "monitor_state fuel E R W sidechains discover t snapshot_block =
     bind_act (recorder_success R EnforcerState) (\<lambda>_.
     refresh_on_new_blocks fuel (rc_libs R) (collect (rc_libs R) E sidechains discover)
       (publish_state R W) (state_health R) (rw_wait W) (start_refresher t snapshot_block))"

end
