(* ===== verification/Polling_Properties.thy ===== *)
theory Polling_Properties
  imports Refresh State_Properties Announcements
begin

text \<open>
  The workers that read the validator again and again: a state refresh is never lost, and a sample
  of the auction is recorded for one parent block or not at all.
\<close>

section \<open>A refresh is never lost\<close>

text \<open>A reading was taken at one tip and is the baseline.\<close>

definition settled_by :: "libs \<Rightarrow> 'w enforcer \<Rightarrow> u8 list \<Rightarrow> bool \<Rightarrow> tracker \<Rightarrow> bool" where
  "settled_by L E sidechains discover t \<longleftrightarrow>
     (\<exists>s u rd. collect L E sidechains discover s = (Inr rd, u) \<and>
        ob_hash (sm_tip_before (rd_metadata rd)) = ob_hash (sm_tip_after (rd_metadata rd)) \<and>
        tk_last t = rd_payloads rd)"

lemma collect_consistency:
  "collect L E sidechains discover s = (Inr rd, t) \<Longrightarrow>
     sm_consistency (rd_metadata rd) =
       (if ob_hash (sm_tip_before (rd_metadata rd)) = ob_hash (sm_tip_after (rd_metadata rd))
        then TipMatched else Changed)"
  unfolding collect_def by (auto simp: act_Inr)

definition refresh_result ::
  "libs \<Rightarrow> 'w enforcer \<Rightarrow> u8 list \<Rightarrow> bool \<Rightarrow> bytes \<Rightarrow> refresher \<Rightarrow> refresher \<Rightarrow> bool" where
  "refresh_result L E sidechains discover block r r' \<longleftrightarrow>
     (tk_last (rf_tracker r') = tk_last (rf_tracker r) \<or> settled_by L E sidechains discover (rf_tracker r')) \<and>
     (rf_waits r' \<or> rf_at r' = block \<and> settled_by L E sidechains discover (rf_tracker r'))"

lemma one_reading_result:
  assumes "collect L E sidechains discover s = (Inr rd, t)"
    and "take_observation (rd_payloads rd) (sm_consistency (rd_metadata rd)) (rf_tracker r) = (Inr p, tracker)"
  shows "refresh_result L E sidechains discover block r \<lparr> rf_tracker = tracker, rf_at = block, rf_failed = False \<rparr>"
proof -
  let ?m = "rd_metadata rd"
  have settled: "settled_by L E sidechains discover tracker"
    if "ob_hash (sm_tip_before ?m) = ob_hash (sm_tip_after ?m)" "tk_last tracker = rd_payloads rd"
    using assms(1) that unfolding settled_by_def by blast
  note consistency = collect_consistency [OF assms(1)] and tracker = take_observation_Inr(3) [OF assms(2)]
  show ?thesis
  proof (cases "ob_hash (sm_tip_before ?m) = ob_hash (sm_tip_after ?m)")
    case True
    with consistency tracker have "tk_last tracker = rd_payloads rd" by simp
    from settled [OF True this] show ?thesis by (simp add: refresh_result_def)
  next
    case False
    with consistency tracker show ?thesis by (simp add: refresh_result_def rf_waits_def needs_retry_def)
  qed
qed

lemma refresh_result_trans:
  "refresh_result L E sidechains discover block r r1 \<Longrightarrow> refresh_result L E sidechains discover block r1 r2 \<Longrightarrow>
     refresh_result L E sidechains discover block r r2"
  unfolding refresh_result_def settled_by_def by metis

lemma refresh_step_result:
  assumes rest: "\<And>l n r. left = Suc l \<Longrightarrow>
    triple (\<lambda>_. True) (refresh_attempts L (collect L E sidechains discover) present health block l n r)
      (\<lambda>r' _. refresh_result L E sidechains discover block r r')"
  shows "triple (\<lambda>_. True) (refresh_attempts L (collect L E sidechains discover) present health block left n r)
    (\<lambda>r' _. refresh_result L E sidechains discover block r r')"
proof -
  let ?read = "\<lambda>rd. \<exists>s t. collect L E sidechains discover s = (Inr rd, t)"
  have read: "triple (\<lambda>_. True) (attempt (context_act msg (collect L E sidechains discover)))
      (\<lambda>got _. \<forall>rd. got = Inr rd \<longrightarrow> ?read rd)" for msg
  proof (rule tripleI, intro allI impI)
    fix s got t rd
    assume "attempt (context_act msg (collect L E sidechains discover)) s = (Inr got, t)" and "got = Inr rd"
    then have "collect L E sidechains discover s = (Inr rd, t)" by (simp only: attempt_iff context_act_Inr)
    then show "?read rd" by (intro exI)
  qed
  show ?thesis
    unfolding refresh_attempts.simps [of _ _ _ _ _ left]
  proof (rule triple_bind [OF read], rule triple_const, goal_cases)
    case (1 got)
    show ?case
    proof (cases got)
      case (Inl e)
      have "refresh_result L E sidechains discover block r (r\<lparr> rf_failed := True \<rparr>)"
        by (simp add: refresh_result_def rf_waits_def)
      then show ?thesis by (auto simp: Inl intro!: triple_bind [OF triple_any] triple_ret)
    next
      case (Inr rd)
      with 1 obtain s t where coll: "collect L E sidechains discover s = (Inr rd, t)" by blast
      show ?thesis unfolding Inr sum.case Let_def
      proof (rule triple_bind [OF triple_any], rule triple_lift_bind, rule triple_bind [OF triple_any], goal_cases)
        case (1 u p v)
        let ?taken = "take_observation (rd_payloads rd)
          (sm_consistency ((rd_metadata rd)\<lparr> sm_attempts := word_of_nat n \<rparr>)) (rf_tracker r)"
        let ?r' = "\<lparr> rf_tracker = snd ?taken, rf_at = block, rf_failed = False \<rparr>"
        have now: "refresh_result L E sidechains discover block r ?r'"
          using 1 by (intro one_reading_result [OF coll, of _ p]) (simp add: prod_eq_iff)
        show ?case
          by (auto intro!: triple_ret triple_post [OF rest] 
              intro: now [simplified] refresh_result_trans [OF now [simplified]]
              split: bool.split nat.split)
      qed
    qed
  qed
qed

lemma refresh_attempts_result:
  "triple (\<lambda>_. True) (refresh_attempts L (collect L E sidechains discover) present health block left n r)
     (\<lambda>r' _. refresh_result L E sidechains discover block r r')"
proof (induction left arbitrary: n r)
  case 0
  show ?case by (rule refresh_step_result) simp
next
  case (Suc left)
  show ?case by (rule refresh_step_result) (use Suc in simp)
qed

text \<open>C10: A refresh is never lost: after a wake for a block, either the thirty-second retry is armed, or
  the block counts as refreshed and the values changes are measured against come from a reading that
  began and ended at one tip (unless nothing was to be done for it). A wake whose reading failed or
  straddled a tip change never replaces those values.\<close>

theorem refresh_is_never_lost:
  assumes "refresh_wake L (collect L E sidechains discover) present health block r s = (Inr r', t)"
  shows "(rf_waits r' \<or> rf_at r' = block \<and> (r' = r \<or> settled_by L E sidechains discover (rf_tracker r'))) \<and>
    (tk_last (rf_tracker r') = tk_last (rf_tracker r) \<or> settled_by L E sidechains discover (rf_tracker r'))"
proof (cases "block = rf_at r \<and> \<not> needs_retry (rf_tracker r) \<and> \<not> rf_failed r")
  case True
  with assms show ?thesis by (simp add: refresh_wake_def act_Inr)
next
  case False
  with assms have "refresh_attempts L (collect L E sidechains discover) present health block
      (SNAPSHOT_MAX_ATTEMPTS - 1) 1 r s = (Inr r', t)"
    by (simp add: refresh_wake_def)
  from tripleD [OF refresh_attempts_result this] show ?thesis by (auto simp: refresh_result_def)
qed

text \<open>A validator with one tip and no sidechains, woken for a new block.\<close>

definition empty_refresher :: refresher where
  "empty_refresher = start_refresher (new_tracker []) (sample_hash 1)"

theorem refresh_is_never_lost_witness:
  "\<exists>r'. fst (refresh_wake sample_libs (collect sample_libs one_tip [] False) (\<lambda>_ _ _. ret_act ()) (\<lambda>_. ret_act ())
      (sample_hash 2) empty_refresher (0, sample_db1)) = Inr r' \<and>
    \<not> rf_waits r' \<and> settled_by sample_libs one_tip [] False (rf_tracker r')"
proof -
  let ?wake = "refresh_wake sample_libs (collect sample_libs one_tip [] False) (\<lambda>_ _ _. ret_act ()) (\<lambda>_. ret_act ())
      (sample_hash 2) empty_refresher (0, sample_db1)"
  have "case fst ?wake of Inl e \<Rightarrow> False | Inr r' \<Rightarrow> \<not> rf_waits r' \<and> rf_at r' \<noteq> rf_at empty_refresher"
    by code_simp
  then obtain r' where r': "fst ?wake = Inr r'" "\<not> rf_waits r'" "r' \<noteq> empty_refresher"
    by (auto split: sum.splits)
  then have "?wake = (Inr r', snd ?wake)" by (simp add: prod_eq_iff)
  from refresh_is_never_lost [OF this] r' show ?thesis by auto
qed

section \<open>The auction of one parent\<close>

text \<open>What a recorded snapshot leaves: its group, and its facts.\<close>

lemma record_snapshot_recorded:
  assumes "record_snapshot L st gid events mth m d = (Inr n, d')" and "events \<noteq> []"
    and "\<forall>event \<in> set events. unscoped_event event"
  obtains g where "db_groups d' = db_groups d @ [g]" "gr_id g = gid"
    "gr_before_hash g = ob_hash (sm_tip_before m)" "gr_after_hash g = ob_hash (sm_tip_after m)"
    "gr_consistency g = consistency_str (sm_consistency m)"
    "i32_of_u32 (sm_attempts m) = Some (gr_attempts g)"
    "\<forall>event \<in> set events. fact_known L st None d' event"
proof -
  from assms(1,2) have "record_snapshot_tx L st gid events mth m d = Inr (n, d')"
    by (simp add: record_snapshot_def run_tx_Inr)
  then obtain g d0 first d1 d2 where
    group: "insert_group g d = Inr ((), d0)" and id: "gr_id g = gid"
    and tips: "gr_before_hash g = ob_hash (sm_tip_before m)" "gr_after_hash g = ob_hash (sm_tip_after m)"
    "gr_consistency g = consistency_str (sm_consistency m)" "i32_of_u32 (sm_attempts m) = Some (gr_attempts g)"
    and reserve: "reserve_capture_sequences (st_run st) (length events) d0 = Inr (first, d1)"
    and insert: "insert_all L st mth (Some gid) None None first events d1 = Inr (n, d2)"
    and status: "update_extractor_status st (sm_tip_after m) d2 = Inr ((), d')"
    unfolding record_snapshot_tx_def snapshot_metadata_ok_def by (auto simp: res_simps)
  have "db_groups d0 = db_groups d @ [g]" using group by (auto simp: insert_group_def res_simps)
  moreover have "db_groups d1 = db_groups d0" using reserve by (auto elim!: reserve_Inr)
  moreover have "db_groups d2 = db_groups d1" by (rule record_frameD(5) [OF rel_txD [OF insert_all_frame insert]])
  moreover from update_extractor_status_Inr [OF status] obtain rows where d': "d' = d2\<lparr> db_status := rows \<rparr>" ..
  ultimately have "db_groups d' = db_groups d @ [g]" by simp
  moreover from insert_all_facts [OF insert] assms(3) have "\<forall>event \<in> set events. fact_known L st None d2 event"
    by blast
  then have "\<forall>event \<in> set events. fact_known L st None d' event" by (simp add: d' fact_known_def)
  ultimately show thesis using id tips by (intro that)
qed

definition one_parent :: "libs \<Rightarrow> nat \<Rightarrow> nat \<Rightarrow> enforcer_event \<times> snapshot_metadata \<Rightarrow> bool" where
  "one_parent L n left sample \<longleftrightarrow>
     (case sample of (payload, m) \<Rightarrow>
        (\<exists>requests. convert_bmm_requests L (ob_hash (sm_tip_before m)) requests = Inr payload) \<and>
        ob_hash (sm_tip_before m) = ob_hash (sm_tip_after m) \<and> sm_consistency m = TipMatched \<and>
        (\<exists>k. n \<le> k \<and> k < n + left \<and> sm_attempts m = word_of_nat k))"

lemma bmm_attempts_sample:
  "triple (\<lambda>_. True) (bmm_attempts L S started left n) (\<lambda>sample _. one_parent L n left sample)"
proof (induction left arbitrary: n)
  case 0
  show ?case by (simp add: bmm_attempts.simps triple_def lift_act_Inr bail_def)
next
  case (Suc left)
  have next_one: "one_parent L n (Suc left) sample" if "one_parent L (n + 1) left sample" for sample
    using that unfolding one_parent_def by (auto intro: Suc_leD)
  have taken: "one_parent L n (Suc left) (payload,
      \<lparr> sm_revision_before = v, sm_revision_after = w, sm_started_at = started, sm_finished_at = finished,
        sm_tip_before = before, sm_tip_after = after, sm_consistency = TipMatched, sm_attempts = word_of_nat n \<rparr>)"
    if "convert_bmm_requests L (ob_hash before) response = Inr payload" "ob_hash before = ob_hash after"
    for payload v w finished before after response
    using that by (auto simp: one_parent_def)
  show ?case unfolding bmm_attempts.simps
  proof (intro triple_bind [OF triple_any], goal_cases)
    case (1 v before response after w)
    show ?case
    proof (cases "ob_hash before = ob_hash after \<and> v = w")
      case True
      show ?thesis unfolding if_P [OF True]
        by (rule triple_lift_bind, rule triple_bind [OF triple_any], rule triple_ret, rule taken)
          (use True in \<open>simp_all add: res_simps\<close>)
    next
      case False
      show ?thesis unfolding if_not_P [OF False] by (rule triple_post [OF Suc.IH next_one])
    qed
  qed
qed

text \<open>A source, and its clocks, that leave the record alone while they are asked.\<close>

definition source_keeps :: "(db \<Rightarrow> db \<Rightarrow> bool) \<Rightarrow> 'w bmm_source \<Rightarrow> bool" where
  "source_keeps R S \<longleftrightarrow> acts R (bm_revision S) \<and> acts R (bm_tip S) \<and> (\<forall>h. acts R (bm_requests S h)) \<and>
     acts R (ask (bm_clock S)) \<and> acts R (ask (bm_instant S))"

context record_relation begin

lemma acts_bmm_attempts: "source_keeps R S \<Longrightarrow> acts R (bmm_attempts L S started left n)"
proof (induction left arbitrary: n)
  case 0
  show ?case by (simp add: bmm_attempts.simps acts_lift)
next
  case (Suc left)
  then show ?case unfolding bmm_attempts.simps
    by (auto intro!: acts_rules simp: source_keeps_def)
qed

lemma acts_bmm_sample: "source_keeps R S \<Longrightarrow> acts R (collect_bmm_sample L S most)"
  unfolding collect_bmm_sample_def by (auto intro!: acts_bind acts_bmm_attempts simp: source_keeps_def)

end

lemma status_ignored_facts:
  assumes "ignore (recorder_failure R w err n) s = (r, t) \<or> ignore (recorder_success R w) s = (r, t)"
  shows "r = Inr ()" "health_frame (snd s) (snd t)"
proof -
  have "health_frame d (snd (record_worker_failure (rc_store R) w err n d))"
    "health_frame d (snd (record_worker_success (rc_store R) w d))" for d
    unfolding record_worker_failure_def record_worker_success_def
    by (intro health.rel_run record_worker_failure_frame record_worker_success_frame)+
  with assms show "health_frame (snd s) (snd t)"
    by (auto simp: ignore_def bind_act_def attempt_def ret_act_def recorder_failure_def recorder_success_def
        on_db_def case_prod_beta)
  show "r = Inr ()"
    using assms by (auto simp: ignore_def bind_act_def attempt_def ret_act_def case_prod_beta)
qed

lemma bmm_pass_failed:
  assumes "source_keeps (=) S" and "bmm_pass R S gid ready_at failures s = (Inr n, t)" and "n \<noteq> 0"
  shows "health_frame (snd s) (snd t)"
proof -
  from assms(2) obtain sample s1 where
    sample: "collect_bmm_sample (rc_libs R) S SNAPSHOT_MAX_ATTEMPTS s = (sample, s1)"
    by (cases "collect_bmm_sample (rc_libs R) S SNAPSHOT_MAX_ATTEMPTS s")
  from actsD [OF same.acts_bmm_sample [OF assms(1)] sample] have s1: "snd s1 = snd s" by simp
  show ?thesis
  proof (cases sample)
    case (Inl e)
    from assms(2) obtain err k u where "ignore (recorder_failure R BmmRequestsWorker err k) s1 = (Inr u, t)"
      unfolding bmm_pass_def bind_act_Inr attempt_iff sample by (auto simp: Inl act_Inr)
    then have "health_frame (snd s1) (snd t)" by (intro status_ignored_facts(2) disjI1)
    with s1 show ?thesis by simp
  next
    case (Inr sampled)
    with assms(2,3) show ?thesis
      unfolding bmm_pass_def bind_act_Inr attempt_iff sample
      by (cases sampled) (auto simp: act_Inr Let_def)
  qed
qed

lemma saturating_add_1: "saturating_add n 1 \<noteq> (0 :: u32)"
  using saturating_add_nat [of n 1] by (auto simp: min_def split: if_splits)

lemma acts_askD: "acts R (ask f) \<Longrightarrow> f s = (x, t) \<Longrightarrow> R (snd s) (snd t)"
  by (rule actsD [of R "ask f" s "Inr x" t]) (simp_all add: ask_def)

text \<open>The group a successful pass adds, and the event it was recorded with.\<close>

definition recorded_auction :: "libs \<Rightarrow> store \<Rightarrow> string \<Rightarrow> db \<Rightarrow> db \<Rightarrow> group_row \<Rightarrow> bool" where
  "recorded_auction L st gid d d' g \<longleftrightarrow>
     db_groups d' = db_groups d @ [g] \<and> gr_id g = gid \<and> gr_before_hash g = gr_after_hash g \<and>
     1 \<le> gr_attempts g \<and> gr_attempts g \<le> 3 \<and>
     (\<exists>event auction. fact_known L st None d' event \<and>
        ev_payload event = Some (Enforcer (Some (BmmRequests auction))) \<and>
        map_option ob_hash (ev_anchor event) = Some (gr_before_hash g) \<and>
        bs_previous_block auction = gr_before_hash g)"

lemma bmm_pass_recorded:
  assumes "source_keeps (=) S" and "quiet (rc_publisher R)"
    and "bmm_pass R S gid ready_at failures s = (Inr 0, t)"
  obtains g where "recorded_auction (rc_libs R) (rc_store R) gid (snd s) (snd t) g"
    and "gr_consistency g = ''tip_matched'' \<longrightarrow> (\<exists>now u v. bm_instant S u = (now, v) \<and> ready_at \<le> now)"
proof -
  obtain sample s1 where
    sample: "collect_bmm_sample (rc_libs R) S SNAPSHOT_MAX_ATTEMPTS s = (sample, s1)"
    by (cases "collect_bmm_sample (rc_libs R) S SNAPSHOT_MAX_ATTEMPTS s")
  from assms(3) obtain payload m where ok: "sample = Inr (payload, m)"
    unfolding bmm_pass_def bind_act_Inr attempt_iff sample
    by (cases sample) (auto simp: act_Inr saturating_add_1 [symmetric])
  let ?m = "\<lambda>now. m\<lparr> sm_consistency := bmm_consistency (sm_consistency m) now ready_at \<rparr>"
  from assms(3) obtain now s2 at s3 event s4 u where
    instant: "bm_instant S s1 = (now, s2)" and clock: "bm_clock S s2 = (at, s3)"
    and event: "envelope at (Some payload) (sm_tip_before m) = Inr event"
    and rec: "record_snapshot_batch R gid [event] Poll (?m now) s3 = (Inr u, s4)"
    and status: "ignore (recorder_success R BmmRequestsWorker) s4 = (Inr (), t)"
    unfolding bmm_pass_def bind_act_Inr attempt_iff sample by (auto simp: ok act_Inr Let_def)
  have "snd s = snd s1" by (rule actsD [OF same.acts_bmm_sample [OF assms(1)] sample])
  moreover have "snd s1 = snd s2" "snd s2 = snd s3"
    using assms(1) acts_askD [where R = "(=)" and f = "bm_instant S", OF _ instant]
      acts_askD [where R = "(=)" and f = "bm_clock S", OF _ clock]
    by (simp_all add: source_keeps_def)
  ultimately have s3: "snd s3 = snd s" by simp
  from rec obtain k d where snap: "record_snapshot (rc_libs R) (rc_store R) gid [event] Poll (?m now) (snd s) = (Inr k, d)"
    and out: "fan_out_events R [event] (fst s3, d) = (Inr u, s4)"
    unfolding record_snapshot_batch_def by (auto simp: act_Inr on_db_iff s3)
  have s4: "snd s4 = d" using actsD [OF quiet_fan_out [OF assms(2)] out] by simp
  have t: "health_frame d (snd t)" using status_ignored_facts(2) [OF disjI2 [OF status]] by (simp add: s4)
  have "one_parent (rc_libs R) 1 3 (payload, m)"
    using sample unfolding collect_bmm_sample_def SNAPSHOT_MAX_ATTEMPTS_def ok bind_act_Inr
    by (auto dest!: tripleD [OF bmm_attempts_sample])
  then obtain requests k where conv: "convert_bmm_requests (rc_libs R) (ob_hash (sm_tip_before m)) requests = Inr payload"
    and tips: "ob_hash (sm_tip_before m) = ob_hash (sm_tip_after m)" and matched: "sm_consistency m = TipMatched"
    and attempts: "1 \<le> k" "k < 4" "sm_attempts m = word_of_nat k"
    by (auto simp: one_parent_def)
  from conv obtain auction where auction: "payload = BmmRequests auction"
    "bs_previous_block auction = ob_hash (sm_tip_before m)"
    by (auto simp: convert_bmm_requests_def require_32_bytes_def bail_def res_simps split: if_splits)
  from event auction have ev: "ev_payload event = Some (Enforcer (Some (BmmRequests auction)))"
    "ev_anchor event = Some (sm_tip_before m)"
    by (auto simp: envelope_def new_event_def state_read_def res_simps split: if_splits)
  then have "unscoped_event event" by (auto simp: unscoped_event_def facts_def res_simps)
  then obtain g where g: "db_groups d = db_groups (snd s) @ [g]" "gr_id g = gid"
    "gr_before_hash g = ob_hash (sm_tip_before m)" "gr_after_hash g = ob_hash (sm_tip_after m)"
    "gr_consistency g = consistency_str (bmm_consistency (sm_consistency m) now ready_at)"
    "i32_of_u32 (sm_attempts m) = Some (gr_attempts g)" "fact_known (rc_libs R) (rc_store R) None d event"
    using record_snapshot_recorded [OF snap] by auto
  have "k \<in> {1, 2, 3}" using attempts(1,2) by auto
  then have "gr_attempts g = int k" using g(6) unfolding attempts(3) i32_of_u32_Some by auto
  moreover have "fact_known (rc_libs R) (rc_store R) None (snd t) event"
    using g(7) by (simp add: fact_known_def health_frameD [OF t])
  ultimately have "recorded_auction (rc_libs R) (rc_store R) gid (snd s) (snd t) g"
    using g(1-4) tips ev auction(2) attempts(1,2) health_frameD(9) [OF t]
    unfolding recorded_auction_def by auto
  moreover have "ready_at \<le> now" if "gr_consistency g = ''tip_matched''"
    using that g(5) matched by (auto simp: bmm_consistency_def split: if_splits)
  then have "gr_consistency g = ''tip_matched'' \<longrightarrow> (\<exists>now u v. bm_instant S u = (now, v) \<and> ready_at \<le> now)"
    using instant by blast
  ultimately show thesis by (rule that)
qed


text \<open>C11: An auction is recorded for one parent block or not at all: a pass that counts as a success adds
  one snapshot group, of one to three attempts, whose tips before and after are the same block, and
  the fact it leaves is an auction of that very parent, marked complete only when the readiness
  window was over; every other pass, whatever the validator answered, leaves the facts, the
  observations and the groups as they were, and only the worker's health changes.\<close>

theorem auction_is_never_fabricated:
  assumes "source_keeps (=) S" and "quiet (rc_publisher R)"
    and "bmm_pass R S gid ready_at failures s = (Inr n, t)"
  shows "if n = 0
    then \<exists>g event auction. db_groups (snd t) = db_groups (snd s) @ [g] \<and> gr_id g = gid \<and>
      gr_before_hash g = gr_after_hash g \<and> 1 \<le> gr_attempts g \<and> gr_attempts g \<le> 3 \<and>
      fact_known (rc_libs R) (rc_store R) None (snd t) event \<and>
      ev_payload event = Some (Enforcer (Some (BmmRequests auction))) \<and>
      map_option ob_hash (ev_anchor event) = Some (gr_before_hash g) \<and>
      bs_previous_block auction = gr_before_hash g \<and>
      (gr_consistency g = ''tip_matched'' \<longrightarrow> (\<exists>now u v. bm_instant S u = (now, v) \<and> ready_at \<le> now))
    else db_events (snd t) = db_events (snd s) \<and> db_observations (snd t) = db_observations (snd s) \<and>
      db_groups (snd t) = db_groups (snd s)"
proof (cases "n = 0")
  case True
  with assms obtain g where "recorded_auction (rc_libs R) (rc_store R) gid (snd s) (snd t) g"
    "gr_consistency g = ''tip_matched'' \<longrightarrow> (\<exists>now u v. bm_instant S u = (now, v) \<and> ready_at \<le> now)"
    by (blast elim: bmm_pass_recorded)
  with True show ?thesis unfolding recorded_auction_def by auto
next
  case False
  with bmm_pass_failed [OF assms(1,3)] show ?thesis by (simp add: health_frameD)
qed

text \<open>A source whose auction is empty.\<close>

definition empty_auction :: "unit bmm_source" where
  "empty_auction = \<lparr> bm_revision = ret_act None, bm_tip = ret_act (sample_block 2),
     bm_requests = (\<lambda>_. ret_act []), bm_clock = (\<lambda>s. (5, s)), bm_instant = (\<lambda>s. (9, s)) \<rparr>"

theorem auction_is_never_fabricated_witness:
  "\<exists>g. db_groups (snd (snd (bmm_pass sample_recorder empty_auction ''g1'' 3 0 ((), sample_db1)))) =
      db_groups sample_db1 @ [g] \<and> gr_before_hash g = gr_after_hash g"
proof -
  let ?pass = "bmm_pass sample_recorder empty_auction ''g1'' 3 0 ((), sample_db1)"
  have source: "source_keeps (=) empty_auction"
    by (simp add: source_keeps_def empty_auction_def acts_def ret_act_def ask_def)
  have "fst ?pass = Inr 0" by code_simp
  then have "?pass = (Inr 0, snd ?pass)" by (simp add: prod_eq_iff)
  from auction_is_never_fabricated [OF source dead_quiet this] show ?thesis by auto
qed

end
