(* ===== verification/Logger.thy ===== *)
theory Logger
  imports Fees Convert
begin

text \<open>
  The consumer of the event stream, \<^verbatim>\<open>src/tools/event-logger\<close>: the checks and the
  summary of one decoded event (\<^verbatim>\<open>format.rs\<close>), the decoding of a received message
  (\<^verbatim>\<open>EventSubscriber\<close> in \<^verbatim>\<open>src/shared/src/nats.rs\<close>) and the loop of
  \<^verbatim>\<open>lib.rs\<close> with its count of what it discarded. A log line is a value; the JSON
  printer of serde is a parameter.
\<close>

section \<open>Checks\<close>

definition must_be_32 :: "bytes \<Rightarrow> string \<Rightarrow> unit res" where
  "must_be_32 v field = ensure (length v = 32) (field @ '' must contain 32 bytes, got '' @ show_nat (length v))"

text \<open>A loop whose body may fail.\<close>

definition each :: "('a \<Rightarrow> unit res) \<Rightarrow> 'a list \<Rightarrow> unit res" where
  "each f xs = map_ok (\<lambda>_. ()) (collect_res f xs)"

definition validate_header :: "block_header \<Rightarrow> unit res" where
  "validate_header h =
     bind_res (must_be_32 (hdr_hash h) ''block_header.hash'') (\<lambda>_.
     bind_res (must_be_32 (hdr_previous h) ''block_header.previous_hash'') (\<lambda>_.
     bind_res (must_be_32 (hdr_block_work h) ''block_header.block_work'') (\<lambda>_.
     if hdr_cumulative_work h \<noteq> []
     then must_be_32 (hdr_cumulative_work h) ''block_header.cumulative_work'' else Inr ())))"

definition validate_bmm_request :: "bmm_request \<Rightarrow> unit res" where
  "validate_bmm_request r =
     bind_res (ensure (\<not> 255 < bmm_sidechain r)
       (''BMM request sidechain '' @ show_nat (unat (bmm_sidechain r)) @ '' is outside 0..=255'')) (\<lambda>_.
     bind_res (must_be_32 (bmm_txid r) ''bmm_request.txid'') (\<lambda>_.
     must_be_32 (bmm_critical r) ''bmm_request.critical_hash''))"

definition validate_bmm_requests :: "bmm_snapshot \<Rightarrow> unit res" where
  "validate_bmm_requests s =
     bind_res (must_be_32 (bs_previous_block s) ''bmm_requests.previous_mainchain_block_hash'') (\<lambda>_.
     each validate_bmm_request (bs_requests s))"

definition validate_declaration :: "declaration_v0 option option \<Rightarrow> unit res" where
  "validate_declaration d =
     (case d of
        None \<Rightarrow> Inr ()
      | Some version \<Rightarrow>
          map_ok (\<lambda>_. ()) (ok_or ''sidechain declaration is missing its concrete version'' version))"

definition validate_proposal :: "libs \<Rightarrow> sidechain_proposal \<Rightarrow> unit res" where
  "validate_proposal L p =
     bind_res (must_be_32 (sp_description_hash p) ''sidechain_proposal.description_hash'') (\<lambda>_.
     bind_res (with_context ''calculating sidechain_proposal.description_hash''
                 (sidechain_description_hash L (sp_raw_description p))) (\<lambda>calculated.
     bind_res (ensure (calculated = sp_description_hash p)
                 ''sidechain proposal description hash does not match its description'') (\<lambda>_.
     validate_declaration (sp_declaration p))))"

definition validate_active_sidechain :: "libs \<Rightarrow> active_sidechain \<Rightarrow> unit res" where
  "validate_active_sidechain L s =
     bind_res (must_be_32 (as_description_hash s) ''active_sidechain.description_hash'') (\<lambda>_.
     bind_res (with_context ''calculating active_sidechain.description_hash''
                 (sidechain_description_hash L (as_raw_description s))) (\<lambda>calculated.
     bind_res (ensure (calculated = as_description_hash s)
                 ''active sidechain description hash does not match its description'') (\<lambda>_.
     validate_declaration (as_declaration s))))"

definition validate_bundle_proposals :: "withdrawal_proposal list \<Rightarrow> unit res" where
  "validate_bundle_proposals ps = each (\<lambda>p. must_be_32 (wp_m6id p) ''withdrawal_bundle_proposal.m6id'') ps"

text \<open>The deposits and the withdrawal bundles of a block.\<close>

fun validate_sidechain_events :: "sidechain_event option list \<Rightarrow> nat \<Rightarrow> nat \<Rightarrow> (nat \<times> nat) res" where
  "validate_sidechain_events [] deposits bundles = Inr (deposits, bundles)"
| "validate_sidechain_events (e # es) deposits bundles =
     bind_res (ok_or ''sidechain event is missing its concrete event'' e) (\<lambda>event.
     case event of
       Deposit d \<Rightarrow>
         bind_res (ok_or ''deposit is missing its outpoint'' (dep_outpoint d)) (\<lambda>outpoint.
         bind_res (must_be_32 (fst outpoint) ''deposit.outpoint.txid'') (\<lambda>_.
         validate_sidechain_events es (deposits + 1) bundles))
     | WithdrawalBundle m6id state \<Rightarrow>
         bind_res (ok_or ''withdrawal bundle is missing its state'' state) (\<lambda>_.
         validate_sidechain_events es deposits (bundles + 1)))"

section \<open>Summaries\<close>

fun network_str_name :: "network \<Rightarrow> string" where
  "network_str_name NetworkUnspecified = ''NETWORK_UNSPECIFIED''"
| "network_str_name NetworkUnknown = ''NETWORK_UNKNOWN''"
| "network_str_name NetworkMainnet = ''NETWORK_MAINNET''"
| "network_str_name NetworkRegtest = ''NETWORK_REGTEST''"
| "network_str_name NetworkSignet = ''NETWORK_SIGNET''"
| "network_str_name NetworkTestnet = ''NETWORK_TESTNET''"

definition ascii_lower :: "char \<Rightarrow> char" where
  "ascii_lower c = (let n = of_char c :: nat in if 65 \<le> n \<and> n \<le> 90 then char_of (n + 32) else c)"

definition show_word :: "'a :: len word \<Rightarrow> string" where
  "show_word v = show_nat (unat v)"

definition show_bool :: "bool \<Rightarrow> string" where
  "show_bool b = (if b then ''true'' else ''false'')"

text \<open>\<open>max().unwrap_or(0)\<close> and \<open>min().unwrap_or(0)\<close>.\<close>

definition max_or_0 :: "'a :: len word list \<Rightarrow> 'a word" where
  "max_or_0 xs = (case xs of [] \<Rightarrow> 0 | x # xs \<Rightarrow> fold max xs x)"

definition min_or_0 :: "'a :: len word list \<Rightarrow> 'a word" where
  "min_or_0 xs = (case xs of [] \<Rightarrow> 0 | x # xs \<Rightarrow> fold min xs x)"

fun summarize :: "libs \<Rightarrow> enforcer_event \<Rightarrow> string res" where
  "summarize L (MainchainTransition t) =
     bind_res (case tr_header t of None \<Rightarrow> Inr () | Some h \<Rightarrow> validate_header h) (\<lambda>_.
     bind_res (case tr_gap_start t of
                 None \<Rightarrow> Inr ()
               | Some gap \<Rightarrow> must_be_32 (br_hash gap) ''mainchain_transition.gap_start.hash'') (\<lambda>_.
     Inr (''action='' @ show_int (tr_action t) @
       (case tr_gap_start t of None \<Rightarrow> [] | Some gap \<Rightarrow> '' gap_start_height='' @ show_word (br_height gap)))))"
| "summarize L (ChainInfo i) =
     bind_res (with_context ''chain info contains an unknown network value''
                 (ok_or ''unknown enumeration value'' (network_try_from (ci_network i)))) (\<lambda>network.
     bind_res (ok_or ''chain info is missing BIP300 constants'' (ci_constants i)) (\<lambda>c.
     Inr (''network='' @ map ascii_lower (network_str_name network) @
       '' raw_network='' @ show_int (ci_raw_network i) @
       '' activation_height='' @ show_word (bc_activation_height c) @
       '' withdrawal_bundle_max_age='' @ show_word (bc_withdrawal_bundle_max_age c))))"
| "summarize L (ChainTip header) =
     bind_res (ok_or ''chain tip is missing its block header'' header) (\<lambda>h.
     bind_res (validate_header h) (\<lambda>_.
     Inr (''height='' @ show_word (hdr_height h) @ '' block_hash='' @ hex_encode L (hdr_hash h))))"
| "summarize L (BmmRequests s) =
     bind_res (validate_bmm_requests s) (\<lambda>_.
     Inr (''parent_hash='' @ hex_encode L (bs_previous_block s) @
       '' request_count='' @ show_nat (length (bs_requests s)) @
       '' max_bid_sats='' @ show_word (max_or_0 (map bmm_bid_sats (bs_requests s)))))"
| "summarize L (SidechainProposals ps) =
     bind_res (each (validate_proposal L) ps) (\<lambda>_. Inr (''proposal_count='' @ show_nat (length ps)))"
| "summarize L (ActiveSidechains ss) =
     bind_res (each (validate_active_sidechain L) ss) (\<lambda>_. Inr (''sidechain_count='' @ show_nat (length ss)))"
| "summarize L (Ctip s) =
     (case cs_ctip s of
        Some c \<Rightarrow>
          bind_res (must_be_32 (ct_txid c) ''ctip.txid'') (\<lambda>_.
          Inr (''sidechain='' @ show_word (cs_sidechain s) @ '' present=true txid='' @ hex_encode L (ct_txid c) @
            '' vout='' @ show_word (ct_vout c) @ '' value_sats='' @ show_word (ct_value_sats c) @
            '' sequence_number='' @ show_word (ct_sequence_number c)))
      | None \<Rightarrow> Inr (''sidechain='' @ show_word (cs_sidechain s) @ '' present=false''))"
| "summarize L (BlockConnected b) =
     bind_res (ok_or ''connected block is missing its block header'' (bcn_header b)) (\<lambda>h.
     bind_res (validate_header h) (\<lambda>_.
     bind_res (validate_sidechain_events (bcn_events b) 0 0) (\<lambda>(deposits, bundles).
     Inr (''sidechain='' @ show_word (bcn_sidechain b) @ '' height='' @ show_word (hdr_height h) @
       '' block_hash='' @ hex_encode L (hdr_hash h) @ '' deposits='' @ show_nat deposits @
       '' withdrawal_bundles='' @ show_nat bundles @
       '' bmm_commitment='' @ show_bool (bcn_commitment b \<noteq> None)))))"
| "summarize L (BlockDisconnected hash slot) =
     bind_res (must_be_32 hash ''block_disconnected.block_hash'') (\<lambda>_.
     Inr (''sidechain='' @ show_word slot @ '' block_hash='' @ hex_encode L hash))"
| "summarize L (WithdrawalBundleProposals slot ps) =
     bind_res (validate_bundle_proposals ps) (\<lambda>_.
     Inr (''sidechain='' @ show_word slot @ '' proposal_count='' @ show_nat (length ps) @
       '' max_vote_count='' @ show_word (max_or_0 (map wp_vote_count ps)) @
       '' oldest_proposal_height='' @ show_word (min_or_0 (map wp_proposal_height ps))))"

section \<open>One event\<close>

record rendered_event =
  re_kind :: string
  re_summary :: string
  re_full_json :: "string option"

definition render_line :: "libs \<Rightarrow> (json \<Rightarrow> string option) \<Rightarrow> event \<Rightarrow> string res" where
  "render_line L print event =
     bind_res (Json.render L event) (\<lambda>v. ok_or ''encoding the event JSON'' (print v))"

definition full_form :: "libs \<Rightarrow> (json \<Rightarrow> string option) \<Rightarrow> bool \<Rightarrow> event \<Rightarrow> string option res" where
  "full_form L print full event = (if full then map_ok Some (render_line L print event) else Inr None)"

definition render_rendered_event :: "libs \<Rightarrow> (json \<Rightarrow> string option) \<Rightarrow> event \<Rightarrow> bool \<Rightarrow> rendered_event res" where
  "render_rendered_event L print event full =
     (case ev_payload event of
        Some (Node node) \<Rightarrow>
          bind_res (ok_or ''missing node payload'' node) (\<lambda>payload.
          bind_res (ok_or ''missing node header'' (node_header payload)) (\<lambda>h.
          bind_res (validate_header h) (\<lambda>_.
          bind_res (full_form L print full event) (\<lambda>json.
          Inr \<lparr> re_kind = node_kind payload,
                re_summary = ''source=node height='' @ show_word (hdr_height h) @ '' hash='' @ hex_encode L (hdr_hash h),
                re_full_json = json \<rparr>))))
      | Some (Enforcer payload) \<Rightarrow>
          bind_res (ok_or ''enforcer event does not contain a concrete event'' payload) (\<lambda>payload.
          bind_res (summarize L payload) (\<lambda>summary.
          bind_res (full_form L print full event) (\<lambda>json.
          Inr \<lparr> re_kind = enforcer_kind payload,
                re_summary = summary @
                  (case (payload, ev_anchor event) of
                     (MainchainTransition _, Some anchor) \<Rightarrow> '' hash='' @ hex_encode L (ob_hash anchor)
                   | _ \<Rightarrow> []),
                re_full_json = json \<rparr>)))
      | None \<Rightarrow> bail ''event envelope does not contain a monitor event'')"

section \<open>The loop\<close>

datatype received = Decoded event | Invalid nat

definition received_event :: "libs \<Rightarrow> bytes option \<Rightarrow> received res" where
  "received_event L message =
     bind_res (ok_or ''NATS subscription ended'' message) (\<lambda>payload.
     Inr (case decode_event L payload of Some e \<Rightarrow> Decoded e | None \<Rightarrow> Invalid (length payload)))"

datatype log_line =
    DiscardedMessage u64 nat
  | DiscardedEvent u64 string
  | EventLine u64 string string
  | PayloadLine u64 string string
  | Unconfirmed string

record logger_state =
  ls_invalid :: u64
  ls_beats :: nat
  ls_log :: "log_line list"

definition log_lines :: "log_line list \<Rightarrow> logger_state \<Rightarrow> logger_state" where
  "log_lines lines s = s\<lparr> ls_log := ls_log s @ lines \<rparr>"

definition beat_once :: "logger_state \<Rightarrow> logger_state" where
  "beat_once s = s\<lparr> ls_beats := ls_beats s + 1 \<rparr>"

definition discard_one :: "logger_state \<Rightarrow> logger_state" where
  "discard_one s = s\<lparr> ls_invalid := saturating_add (ls_invalid s) 1 \<rparr>"

definition render_event ::
  "libs \<Rightarrow> (json \<Rightarrow> string option) \<Rightarrow> bool \<Rightarrow> event \<Rightarrow> logger_state \<Rightarrow> rendered_event option \<times> logger_state" where
  "render_event L print full event s =
     (case render_rendered_event L print event full of
        Inr rendered \<Rightarrow> (Some rendered, s)
      | Inl e \<Rightarrow>
          let s = discard_one s in (None, log_lines [DiscardedEvent (ls_invalid s) (render_error e)] s))"

definition handle_received ::
  "libs \<Rightarrow> (json \<Rightarrow> string option) \<Rightarrow> bool \<Rightarrow> received \<Rightarrow> logger_state \<Rightarrow> logger_state" where
  "handle_received L print full r s =
     (case r of
        Invalid len \<Rightarrow> (let s = discard_one s in log_lines [DiscardedMessage (ls_invalid s) len] s)
      | Decoded event \<Rightarrow>
          (case render_event L print full event s of
             (None, s) \<Rightarrow> s
           | (Some rendered, s) \<Rightarrow>
               log_lines (EventLine (ev_timestamp event) (re_kind rendered) (re_summary rendered) #
                    (case re_full_json rendered of
                       None \<Rightarrow> []
                     | Some json \<Rightarrow> [PayloadLine (ev_timestamp event) (re_kind rendered) json])) s))"

text \<open>What the select resolved to: the shutdown, the timer with its round trip, or the subscriber.\<close>

datatype logger_input = LoggerShutdown | LoggerTimer "unit res" | LoggerMessage "bytes option"

text \<open>
  The loop over its inputs: the result is \<open>None\<close> while it still runs, and closing the subscription
  is the last argument.
\<close>

fun logger_loop ::
  "libs \<Rightarrow> (json \<Rightarrow> string option) \<Rightarrow> bool \<Rightarrow> unit res \<Rightarrow> logger_input list \<Rightarrow> logger_state \<Rightarrow>
   unit res option \<times> logger_state" where
  "logger_loop L print full closed [] s = (None, s)"
| "logger_loop L print full closed (LoggerShutdown # inputs) s =
     (Some (with_context ''closing the event subscriber'' closed), s)"
| "logger_loop L print full closed (LoggerTimer confirmed # inputs) s =
     logger_loop L print full closed inputs
       (case confirmed of Inr _ \<Rightarrow> beat_once s | Inl e \<Rightarrow> log_lines [Unconfirmed (render_error e)] s)"
| "logger_loop L print full closed (LoggerMessage message # inputs) s =
     (case with_context ''receiving the next monitor event'' (received_event L message) of
        Inl e \<Rightarrow> (Some (Inl e), s)
      | Inr r \<Rightarrow> logger_loop L print full closed inputs (handle_received L print full r (beat_once s)))"

section \<open>Startup\<close>

record logger_args =
  la_nats :: nats_args
  la_liveness_interval_seconds :: u64
  la_full_events :: bool
  la_shutdown_timeout_seconds :: u64

definition validate_logger_args :: "logger_args \<Rightarrow> unit res" where
  "validate_logger_args a =
     ensure (na_flush_timeout_seconds (la_nats a) < la_shutdown_timeout_seconds a)
       ''shutdown timeout must be greater than the NATS flush timeout''"

text \<open>Connecting resolves to the shutdown (\<open>None\<close>) or to the result of the connection.\<close>

definition run_logger ::
  "libs \<Rightarrow> (json \<Rightarrow> string option) \<Rightarrow> logger_args \<Rightarrow> unit res option \<Rightarrow> unit res \<Rightarrow> logger_input list \<Rightarrow>
   unit res option \<times> logger_state" where
  "run_logger L print a connected closed inputs =
     (let s = \<lparr> ls_invalid = 0, ls_beats = 0, ls_log = [] \<rparr> in
      case with_context ''validating logger configuration'' (validate_logger_args a) of
        Inl e \<Rightarrow> (Some (Inl e), s)
      | Inr _ \<Rightarrow>
          (case connected of
             None \<Rightarrow> (Some (Inr ()), s)
           | Some (Inl e) \<Rightarrow> (Some (Inl (Context ''connecting the event subscriber'' e)), s)
           | Some (Inr _) \<Rightarrow> logger_loop L print (la_full_events a) closed inputs (beat_once s)))"

end
