(* ===== verification/Logger_Properties.thy ===== *)
theory Logger_Properties
  imports Logger Convert_Properties Mainchain Node
begin

text \<open>
  The consumer against its producers: what the extractor builds, the logger accepts, and no message
  keeps it from the next one.
\<close>

section \<open>Checks on what the producers build\<close>

lemma must_be_32_iff [res_simps]: "must_be_32 v field = Inr u \<longleftrightarrow> length v = 32"
  by (simp add: must_be_32_def res_simps)

lemma must_be_32_ok [simp]: "length v = 32 \<Longrightarrow> must_be_32 v field = Inr ()"
  by (simp add: must_be_32_iff)

lemma each_iff: "each f xs = Inr u \<longleftrightarrow> (\<forall>x \<in> set xs. f x = Inr ())"
proof (induction xs)
  case (Cons x xs)
  then show ?case by (cases "f x") (auto simp: each_def res_simps)
qed (simp add: each_def)

lemma validate_header_iff:
  "validate_header h = Inr u \<longleftrightarrow> length (hdr_hash h) = 32 \<and> length (hdr_previous h) = 32 \<and>
     length (hdr_block_work h) = 32 \<and> (hdr_cumulative_work h = [] \<or> length (hdr_cumulative_work h) = 32)"
  by (auto simp: validate_header_def res_simps)

lemma converted_header_valid: "convert_header L r = Inr h \<Longrightarrow> validate_header h = Inr ()"
  by (drule convert_header_Inr) (simp add: validate_header_iff)

lemma collect_res_all:
  "collect_res f xs = Inr ys \<Longrightarrow> (\<And>x y. f x = Inr y \<Longrightarrow> P y) \<Longrightarrow> \<forall>y \<in> set ys. P y"
  by (induction xs arbitrary: ys) (auto simp: res_simps)

lemma collect_at_all:
  "collect_at msg f xs = Inr ys \<Longrightarrow> (\<And>x y. f x = Inr y \<Longrightarrow> P y) \<Longrightarrow> \<forall>y \<in> set ys. P y"
  unfolding collect_at_def by (erule collect_res_all) (auto simp: res_simps)

lemma collect_at_set: "collect_at msg f xs = Inr ys \<Longrightarrow> y \<in> set ys \<Longrightarrow> \<exists>x. f x = Inr y"
  by (auto simp: collect_at_def res_simps dest!: collect_res_set)

lemma converted_declaration [simp]:
  "validate_declaration None = Inr ()"
  "sidechain_declaration L d = Inr e \<Longrightarrow> validate_declaration (Some e) = Inr ()"
  by (auto simp: validate_declaration_def sidechain_declaration_def res_simps)

lemma converted_proposal_valid: "convert_proposal L p = Inr q \<Longrightarrow> validate_proposal L q = Inr ()"
  by (auto simp: convert_proposal_def validate_proposal_def validate_description_hash_def res_simps
      dest: hash_from_reverse_length)

lemma converted_active_valid:
  assumes "digests_are_32 L" and "convert_active L s = Inr a"
  shows "validate_active_sidechain L a = Inr ()"
  using assms
  by (auto simp: convert_active_def validate_active_sidechain_def sidechain_description_hash_def
      digests_are_32_def res_simps)

fun logged_event :: "sidechain_event \<Rightarrow> bool" where
  "logged_event (Deposit d) \<longleftrightarrow> (\<exists>txid vout. dep_outpoint d = Some (txid, vout) \<and> length txid = 32)"
| "logged_event (WithdrawalBundle m6id state) \<longleftrightarrow> state \<noteq> None"

lemma converted_event:
  assumes "convert_sidechain_event L x = Inr e"
  obtains event where "e = Some event" "logged_event event"
proof -
  from assms obtain u where x: "x = Some u" by (auto simp: convert_sidechain_event_def res_simps)
  show thesis
  proof (cases u)
    case (UpDeposit d)
    with assms x that show ?thesis
      by (auto simp: convert_sidechain_event_def deposit_event_def res_simps dest!: hash_from_reverse_length)
  next
    case (UpWithdrawal w)
    with assms x that show ?thesis
      by (auto simp: convert_sidechain_event_def withdrawal_event_def res_simps)
  qed
qed

lemma sidechain_events_valid:
  "\<forall>e \<in> set es. \<exists>x. convert_sidechain_event L x = Inr e \<Longrightarrow> \<exists>r. validate_sidechain_events es m n = Inr r"
proof (induction es m n rule: validate_sidechain_events.induct)
  case (2 e es m n)
  from "2.prems" obtain x where x: "convert_sidechain_event L x = Inr e" by auto
  then obtain event where e: "e = Some event" and event: "logged_event event"
    by (rule converted_event)
  show ?case
  proof (cases event)
    case (Deposit d)
    with event "2.IH"(1) "2.prems" show ?thesis by (auto simp: e res_simps)
  next
    case (WithdrawalBundle m6id state)
    with event "2.IH"(2) "2.prems" show ?thesis by (auto simp: e)
  qed
qed simp

lemma connected_block_valid:
  assumes "connected_block L slot header info = Inr e"
  obtains b h r where "e = BlockConnected b" "bcn_header b = Some h" "validate_header h = Inr ()"
    "validate_sidechain_events (bcn_events b) 0 0 = Inr r"
proof -
  from assms obtain commitment es h where
    "collect_at ''converting sidechain event'' (convert_sidechain_event L) (ub_events info) = Inr es"
    "convert_header L header = Inr h" "e = BlockConnected \<lparr> bcn_header = Some h, bcn_sidechain = ucast slot,
       bcn_commitment = commitment, bcn_events = es \<rparr>"
    by (auto simp: connected_block_def res_simps)
  moreover from this(1) have "\<forall>e \<in> set es. \<exists>x. convert_sidechain_event L x = Inr e"
    by (auto dest: collect_at_set)
  then obtain r where "validate_sidechain_events es 0 0 = Inr r" using sidechain_events_valid by blast
  ultimately show thesis using that converted_header_valid by fastforce
qed

section \<open>Everything the extractor builds\<close>

text \<open>The payloads of the extractor's events: converted replies, transitions and boundaries.\<close>

inductive normalized :: "libs \<Rightarrow> enforcer_event \<Rightarrow> bool" for L where
  info: "convert_chain_info i = Inr e \<Longrightarrow> normalized L e"
| tip: "convert_chain_tip L r = Inr e \<Longrightarrow> normalized L e"
| proposals: "convert_proposals L ps = Inr e \<Longrightarrow> normalized L e"
| actives: "convert_actives L ss = Inr e \<Longrightarrow> normalized L e"
| ctip: "convert_ctip L slot c = Inr e \<Longrightarrow> normalized L e"
| bundles: "convert_bundle_proposals L slot qs = Inr e \<Longrightarrow> normalized L e"
| auction: "convert_bmm_requests L parent rs = Inr e \<Longrightarrow> normalized L e"
| history: "convert_block_info L slot infos = Inr es \<Longrightarrow> e \<in> set es \<Longrightarrow> normalized L e"
| live: "subscription_event L slot item = Inr e \<Longrightarrow> normalized L e"
| transition: "global_event L item = Inr (e, anchor) \<Longrightarrow> normalized L e"
| boundary: "convert_chain_tip L r = Inr t \<Longrightarrow> boundary_event (Some t) gap = Inr (e, anchor) \<Longrightarrow>
    opt_ok (\<lambda>b. length (ob_hash b) = 32) gap \<Longrightarrow> normalized L e"

lemma connected_block_summarized: "connected_block L slot header info = Inr e \<Longrightarrow> is_ok (summarize L e)"
  by (erule connected_block_valid) (auto simp: res_simps is_ok_iff split: prod.splits)

lemma subscription_payload:
  assumes "subscription_event L slot item = Inr e"
  obtains (connected) header info where "connected_block L slot header info = Inr e"
  | (disconnected) hash where "e = BlockDisconnected hash (ucast slot)" "length hash = 32"
proof -
  from assms obtain event where item: "item = Some (Some event)"
    by (auto simp: subscription_event_def res_simps)
  show thesis
  proof (cases event)
    case (ConnectBlock header info)
    with assms item connected show thesis by (auto simp: subscription_event_def res_simps)
  next
    case (DisconnectBlock hash)
    with assms item disconnected show thesis
      by (auto simp: subscription_event_def res_simps dest: hash_from_reverse_length)
  qed
qed

lemma subscription_summarized: "subscription_event L slot item = Inr e \<Longrightarrow> is_ok (summarize L e)"
  by (erule subscription_payload) (simp_all add: connected_block_summarized)

lemma transition_summarized:
  assumes "global_event L item = Inr (e, anchor)"
  shows "is_ok (summarize L e)"
proof -
  from assms obtain t header action where t: "subscription_event L 0 item = Inr t"
    and parts: "transition_parts t = Inr (header, anchor, action)"
    and e: "e = MainchainTransition \<lparr> tr_action = action, tr_header = header, tr_gap_start = None \<rparr>"
    by (auto simp: global_event_def res_simps)
  from t show ?thesis
  proof (cases rule: subscription_payload)
    case (connected h info)
    then obtain b hd r where "t = BlockConnected b" "bcn_header b = Some hd" "validate_header hd = Inr ()"
      by (rule connected_block_valid)
    moreover from this parts have "header = Some hd" by (simp add: res_simps)
    ultimately show ?thesis by (simp add: e)
  next
    case (disconnected hash)
    with parts e show ?thesis by (auto simp: is_ok_iff)
  qed
qed

lemma boundary_summarized:
  assumes "convert_chain_tip L r = Inr t" and "boundary_event (Some t) gap = Inr (e, anchor)"
    and "opt_ok (\<lambda>b. length (ob_hash b) = 32) gap"
  shows "is_ok (summarize L e)"
proof -
  from assms(1) obtain h where t: "t = ChainTip (Some h)" and h: "validate_header h = Inr ()"
    by (auto simp: convert_chain_tip_def res_simps dest: converted_header_valid)
  with assms(2) obtain g where e: "e = MainchainTransition \<lparr> tr_action = SUBSCRIPTION_BOUNDARY,
      tr_header = Some h, tr_gap_start = g \<rparr>" and g: "traverse_opt gap_ref gap = Inr g"
    by (auto simp: res_simps)
  show ?thesis using g assms(3) h
    by (cases gap) (auto simp: e gap_ref_def opt_ok_def res_simps is_ok_iff)
qed

lemma converted_request_valid: "convert_bmm_request L r = Inr q \<Longrightarrow> validate_bmm_request q = Inr ()"
  by (drule convert_bmm_request_Inr) (auto simp: validate_bmm_request_def not_less ensure_def)

lemma auction_summarized:
  "convert_bmm_requests L parent rs = Inr e \<Longrightarrow> is_ok (summarize L e)"
  by (auto simp: convert_bmm_requests_def validate_bmm_requests_def each_iff res_simps is_ok_iff
      dest: collect_res_all [OF _ converted_request_valid])

lemma converted_bundle_valid: "withdrawal_bundle_proposal L p = Inr q \<Longrightarrow> length (wp_m6id q) = 32"
  by (auto simp: withdrawal_bundle_proposal_def m6id_display_def res_simps dest: fixed_consensus_length)

lemma normalized_summarized:
  assumes "digests_are_32 L" and "normalized L e"
  shows "is_ok (summarize L e)"
  using assms(2)
proof cases
  case (history slot infos es)
  then obtain header info where "connected_block L slot header info = Inr e"
    by (auto simp: convert_block_info_def res_simps dest!: collect_res_set)
  then show ?thesis by (rule connected_block_summarized)
next
  case (info i)
  then show ?thesis by (auto simp: convert_chain_info_def res_simps is_ok_iff)
next
  case (tip r)
  then show ?thesis by (auto simp: convert_chain_tip_def res_simps is_ok_iff dest: converted_header_valid)
next
  case (proposals ps)
  then show ?thesis
    by (auto simp: convert_proposals_def res_simps is_ok_iff each_iff
        dest: collect_at_all [OF _ converted_proposal_valid])
next
  case (actives ss)
  then show ?thesis
    by (auto simp: convert_actives_def res_simps is_ok_iff each_iff
        dest: collect_at_all [OF _ converted_active_valid [OF assms(1)]])
next
  case (ctip slot c)
  then show ?thesis
    by (cases c) (auto simp: convert_ctip_def ctip_value_def res_simps is_ok_iff dest: hash_from_reverse_length)
next
  case (bundles slot qs)
  then show ?thesis
    by (auto simp: convert_bundle_proposals_def validate_bundle_proposals_def res_simps is_ok_iff each_iff
        dest: collect_at_all [OF _ converted_bundle_valid])
qed (simp_all add: auction_summarized subscription_summarized transition_summarized boundary_summarized)

lemma le_bytes_length [simp]: "length (le_bytes k n) = k"
  by (induction k arbitrary: n) simp_all

lemma hash_bytes_length: "hash_bytes L v = Inr b \<Longrightarrow> length b = 32"
  by (auto simp: hash_bytes_def res_simps split: json.splits option.splits)

lemma node_header_valid:
  "triple (\<lambda>_. True) (client_header C hash) (\<lambda>h _. validate_header h = Inr ())"
proof -
  have previous: "triple (\<lambda>_. True)
      (if genesis then ret_act (replicate 32 0) else lift_act (hash_bytes L v)) (\<lambda>p _. length p = 32)" for genesis L v
    by (cases genesis) (auto simp: triple_def act_Inr dest: hash_bytes_length)
  show ?thesis
    unfolding client_header_def Let_def
  proof (rule triple_lift_bind, rule triple_bind [OF triple_any], rule triple_lift_bind, rule triple_lift_bind,
      rule triple_lift_bind, rule triple_bind [OF previous], rule triple_const, rule triple_lift_bind,
      rule triple_bind [OF triple_any], rule triple_lift_bind, rule triple_lift_bind, rule triple_ret, goal_cases)
    case (1 u v named w height p total parent x time s)
    from 1(1) have "length hash = 32" by (simp add: res_simps)
    with 1 show ?case by (simp add: validate_header_iff work_to_le_def)
  qed
qed

text \<open>C35: The extractor and its consumer agree on the contract: every payload the extractor builds from
  a reply of the validator, from an item of a subscription, or for a subscription boundary, is
  rendered by the logger under the kind the record files it under, whatever anchor the envelope
  carries; with full events, it is discarded only when its JSON form cannot be printed.\<close>

theorem extractor_payloads_are_rendered:
  assumes "digests_are_32 L" and "normalized L e" and "ev_payload event = Some (Enforcer (Some e))"
  shows "(\<exists>r. render_rendered_event L print event False = Inr r \<and> re_kind r = enforcer_kind e) \<and>
    (is_ok (render_rendered_event L print event True) \<longleftrightarrow> is_ok (render_line L print event))"
  using normalized_summarized [OF assms(1,2)] assms(3)
  by (auto simp: render_rendered_event_def full_form_def is_ok_iff res_simps)

theorem extractor_payloads_are_rendered_witness:
  "\<exists>r. render_rendered_event sample_libs (\<lambda>_. None) (sample_event 2 [2]
      \<lparr> ev_payload := Some (Enforcer (Some (BlockDisconnected (sample_hash 2) 7))) \<rparr>) False = Inr r \<and>
    re_kind r = ''block_disconnected''"
proof -
  have "subscription_event sample_libs 7 (Some (Some (DisconnectBlock (Some (Some (sample_hex (sample_hash 2)))))))
      = Inr (BlockDisconnected (sample_hash 2) 7)"
    by code_simp
  from extractor_payloads_are_rendered [OF sample_libs_digests live [OF this], of "sample_event 2 [2]
      \<lparr> ev_payload := Some (Enforcer (Some (BlockDisconnected (sample_hash 2) 7))) \<rparr>" "\<lambda>_. None"]
  show ?thesis by (simp add: sample_event_def)
qed

lemma node_blocks_are_rendered:
  assumes "client_header C hash s = (Inr h, t)" and "ev_payload event = Some (Node (Some payload))"
    and "node_header payload = Some h"
  shows "\<exists>r. render_rendered_event L print event False = Inr r \<and> re_kind r = node_kind payload"
  using tripleD [OF node_header_valid assms(1)] assms(2,3)
  by (simp add: render_rendered_event_def full_form_def)

section \<open>The loop is a filter\<close>

text \<open>The specification: the lines one input is worth, and whether it is counted as discarded.\<close>

definition event_lines :: "libs \<Rightarrow> (json \<Rightarrow> string option) \<Rightarrow> bool \<Rightarrow> bytes \<Rightarrow> log_line list" where
  "event_lines L print full message =
     (case decode_event L message of
        None \<Rightarrow> []
      | Some event \<Rightarrow>
          (case render_rendered_event L print event full of
             Inl _ \<Rightarrow> []
           | Inr r \<Rightarrow> EventLine (ev_timestamp event) (re_kind r) (re_summary r) #
               (case re_full_json r of None \<Rightarrow> [] | Some json \<Rightarrow> [PayloadLine (ev_timestamp event) (re_kind r) json])))"

fun input_lines :: "libs \<Rightarrow> (json \<Rightarrow> string option) \<Rightarrow> bool \<Rightarrow> logger_input \<Rightarrow> log_line list" where
  "input_lines L print full (LoggerMessage (Some message)) = event_lines L print full message"
| "input_lines L print full _ = []"

fun discarded :: "libs \<Rightarrow> (json \<Rightarrow> string option) \<Rightarrow> bool \<Rightarrow> logger_input \<Rightarrow> bool" where
  "discarded L print full (LoggerMessage (Some message)) \<longleftrightarrow> event_lines L print full message = []"
| "discarded L print full _ \<longleftrightarrow> False"

fun ends_logger :: "logger_input \<Rightarrow> bool" where
  "ends_logger LoggerShutdown \<longleftrightarrow> True"
| "ends_logger (LoggerMessage None) \<longleftrightarrow> True"
| "ends_logger _ \<longleftrightarrow> False"

fun event_line :: "log_line \<Rightarrow> bool" where
  "event_line (EventLine _ _ _) \<longleftrightarrow> True"
| "event_line (PayloadLine _ _ _) \<longleftrightarrow> True"
| "event_line _ \<longleftrightarrow> False"

lemma handle_received_lines:
  assumes "received_event L (Some message) = Inr r"
  shows "filter event_line (ls_log (handle_received L print full r s)) =
      filter event_line (ls_log s) @ event_lines L print full message"
    and "ls_invalid (handle_received L print full r s) =
      (if event_lines L print full message = [] then saturating_add (ls_invalid s) 1 else ls_invalid s)"
  using assms
  by (auto simp: received_event_def handle_received_def render_event_def event_lines_def log_lines_def
      discard_one_def Let_def split: option.splits sum.splits)

text \<open>A count that saturates.\<close>

definition counted :: "u64 \<Rightarrow> nat \<Rightarrow> u64" where
  "counted n k = word_of_nat (min (unat n + k) (2 ^ 64 - 1))"

lemma unat_counted: "unat (counted n k) = min (unat n + k) (2 ^ 64 - 1)"
proof -
  have "min (unat n + k) (2 ^ 64 - 1) < 2 ^ 64" by simp
  then show ?thesis by (simp add: counted_def unsigned_of_nat take_bit_nat_eq_self)
qed

lemma counted_0: "counted n 0 = n"
  using unsigned_less [of n, where 'a = nat] by (simp add: word_unat_eq_iff unat_counted)

lemma counted_Suc: "counted (saturating_add n 1) k = counted n (Suc k)"
  by (simp add: word_unat_eq_iff unat_counted saturating_add_nat)

lemma logger_loop_running:
  "\<forall>i \<in> set inputs. \<not> ends_logger i \<Longrightarrow>
     \<exists>t. logger_loop L print full closed (inputs @ rest) s = logger_loop L print full closed rest t \<and>
       filter event_line (ls_log t) = filter event_line (ls_log s) @ concat (map (input_lines L print full) inputs) \<and>
       ls_invalid t = counted (ls_invalid s) (length (filter (discarded L print full) inputs))"
proof (induction inputs arbitrary: s)
  case Nil
  then show ?case by (intro exI [of _ s]) (simp add: counted_0)
next
  case (Cons i inputs)
  then have rest: "\<forall>i \<in> set inputs. \<not> ends_logger i" by simp
  show ?case
  proof (cases i)
    case (LoggerTimer confirmed)
    from Cons.IH [OF rest, of "case confirmed of Inr _ \<Rightarrow> beat_once s
        | Inl e \<Rightarrow> log_lines [Unconfirmed (render_error e)] s"]
    show ?thesis
      by (cases confirmed) (simp_all add: LoggerTimer beat_once_def log_lines_def)
  next
    case (LoggerMessage message)
    with Cons.prems obtain m where i: "i = LoggerMessage (Some m)" by (cases message) auto
    obtain r where r: "received_event L (Some m) = Inr r" by (simp add: received_event_def)
    let ?s = "handle_received L print full r (beat_once s)"
    note one = handle_received_lines [OF r, where full = full and s = "beat_once s" and print = print]
    obtain t where t: "logger_loop L print full closed (inputs @ rest) ?s = logger_loop L print full closed rest t"
      "filter event_line (ls_log t) = filter event_line (ls_log ?s) @ concat (map (input_lines L print full) inputs)"
      "ls_invalid t = counted (ls_invalid ?s) (length (filter (discarded L print full) inputs))"
      using Cons.IH [OF rest, of ?s] by blast
    show ?thesis
    proof (intro exI [of _ t] conjI)
      show "logger_loop L print full closed ((i # inputs) @ rest) s = logger_loop L print full closed rest t"
        using t(1) by (simp add: i r)
      show "filter event_line (ls_log t) =
          filter event_line (ls_log s) @ concat (map (input_lines L print full) (i # inputs))"
        using t(2) one(1) by (simp add: i beat_once_def)
      show "ls_invalid t = counted (ls_invalid s) (length (filter (discarded L print full) (i # inputs)))"
        using t(3) one(2) by (simp add: i beat_once_def counted_Suc)
    qed
  qed (use Cons.prems in simp)
qed

text \<open>C36: No message silences the logger: over any run of messages and timer wakes without a shutdown or
  the end of the subscription, it keeps running, the event lines it writes are exactly those of the
  messages that decode and render, once each and in the order they arrived, and the count of what it
  discarded is the number of the others, saturating at the width of the counter.\<close>

theorem no_message_silences_the_logger:
  assumes "\<forall>i \<in> set inputs. \<not> ends_logger i"
  shows "case logger_loop L print full closed inputs s of (ended, t) \<Rightarrow>
    ended = None \<and>
    filter event_line (ls_log t) = filter event_line (ls_log s) @ concat (map (input_lines L print full) inputs) \<and>
    unat (ls_invalid t) =
      min (unat (ls_invalid s) + length (filter (discarded L print full) inputs)) (2 ^ 64 - 1)"
  using logger_loop_running [OF assms, of L print full closed "[]" s] by (auto simp: unat_counted)

text \<open>A message that does not decode, a timer wake, and an event without a payload.\<close>

definition naming_libs :: libs where
  "naming_libs = sample_libs\<lparr> decode_event := (\<lambda>m. case m of
     [] \<Rightarrow> None
   | [_] \<Rightarrow> Some \<lparr> ev_timestamp = 7, ev_anchor = None, ev_payload = None \<rparr>
   | _ \<Rightarrow> Some \<lparr> ev_timestamp = 8, ev_anchor = None,
       ev_payload = Some (Enforcer (Some (Ctip \<lparr> cs_sidechain = 9, cs_ctip = None \<rparr>))) \<rparr>) \<rparr>"

theorem no_message_silences_the_logger_witness:
  "case logger_loop naming_libs (\<lambda>_. None) False (Inr ())
      [LoggerMessage (Some []), LoggerTimer (Inr ()), LoggerMessage (Some [1]), LoggerMessage (Some [1, 2])]
      \<lparr> ls_invalid = 0, ls_beats = 0, ls_log = [] \<rparr> of (ended, t) \<Rightarrow>
    ended = None \<and> filter event_line (ls_log t) = [EventLine 8 ''ctip'' ''sidechain=9 present=false''] \<and>
    unat (ls_invalid t) = 2"
proof -
  let ?inputs = "[LoggerMessage (Some []), LoggerTimer (Inr ()), LoggerMessage (Some [1]), LoggerMessage (Some [1, 2])]"
  have lines: "concat (map (input_lines naming_libs (\<lambda>_. None) False) ?inputs)
      = [EventLine 8 ''ctip'' ''sidechain=9 present=false'']"
    and bad: "length (filter (discarded naming_libs (\<lambda>_. None) False) ?inputs) = 2"
    by code_simp+
  show ?thesis
    using no_message_silences_the_logger [where inputs = ?inputs and L = naming_libs and print = "\<lambda>_. None" and full = False
        and closed = "Inr ()" and s = "\<lparr> ls_invalid = 0, ls_beats = 0, ls_log = [] \<rparr>", unfolded lines bad]
    by (simp split: prod.splits)
qed

end
