(* ===== verification/Process.thy ===== *)
theory Process
  imports Effects
begin

text \<open>
  The process around a service, from \<^verbatim>\<open>src/shared/src/process.rs\<close>: the first signal asks
  the service to stop, a second one or the end of the grace period aborts it. What each select
  resolved to is an argument, and the result says whether the service task was aborted. Beside it the
  signals, the exit code of \<^verbatim>\<open>main.rs\<close>, the heartbeat of \<^verbatim>\<open>src/shared/src/liveness.rs\<close>
  and the default log filter of \<^verbatim>\<open>src/shared/src/logging.rs\<close>.
\<close>

section \<open>Signals\<close>

datatype shutdown_signal = Interrupt | Terminate

definition signal_name :: "shutdown_signal \<Rightarrow> string" where
  "signal_name s = (case s of Interrupt \<Rightarrow> ''SIGINT'' | Terminate \<Rightarrow> ''SIGTERM'')"

text \<open>Installing both handlers, the interrupt first; the results are the operating system's.\<close>

definition install_signals :: "unit res \<Rightarrow> unit res \<Rightarrow> unit res" where
  "install_signals interrupt terminate =
     bind_res (with_context ''installing SIGINT handler'' interrupt) (\<lambda>_.
     with_context ''installing SIGTERM handler'' terminate)"

text \<open>Which stream answered first, and whether it still delivers or has ended.\<close>

definition receive_signal :: "shutdown_signal \<Rightarrow> bool \<Rightarrow> shutdown_signal res" where
  "receive_signal s delivered =
     bind_res (ok_or (signal_name s @ '' signal stream ended'') (if delivered then Some () else None)) (\<lambda>_. Inr s)"

section \<open>The service task\<close>

datatype join = Returned "unit res" | NotJoined error

definition flatten_join :: "join \<Rightarrow> string \<Rightarrow> unit res" where
  "flatten_join j name =
     (case j of
        Returned r \<Rightarrow> r
      | NotJoined e \<Rightarrow> Inl (Context (''joining the '' @ name @ '' task'') e))"

text \<open>The first select, and the one after the shutdown was requested.\<close>

datatype first_event = ServiceEnded join | Signalled "unit res"
datatype second_event = EndedInTime join | SignalledAgain "unit res" | GraceOver

definition finish_graceful_shutdown :: "second_event \<Rightarrow> string \<Rightarrow> nat \<Rightarrow> unit res \<times> bool" where
  "finish_graceful_shutdown e name grace =
     (case e of
        EndedInTime j \<Rightarrow> (flatten_join j name, False)
      | SignalledAgain (Inr _) \<Rightarrow>
          (bail (''forced shutdown of '' @ name @ '' after receiving a second signal''), True)
      | SignalledAgain (Inl err) \<Rightarrow> (Inl (Context ''waiting for a second shutdown signal'' err), True)
      | GraceOver \<Rightarrow>
          (bail (''graceful shutdown of '' @ name @ '' timed out after '' @ show_nat grace @ ''s''), True))"

definition run_until_shutdown ::
  "string \<Rightarrow> nat \<Rightarrow> unit res \<Rightarrow> first_event \<Rightarrow> second_event \<Rightarrow> unit res \<times> bool" where
  "run_until_shutdown name grace handlers first second =
     (case with_context ''installing shutdown signal handlers'' handlers of
        Inl e \<Rightarrow> (Inl e, False)
      | Inr _ \<Rightarrow>
          (case first of
             ServiceEnded j \<Rightarrow> (flatten_join j name, False)
           | Signalled (Inr _) \<Rightarrow> finish_graceful_shutdown second name grace
           | Signalled (Inl e) \<Rightarrow> (Inl (Context ''waiting for a shutdown signal'' e), True)))"

text \<open>The exit code of a binary: the diagnostics first, then the service.\<close>

datatype exit_code = Success | Failure

definition exit_of :: "unit res \<Rightarrow> (unit \<Rightarrow> unit res) \<Rightarrow> exit_code" where
  "exit_of diagnostics service =
     (case diagnostics of
        Inl e \<Rightarrow> Failure
      | Inr _ \<Rightarrow> (case service () of Inr _ \<Rightarrow> Success | Inl e \<Rightarrow> Failure))"

section \<open>The heartbeat\<close>

text \<open>Writing the file is the operating system's; a failure is a warning, never an error.\<close>

definition heartbeat :: "string option \<Rightarrow> (string \<Rightarrow> string \<Rightarrow> ('w, unit) act) \<Rightarrow> ('w, unit) act" where
  "heartbeat path write =
     (case path of
        None \<Rightarrow> ret_act ()
      | Some p \<Rightarrow> bind_act (attempt (write p (''ok'' @ [CHR 0x0A]))) (\<lambda>_. ret_act ()))"

lemma heartbeat_never_fails: "fst (heartbeat path write s) = Inr ()"
  by (simp add: heartbeat_def bind_act_def attempt_def ret_act_def split: option.split prod.split)

section \<open>The default log filter\<close>

datatype log_level = ErrorLevel | WarnLevel | InfoLevel | DebugLevel | TraceLevel

text \<open>The level where no directive matches, the directives of the environment, and the added ones.\<close>

record log_filter =
  lf_default :: log_level
  lf_directives :: string
  lf_added :: "string list"

definition build_filter :: "log_level \<Rightarrow> string option \<Rightarrow> log_filter" where
  "build_filter level rust_log =
     \<lparr> lf_default = level, lf_directives = (case rust_log of None \<Rightarrow> [] | Some directives \<Rightarrow> directives),
       lf_added = (if rust_log = None \<and> level = InfoLevel then [''async_nats=warn''] else []) \<rparr>"

section \<open>How a process ends\<close>

text \<open>
  The task is aborted only after a signal, and then only on a second one, on the end of the grace
  period or when the signals cannot be read; a service that ends in time keeps its own outcome.
\<close>

lemma aborted_only_after_a_signal:
  assumes "run_until_shutdown name grace handlers first second = (r, True)"
  shows "\<exists>answer. first = Signalled answer \<and> (is_ok answer \<longrightarrow> (\<forall>j. second \<noteq> EndedInTime j)) \<and> \<not> is_ok r"
  using assms
  by (auto simp: run_until_shutdown_def finish_graceful_shutdown_def bail_def
      split: sum.splits first_event.splits second_event.splits)

lemma graceful_end_keeps_the_outcome:
  "run_until_shutdown name grace (Inr ()) (Signalled (Inr ())) (EndedInTime (Returned r)) = (r, False)"
  by (simp add: run_until_shutdown_def finish_graceful_shutdown_def flatten_join_def)

end
