(* ===== verification/Subscription.thy ===== *)
theory Subscription
  imports Mainchain
begin

text \<open>
  The worker around one global subscription, \<^verbatim>\<open>monitor\<close> of
  \<^verbatim>\<open>src/extractors/enforcer/src/mainchain.rs\<close>: when a subscription broke off it asks
  for another after a delay that doubles up to thirty seconds, and starts over with the gap start.
\<close>

text \<open>True when subscribed again, false at the shutdown; the wait is told the delay.\<close>

fun resubscribe ::
  "nat \<Rightarrow> 'w recorder \<Rightarrow> ('w, unit) act \<Rightarrow> (nat \<Rightarrow> 'w \<times> db \<Rightarrow> bool \<times> ('w \<times> db)) \<Rightarrow> nat \<Rightarrow> ('w, bool option) act" where
  "resubscribe 0 R subscribe wait delay = ret_act None"
| "resubscribe (Suc fuel) R subscribe wait delay =
     bind_act (ask (wait delay)) (\<lambda>stopped.
     if stopped then ret_act (Some False)
     else
       bind_act (attempt subscribe) (\<lambda>next.
       case next of
         Inr _ \<Rightarrow> ret_act (Some True)
       | Inl e \<Rightarrow>
           bind_act (recorder_failure R MainchainEvents (''resubscription: '' @ render_error e) 1) (\<lambda>_.
           resubscribe fuel R subscribe wait (resubscribe_delay delay))))"

text \<open>One turn of the loop: \<open>Inl\<close> is the end of the worker, \<open>Inr\<close> the next gap start.\<close>

definition mainchain_turn ::
  "nat \<Rightarrow> 'w enforcer \<Rightarrow> 'w recorder \<Rightarrow> 'w channels \<Rightarrow> 'w stream_next \<Rightarrow> ('w, unit) act \<Rightarrow>
   (nat \<Rightarrow> 'w \<times> db \<Rightarrow> bool \<times> ('w \<times> db)) \<Rightarrow> observed_block option \<Rightarrow>
   ('w, (unit + observed_block option) option) act" where
  "mainchain_turn fuel E R H items subscribe wait gap_start =
     bind_act (subscription_turn fuel E R H items gap_start) (\<lambda>r.
     case r of
       Some (Inr gap) \<Rightarrow>
         bind_act (resubscribe fuel R subscribe wait 1) (\<lambda>again.
         ret_act (case again of
             None \<Rightarrow> None
           | Some False \<Rightarrow> Some (Inl ())
           | Some True \<Rightarrow> Some (Inr gap)))
     | _ \<Rightarrow> ret_act r)"

fun mainchain_turns ::
  "nat \<Rightarrow> nat \<Rightarrow> 'w enforcer \<Rightarrow> 'w recorder \<Rightarrow> 'w channels \<Rightarrow> 'w stream_next \<Rightarrow> ('w, unit) act \<Rightarrow>
   (nat \<Rightarrow> 'w \<times> db \<Rightarrow> bool \<times> ('w \<times> db)) \<Rightarrow> observed_block option \<Rightarrow> ('w, unit option) act" where
  "mainchain_turns 0 fuel E R H items subscribe wait gap_start = ret_act None"
| "mainchain_turns (Suc turns) fuel E R H items subscribe wait gap_start =
     bind_act (mainchain_turn fuel E R H items subscribe wait gap_start) (\<lambda>r.
     case r of
       None \<Rightarrow> ret_act None
     | Some (Inl _) \<Rightarrow> ret_act (Some ())
     | Some (Inr gap) \<Rightarrow> mainchain_turns turns fuel E R H items subscribe wait gap)"

text \<open>The first boundary names the last tip the previous run recorded.\<close>

definition monitor_mainchain ::
  "nat \<Rightarrow> nat \<Rightarrow> 'w enforcer \<Rightarrow> 'w recorder \<Rightarrow> 'w channels \<Rightarrow> 'w stream_next \<Rightarrow> ('w, unit) act \<Rightarrow>
   (nat \<Rightarrow> 'w \<times> db \<Rightarrow> bool \<times> ('w \<times> db)) \<Rightarrow> ('w, unit option) act" where
  "monitor_mainchain turns fuel E R H items subscribe wait =
     mainchain_turns turns fuel E R H items subscribe wait (st_previous_tip (rc_store R))"

end
