(* ===== verification/Session.thy ===== *)
theory Session
  imports Manager Refresh Scheduler Subscription
begin

text \<open>
  One run of the enforcer extractor, \<^verbatim>\<open>run\<close> of
  \<^verbatim>\<open>src/extractors/enforcer/src/runtime.rs\<close>: what it does between the startup and the
  spawning of the workers, the supervision of the workers, the terminal status of the run; and the
  workers side by side, as steps that interleave.
\<close>

section \<open>Supervision\<close>

datatype worker_end = WorkerReturned "unit res" | WorkerPanicked error

text \<open>The workers in the order they are joined; the others are aborted at the first failure.\<close>

fun supervise_workers :: "worker_end list \<Rightarrow> unit res" where
  "supervise_workers [] = Inr ()"
| "supervise_workers (WorkerReturned (Inr u) # rest) = supervise_workers rest"
| "supervise_workers (WorkerReturned (Inl e) # rest) = Inl e"
| "supervise_workers (WorkerPanicked e # rest) = Inl (Context ''joining a sidechain subscription task'' e)"

section \<open>From the startup to the workers\<close>

definition BACKFILL_CAPACITY :: nat where
  "BACKFILL_CAPACITY = 256"

text \<open>The initial requests; a full queue is the panic of the \<^verbatim>\<open>expect\<close>.\<close>

fun queue_initial :: "observed_block \<Rightarrow> instance_ref list \<Rightarrow> backfill_request list \<Rightarrow> backfill_request list res" where
  "queue_initial target [] queue = Inr queue"
| "queue_initial target (i # is) queue =
     (if length queue < BACKFILL_CAPACITY
      then queue_initial target is (queue @ [\<lparr> bq_instance = i, bq_target = target \<rparr>])
      else bail ''panic: at most 256 sidechain slots fit in the initial backfill queue'')"

record live_start =
  lt_instances :: "instance_ref list"
  lt_requests :: "backfill_request list"
  lt_refresher :: refresher
  lt_tip :: observed_block

text \<open>The snapshot and the tip are recorded first; \<open>None\<close> is a shutdown before the workers start.\<close>

definition start_session ::
  "'w recorder \<Rightarrow> string \<Rightarrow> (nat \<Rightarrow> int) \<Rightarrow> ('w \<times> db \<Rightarrow> int \<times> ('w \<times> db)) \<Rightarrow> ('w \<times> db \<Rightarrow> bool \<times> ('w \<times> db)) \<Rightarrow>
   u8 list \<Rightarrow> 's observation \<Rightarrow> ('w, live_start option) act" where
  "start_session R gid now clock stopping sidechains o' =
     (let snapshot = po_snapshot o'; m = po_metadata o'; anchor = is_anchor snapshot in
      bind_act (context_act ''recording the initial enforcer snapshot''
        (record_initial_snapshot R gid now snapshot m)) (\<lambda>_.
      bind_act (ask clock) (\<lambda>at.
      bind_act (context_act ''recording the initial mainchain tip''
        (recorder_tip R anchor None Startup at)) (\<lambda>_.
      bind_act (ask stopping) (\<lambda>stop.
      if stop then ret_act None
      else
        bind_act (lift_act (active_instances_for_slots (rc_libs R) (is_state snapshot) sidechains)) (\<lambda>is.
        bind_act (lift_act (queue_initial anchor is [])) (\<lambda>requests.
        ret_act (Some
          \<lparr> lt_instances = is, lt_requests = requests,
            lt_refresher = start_refresher (with_consistency (sm_consistency m) (new_tracker (is_state snapshot)))
              (ob_hash anchor),
            lt_tip = anchor \<rparr>))))))))"

text \<open>
  The run: \<open>startup\<close> resolves to \<open>None\<close> when the shutdown came first, \<open>serve\<close> runs the workers and
  says how they were joined.
\<close>

definition finish_session :: "'w recorder \<Rightarrow> unit res \<Rightarrow> ('w, unit) act" where
  "finish_session R outcome =
     (case outcome of
        Inr _ \<Rightarrow>
          context_act ''closing the successful extractor run''
            (recorder_finish R ''completed'' (Some ''graceful shutdown''))
      | Inl e \<Rightarrow>
          bind_act (attempt (recorder_finish R ''failed'' (Some (render_error e)))) (\<lambda>_. fail_act e))"

definition session_outcome ::
  "'w recorder \<Rightarrow> string \<Rightarrow> (nat \<Rightarrow> int) \<Rightarrow> ('w \<times> db \<Rightarrow> int \<times> ('w \<times> db)) \<Rightarrow> ('w \<times> db \<Rightarrow> bool \<times> ('w \<times> db)) \<Rightarrow>
   (live_start \<Rightarrow> ('w, worker_end list) act) \<Rightarrow> u8 list \<Rightarrow> 's observation \<Rightarrow> ('w, unit) act" where
  "session_outcome R gid now clock stopping serve sidechains o' =
     bind_act (start_session R gid now clock stopping sidechains o') (\<lambda>started.
     case started of
       None \<Rightarrow> ret_act ()
     | Some live \<Rightarrow> bind_act (serve live) (\<lambda>ends. lift_act (supervise_workers ends)))"

definition run_extractor ::
  "args \<Rightarrow> bool \<Rightarrow> ('w, ('w recorder \<times> 's \<times> u8 list \<times> 's observation) option) act \<Rightarrow> string \<Rightarrow> (nat \<Rightarrow> int) \<Rightarrow>
   ('w \<times> db \<Rightarrow> int \<times> ('w \<times> db)) \<Rightarrow> ('w \<times> db \<Rightarrow> bool \<times> ('w \<times> db)) \<Rightarrow>
   ('w recorder \<Rightarrow> 's \<Rightarrow> 's observation \<Rightarrow> live_start \<Rightarrow> ('w, worker_end list) act) \<Rightarrow> ('w, unit) act" where
  "run_extractor a max_blocks_set startup gid now clock stopping serve =
     bind_act (lift_act (with_context ''validating extractor configuration'' (validate_args max_blocks_set a))) (\<lambda>_.
     bind_act startup (\<lambda>prepared.
     case prepared of
       None \<Rightarrow> ret_act ()
     | Some (R, stream, sidechains, o') \<Rightarrow>
         bind_act (attempt (session_outcome R gid now clock stopping (serve R stream o') sidechains o'))
           (finish_session R)))"

section \<open>The workers side by side\<close>

text \<open>What the workers keep between their steps, and what they are given.\<close>

record live =
  lv_read_failed :: bool
  lv_failures :: u32
  lv_refresher :: refresher
  lv_scheduler :: scheduler
  lv_manager :: manager
  lv_watchdogs :: "string \<Rightarrow> watchdog"
  lv_gap_start :: "observed_block option"

record ('w, 's) live_world =
  lw_recorder :: "'w recorder"
  lw_enforcer :: "'w enforcer"
  lw_watches :: "'w watches"
  lw_beat :: "('w, unit) act"
  lw_auction :: "'w bmm_source"
  lw_ready_at :: int
  lw_refresh :: "'w refresh_world"
  lw_slots :: "u8 list"
  lw_discover :: bool
  lw_history :: "'w history_world"
  lw_pick :: "scheduler \<Rightarrow> 'w \<times> db \<Rightarrow> pick \<times> ('w \<times> db)"
  lw_manager :: "('w, 's) manager_world"
  lw_manager_pick :: "manager \<Rightarrow> 'w \<times> db \<Rightarrow> mg_pick \<times> ('w \<times> db)"
  lw_stream :: "'w stream_world"
  lw_stall_timeout :: int
  lw_items :: "'w stream_next"
  lw_subscribe :: "('w, unit) act"
  lw_resubscribe_wait :: "nat \<Rightarrow> 'w \<times> db \<Rightarrow> bool \<times> ('w \<times> db)"

text \<open>One step of one worker; fuel is for the loops inside a step, a stream's turn is its select's.\<close>

datatype worker_step =
    TipStep
  | AuctionStep string
  | StateStep bytes
  | HistoryStep nat
  | SlotsStep
  | StreamStep instance_ref turn
  | MainchainStep nat

text \<open>The result is the state to go on with, or \<open>None\<close> when the worker has ended.\<close>

definition worker_turn :: "('w, 's) live_world \<Rightarrow> worker_step \<Rightarrow> live \<Rightarrow> ('w, live option) act" where
  "worker_turn W k v =
     (let R = lw_recorder W; E = lw_enforcer W; L = rc_libs R in
      case k of
        TipStep \<Rightarrow>
          bind_act (tip_tick E R (lw_beat W) (lw_watches W) (lv_read_failed v)) (\<lambda>failed.
          ret_act (Some (v\<lparr> lv_read_failed := failed \<rparr>)))
      | AuctionStep gid \<Rightarrow>
          bind_act (bmm_pass R (lw_auction W) gid (lw_ready_at W) (lv_failures v)) (\<lambda>n.
          ret_act (Some (v\<lparr> lv_failures := n \<rparr>)))
      | StateStep block \<Rightarrow>
          bind_act (refresh_wake L (collect L E (lw_slots W) (lw_discover W)) (publish_state R (lw_refresh W))
            (state_health R) block (lv_refresher v)) (\<lambda>r.
          ret_act (Some (v\<lparr> lv_refresher := r \<rparr>)))
      | HistoryStep fuel \<Rightarrow>
          bind_act (scheduler_turn fuel R (lw_history W) (lw_pick W) (lv_scheduler v)) (\<lambda>r.
          ret_act (case r of
              Some (Some q) \<Rightarrow> Some (v\<lparr> lv_scheduler := q \<rparr>)
            | _ \<Rightarrow> None))
      | SlotsStep \<Rightarrow>
          bind_act (manager_turn (rc_store R) (lw_manager W) (lw_manager_pick W) (lw_discover W) (lw_slots W)
            (lv_manager v)) (\<lambda>r.
          ret_act (map_option (\<lambda>m. v\<lparr> lv_manager := m \<rparr>) r))
      | StreamStep inst t \<Rightarrow>
          bind_act (stream_turn L (lw_stream W) (ir_sidechain inst) (lw_stall_timeout W)
            (publish_live R (lw_watches W) inst) (lv_watchdogs v (ir_instance_id inst)) t) (\<lambda>r.
          ret_act (case r of
              Inl exit \<Rightarrow> None
            | Inr g \<Rightarrow> Some (v\<lparr> lv_watchdogs := (lv_watchdogs v)(ir_instance_id inst := g) \<rparr>)))
      | MainchainStep fuel \<Rightarrow>
          bind_act (mainchain_turn fuel E R (wa_channels (lw_watches W)) (lw_items W) (lw_subscribe W)
            (lw_resubscribe_wait W) (lv_gap_start v)) (\<lambda>r.
          ret_act (case r of
              Some (Inr gap) \<Rightarrow> Some (v\<lparr> lv_gap_start := gap \<rparr>)
            | _ \<Rightarrow> None)))"

text \<open>The workers of a session start with these.\<close>

definition start_live :: "'w recorder \<Rightarrow> live_start \<Rightarrow> live" where
  "start_live R s =
     \<lparr> lv_read_failed = False, lv_failures = 0, lv_refresher = lt_refresher s,
       lv_scheduler = start_scheduler, lv_manager = fresh_manager, lv_watchdogs = (\<lambda>_. fresh_watchdog),
       lv_gap_start = st_previous_tip (rc_store R) \<rparr>"

inductive live_step :: "('w, 's) live_world \<Rightarrow> live \<times> 'w st \<Rightarrow> live \<times> 'w st \<Rightarrow> bool" for W where
  step: "worker_turn W k v s = (Inr (Some v'), t) \<Longrightarrow> live_step W (v, s) (v', t)"

end
