(* ===== verification/Session_Properties.thy ===== *)
theory Session_Properties
  imports Session Manager_Properties Polling_Properties
begin

text \<open>
  What one run of the extractor guarantees as a whole: the initial requests fit their queue, the run
  ends with an honest status, and the workers together write only through the store, so in every
  state they reach its invariants hold and nothing recorded is lost.
\<close>

section \<open>The environment\<close>

text \<open>What the world may do to the record while it is asked.\<close>

definition enforcer_keeps :: "(db \<Rightarrow> db \<Rightarrow> bool) \<Rightarrow> 'w enforcer \<Rightarrow> bool" where
  "enforcer_keeps R E \<longleftrightarrow> acts R (en_chain_tip E) \<and> acts R (en_proposals E) \<and> acts R (en_sidechains E) \<and>
     (\<forall>slot. acts R (en_ctip E slot) \<and> acts R (en_bundles E slot)) \<and> acts R (ask (en_clock E))"

definition watches_keep :: "(db \<Rightarrow> db \<Rightarrow> bool) \<Rightarrow> 'w watches \<Rightarrow> bool" where
  "watches_keep R W \<longleftrightarrow> acts R (ask (ch_tip (wa_channels W))) \<and>
     (\<forall>h. acts R (ch_send_block (wa_channels W) h)) \<and> (\<forall>b. acts R (ch_send_tip (wa_channels W) b)) \<and>
     acts R (ask (wa_block W))"

definition refresh_keeps :: "(db \<Rightarrow> db \<Rightarrow> bool) \<Rightarrow> 'w refresh_world \<Rightarrow> bool" where
  "refresh_keeps R W \<longleftrightarrow> acts R (ask (rw_fresh W)) \<and> acts R (ask (rw_now W)) \<and> acts R (rw_bump W)"

definition manager_keeps :: "(db \<Rightarrow> db \<Rightarrow> bool) \<Rightarrow> ('w, 's) manager_world \<Rightarrow> bool" where
  "manager_keeps R W \<longleftrightarrow> (\<forall>slot. acts R (mw_subscribe W slot)) \<and> acts R (mw_tip W) \<and>
     (\<forall>i x. acts R (mw_spawn W i x)) \<and> (\<forall>i. acts R (mw_stop W i)) \<and> acts R (mw_abort W) \<and>
     (\<forall>r. acts R (mw_enqueue W r))"

definition live_keeps :: "(db \<Rightarrow> db \<Rightarrow> bool) \<Rightarrow> ('w, 's) live_world \<Rightarrow> bool" where
  "live_keeps R W \<longleftrightarrow> transport_keeps R (rc_publisher (lw_recorder W)) \<and> enforcer_keeps R (lw_enforcer W) \<and>
     watches_keep R (lw_watches W) \<and> acts R (lw_beat W) \<and> source_keeps R (lw_auction W) \<and>
     refresh_keeps R (lw_refresh W) \<and> (\<forall>i b. acts R (hw_run (lw_history W) i b)) \<and> acts R (hw_tip (lw_history W)) \<and>
     (\<forall>q. acts R (ask (lw_pick W q))) \<and> manager_keeps R (lw_manager W) \<and>
     (\<forall>m. acts R (ask (lw_manager_pick W m))) \<and> acts R (ask (sw_now (lw_stream W))) \<and>
     acts R (ask (sw_clock (lw_stream W))) \<and> acts R (ask (lw_items W)) \<and> acts R (lw_subscribe W) \<and>
     (\<forall>n. acts R (ask (lw_resubscribe_wait W n)))"

section \<open>Reads keep what the world keeps\<close>

context record_relation begin

lemma acts_read_tip: "enforcer_keeps R E \<Longrightarrow> acts R (read_tip L E)"
  unfolding read_tip_def enforcer_keeps_def by (intro acts_rules) simp_all

lemma acts_collect_slots: "enforcer_keeps R E \<Longrightarrow> acts R (collect_slots L E is)"
  by (induction "is") (auto intro!: acts_rules simp: enforcer_keeps_def)

lemma acts_collect: "enforcer_keeps R E \<Longrightarrow> acts R (collect L E slots discover)"
  unfolding collect_def collect_payloads_def
  by (auto intro!: acts_bind acts_lift acts_ret acts_read_tip acts_collect_slots simp: enforcer_keeps_def)

lemma acts_boundary: "enforcer_keeps R E \<Longrightarrow> acts R (subscription_boundary L E gap)"
  unfolding subscription_boundary_def enforcer_keeps_def by (intro acts_rules) simp_all

lemma acts_ignored: "acts R m \<Longrightarrow> acts R (ignore m)"
  unfolding ignore_def by (intro acts_rules)

lemma acts_announce_block: "watches_keep R W \<Longrightarrow> acts R (announce_block W e)"
  unfolding announce_block_def watches_keep_def
  by (auto intro!: acts_ret acts_ignored split: option.split)

lemma acts_stop_retired: "manager_keeps R W \<Longrightarrow> acts R (stop_retired W gone m)"
  by (induction W gone m rule: stop_retired.induct)
    (auto intro!: acts_rules acts_ignored simp: manager_keeps_def)

lemma acts_start_additions: "manager_keeps R W \<Longrightarrow> acts R (start_additions W is m)"
proof (induction W "is" m rule: start_additions.induct)
  case (2 W inst "is" m)
  have "acts R (prepare_sidechain_activation W slot)" for slot
    using "2.prems" unfolding prepare_sidechain_activation_def manager_keeps_def by (intro acts_rules) simp_all
  with 2 show ?case
    by (auto intro!: acts_rules simp: manager_keeps_def split: sum.split)
qed (simp add: acts_ret)

lemma acts_manager_turn:
  "manager_keeps R W \<Longrightarrow> (\<And>m. acts R (ask (select m))) \<Longrightarrow>
     acts R (manager_turn st W select discover configured m)"
  unfolding manager_turn_def follow_record_def Let_def
  by (auto intro!: acts_rules acts_stop_retired acts_start_additions simp: manager_keeps_def split: verdict.split)

end

section \<open>Workers write only through the store\<close>

lemma acts_tip_tick:
  assumes "enforcer_keeps (store_steps (rc_libs R)) E" and "watches_keep (store_steps (rc_libs R)) W"
    and "acts (store_steps (rc_libs R)) beat"
  shows "acts (store_steps (rc_libs R)) (tip_tick E R beat W failed)"
  using assms unfolding tip_tick_def announce_tip_def report_tip_error_def
  by (auto intro!: steps.acts_rules steps.acts_read_tip acts_observe_tip acts_ignore acts_recorder_status
      simp: enforcer_keeps_def watches_keep_def Let_def split: sum.split)

lemma acts_bmm_pass:
  assumes "source_keeps (store_steps (rc_libs R)) S"
    and "transport_keeps (store_steps (rc_libs R)) (rc_publisher R)"
  shows "acts (store_steps (rc_libs R)) (bmm_pass R S gid ready_at failures)"
  using assms(1) unfolding bmm_pass_def
  by (auto intro!: steps.acts_rules steps.acts_bmm_sample acts_ignore acts_recorder_status
      acts_recorder_facts [OF assms(2)] simp: source_keeps_def Let_def split: sum.split)

lemma acts_state_health: "acts (store_steps L) (state_health R failure)"
  unfolding state_health_def by (auto intro!: steps.acts_rules acts_recorder_status split: option.split)

lemma acts_publish_state:
  assumes "refresh_keeps (store_steps (rc_libs R)) W"
    and "transport_keeps (store_steps (rc_libs R)) (rc_publisher R)"
  shows "acts (store_steps (rc_libs R)) (publish_state R W anchor p m)"
  using assms(1) unfolding publish_state_def
  by (auto intro!: steps.acts_rules acts_recorder_facts [OF assms(2)] simp: refresh_keeps_def)

lemma acts_refresh_attempts:
  assumes "acts (store_steps L) read" and "\<And>a p m. acts (store_steps L) (present a p m)"
    and "\<And>f. acts (store_steps L) (health f)"
  shows "acts (store_steps L) (refresh_attempts L' read present health block left n r)"
proof (induction left arbitrary: n r)
  case 0
  show ?case using assms unfolding refresh_attempts.simps [of _ _ _ _ _ 0]
    by (auto intro!: steps.acts_rules simp: Let_def split: sum.split bool.split)
next
  case (Suc left)
  then show ?case using assms unfolding refresh_attempts.simps [of _ _ _ _ _ "Suc left"]
    by (auto intro!: steps.acts_rules simp: Let_def split: sum.split bool.split)
qed

lemma acts_scheduler_turn:
  assumes "\<And>i b. acts (store_steps L) (hw_run H i b)" and "acts (store_steps L) (hw_tip H)"
    and "\<And>q. acts (store_steps L) (ask (select q))"
  shows "acts (store_steps L) (scheduler_turn fuel R H select q)"
proof -
  have reconcile: "acts (store_steps L) (reconcile fuel R H inst target q)" for inst target q
  proof (induction fuel arbitrary: target)
    case (Suc fuel)
    then show ?case using assms(1,2) unfolding reconcile.simps one_pass_def after_pass_def
      by (auto intro!: steps.acts_rules acts_recorder_status split: option.split outcome.split sum.split pass_end.split)
  qed (simp add: steps.acts_ret)
  show ?thesis using assms(3) unfolding scheduler_turn_def handle_request_def Let_def
    by (auto intro!: steps.acts_rules reconcile split: list.split chosen.split)
qed

lemma acts_stream_turn:
  assumes "acts (store_steps L) (ask (sw_now S))" and "acts (store_steps L) (ask (sw_clock S))"
    and "\<And>e. acts (store_steps L) (forward e)"
  shows "acts (store_steps L) (stream_turn L' S slot timeout forward g t)"
  using assms unfolding stream_turn_def forward_item_def
  by (auto intro!: steps.acts_rules split: turn.split option.split sum.split)

lemma acts_publish_live:
  assumes "watches_keep (store_steps (rc_libs R)) W"
    and "transport_keeps (store_steps (rc_libs R)) (rc_publisher R)"
  shows "acts (store_steps (rc_libs R)) (publish_live R W inst e)"
  unfolding publish_live_def
  by (intro steps.acts_rules acts_recorder_facts [OF assms(2)] steps.acts_announce_block [OF assms(1)])

lemma acts_mainchain_turn:
  assumes keeps: "enforcer_keeps (store_steps (rc_libs R)) E" "watches_keep (store_steps (rc_libs R)) W"
    "transport_keeps (store_steps (rc_libs R)) (rc_publisher R)"
    and items: "acts (store_steps (rc_libs R)) (ask items)" and sub: "acts (store_steps (rc_libs R)) subscribe"
    and wait: "\<And>n. acts (store_steps (rc_libs R)) (ask (wait n))"
  shows "acts (store_steps (rc_libs R)) (mainchain_turn fuel E R (wa_channels W) items subscribe wait gap)"
proof -
  let ?R = "store_steps (rc_libs R)"
  have transition: "acts ?R (record_transition E R t)" for t
    using keeps(1) unfolding record_transition_def
    by (auto intro!: steps.acts_rules acts_recorder_facts [OF keeps(3)] simp: enforcer_keeps_def)
  have tip: "acts ?R (reconcile_tip E R (wa_channels W))"
    using keeps(1,2) unfolding reconcile_tip_def
    by (auto intro!: steps.acts_rules acts_recorder_status simp: Let_def enforcer_keeps_def watches_keep_def
        split: sum.split)
  have stream: "acts ?R (follow_stream fuel E R (wa_channels W) items)" for fuel
  proof (induction fuel)
    case (Suc fuel)
    then show ?case by (auto intro!: steps.acts_rules items transition tip split: option.split sum.split)
  qed (simp add: steps.acts_ret)
  have again: "acts ?R (resubscribe fuel R subscribe wait delay)" for fuel delay
  proof (induction fuel arbitrary: delay)
    case (Suc fuel)
    then show ?case by (auto intro!: steps.acts_rules wait sub acts_recorder_status split: sum.split)
  qed (simp add: steps.acts_ret)
  have turn: "acts ?R (subscription_turn fuel E R (wa_channels W) items gap)"
    using keeps(2) unfolding subscription_turn_def
    by (auto intro!: steps.acts_rules steps.acts_boundary [OF keeps(1)] acts_recorder_status transition stream
        simp: watches_keep_def split: sum.split option.split)
  show ?thesis unfolding mainchain_turn_def
    by (auto intro!: steps.acts_rules turn again split: sum.split option.split)
qed

lemma acts_work:
  assumes "live_keeps (store_steps (rc_libs (lw_recorder W))) W"
  shows "acts (store_steps (rc_libs (lw_recorder W))) (worker_turn W k v)"
proof -
  let ?R = "store_steps (rc_libs (lw_recorder W))"
  have keeps: "transport_keeps ?R (rc_publisher (lw_recorder W))" "enforcer_keeps ?R (lw_enforcer W)"
    "watches_keep ?R (lw_watches W)" "acts ?R (lw_beat W)" "source_keeps ?R (lw_auction W)"
    "refresh_keeps ?R (lw_refresh W)" "manager_keeps ?R (lw_manager W)"
    and world: "\<And>i b. acts ?R (hw_run (lw_history W) i b)" "acts ?R (hw_tip (lw_history W))"
    "\<And>q. acts ?R (ask (lw_pick W q))" "\<And>m. acts ?R (ask (lw_manager_pick W m))"
    "acts ?R (ask (sw_now (lw_stream W)))" "acts ?R (ask (sw_clock (lw_stream W)))"
    "acts ?R (ask (lw_items W))" "acts ?R (lw_subscribe W)" "\<And>n. acts ?R (ask (lw_resubscribe_wait W n))"
    using assms unfolding live_keeps_def by simp_all
  show ?thesis
    unfolding worker_turn_def Let_def refresh_wake_def
    by (auto intro!: steps.acts_bind steps.acts_ret acts_tip_tick acts_bmm_pass acts_refresh_attempts
        steps.acts_collect acts_publish_state acts_state_health acts_scheduler_turn steps.acts_manager_turn
        acts_stream_turn acts_publish_live acts_mainchain_turn keeps world split: worker_step.split)
qed

section \<open>Every reachable session\<close>

text \<open>The invariants of the record and of the workers' queues together.\<close>

definition session_inv :: "libs \<Rightarrow> live \<times> 'w st \<Rightarrow> bool" where
  "session_inv L x \<longleftrightarrow> reachable L (snd (snd x)) \<and> scheduler_inv (lv_scheduler (fst x)) \<and>
     manager_inv (lv_manager (fst x))"

text \<open>Only its own step changes what a worker keeps.\<close>

lemma Some_case:
  "Some x = (case r of Inl a \<Rightarrow> None | Inr b \<Rightarrow> Some (f b)) \<longleftrightarrow> (\<exists>b. r = Inr b \<and> x = f b)"
  "Some x = (case q of None \<Rightarrow> None | Some a \<Rightarrow> g a) \<longleftrightarrow> (\<exists>a. q = Some a \<and> Some x = g a)"
  "Some x = map_option h q \<longleftrightarrow> (\<exists>a. q = Some a \<and> x = h a)"
  by (auto split: sum.split option.split) (cases q; simp)

lemma work_scheduler:
  assumes "worker_turn W k v s = (Inr (Some v'), t)"
  shows "lv_scheduler v' = lv_scheduler v \<or> (\<exists>fuel. scheduler_turn fuel (lw_recorder W) (lw_history W) (lw_pick W)
      (lv_scheduler v) s = (Inr (Some (Some (lv_scheduler v'))), t))"
  using assms by (cases k) (auto simp: worker_turn_def Let_def act_Inr Some_case)

lemma work_manager:
  assumes "worker_turn W k v s = (Inr (Some v'), t)"
  shows "lv_manager v' = lv_manager v \<or> manager_turn (rc_store (lw_recorder W)) (lw_manager W) (lw_manager_pick W)
      (lw_discover W) (lw_slots W) (lv_manager v) s = (Inr (Some (lv_manager v')), t)"
  using assms by (cases k) (auto simp: worker_turn_def Let_def act_Inr Some_case)

lemma work_inv:
  assumes "live_keeps (store_steps (rc_libs (lw_recorder W))) W"
    and "session_inv (rc_libs (lw_recorder W)) (v, s)" and "worker_turn W k v s = (Inr (Some v'), t)"
  shows "session_inv (rc_libs (lw_recorder W)) (v', t)"
proof -
  let ?L = "rc_libs (lw_recorder W)"
  have "reachable ?L (snd t)"
    using store_steps_reachable [OF _ actsD [OF acts_work [OF assms(1)] assms(3)]] assms(2)
    by (simp add: session_inv_def)
  moreover have "scheduler_inv (lv_scheduler v')"
    using work_scheduler [OF assms(3)] assms(2) tripleD [OF scheduler_turn_inv]
    by (fastforce simp: session_inv_def)
  moreover have "manager_inv (lv_manager v')"
    using work_manager [OF assms(3)] assms(2) manager_step_inv [of "(lv_manager v, s)" _ _ _ _ _ "(lv_manager v', t)"]
    unfolding manager_step_def by (auto simp: session_inv_def)
  ultimately show ?thesis by (simp add: session_inv_def)
qed

lemma live_steps_inv:
  assumes "live_keeps (store_steps (rc_libs (lw_recorder W))) W"
  shows "(live_step W)\<^sup>*\<^sup>* x y \<Longrightarrow> session_inv (rc_libs (lw_recorder W)) x \<Longrightarrow>
    session_inv (rc_libs (lw_recorder W)) y \<and> store_steps (rc_libs (lw_recorder W)) (snd (snd x)) (snd (snd y))"
proof (induction rule: rtranclp_induct)
  case base
  then show ?case by (simp add: steps.rel_refl)
next
  case (step y z)
  from step.hyps(2) obtain k v s v' t where yz: "y = (v, s)" "z = (v', t)"
    and run: "worker_turn W k v s = (Inr (Some v'), t)" by (auto elim: live_step.cases)
  from step.IH [OF step.prems] have inv: "session_inv (rc_libs (lw_recorder W)) (v, s)"
    and before: "store_steps (rc_libs (lw_recorder W)) (snd (snd x)) (snd s)" by (simp_all add: yz)
  from work_inv [OF assms inv run] steps.rel_trans [OF before actsD [OF acts_work [OF assms] run]]
  show ?case by (simp add: yz)
qed

lemma start_session_keeps:
  assumes "transport_keeps (store_steps (rc_libs R)) (rc_publisher R)"
    and "acts (store_steps (rc_libs R)) (ask clock)" and "acts (store_steps (rc_libs R)) (ask stopping)"
  shows "acts (store_steps (rc_libs R)) (start_session R gid now clock stopping sidechains o')"
  unfolding start_session_def record_initial_snapshot_def Let_def
  by (auto intro!: steps.acts_rules acts_recorder_facts [OF assms(1)] acts_recorder_status assms(2,3))


section \<open>The initial requests\<close>

lemma queue_initial_fits:
  "length queue + length is \<le> BACKFILL_CAPACITY \<Longrightarrow>
     queue_initial target is queue = Inr (queue @ map (\<lambda>i. \<lparr> bq_instance = i, bq_target = target \<rparr>) is)"
  by (induction target "is" queue rule: queue_initial.induct) auto

text \<open>The initial history requests always fit: the instances a session starts with have distinct
  slots, so there are at most 256 of them and queueing one request each for the snapshot's tip
  cannot overflow the channel, whose failure would be a panic.\<close>

theorem initial_requests_fit:
  assumes "active_instances_for_slots L state sidechains = Inr is"
  shows "length is \<le> 256 \<and>
    queue_initial target is [] = Inr (map (\<lambda>i. \<lparr> bq_instance = i, bq_target = target \<rparr>) is)"
proof -
  from assms obtain active where "select_active_instances active sidechains = Inr is"
    by (auto simp: active_instances_for_slots_def res_simps)
  from select_active_Inr [OF this] have "distinct (map ir_sidechain is)"
    using strict_sorted_iff by blast
  from distinct_card [OF this] card_mono [OF finite, of "set (map ir_sidechain is)" UNIV]
  have "length is \<le> card (UNIV :: u8 set)" by simp
  then have "length is \<le> 256" by (simp add: card_word)
  with queue_initial_fits [of "[]" "is" target] show ?thesis by (simp add: BACKFILL_CAPACITY_def)
qed

section \<open>The terminal status\<close>

text \<open>C22: A run ends with an honest status: once the startup returned, the run of the extractor returns
  exactly the outcome of its session, and its row, if still open, is closed as completed after a
  graceful end and as failed with the error as the reason otherwise; no other row changes.\<close>

theorem run_ends_with_its_outcome:
  assumes "validate_args max_blocks_set a = Inr ()"
    and "startup s = (Inr (Some (R, stream, sidechains, o')), s1)"
    and "session_outcome R gid now clock stopping (serve R stream o') sidechains o' s1 = (outcome, s2)"
  shows "case run_extractor a max_blocks_set startup gid now clock stopping serve s of (r, t) \<Rightarrow>
    r = outcome \<and>
    db_runs (snd t) = update_where (active_run (st_run (rc_store R)))
      (case outcome of
         Inr _ \<Rightarrow> close_run ''completed'' (db_clock (snd s2)) (Some ''graceful shutdown'')
       | Inl e \<Rightarrow> close_run ''failed'' (db_clock (snd s2)) (Some (render_error e))) (db_runs (snd s2))"
  using assms
  by (cases outcome)
    (simp_all add: run_extractor_def finish_session_def recorder_finish_def finish_run_def finish_run_tx_def
      run_tx_def bind_tx_def modify_tx_def lift_tx_def bind_act_def attempt_def context_act_def on_db_def lift_act_def fail_act_def)

section \<open>A concrete session\<close>

text \<open>A world that leaves the record alone, and an observation with one sidechain.\<close>

definition still_enforcer :: "unit enforcer" where
  "still_enforcer = \<lparr> en_chain_tip = ret_act None, en_proposals = ret_act [], en_sidechains = ret_act [],
     en_ctip = (\<lambda>_. ret_act None), en_bundles = (\<lambda>_. ret_act []), en_clock = Pair 5 \<rparr>"

definition still_watches :: "unit watches" where
  "still_watches = \<lparr> wa_channels = \<lparr> ch_tip = Pair (sample_block 2), ch_send_block = (\<lambda>_. ret_act ()),
     ch_send_tip = (\<lambda>_. ret_act ()) \<rparr>, wa_block = Pair (sample_hash 2) \<rparr>"

definition still_world :: "(unit, unit) live_world" where
  "still_world = \<lparr> lw_recorder = sample_recorder, lw_enforcer = still_enforcer, lw_watches = still_watches,
     lw_beat = ret_act (), lw_auction = empty_auction, lw_ready_at = 0,
     lw_refresh = \<lparr> rw_fresh = Pair ''g2'', rw_now = Pair (\<lambda>_. 5), rw_bump = ret_act (), rw_wait = (\<lambda>_. Pair RefreshShutdown) \<rparr>,
     lw_slots = [], lw_discover = True, lw_history = deferring_world, lw_pick = asking,
     lw_manager = spawning_world, lw_manager_pick = state_changed,
     lw_stream = \<lparr> sw_turn = (\<lambda>_. Pair StopTurn), sw_now = Pair 0, sw_clock = Pair 5 \<rparr>,
     lw_stall_timeout = 60, lw_items = Pair None, lw_subscribe = ret_act (),
     lw_resubscribe_wait = (\<lambda>_. Pair True) \<rparr>"

definition still_observation :: "unit observation" where
  "still_observation = \<lparr> po_streams = [(3, ())],
     po_snapshot = \<lparr> is_constants = [], is_state = [ActiveSidechains [sample_sidechain 3 5]],
       is_anchor = sample_block 2 \<rparr>,
     po_metadata = \<lparr> sm_revision_before = None, sm_revision_after = None, sm_started_at = 1,
       sm_finished_at = 2, sm_tip_before = sample_block 2, sm_tip_after = sample_block 2,
       sm_consistency = TipMatched, sm_attempts = 1 \<rparr> \<rparr>"

lemma still_world_keeps: "live_keeps (store_steps (rc_libs (lw_recorder still_world))) still_world"
  by (simp add: live_keeps_def still_world_def transport_keeps_def sample_recorder_def dead_publisher_def
      enforcer_keeps_def still_enforcer_def watches_keep_def still_watches_def source_keeps_def empty_auction_def
      refresh_keeps_def deferring_world_def asking_def manager_keeps_def spawning_world_def state_changed_def
      acts_def ret_act_def fail_act_def ask_def steps.rel_refl)

definition still_start :: "(live_start option res) \<times> unit st" where
  "still_start = start_session (lw_recorder still_world) ''g1'' (\<lambda>_. 5) (Pair 5) (Pair False) [] still_observation
     ((), sample_db1)"

lemma still_start_ok: "\<exists>live. fst still_start = Inr (Some live) \<and> lt_instances live \<noteq> []"
proof -
  have "case fst still_start of Inr (Some live) \<Rightarrow> lt_instances live \<noteq> [] | _ \<Rightarrow> False" by code_simp
  then show ?thesis by (auto split: sum.splits option.splits)
qed


theorem initial_requests_fit_witness:
  "\<exists>i. queue_initial (sample_block 2) [i] [] = Inr [\<lparr> bq_instance = i, bq_target = sample_block 2 \<rparr>] \<and>
    active_instances_for_slots sample_libs [ActiveSidechains [sample_sidechain 3 5]] [] = Inr [i]"
proof -
  have "case active_instances_for_slots sample_libs [ActiveSidechains [sample_sidechain 3 5]] [] of
      Inr [i] \<Rightarrow> True | _ \<Rightarrow> False"
    by code_simp
  then obtain i where i: "active_instances_for_slots sample_libs [ActiveSidechains [sample_sidechain 3 5]] [] = Inr [i]"
    by (auto split: sum.splits list.splits)
  from initial_requests_fit [OF this, of "sample_block 2"] i show ?thesis by auto
qed

theorem run_ends_with_its_outcome_witness:
  "case run_extractor sample_args False (ret_act (Some (sample_recorder, (), [], still_observation))) ''g1'' (\<lambda>_. 5)
      (Pair 5) (Pair True) (\<lambda>_ _ _ _. ret_act []) ((), sample_db1) of (r, t) \<Rightarrow>
    r = Inr () \<and> map rn_status (db_runs (snd t)) = [''completed'']"
proof -
  let ?run = "run_extractor sample_args False (ret_act (Some (sample_recorder, (), [], still_observation))) ''g1'' (\<lambda>_. 5)
      (Pair 5) (Pair True) (\<lambda>_ _ _ _. ret_act []) ((), sample_db1)"
  let ?session = "session_outcome sample_recorder ''g1'' (\<lambda>_. 5) (Pair 5) (Pair True) (\<lambda>_. ret_act []) []
      still_observation ((), sample_db1)"
  have session: "fst ?session = Inr ()"
    "map rn_status (update_where (active_run (st_run (rc_store sample_recorder))) (close_run ''completed''
       (db_clock (snd (snd ?session))) (Some ''graceful shutdown'')) (db_runs (snd (snd ?session)))) = [''completed'']"
    by code_simp+
  have "case ?run of (r, t) \<Rightarrow> r = fst ?session \<and> db_runs (snd t) =
      update_where (active_run (st_run (rc_store sample_recorder)))
        (case fst ?session of
           Inr _ \<Rightarrow> close_run ''completed'' (db_clock (snd (snd ?session))) (Some ''graceful shutdown'')
         | Inl e \<Rightarrow> close_run ''failed'' (db_clock (snd (snd ?session))) (Some (render_error e)))
        (db_runs (snd (snd ?session)))"
    by (rule run_ends_with_its_outcome [OF sample_args_valid, where serve = "\<lambda>_ _ _ _. ret_act []"])
      (simp_all add: ret_act_def)
  then show ?thesis unfolding case_prod_beta using session by simp
qed

end
