(* ===== verification/Client.thy ===== *)
theory Client
  imports Manager Session
begin

text \<open>
  The read-only client of the validator, \<^verbatim>\<open>src/extractors/enforcer/src/client.rs\<close>:
  the request each method builds and the context its failure gets, over the generated service client
  as a parameter; and how the sources of the other components are made of it. The deadline of a
  unary request is the transport's and reported as a status; the one around the set-up of a stream
  is the client's own.
\<close>

section \<open>Requests\<close>

definition reverse_hex :: "string \<Rightarrow> hex_field" where
  "reverse_hex value = Some (Some value)"

record block_info_request =
  bi_block_hash :: hex_field
  bi_sidechain :: "u32 option"
  bi_max_ancestors :: "u32 option"

record seen_bmm_request =
  sb_previous_block :: hex_field
  sb_sidechain :: "u32 option"

text \<open>The set-up of a stream: the deadline passed, or the service answered.\<close>

datatype 's stream_setup = SetupTimedOut | SetupDone "'s res"

record ('w, 's) validator =
  vs_get_chain_info :: "('w, up_chain_info) act"
  vs_get_chain_tip :: "('w, up_header option) act"
  vs_get_block_info :: "block_info_request \<Rightarrow> ('w, up_info list) act"
  vs_get_sidechain_proposals :: "('w, up_proposal list) act"
  vs_get_sidechains :: "('w, up_sidechain_info list) act"
  vs_get_ctip :: "u32 option \<Rightarrow> ('w, up_ctip option) act"
  vs_get_seen_bmm_requests :: "seen_bmm_request \<Rightarrow> ('w, up_bmm_request list) act"
  vs_get_withdrawal_bundle_proposals :: "u32 option \<Rightarrow> ('w, up_bundle_proposal list) act"
  vs_subscribe_events :: "u32 option \<Rightarrow> 'w \<times> db \<Rightarrow> 's stream_setup \<times> ('w \<times> db)"

section \<open>The client's methods\<close>

definition get_chain_info :: "('w, 's) validator \<Rightarrow> ('w, up_chain_info) act" where
  "get_chain_info V = context_act ''calling ValidatorService.GetChainInfo'' (vs_get_chain_info V)"

definition get_chain_tip :: "('w, 's) validator \<Rightarrow> ('w, up_header option) act" where
  "get_chain_tip V = context_act ''calling ValidatorService.GetChainTip'' (vs_get_chain_tip V)"

definition get_block_info ::
  "('w, 's) validator \<Rightarrow> string \<Rightarrow> u8 \<Rightarrow> u32 option \<Rightarrow> ('w, up_info list) act" where
  "get_block_info V block_hash slot max_ancestors =
     context_act (''calling ValidatorService.GetBlockInfo for sidechain '' @ show_nat (unat slot))
       (vs_get_block_info V
         \<lparr> bi_block_hash = reverse_hex block_hash, bi_sidechain = Some (ucast slot),
           bi_max_ancestors = max_ancestors \<rparr>)"

definition get_sidechain_proposals :: "('w, 's) validator \<Rightarrow> ('w, up_proposal list) act" where
  "get_sidechain_proposals V =
     context_act ''calling ValidatorService.GetSidechainProposals'' (vs_get_sidechain_proposals V)"

definition get_sidechains :: "('w, 's) validator \<Rightarrow> ('w, up_sidechain_info list) act" where
  "get_sidechains V = context_act ''calling ValidatorService.GetSidechains'' (vs_get_sidechains V)"

definition get_ctip :: "('w, 's) validator \<Rightarrow> u8 \<Rightarrow> ('w, up_ctip option) act" where
  "get_ctip V slot =
     context_act (''calling ValidatorService.GetCtip for sidechain '' @ show_nat (unat slot))
       (vs_get_ctip V (Some (ucast slot)))"

definition get_seen_bmm_requests ::
  "('w, 's) validator \<Rightarrow> string \<Rightarrow> u8 option \<Rightarrow> ('w, up_bmm_request list) act" where
  "get_seen_bmm_requests V previous slot =
     context_act ''calling ValidatorService.GetSeenBmmRequests''
       (vs_get_seen_bmm_requests V
         \<lparr> sb_previous_block = reverse_hex previous, sb_sidechain = map_option ucast slot \<rparr>)"

definition get_withdrawal_bundle_proposals ::
  "('w, 's) validator \<Rightarrow> u8 \<Rightarrow> ('w, up_bundle_proposal list) act" where
  "get_withdrawal_bundle_proposals V slot =
     context_act (''calling ValidatorService.GetWithdrawalBundleProposals for sidechain '' @ show_nat (unat slot))
       (vs_get_withdrawal_bundle_proposals V (Some (ucast slot)))"

definition await_stream_setup :: "u8 \<Rightarrow> 's stream_setup \<Rightarrow> 's res" where
  "await_stream_setup slot opened =
     (case opened of
        SetupTimedOut \<Rightarrow>
          Inl (Context (''waiting for ValidatorService.SubscribeEvents for sidechain '' @ show_nat (unat slot))
                 (Message ''deadline has elapsed''))
      | SetupDone r \<Rightarrow>
          with_context (''calling ValidatorService.SubscribeEvents for sidechain '' @ show_nat (unat slot)) r)"

definition subscribe_events :: "('w, 's) validator \<Rightarrow> u8 \<Rightarrow> ('w, 's) act" where
  "subscribe_events V slot =
     bind_act (ask (vs_subscribe_events V (Some (ucast slot)))) (\<lambda>opened.
     lift_act (await_stream_setup slot opened))"

section \<open>The sources made of it\<close>

text \<open>What the readers of mutable state, the auction sampler and the slot manager ask for.\<close>

definition client_enforcer :: "('w, 's) validator \<Rightarrow> ('w \<times> db \<Rightarrow> int \<times> ('w \<times> db)) \<Rightarrow> 'w enforcer" where
  "client_enforcer V clock =
     \<lparr> en_chain_tip = get_chain_tip V, en_proposals = get_sidechain_proposals V,
       en_sidechains = get_sidechains V, en_ctip = get_ctip V,
       en_bundles = get_withdrawal_bundle_proposals V, en_clock = clock \<rparr>"

definition client_auction ::
  "libs \<Rightarrow> ('w, 's) validator \<Rightarrow> ('w \<times> db \<Rightarrow> int \<times> ('w \<times> db)) \<Rightarrow> ('w \<times> db \<Rightarrow> int \<times> ('w \<times> db)) \<Rightarrow> 'w bmm_source" where
  "client_auction L V clock instant =
     enforcer_bmm L (client_enforcer V clock) (\<lambda>parent. get_seen_bmm_requests V parent None) instant"

definition client_activations ::
  "libs \<Rightarrow> ('w, 's) validator \<Rightarrow> ('w \<times> db \<Rightarrow> int \<times> ('w \<times> db)) \<Rightarrow> ('w, 's) manager_world \<Rightarrow> ('w, 's) manager_world" where
  "client_activations L V clock W =
     W\<lparr> mw_subscribe := subscribe_events V, mw_tip := read_tip L (client_enforcer V clock) \<rparr>"

definition client_startup ::
  "libs \<Rightarrow> ('w, 's) validator \<Rightarrow> ('w \<times> db \<Rightarrow> int \<times> ('w \<times> db)) \<Rightarrow> ('w, 's) startup_source" where
  "client_startup L V clock =
     \<lparr> su_instances =
         bind_act (get_sidechains V) (\<lambda>ss.
         lift_act (bind_res (convert_actives L ss) (\<lambda>active.
           bind_res (ok_or ''expected an active-sidechains payload while preparing subscriptions''
             (active_instances L (Some active))) (\<lambda>r. r)))),
       su_subscribe = subscribe_events V, su_tip = read_tip L (client_enforcer V clock),
       su_snapshot = collect_snapshot L (client_enforcer V clock) (get_chain_info V), su_clock = clock \<rparr>"

end
