(* ===== verification/Client_Properties.thy ===== *)
theory Client_Properties
  imports Client Manager_Properties
begin

text \<open>
  Which failures of the validator the slot manager survives: those the service reports with a
  transient status, but not the client's own deadline around the set-up of a stream.
\<close>

lemma subscribe_events_result:
  assumes "vs_subscribe_events V (Some (ucast slot)) s = (opened, t)"
  shows "subscribe_events V slot s = (await_stream_setup slot opened, t)"
  using assms by (simp add: subscribe_events_def bind_act_def ask_def lift_act_def)

lemma has_code_context [simp]: "error_has_code c (Context msg e) = error_has_code c e"
  by simp

lemma retryable_context [simp]: "retryable_rpc_error (Context msg e) = retryable_rpc_error e"
  by (simp add: retryable_rpc_error_def)

text \<open>C32: The activation of a newly active instance survives a transient answer but not a silent
  validator: when the service refuses the subscription with a cancelled, deadline, resource or
  unavailable status, the instance is left to a sleeping retry and the other instances are set up;
  when the set-up of the stream runs into the client's own deadline, the error carries no status,
  is not taken for a transient one, and ends the turn, and so the worker and the extractor.\<close>

theorem activation_survives_only_answers:
  assumes "mw_subscribe W = subscribe_events V"
    and "vs_subscribe_events V (Some (ucast (ir_sidechain inst))) s = (opened, t)"
  shows "case opened of
      SetupTimedOut \<Rightarrow> \<exists>e. start_additions W (inst # is) m s = (Inl e, t)
    | SetupDone (Inl (Status code)) \<Rightarrow>
        if code \<in> {Cancelled, DeadlineExceeded, ResourceExhausted, Unavailable}
        then start_additions W (inst # is) m s =
          start_additions W is (schedule_sidechain_activation_retry inst m) t
        else \<exists>e. start_additions W (inst # is) m s = (Inl e, t)
    | _ \<Rightarrow> True"
proof -
  let ?slot = "ir_sidechain inst"
  have failed: "start_additions W (inst # is) m s =
      (if retryable_rpc_error e then start_additions W is (schedule_sidechain_activation_retry inst m) t
       else (Inl (Context ''subscribing to newly active sidechain'' e), t))"
    if "await_stream_setup ?slot opened = Inl e" for e
    using that subscribe_events_result [OF assms(2)] assms(1)
    by (simp add: bind_act_def attempt_def prepare_sidechain_activation_def context_act_def fail_act_def)
  show ?thesis
  proof (cases opened)
    case SetupTimedOut
    with failed show ?thesis by (simp add: await_stream_setup_def retryable_rpc_error_def)
  next
    case (SetupDone r)
    show ?thesis
    proof (cases r)
      case (Inl e)
      with SetupDone failed show ?thesis
        by (cases e) (auto simp: await_stream_setup_def retryable_rpc_error_def)
    qed (use SetupDone in simp)
  qed
qed

text \<open>A validator that lets every subscription run into the deadline.\<close>

definition silent_validator :: "(unit, unit) validator" where
  "silent_validator = \<lparr> vs_get_chain_info = fail_act Transport, vs_get_chain_tip = ret_act None,
     vs_get_block_info = (\<lambda>_. ret_act []), vs_get_sidechain_proposals = ret_act [], vs_get_sidechains = ret_act [],
     vs_get_ctip = (\<lambda>_. ret_act None), vs_get_seen_bmm_requests = (\<lambda>_. ret_act []),
     vs_get_withdrawal_bundle_proposals = (\<lambda>_. ret_act []), vs_subscribe_events = (\<lambda>_. Pair SetupTimedOut) \<rparr>"

theorem activation_survives_only_answers_witness:
  "\<exists>e. start_additions (client_activations sample_libs silent_validator (Pair 5) spawning_world)
      [sample_instance] fresh_manager ((), empty_db) = (Inl e, ((), empty_db))"
  using activation_survives_only_answers [of "client_activations sample_libs silent_validator (Pair 5) spawning_world"
      silent_validator sample_instance "((), empty_db)" SetupTimedOut "((), empty_db)" "[]" fresh_manager]
  by (simp add: client_activations_def silent_validator_def)

end
