(* ===== verification/Separation.thy ===== *)
theory Separation
  imports Walk_Laws
begin

text \<open>
  The sources of one dataset keep apart: what a store of one source does leaves the facts, the
  coverage rows and the certified blocks of every other source as they were. So the validator's and
  the node's workers, side by side on one record, give each other's walks what they rely on.
\<close>

section \<open>Operations of one source\<close>

inductive store_op :: "libs \<Rightarrow> store \<Rightarrow> db \<Rightarrow> db \<Rightarrow> bool" for L st where
  tick: "db_clock d \<le> now \<Longrightarrow> store_op L st d (d\<lparr> db_clock := now \<rparr>)"
| identity: "store_op L st d (snd (initialize_identity (st_source st) m ds run d))"
| batch: "store_op L st d (snd (record_batch L st events mth inst d))"
| snapshot: "store_op L st d (snd (record_snapshot L st gid events mth md d))"
| tip: "store_op L st d (snd (record_tip_observation st block previous mth at d))"
| init_workers: "store_op L st d (snd (initialize_worker_statuses st ws d))"
| failure: "store_op L st d (snd (record_worker_failure st w err n d))"
| success: "store_op L st d (snd (record_worker_success st w d))"
| finish: "store_op L st d (snd (finish_run st status reason d))"
| fees: "store_op L st d (snd (record_fee_enrichment L st src event d))"
| fee_failure: "store_op L st d (snd (record_fee_failure st src err d))"
| floor: "store_op L st d (snd (set_history_floor st stream sl inst cursor fh ft d))"
| cycle: "store_op L st d
    (snd (begin_history_cycle st stream sl inst start covered target fh ft page_blocks d))"
| page: "store_op L st d (snd (record_history_page L st events page d))"
| resize: "store_op L st d (snd (resize_history_page st stream sl inst page_blocks err d))"
| resume: "store_op L st d (snd (resume_history st stream sl inst d))"
| settle: "store_op L st d (snd (settle_history_failure st stream sl inst err d))"
| supersede: "store_op L st d (snd (supersede_history st stream slot iid reason d))"

lemma store_op_step: "store_op L st d d' \<Longrightarrow> store_step L d d'"
  by (induction rule: store_op.induct) (auto intro: store_step.intros)

text \<open>A step of any other source.\<close>

definition foreign_step :: "libs \<Rightarrow> string \<Rightarrow> db \<Rightarrow> db \<Rightarrow> bool" where
  "foreign_step L source d d' \<longleftrightarrow> (\<exists>st. st_source st \<noteq> source \<and> store_op L st d d')"

section \<open>The rows of a source\<close>

definition apart :: "string \<Rightarrow> db \<Rightarrow> db \<Rightarrow> bool" where
  "apart source d d' \<longleftrightarrow>
     filter (\<lambda>e. sc_source (er_scope e) = source) (db_events d') =
       filter (\<lambda>e. sc_source (er_scope e) = source) (db_events d) \<and>
     filter (\<lambda>r. sc_source (cv_scope r) = source) (db_coverage d') =
       filter (\<lambda>r. sc_source (cv_scope r) = source) (db_coverage d) \<and>
     filter (\<lambda>c. sc_source (ce_scope c) = source) (db_certified d') =
       filter (\<lambda>c. sc_source (ce_scope c) = source) (db_certified d)"

interpretation apart: step_relation "apart source" for source
  by unfold_locales (simp_all add: apart_def)

lemma apart_same:
  "db_events d' = db_events d \<Longrightarrow> db_coverage d' = db_coverage d \<Longrightarrow> db_certified d' = db_certified d \<Longrightarrow>
     apart source d d'"
  by (simp add: apart_def)

lemma apart_update [simp]:
  "apart source d (d\<lparr> db_runs := a \<rparr>)" "apart source d (d\<lparr> db_status := b \<rparr>)"
  "apart source d (d\<lparr> db_manifests := m \<rparr>)" "apart source d (d\<lparr> db_fee_jobs := f \<rparr>)"
  "apart source d (d\<lparr> db_clock := t \<rparr>)" "apart source d (d\<lparr> db_failures := g \<rparr>)"
  "apart source d (d\<lparr> db_groups := h \<rparr>)" "apart source d (d\<lparr> db_tips := i \<rparr>)"
  "apart source d (d\<lparr> db_observations := j \<rparr>)"
  by (simp_all add: apart_def)

lemma scope_source [simp]:
  "sc_source (history_scope st stream sl inst) = st_source st" "sc_source (page_scope st page) = st_source st"
  by (simp_all add: history_scope_def page_scope_def)

section \<open>Facts\<close>

lemma insert_fact_apart: "sc_source (er_scope row) \<noteq> source \<Longrightarrow> rel_tx (apart source) (insert_fact row)"
proof (rule rel_txI)
  fix d x d' assume other: "sc_source (er_scope row) \<noteq> source" and run: "insert_fact row d = Inr (x, d')"
  obtain b i where x: "x = (b, i)" by (cases x)
  from run [unfolded x] show "apart source d d'"
  proof (cases rule: insert_fact_cases)
    case known
    then show ?thesis by (simp add: apart.step_refl)
  next
    case (fresh r)
    with other show ?thesis by (simp add: apart_def observe_block_fact_def)
  qed
qed

lemma insert_event_apart:
  assumes "st_source st \<noteq> source"
  shows "rel_tx (apart source) (insert_event L st mth grp es ei seq event cache)"
proof -
  have instances: "rel_tx (apart source) (update_sidechain_instances L ds event at auth c)" for ds at auth c
  proof (rule rel_txI)
    fix d x d' assume "update_sidechain_instances L ds event at auth c d = Inr (x, d')"
    from rel_txD [OF update_sidechain_instances_frame this] show "apart source d d'"
      by (cases d; cases d') (simp add: instance_frame_def apart_def)
  qed
  have resolve: "rel_tx (apart source) (resolve_instance ds f es ei c)" for ds f c
    unfolding resolve_instance_def by (auto intro!: apart.rel_rules split: option.split)
  have auth: "rel_tx (apart source) (group_authoritative grp)"
    unfolding group_authoritative_def by (auto intro!: apart.rel_rules split: option.split)
  have observe: "rel_tx (apart source) (insert_observation row)" for row
    unfolding insert_observation_def by (intro apart.rel_rules apart.rel_modify) simp
  show ?thesis unfolding insert_event_def using assms
    by (auto intro!: apart.rel_rules instances resolve auth observe insert_fact_apart split: prod.split)
qed

lemma insert_all_apart:
  "st_source st \<noteq> source \<Longrightarrow> rel_tx (apart source) (insert_all L st mth grp es ei first events)"
  by (rule insert_all_rel [OF apart.step_relation_axioms insert_event_apart])

section \<open>Coverage\<close>

lemma insert_certified_apart:
  "(\<And>c. c \<in> set new \<Longrightarrow> sc_source (ce_scope c) \<noteq> source) \<Longrightarrow>
     filter (\<lambda>c. sc_source (ce_scope c) = source) (insert_certified new cs) =
       filter (\<lambda>c. sc_source (ce_scope c) = source) cs"
  by (induction new cs rule: insert_certified.induct) auto

lemma certify_history_apart:
  "sc_source (cv_scope r) \<noteq> source \<Longrightarrow> rel_tx (apart source) (certify_history r)"
proof (rule rel_txI)
  fix d u d' assume other: "sc_source (cv_scope r) \<noteq> source" and "certify_history r d = Inr (u, d')"
  from this(2) show "apart source d d'"
  proof (cases rule: certify_history_cases)
    case other
    then show ?thesis by (simp add: apart.step_refl)
  next
    case complete
    with other show ?thesis
      by (auto simp: apart_def certified_of_def intro!: insert_certified_apart)
  qed
qed

lemma certify_all_apart:
  assumes "fold_tx (\<lambda>r _. certify_history r) rs a d = Inr (u, d')"
    and "\<And>r. r \<in> set rs \<Longrightarrow> sc_source (cv_scope r) \<noteq> source"
  shows "apart source d d'"
  using assms
proof (induction rs arbitrary: a d)
  case Nil
  then show ?case by (simp add: apart.step_refl)
next
  case (Cons r rs)
  from Cons.prems(1) obtain b d1 where one: "certify_history r d = Inr (b, d1)"
    and rest: "fold_tx (\<lambda>r _. certify_history r) rs b d1 = Inr (u, d')"
    by (auto simp: res_simps)
  have "apart source d d1"
    by (rule rel_txD [OF certify_history_apart one]) (simp add: Cons.prems(2))
  moreover have "apart source d1 d'" by (rule Cons.IH [OF rest]) (simp add: Cons.prems(2))
  ultimately show ?case by (rule apart.step_trans)
qed

lemma filter_update_where:
  "(\<And>r. p r \<Longrightarrow> \<not> K r \<and> \<not> K (f r)) \<Longrightarrow> filter K (update_where p f rows) = filter K rows"
  by (induction rows) auto

text \<open>An update of rows whose scope is another source's, which keeps their scope.\<close>

lemma update_coverage_apart:
  assumes "\<And>r. p r \<Longrightarrow> sc_source (cv_scope r) \<noteq> source \<and> cv_scope (f r) = cv_scope r"
  shows "rel_tx (apart source) (update_coverage p f)"
proof (rule rel_txI)
  fix d n d' assume run: "update_coverage p f d = Inr (n, d')"
  have other: "sc_source (cv_scope r) \<noteq> source \<and> sc_source (cv_scope (f r)) \<noteq> source" if "p r" for r
    using assms [OF that] by simp
  let ?new = "map f (filter p (db_coverage d))"
  from run obtain d1 where cert: "fold_tx (\<lambda>r _. certify_history r) ?new () d = Inr ((), d1)"
    and d': "d' = d1\<lparr> db_coverage := update_where p f (db_coverage d1),
       db_revisions := db_revisions d1 @ map (Pair ''UPDATE'') ?new \<rparr>"
    by (auto simp: update_coverage_def res_simps)
  have new: "sc_source (cv_scope r) \<noteq> source" if "r \<in> set ?new" for r
    using that other by force
  have "apart source d d1" using cert new by (rule certify_all_apart)
  moreover have "apart source d1 d'"
    unfolding d' using other by (simp add: apart_def filter_update_where)
  ultimately show "apart source d d'" by (rule apart.step_trans)
qed

lemma upsert_coverage_apart:
  assumes "sc_source (cv_scope new) \<noteq> source"
  shows "rel_tx (apart source) (upsert_coverage new)"
proof -
  have insert: "rel_tx (apart source) (insert_coverage new)"
    unfolding insert_coverage_def
    by (intro apart.rel_rules apart.rel_modify certify_history_apart assms) (simp add: apart_def assms)
  have update: "rel_tx (apart source) (update_coverage (in_scope (cv_scope new)) (restart_cycle new))"
    by (rule update_coverage_apart) (auto simp: in_scope_def restart_cycle_def assms)
  show ?thesis unfolding upsert_coverage_def
    by (auto intro!: apart.rel_rules insert update split: option.split)
qed

section \<open>Every operation\<close>

lemma reserve_apart: "rel_tx (apart source) (reserve_capture_sequences run n)"
  unfolding reserve_capture_sequences_def by (intro apart.rel_rules apart.rel_modify) simp_all

lemma status_apart: "rel_tx (apart source) (update_extractor_status st tip)"
  unfolding update_extractor_status_def by (intro apart.rel_rules apart.rel_modify) simp_all

lemma validate_instance_apart: "rel_tx (apart source) (validate_sidechain_instance ds slot i)"
  unfolding validate_sidechain_instance_def by (rule apart.rel_ensure)

lemma schedule_apart: "rel_tx (apart source) (schedule_fee_job st src closed err)"
  unfolding schedule_fee_job_def by (intro apart.rel_rules apart.rel_modify) simp_all

lemma health_apart: "health_frame d d' \<Longrightarrow> apart source d d'"
  by (cases d; cases d') (simp add: health_frame_def apart_def)

lemma facts_apart:
  assumes "st_source st \<noteq> source"
  shows "rel_tx (apart source) (record_batch_tx L st events mth inst)"
    "rel_tx (apart source) (record_snapshot_tx L st gid events mth m)"
    "rel_tx (apart source) (record_tip_tx st tip previous mth at)"
    "rel_tx (apart source) (record_node_fees_tx L st src event node)"
  unfolding record_batch_tx_def record_snapshot_tx_def insert_group_def record_tip_tx_def insert_tip_def
    record_node_fees_tx_def
  by (auto intro!: apart.rel_rules apart.rel_modify validate_instance_apart reserve_apart status_apart
      schedule_apart insert_all_apart [OF assms] insert_event_apart [OF assms] split: option.split prod.split)

lemma identity_apart: "rel_tx (apart source) (initialize_identity_tx name m ds run)"
proof -
  have "rel_tx (apart source) (resolve_dataset fresh m h v)" for fresh h v
    unfolding resolve_dataset_def
    by (auto intro!: apart.rel_rules apart.rel_modify split: option.split)
  moreover have "rel_tx (apart source) (insert_run r)" for r
    unfolding insert_run_def by (intro apart.rel_rules apart.rel_modify) simp_all
  moreover have "rel_tx (apart source) (restart_gap d s r)" for d s r
    unfolding restart_gap_def
    by (rule apart.rel_modify) (simp add: apart.step_refl split: option.split)
  ultimately show ?thesis
    unfolding initialize_identity_tx_def close_orphans_def claim_status_def Let_def
    by (intro apart.rel_rules apart.rel_modify) simp_all
qed

lemma page_apart:
  assumes "st_source st \<noteq> source"
  shows "rel_tx (apart source) (record_history_page_tx L st events page)"
proof -
  have "rel_tx (apart source) (validate_page_instance st page)"
    unfolding validate_page_instance_def
    by (auto intro: apart.rel_ret validate_instance_apart split: option.split)
  moreover have "rel_tx (apart source) (update_coverage (page_predicate (page_scope st page) h n)
      (advance_row c k nh nt i now))" for h n c k nh nt i now
    by (rule update_coverage_apart) (auto simp: page_predicate_def assms)
  ultimately show ?thesis
    unfolding record_history_page_tx_def Let_def
    by (auto intro!: apart.rel_rules reserve_apart insert_all_apart [OF assms] split: prod.split)
qed

lemma finish_apart: "rel_tx (apart source) (finish_run_tx st status reason)"
  unfolding finish_run_tx_def by (intro apart.rel_rules apart.rel_modify) simp_all

lemma history_apart:
  assumes "st_source st \<noteq> source"
  shows "apart source d (snd (set_history_floor st stream sl inst cursor fh ft d))"
    "apart source d (snd (begin_history_cycle st stream sl inst start covered target fh ft n d))"
    "apart source d (snd (resize_history_page st stream sl inst n err d))"
    "apart source d (snd (resume_history st stream sl inst d))"
    "apart source d (snd (settle_history_failure st stream sl inst err d))"
    "apart source d (snd (supersede_history st stream slot iid err d))"
proof -
  note scoped = running_at_def resumable_def settle_row_def assms assms [symmetric]
  show "apart source d (snd (set_history_floor st stream sl inst cursor fh ft d))"
    unfolding set_history_floor_def
    by (rule apart.rel_run) (intro apart.rel_rules update_coverage_apart; simp add: scoped)
  show "apart source d (snd (begin_history_cycle st stream sl inst start covered target fh ft n d))"
    unfolding begin_history_cycle_def case_prod_beta Let_def snd_conv
    by (rule apart.rel_run)
      (auto intro!: apart.rel_rules upsert_coverage_apart simp: begin_cycle_row_def assms assms [symmetric] split: prod.split)
  show "apart source d (snd (resize_history_page st stream sl inst n err d))"
    unfolding resize_history_page_def
    by (rule apart.rel_run) (intro apart.rel_rules update_coverage_apart; simp add: scoped)
  show "apart source d (snd (resume_history st stream sl inst d))"
    unfolding resume_history_def
    by (rule apart.rel_run) (intro apart.rel_rules update_coverage_apart; simp add: scoped)
  show "apart source d (snd (settle_history_failure st stream sl inst err d))"
    unfolding settle_history_failure_def Let_def
    by (rule apart.rel_run) (intro apart.rel_rules update_coverage_apart; simp add: scoped)
  show "apart source d (snd (supersede_history st stream slot iid err d))"
    unfolding supersede_history_def
    by (rule apart.rel_run) (intro apart.rel_rules update_coverage_apart; simp add: scoped)
qed

lemma store_op_apart: "store_op L st d d' \<Longrightarrow> st_source st \<noteq> source \<Longrightarrow> apart source d d'"
proof (induction rule: store_op.induct)
  case (page d events page)
  then show ?case using apart.rel_run [OF page_apart] by (simp add: record_history_page_def case_prod_beta)
next
  case (fees d src event)
  then show ?case
    using apart.rel_run [OF facts_apart(4)] apart.step_refl
    by (auto simp: record_fee_enrichment_def split: option.splits monitor_event.splits)
next
  case (init_workers d ws)
  show ?case by (rule health_apart [OF initialize_worker_statuses_frame])
next
  case (failure d w err n)
  show ?case
    unfolding record_worker_failure_def
    by (rule health_apart [OF health.rel_run [OF record_worker_failure_frame]])
next
  case (success d w)
  show ?case
    unfolding record_worker_success_def
    by (rule health_apart [OF health.rel_run [OF record_worker_success_frame]])
qed (simp_all add: history_apart record_batch_def record_snapshot_def record_tip_observation_def
    apart.step_refl initialize_identity_def finish_run_def record_fee_failure_def apart.rel_run [OF identity_apart]
    apart.rel_run [OF finish_apart] apart.rel_run [OF schedule_apart] apart.rel_run [OF facts_apart(1)]
    apart.rel_run [OF facts_apart(2)] apart.rel_run [OF facts_apart(3)])

section \<open>The sources keep apart\<close>

lemma find_filter: "(\<And>x. P x \<Longrightarrow> K x) \<Longrightarrow> find P (filter K xs) = find P xs"
  by (induction xs) auto

text \<open>C19: The sources of a dataset keep apart: whatever the stores of other sources do, in any order,
  the facts, the coverage rows and the certified blocks of a source stay as they are. So beside the
  validator's workers the node's walk finds its own coverage row untouched, and the other way
  round: each side gives the other what its walk relies on.\<close>

theorem sources_keep_apart:
  assumes "(foreign_step L (st_source st))\<^sup>*\<^sup>* d d'"
  shows "apart (st_source st) d d' \<and> others L st sc d d'"
  using assms
proof (induction rule: rtranclp_induct)
  case base
  show ?case by (simp add: apart.step_refl oth.rel_refl)
next
  case (step d1 d2)
  then obtain st' where st': "st_source st' \<noteq> st_source st" "store_op L st' d1 d2"
    by (auto simp: foreign_step_def)
  have apart: "apart (st_source st) d1 d2" by (rule store_op_apart [OF st'(2,1)])
  have "own_row st sc x = find (in_scope (scope_key st sc))
      (filter (\<lambda>r. sc_source (cv_scope r) = st_source st) (db_coverage x))" for x
    unfolding own_row_def by (rule find_filter [symmetric]) (auto simp: in_scope_def scope_key_def)
  with apart have "own_row st sc d2 = own_row st sc d1" by (simp add: apart_def)
  then have "others L st sc d1 d2"
    using store_stepI [OF store_op_step [OF st'(2)]] by (simp add: others_def)
  with step.IH apart show ?case by (blast intro: apart.step_trans oth.rel_trans)
qed

text \<open>The validator's cycle begun beside the node's, in the sample record.\<close>

theorem sources_keep_apart_witness:
  "own_row sample_store \<lparr> hs_stream = ''mainchain_block'', hs_sidechain = None, hs_instance = None,
       hs_activation = 1, hs_start_hash = None \<rparr>
     (snd (begin_history_cycle (sample_store\<lparr> st_source := ''enforcer'' \<rparr>) ''mainchain_block'' None None 1 None
        (sample_block 2) None (Some 0) 10 sample_db2)) =
   own_row sample_store \<lparr> hs_stream = ''mainchain_block'', hs_sidechain = None, hs_instance = None,
       hs_activation = 1, hs_start_hash = None \<rparr> sample_db2"
proof -
  let ?d = "snd (begin_history_cycle (sample_store\<lparr> st_source := ''enforcer'' \<rparr>) ''mainchain_block'' None None 1 None
        (sample_block 2) None (Some 0) 10 sample_db2)"
  have "foreign_step sample_libs (st_source sample_store) sample_db2 ?d"
    unfolding foreign_step_def
    by (rule exI [of _ "sample_store\<lparr> st_source := ''enforcer'' \<rparr>"])
      (simp add: store_op.cycle sample_store_def)
  from sources_keep_apart [OF r_into_rtranclp [of "foreign_step sample_libs (st_source sample_store)", OF this]]
  show ?thesis by (auto simp: others_def)
qed

end
