(* ===== verification/Service.thy ===== *)
theory Service
  imports Fees Startup
begin

text \<open>
  The extractor with an archive node beside the validator, from
  \<^verbatim>\<open>src/extractors/enforcer/src/node.rs\<close>: opening the node's run, its history worker and,
  when configured, the confirmed-fee worker beside it, the end of its run; and the service around
  both sides, which retries the validator's side while it is unreachable and stops both when one
  fails.
\<close>

section \<open>The node's client\<close>

record node_url =
  nu_scheme :: string
  nu_username :: string
  nu_password :: "string option"

text \<open>Parsing the address is the URL library's; the HTTP client that is built is not modelled.\<close>

definition node_client_new :: "(string \<Rightarrow> node_url option) \<Rightarrow> string \<Rightarrow> node_url res" where
  "node_client_new parse endpoint =
     bind_res (with_context ''invalid node RPC URL'' (ok_or ''invalid URL'' (parse endpoint))) (\<lambda>url.
     bind_res (ensure (nu_scheme url = ''http'' \<and> nu_username url = [] \<and> nu_password url = None)
       ''node RPC requires a private HTTP URL without embedded credentials'') (\<lambda>_.
     Inr url))"

section \<open>Opening the node's run\<close>

definition check_activation :: "'w node_client \<Rightarrow> u32 \<Rightarrow> bytes option \<Rightarrow> ('w, unit) act" where
  "check_activation C activation start_hash =
     (case start_hash of
        None \<Rightarrow> ret_act ()
      | Some expected \<Rightarrow>
          bind_act (node_rpc C ''getblockhash'' [JNum (uint activation)]) (\<lambda>actual.
          bind_act (lift_act (hash_bytes (nc_libs C) actual)) (\<lambda>hash.
          lift_act (ensure (hash = expected) ''node activation identity mismatch''))))"

text \<open>
  \<open>client\<close> is the HTTP client over a parsed address and a cookie file, \<open>connect\<close> the connection of
  the recorder as the source \<^verbatim>\<open>node\<close> with the manifest of the arguments.
\<close>

definition open_node ::
  "libs \<Rightarrow> (string \<Rightarrow> node_url option) \<Rightarrow> args \<Rightarrow> (node_url \<Rightarrow> string \<Rightarrow> 'w node_client) \<Rightarrow>
   (manifest \<Rightarrow> ('w, 'w recorder) act) \<Rightarrow> ('w, 'w node_client \<times> 'w recorder \<times> node_block adapter) act" where
  "open_node L parse a client connect =
     bind_act (lift_act (ok_or ''missing node endpoint'' (ar_node_rpc_endpoint a))) (\<lambda>endpoint.
     bind_act (lift_act (ok_or ''missing node cookie file'' (ar_node_rpc_cookie_file a))) (\<lambda>cookie.
     bind_act (lift_act (node_client_new parse endpoint)) (\<lambda>url.
     let C = client url cookie in
     bind_act (lift_act (activation_block_hash_bytes L a)) (\<lambda>start_hash.
     bind_act (check_activation C (ar_activation_height a) start_hash) (\<lambda>_.
     bind_act (connect (dataset_manifest a)) (\<lambda>R.
     bind_act (recorder_init_workers R [NodeHistory]) (\<lambda>_.
     ret_act (C, R, node_history (ar_activation_height a) start_hash))))))))"

section \<open>The node's workers\<close>

text \<open>
  What the workers see outside: the walk's world, the clock, the amounts, which worker makes the next
  turn, and whether a pause was ended by a change of the shutdown flag.
\<close>

record 'w node_env =
  ne_world :: "'w node_client \<Rightarrow> ('w, node_block) world"
  ne_clock :: "'w \<times> db \<Rightarrow> int \<times> ('w \<times> db)"
  ne_amount :: "string \<Rightarrow> u64 option"
  ne_pick :: "'w \<times> db \<Rightarrow> bool \<times> ('w \<times> db)"
  ne_history_pause :: "pass \<Rightarrow> 'w \<times> db \<Rightarrow> bool \<times> ('w \<times> db)"
  ne_fee_tick :: "'w \<times> db \<Rightarrow> bool \<times> ('w \<times> db)"
  ne_fee_pause :: "pass \<Rightarrow> 'w \<times> db \<Rightarrow> bool \<times> ('w \<times> db)"

text \<open>The validator's block stream of the node: pages and tips are the client's.\<close>

definition node_world ::
  "('w \<times> db \<Rightarrow> bool \<times> ('w \<times> db)) \<Rightarrow> ('w \<times> db \<Rightarrow> bool \<times> ('w \<times> db)) \<Rightarrow> ('w \<times> db \<Rightarrow> (nat \<Rightarrow> int) \<times> ('w \<times> db)) \<Rightarrow>
   'w node_client \<Rightarrow> ('w, node_block) world" where
  "node_world stopped pause now C =
     \<lparr> wd_fetch = node_fetch C, wd_tip = client_tip C, wd_stopped = stopped, wd_pause = pause, wd_now = now \<rparr>"

text \<open>One turn of a worker: whether it goes on.\<close>

definition history_turn :: "('w, pass) act \<Rightarrow> (pass \<Rightarrow> 'w \<times> db \<Rightarrow> bool \<times> ('w \<times> db)) \<Rightarrow> ('w, bool) act" where
  "history_turn pass_once pause =
     bind_act pass_once (\<lambda>p.
     case p of
       Stop \<Rightarrow> ret_act False
     | _ \<Rightarrow> bind_act (ask (pause p)) (\<lambda>stop. ret_act (\<not> stop)))"

text \<open>The fee worker's first turn initializes its status; a later one begins with the pacing pause.\<close>

definition fee_turn ::
  "'w recorder \<Rightarrow> ('w, pass) act \<Rightarrow> ('w \<times> db \<Rightarrow> bool \<times> ('w \<times> db)) \<Rightarrow> (pass \<Rightarrow> 'w \<times> db \<Rightarrow> bool \<times> ('w \<times> db)) \<Rightarrow>
   bool \<Rightarrow> ('w, bool) act" where
  "fee_turn R pass_once tick pause started =
     (if \<not> started
      then bind_act (recorder_init_workers R [ConfirmedBmmFeesWorker]) (\<lambda>_. ret_act True)
      else
        bind_act (ask tick) (\<lambda>stop.
        if stop then ret_act False
        else
          bind_act pass_once (\<lambda>p.
          case p of
            RetryAfter n \<Rightarrow> bind_act (ask (pause p)) (\<lambda>stop. ret_act (\<not> stop))
          | _ \<Rightarrow> ret_act True)))"

text \<open>
  The workers until the first of them ends: \<open>True\<close> when it returned, \<open>False\<close> when the fuel ended
  first. The pick says whether the fee worker makes the turn.
\<close>

fun node_workers ::
  "nat \<Rightarrow> ('w \<times> db \<Rightarrow> bool \<times> ('w \<times> db)) \<Rightarrow> ('w, bool) act \<Rightarrow> (bool \<Rightarrow> ('w, bool) act) \<Rightarrow> bool \<Rightarrow> ('w, bool) act" where
  "node_workers 0 pick history fees started = ret_act False"
| "node_workers (Suc n) pick history fees started =
     bind_act (ask pick) (\<lambda>fee.
     bind_act (if fee then fees started else history) (\<lambda>on.
     if on then node_workers n pick history fees (started \<or> fee) else ret_act True))"

definition serve_node ::
  "nat \<Rightarrow> nat \<Rightarrow> args \<Rightarrow> 'w node_env \<Rightarrow> 'w node_client \<Rightarrow> 'w recorder \<Rightarrow> node_block adapter \<Rightarrow> ('w, bool) act" where
  "serve_node turns fuel a N C R A =
     (let history = history_turn
            (node_pass (ne_world N C) C R A (0 < ar_backfill_page_pause_ms a) (ar_backfill_page_blocks a) fuel (ne_clock N))
            (ne_history_pause N) in
      node_workers turns (if ar_confirmed_bmm_fees a then ne_pick N else Pair False) history
        (fee_turn R (fee_pass C R (ne_amount N) (ne_clock N)) (ne_fee_tick N) (ne_fee_pause N)) False)"

section \<open>The end of the node's run\<close>

text \<open>A run whose workers still go on (no fuel left) is not closed.\<close>

definition finish_node :: "'w recorder \<Rightarrow> bool res \<Rightarrow> ('w, bool) act" where
  "finish_node R result =
     (case result of
        Inr False \<Rightarrow> ret_act False
      | _ \<Rightarrow>
          bind_act (recorder_finish R (case result of Inr _ \<Rightarrow> ''completed'' | Inl _ \<Rightarrow> ''failed'')
            (Some ''node worker stopped'')) (\<lambda>_. lift_act result))"

definition monitor_node ::
  "('w, 'w node_client \<times> 'w recorder \<times> node_block adapter) act \<Rightarrow>
   ('w node_client \<Rightarrow> 'w recorder \<Rightarrow> node_block adapter \<Rightarrow> ('w, bool) act) \<Rightarrow> ('w, bool) act" where
  "monitor_node opening serve =
     bind_act opening (\<lambda>(C, R, A).
     bind_act (attempt (serve C R A)) (finish_node R))"

section \<open>Both sides\<close>

text \<open>
  An error of the validator's side is an outage when its chain holds a transport error or a status.
\<close>

fun outage :: "error \<Rightarrow> bool" where
  "outage Transport \<longleftrightarrow> True"
| "outage (Status code) \<longleftrightarrow> True"
| "outage (Context msg e) \<longleftrightarrow> outage e"
| "outage e \<longleftrightarrow> False"

text \<open>
  The validator's side is about to look at the stop flag, in a run, or ended. The node's side and
  the flag are beside it.
\<close>

datatype enforcer_side = Checking | Running | Ended "unit res"

record service =
  sv_stop :: bool
  sv_node :: "unit res option"
  sv_enforcer :: enforcer_side

definition start_service :: service where
  "start_service = \<lparr> sv_stop = False, sv_node = None, sv_enforcer = Checking \<rparr>"

text \<open>
  What happens: the shutdown channel answers (whether its change was seen, and the flag), the node's
  monitor returns, the validator's side looks at the flag (after the pause that follows an outage),
  a run of the extractor returns.
\<close>

datatype service_event =
    Forwarded bool bool
  | NodeReturned "unit res"
  | Checked
  | RunReturned "unit res"

definition stop_on_error :: "unit res \<Rightarrow> service \<Rightarrow> service" where
  "stop_on_error r s = (case r of Inl e \<Rightarrow> s\<lparr> sv_stop := True \<rparr> | Inr _ \<Rightarrow> s)"

text \<open>\<open>None\<close> when the event cannot happen in the state.\<close>

fun service_turn :: "service_event \<Rightarrow> service \<Rightarrow> service option" where
  "service_turn (Forwarded changed flag) s =
     Some (if changed \<or> flag then s\<lparr> sv_stop := True \<rparr> else s)"
| "service_turn (NodeReturned r) s =
     (case sv_node s of
        None \<Rightarrow> Some (stop_on_error r (s\<lparr> sv_node := Some r \<rparr>))
      | Some _ \<Rightarrow> None)"
| "service_turn Checked s =
     (case sv_enforcer s of
        Checking \<Rightarrow> Some (s\<lparr> sv_enforcer := (if sv_stop s then Ended (Inr ()) else Running) \<rparr>)
      | _ \<Rightarrow> None)"
| "service_turn (RunReturned r) s =
     (case sv_enforcer s of
        Running \<Rightarrow>
          (case r of
             Inr _ \<Rightarrow> Some (s\<lparr> sv_enforcer := Ended (Inr ()) \<rparr>)
           | Inl e \<Rightarrow>
               if outage e then Some (s\<lparr> sv_enforcer := Checking \<rparr>)
               else Some (stop_on_error r (s\<lparr> sv_enforcer := Ended r \<rparr>)))
      | _ \<Rightarrow> None)"

fun service_run :: "service_event list \<Rightarrow> service \<Rightarrow> service option" where
  "service_run [] s = Some s"
| "service_run (e # es) s = (case service_turn e s of None \<Rightarrow> None | Some s' \<Rightarrow> service_run es s')"

text \<open>The service ends when both sides have; the node's error comes first.\<close>

definition service_outcome :: "service \<Rightarrow> unit res option" where
  "service_outcome s =
     (case (sv_node s, sv_enforcer s) of
        (Some node, Ended enforcer) \<Rightarrow> Some (bind_res node (\<lambda>_. enforcer))
      | _ \<Rightarrow> None)"

text \<open>\<open>None\<close> while the service goes on, or when the events cannot happen in this order.\<close>

definition run_service :: "args \<Rightarrow> bool \<Rightarrow> unit res \<Rightarrow> service_event list \<Rightarrow> unit res option" where
  "run_service a max_blocks_set alone events =
     (case validate_args max_blocks_set a of
        Inl e \<Rightarrow> Some (Inl e)
      | Inr _ \<Rightarrow>
          if ar_node_rpc_endpoint a = None then Some alone
          else (case service_run events start_service of None \<Rightarrow> None | Some s \<Rightarrow> service_outcome s))"

end
