(* ===== verification/Service_Properties.thy ===== *)
theory Service_Properties
  imports Service Client_Properties Session_Properties Walk_Theorems
begin

text \<open>
  The node beside the validator: what stops the service and what does not, that a stopped service
  ends, that a slow subscription is not an outage, and that the node's run keeps the record and ends
  with its status.
\<close>

section \<open>What stops the service\<close>

text \<open>The events that ask both sides to stop.\<close>

fun calls_stop :: "service_event \<Rightarrow> bool" where
  "calls_stop (Forwarded changed flag) \<longleftrightarrow> changed \<or> flag"
| "calls_stop (NodeReturned r) \<longleftrightarrow> \<not> is_ok r"
| "calls_stop Checked \<longleftrightarrow> False"
| "calls_stop (RunReturned (Inr _)) \<longleftrightarrow> False"
| "calls_stop (RunReturned (Inl e)) \<longleftrightarrow> \<not> outage e"

lemma service_turn_stop:
  "service_turn e s = Some s' \<Longrightarrow> sv_stop s' \<longleftrightarrow> sv_stop s \<or> calls_stop e"
  by (cases e) (auto simp: stop_on_error_def split: option.splits sum.splits enforcer_side.splits if_splits)

lemma service_turn_node:
  "service_turn e s = Some s' \<Longrightarrow> sv_node s' = Some r \<longleftrightarrow> sv_node s = Some r \<or> e = NodeReturned r"
  by (cases e) (auto simp: stop_on_error_def split: option.splits sum.splits enforcer_side.splits if_splits)

lemma service_turn_enforcer:
  "service_turn e s = Some s' \<Longrightarrow>
     sv_enforcer s' = Ended (Inl x) \<longleftrightarrow>
       sv_enforcer s = Ended (Inl x) \<or> e = RunReturned (Inl x) \<and> \<not> outage x"
  by (cases e) (auto simp: stop_on_error_def split: option.splits sum.splits enforcer_side.splits if_splits)

lemma service_run_sides:
  assumes "service_run es s = Some t"
  shows "(sv_stop t \<longleftrightarrow> sv_stop s \<or> (\<exists>e \<in> set es. calls_stop e)) \<and>
    (sv_node t = Some r \<longleftrightarrow> sv_node s = Some r \<or> NodeReturned r \<in> set es) \<and>
    (sv_enforcer t = Ended (Inl x) \<longleftrightarrow>
      sv_enforcer s = Ended (Inl x) \<or> RunReturned (Inl x) \<in> set es \<and> \<not> outage x)"
  using assms
proof (induction es arbitrary: s)
  case (Cons e es)
  obtain s' where s': "service_turn e s = Some s'" "service_run es s' = Some t"
    using Cons.prems by (auto split: option.splits)
  from Cons.IH [OF s'(2)] service_turn_stop [OF s'(1)] service_turn_node [OF s'(1), of r]
    service_turn_enforcer [OF s'(1), of x]
  show ?case by auto
qed simp



section \<open>A stopped service ends\<close>

fun forwarded :: "service_event \<Rightarrow> bool" where
  "forwarded (Forwarded changed flag) \<longleftrightarrow> True"
| "forwarded e \<longleftrightarrow> False"

text \<open>How many steps of its sides a stopped service has left.\<close>

definition steps_left :: "service \<Rightarrow> nat" where
  "steps_left s = (if sv_node s = None then 1 else 0) +
     (case sv_enforcer s of Checking \<Rightarrow> 1 | Running \<Rightarrow> 2 | Ended r \<Rightarrow> 0)"

lemma stopped_turn:
  assumes "service_turn e s = Some s'" and "sv_stop s"
  shows "sv_stop s' \<and> steps_left s' + (if forwarded e then 0 else 1) \<le> steps_left s \<and>
    (sv_enforcer s' = Running \<longrightarrow> sv_enforcer s = Running)"
  using assms
  by (cases e) (auto simp: stop_on_error_def steps_left_def split: option.splits sum.splits enforcer_side.splits if_splits)

lemma stopped_run:
  assumes "service_run es s = Some t" and "sv_stop s"
  shows "steps_left t + length (filter (\<lambda>e. \<not> forwarded e) es) \<le> steps_left s \<and>
    (sv_enforcer t = Running \<longrightarrow> sv_enforcer s = Running)"
  using assms
proof (induction es arbitrary: s)
  case (Cons e es)
  then obtain s' where s': "service_turn e s = Some s'" "service_run es s' = Some t"
    by (auto split: option.splits)
  from stopped_turn [OF s'(1) Cons.prems(2)] Cons.IH [OF s'(2)] show ?case by (auto split: if_splits)
qed simp

lemma no_deadlock:
  assumes "service_outcome s = None"
  shows "\<exists>e. \<not> forwarded e \<and> service_turn e s \<noteq> None"
proof (cases "sv_node s")
  case None
  then show ?thesis by (intro exI [of _ "NodeReturned (Inr ())"]) simp
next
  case (Some r)
  with assms consider "sv_enforcer s = Checking" | "sv_enforcer s = Running"
    by (auto simp: service_outcome_def split: enforcer_side.splits)
  then show ?thesis
    by cases (intro exI [of _ Checked] exI [of _ "RunReturned (Inr ())"]; simp)+
qed

text \<open>A service asked to stop ends: no run of the extractor is started any more, its sides take at
  most three steps (the node's return, the return of the run that is under way, one look at the
  flag), and while it has not ended one of them is possible; so once the node's monitor and the run
  obey the flag, the service returns.\<close>

theorem stopped_service_ends:
  assumes "service_run es start_service = Some s" and "\<exists>e \<in> set es. calls_stop e"
    and "service_run rest s = Some t"
  shows "length (filter (\<lambda>e. \<not> forwarded e) rest) \<le> 3 \<and>
    (sv_enforcer t = Running \<longrightarrow> sv_enforcer s = Running) \<and>
    (service_outcome t = None \<longrightarrow> (\<exists>e. \<not> forwarded e \<and> service_turn e t \<noteq> None)) \<and>
    (length (filter (\<lambda>e. \<not> forwarded e) rest) = 3 \<longrightarrow> service_outcome t \<noteq> None)"
proof -
  have "sv_stop s" using service_run_sides [OF assms(1)] assms(2) by blast
  from stopped_run [OF assms(3) this]
  have left: "steps_left t + length (filter (\<lambda>e. \<not> forwarded e) rest) \<le> steps_left s"
    and run: "sv_enforcer t = Running \<longrightarrow> sv_enforcer s = Running" by simp_all
  have "steps_left s \<le> 3" by (simp add: steps_left_def split: enforcer_side.split)
  moreover have "service_outcome t \<noteq> None" if "steps_left t = 0"
    using that by (auto simp: steps_left_def service_outcome_def split: enforcer_side.splits if_splits)
  ultimately show ?thesis using left run no_deadlock [of t] by auto
qed

theorem stopped_service_ends_witness:
  "\<exists>s t. service_run [Checked, NodeReturned (Inl HistoryConflict)] start_service = Some s \<and>
     service_run [RunReturned (Inl Transport), Checked] s = Some t \<and>
     service_outcome t = Some (Inl HistoryConflict) \<and>
     length (filter (\<lambda>e. \<not> forwarded e) [RunReturned (Inl Transport), Checked]) \<le> 3"
proof -
  let ?s = "\<lparr> sv_stop = True, sv_node = Some (Inl HistoryConflict), sv_enforcer = Running \<rparr>"
  let ?t = "\<lparr> sv_stop = True, sv_node = Some (Inl HistoryConflict), sv_enforcer = Ended (Inr ()) \<rparr>"
  have s: "service_run [Checked, NodeReturned (Inl HistoryConflict)] start_service = Some ?s"
    by (simp add: start_service_def stop_on_error_def)
  have t: "service_run [RunReturned (Inl Transport), Checked] ?s = Some ?t" by simp
  from stopped_service_ends [OF s _ t] s t show ?thesis
    by (intro exI [of _ ?s] exI [of _ ?t]) (simp add: service_outcome_def)
qed

section \<open>A slow subscription\<close>

lemma outage_context [simp]: "outage (Context msg e) = outage e"
  by simp

text \<open>C31: A validator that answers with a status leaves the node running, one that is silent ends it:
  the first thing a run of the extractor does is to set up the global subscription; when that is
  refused with any status, the run's error is an outage and the service looks again; when the set-up
  runs into the client's own deadline, the error holds neither a transport error nor a status, the
  validator's side ends with it, and the node's capture is asked to stop.\<close>

theorem slow_subscription_ends_the_node:
  assumes "validate_args max_blocks_set a = Inr ()"
    and "su_subscribe S = subscribe_events V" and "vs_subscribe_events V (Some 0) s = (opened, t)"
    and "run_extractor a max_blocks_set (bind_act (prepare_startup L a S connect) (\<lambda>p. ret_act (Some p)))
      gid now clock stopping serve s = (r, u)"
    and "sv_enforcer v = Running"
  shows "case opened of
      SetupTimedOut \<Rightarrow>
        u = t \<and> \<not> is_ok r \<and> service_turn (RunReturned r) v = Some (v\<lparr> sv_stop := True, sv_enforcer := Ended r \<rparr>)
    | SetupDone (Inl (Status code)) \<Rightarrow>
        u = t \<and> \<not> is_ok r \<and> service_turn (RunReturned r) v = Some (v\<lparr> sv_enforcer := Checking \<rparr>)
    | _ \<Rightarrow> True"
proof -
  have failed: "r = Inl e \<and> u = t" if "await_stream_setup 0 opened = Inl e" for e
    using assms(1,2,4) that subscribe_events_result [of V 0 s opened t] assms(3)
    by (simp add: run_extractor_def prepare_startup_def bind_act_def lift_act_def)
  show ?thesis
  proof (cases opened)
    case SetupTimedOut
    with failed assms(5) show ?thesis by (simp add: await_stream_setup_def stop_on_error_def)
  next
    case (SetupDone x)
    show ?thesis
    proof (cases x)
      case (Inl e)
      with SetupDone failed assms(5) show ?thesis
        by (cases e) (simp_all add: await_stream_setup_def)
    qed (use SetupDone in simp)
  qed
qed

theorem slow_subscription_ends_the_node_witness:
  "\<exists>r v. service_run [Checked, RunReturned r] start_service = Some v \<and> sv_stop v \<and>
     r = fst (run_extractor sample_args False
       (bind_act (prepare_startup sample_libs sample_args (client_startup sample_libs silent_validator (Pair 5))
          (\<lambda>_. ret_act sample_recorder)) (\<lambda>p. ret_act (Some p))) ''g1'' (\<lambda>_. 5) (Pair 5) (Pair False)
       (\<lambda>_ _ _ _. ret_act []) ((), empty_db))"
proof -
  let ?run = "run_extractor sample_args False
       (bind_act (prepare_startup sample_libs sample_args (client_startup sample_libs silent_validator (Pair 5))
          (\<lambda>_. ret_act sample_recorder)) (\<lambda>p. ret_act (Some p))) ''g1'' (\<lambda>_. 5) (Pair 5) (Pair False)
       (\<lambda>_ _ _ _. ret_act []) ((), empty_db)"
  let ?v = "start_service\<lparr> sv_enforcer := Running \<rparr>"
  have run: "?run = (fst ?run, snd ?run)" by simp
  have subscribe: "su_subscribe (client_startup sample_libs silent_validator (Pair 5)) =
      subscribe_events silent_validator"
    by (simp add: client_startup_def)
  have silent: "vs_subscribe_events silent_validator (Some 0) ((), empty_db) = (SetupTimedOut, ((), empty_db))"
    by (simp add: silent_validator_def)
  from slow_subscription_ends_the_node [OF sample_args_valid subscribe silent run, of ?v]
  have "service_turn (RunReturned (fst ?run)) ?v =
      Some (?v\<lparr> sv_stop := True, sv_enforcer := Ended (fst ?run) \<rparr>)" by simp
  then have "service_run [Checked, RunReturned (fst ?run)] start_service =
      Some (?v\<lparr> sv_stop := True, sv_enforcer := Ended (fst ?run) \<rparr>)"
    by (simp add: start_service_def)
  then show ?thesis by (intro exI [of _ "fst ?run"]) simp
qed

section \<open>The node's run\<close>

definition client_keeps :: "(db \<Rightarrow> db \<Rightarrow> bool) \<Rightarrow> 'w node_client \<Rightarrow> bool" where
  "client_keeps R C \<longleftrightarrow> acts R (nc_cookie C) \<and> (\<forall>user password v. acts R (nc_post C user password v))"

text \<open>The world of the node's workers: the walk's scope is the node's own.\<close>

definition env_keeps :: "libs \<Rightarrow> store \<Rightarrow> stream_scope \<Rightarrow> 'w node_client \<Rightarrow> 'w node_env \<Rightarrow> bool" where
  "env_keeps L st sc C N \<longleftrightarrow>
     client_keeps (store_steps L) C \<and> world_behaves L st sc (ne_world N C) \<and>
     acts (store_steps L) (ask (ne_clock N)) \<and> acts (store_steps L) (ask (ne_pick N)) \<and>
     (\<forall>p. acts (store_steps L) (ask (ne_history_pause N p))) \<and> acts (store_steps L) (ask (ne_fee_tick N)) \<and>
     (\<forall>p. acts (store_steps L) (ask (ne_fee_pause N p)))"

context record_relation begin

lemma acts_node_rpc: "client_keeps R C \<Longrightarrow> acts R (node_rpc C m ps)"
  unfolding node_rpc_def client_keeps_def
  by (auto intro!: acts_rules split: prod.split sum.split)

lemma acts_node_reads:
  assumes "client_keeps R C"
  shows "acts R (client_header C hash)" "acts R (client_tip C)"
  using acts_node_rpc [OF assms] unfolding client_header_def client_tip_def Let_def
  by (auto intro!: acts_rules)

lemma acts_node_fetch:
  assumes "client_keeps R C"
  shows "acts R (node_fetch C cursor requested)"
proof -
  have block: "acts R (client_block C hash)" for hash
    using acts_node_rpc [OF assms] acts_node_reads [OF assms] unfolding client_block_def Let_def
    by (auto intro!: acts_rules)
  have "acts R (fetch_blocks C n hash)" for n hash
    by (induction n arbitrary: hash) (auto intro!: acts_rules block)
  then show ?thesis by (simp add: node_fetch_def)
qed

end

text \<open>The node's own world behaves when its client and its timers leave the scope to the walk.\<close>

lemma node_world_behaves:
  assumes "client_keeps (others L st sc) C" and "acts (others L st sc) (ask stopped)"
    and "acts (others L st sc) (ask pause)" and "acts (others L st sc) (ask now)"
  shows "world_behaves L st sc (node_world stopped pause now C)"
  using assms oth.acts_node_reads [OF assms(1)] oth.acts_node_fetch [OF assms(1)]
  by (simp add: world_behaves_def node_world_def)

lemma acts_node_pass:
  assumes "env_keeps (rc_libs R) (rc_store R) (ad_scope A) C N"
    and "transport_keeps (store_steps (rc_libs R)) (rc_publisher R)"
  shows "acts (store_steps (rc_libs R)) (node_pass (ne_world N C) C R A paused page_blocks fuel (ne_clock N))"
proof -
  note keeps = assms(1) [unfolded env_keeps_def]
  have outcome: "acts (store_steps (rc_libs R)) (record_outcome R r)" for r
    unfolding record_outcome_def
    by (auto intro!: steps.acts_rules acts_recorder_status split: sum.split option.split outcome.split)
  show ?thesis using keeps unfolding node_pass_def
    by (auto intro!: steps.acts_rules steps.acts_node_reads acts_recorder_status acts_recorder_facts [OF assms(2)]
        acts_run_history outcome world_acts(3) split: sum.split)
qed

lemma acts_fee_pass:
  assumes "env_keeps (rc_libs R) (rc_store R) sc C N"
    and "transport_keeps (store_steps (rc_libs R)) (rc_publisher R)"
  shows "acts (store_steps (rc_libs R)) (fee_pass C R amount (ne_clock N))"
proof -
  note keeps = assms(1) [unfolded env_keeps_def]
  have rpc: "acts (store_steps (rc_libs R)) (node_rpc C m ps)" for m ps
    using keeps steps.acts_node_rpc by blast
  have header: "acts (store_steps (rc_libs R)) (client_header C hash)" for hash
    using keeps steps.acts_node_reads by blast
  have enrich: "acts (store_steps (rc_libs R)) (enrich C R amount (ne_clock N) block)" for block
    using keeps unfolding enrich_def Let_def by (auto intro!: steps.acts_rules rpc header)
  have failure: "acts (store_steps (rc_libs R)) (on_db (record_fee_failure st src e))" for st src e
    by (rule acts_store_op) (rule store_step.fee_failure)
  show ?thesis unfolding fee_pass_def
    by (auto intro!: steps.acts_rules enrich failure acts_recorder_status acts_recorder_facts [OF assms(2)]
        split: option.split sum.split prod.split)
qed

lemma acts_serve_node:
  assumes "env_keeps (rc_libs R) (rc_store R) (ad_scope A) C N"
    and "transport_keeps (store_steps (rc_libs R)) (rc_publisher R)"
  shows "acts (store_steps (rc_libs R)) (serve_node turns fuel a N C R A)"
proof -
  note keeps = assms(1) [unfolded env_keeps_def]
  have history: "acts (store_steps (rc_libs R)) (history_turn p (ne_history_pause N))"
    if "acts (store_steps (rc_libs R)) p" for p
    using that keeps unfolding history_turn_def by (auto intro!: steps.acts_rules split: pass.split)
  have fees: "acts (store_steps (rc_libs R)) (fee_turn R p (ne_fee_tick N) (ne_fee_pause N) started)"
    if "acts (store_steps (rc_libs R)) p" for p started
    using that keeps unfolding fee_turn_def
    by (auto intro!: steps.acts_rules acts_recorder_status split: pass.split)
  have workers: "acts (store_steps (rc_libs R)) (node_workers n pick h f started)"
    if "acts (store_steps (rc_libs R)) (ask pick)" "acts (store_steps (rc_libs R)) h"
      "\<And>b. acts (store_steps (rc_libs R)) (f b)" for n pick h f started
  proof (induction n arbitrary: started)
    case (Suc n)
    then show ?case using that unfolding node_workers.simps by (intro steps.acts_rules) auto
  qed (simp add: steps.acts_ret)
  have pure: "acts (store_steps (rc_libs R)) (ask (Pair x))" for x :: bool
    by (simp add: acts_def ask_def steps.rel_refl)
  show ?thesis unfolding serve_node_def Let_def
    using keeps by (intro workers) (auto intro!: pure history fees acts_node_pass [OF assms] acts_fee_pass [OF assms])
qed

text \<open>C21: The node's run keeps the record and ends with its status: once it is open on a reachable
  record, whatever the node, the clock and the transport do, and in whatever order the history and
  the fee worker take their turns, the record stays well formed and keeps everything it held; and
  when a worker has returned or failed, the run returns exactly its outcome, and its row, if still
  open, is closed as completed or as failed accordingly.\<close>

theorem node_run_keeps_the_record:
  assumes "opening s0 = (Inr (C, R, A), s)" and "reachable (rc_libs R) (snd s)"
    and "env_keeps (rc_libs R) (rc_store R) (ad_scope A) C N"
    and "transport_keeps (store_steps (rc_libs R)) (rc_publisher R)"
    and "monitor_node opening (serve_node turns fuel a N) s0 = (r, t)"
  shows "store_inv (snd t) \<and> append_only (snd s) (snd t) \<and>
    (\<exists>u. serve_node turns fuel a N C R A s = (r, u) \<and>
       (r \<noteq> Inr False \<longrightarrow>
          db_runs (snd t) = update_where (active_run (st_run (rc_store R)))
            (close_run (if is_ok r then ''completed'' else ''failed'') (db_clock (snd u))
               (Some ''node worker stopped'')) (db_runs (snd u))))"
proof -
  obtain outcome u where served: "serve_node turns fuel a N C R A s = (outcome, u)" by (metis surj_pair)
  have finish: "acts (store_steps (rc_libs R)) (finish_node R outcome)"
    unfolding finish_node_def
    by (auto intro!: steps.acts_rules acts_recorder_status split: sum.split bool.split)
  have t: "finish_node R outcome u = (r, t)"
    using assms(1,5) served by (simp add: monitor_node_def bind_act_def attempt_def)
  have all: "store_steps (rc_libs R) (snd s) (snd t)"
    by (rule steps.rel_trans [OF actsD [OF acts_serve_node [OF assms(3,4)] served] actsD [OF finish t]])
  have runs: "outcome = r \<and> (r \<noteq> Inr False \<longrightarrow>
      db_runs (snd t) = update_where (active_run (st_run (rc_store R)))
        (close_run (if is_ok r then ''completed'' else ''failed'') (db_clock (snd u))
           (Some ''node worker stopped'')) (db_runs (snd u)))"
    using t
    by (auto simp: finish_node_def recorder_finish_def finish_run_def finish_run_tx_def run_tx_def bind_tx_def
        modify_tx_def lift_tx_def bind_act_def on_db_def lift_act_def ret_act_def split: sum.splits bool.splits)
  from reachable_store_inv [OF store_steps_reachable [OF assms(2) all]] steps_grow [OF all] runs served
  show ?thesis by blast
qed

text \<open>A node that does not answer, over the sample record, and a stop that is seen by the first pass.\<close>

definition sample_node_args :: args where
  "sample_node_args = sample_args\<lparr> ar_node_rpc_endpoint := Some ''http://node:8332'',
     ar_node_rpc_cookie_file := Some ''cookie'', ar_activation_block_hash := ''unknown'' \<rparr>"

definition dead_node :: "unit node_client" where
  "dead_node = \<lparr> nc_libs = sample_libs, nc_cookie = fail_act Transport,
     nc_post = (\<lambda>_ _ _. fail_act Transport), nc_decode = (\<lambda>_. None) \<rparr>"

definition still_node :: "unit node_env" where
  "still_node = \<lparr> ne_world = node_world (Pair True) (Pair False) (Pair (\<lambda>_. 5)), ne_clock = Pair 5,
     ne_amount = (\<lambda>_. None), ne_pick = Pair False, ne_history_pause = (\<lambda>_. Pair True),
     ne_fee_tick = Pair True, ne_fee_pause = (\<lambda>_. Pair True) \<rparr>"

definition sample_opening :: "(unit, unit node_client \<times> unit recorder \<times> node_block adapter) act" where
  "sample_opening = open_node sample_libs
     (\<lambda>_. Some \<lparr> nu_scheme = ''http'', nu_username = [], nu_password = None \<rparr>) sample_node_args
     (\<lambda>_ _. dead_node) (\<lambda>_. ret_act sample_recorder)"

lemma sample_opening_run:
  "sample_opening s = (case recorder_init_workers sample_recorder [NodeHistory] s of
     (Inl e, t) \<Rightarrow> (Inl e, t) | (Inr _, t) \<Rightarrow> (Inr (dead_node, sample_recorder, node_history 973728 None), t))"
  by (simp add: sample_opening_def open_node_def sample_node_args_def sample_args_def node_client_new_def
      activation_block_hash_bytes_def check_activation_def bind_act_def lift_act_def ret_act_def Let_def
      split: prod.split sum.split)

lemma still_node_keeps: "env_keeps L st sc dead_node still_node"
proof -
  have dead: "client_keeps R dead_node" if "\<And>d. R d d" for R
    using that by (simp add: client_keeps_def dead_node_def acts_def fail_act_def)
  have pure: "acts R (ask (Pair x))" if "\<And>d. R d d" for R x
    using that by (simp add: acts_def ask_def)
  show ?thesis
    by (simp add: env_keeps_def still_node_def dead pure node_world_behaves steps.rel_refl oth.rel_refl)
qed

lemma still_serve: "serve_node (Suc n) fuel sample_node_args still_node C R A s = (Inr True, s)"
  by (simp add: serve_node_def sample_node_args_def sample_args_def still_node_def node_world_def node_pass_def
      history_turn_def bind_act_def ask_def ret_act_def Let_def numeral_eq_Suc)

lemma sample_opened:
  "case recorder_init_workers sample_recorder [NodeHistory] ((), sample_db1) of (r, t) \<Rightarrow>
     is_ok r \<and> map rn_status (update_where (active_run (st_run (rc_store sample_recorder)))
       (close_run ''completed'' (db_clock (snd t)) (Some ''node worker stopped'')) (db_runs (snd t))) = [''completed'']"
  by code_simp

theorem node_run_keeps_the_record_witness:
  "\<exists>t. monitor_node sample_opening (serve_node 1 1 sample_node_args still_node) ((), sample_db1) = (Inr True, t) \<and>
     store_inv (snd t) \<and> map rn_status (db_runs (snd t)) = [''completed'']"
proof -
  obtain r s where init: "recorder_init_workers sample_recorder [NodeHistory] ((), sample_db1) = (r, s)"
    by (metis surj_pair)
  let ?run = "monitor_node sample_opening (serve_node 1 1 sample_node_args still_node) ((), sample_db1)"
  have s: "sample_opening ((), sample_db1) = (Inr (dead_node, sample_recorder, node_history 973728 None), s)"
    using sample_opened init unfolding sample_opening_run by (auto split: sum.splits)
  have reach: "reachable (rc_libs sample_recorder) (snd s)"
    using store_steps_reachable [OF sample_reachable1] actsD [OF acts_recorder_status(4) init] by simp
  have quiet: "transport_keeps (store_steps (rc_libs sample_recorder)) (rc_publisher sample_recorder)"
    by (simp add: transport_keeps_def sample_recorder_def dead_publisher_def acts_def ask_def fail_act_def
        steps.rel_refl)
  have run: "?run = (fst ?run, snd ?run)" by simp
  have r: "fst ?run = Inr True"
    using s by (simp add: monitor_node_def bind_act_def attempt_def still_serve finish_node_def recorder_finish_def
        finish_run_def finish_run_tx_def run_tx_def bind_tx_def modify_tx_def lift_tx_def on_db_def lift_act_def)
  from node_run_keeps_the_record [OF s reach still_node_keeps quiet run [unfolded r]] have
    kept: "store_inv (snd (snd ?run))" and closed: "db_runs (snd (snd ?run)) =
        update_where (active_run (st_run (rc_store sample_recorder)))
          (close_run ''completed'' (db_clock (snd s)) (Some ''node worker stopped'')) (db_runs (snd s))"
    by (auto simp: still_serve)
  from closed have "map rn_status (db_runs (snd (snd ?run))) = [''completed'']"
    using sample_opened init by simp
  with kept r run show ?thesis by (intro exI [of _ "snd ?run"]) (simp add: prod_eq_iff)
qed

end
