(* ===== verification/Transport.thy ===== *)
theory Transport
  imports Logger Config
begin

text \<open>
  The connections to NATS, from \<^verbatim>\<open>src/shared/src/nats.rs\<close> (with the default arguments, and those of the record): the publisher, which keeps
  retrying in the background, and the subscriber, which fails fast; each operation of the client
  library is a parameter, and what has a time limit says whether it ran out. With them the event
  logger's startup, from \<^verbatim>\<open>src/tools/event-logger/src/lib.rs\<close>, is complete.
\<close>

section \<open>Time limits\<close>

datatype 'a timed = RanOut | InTime 'a

definition within :: "string \<Rightarrow> 'a res timed \<Rightarrow> 'a res" where
  "within msg t = (case t of RanOut \<Rightarrow> Inl (Context msg (Message ''deadline has elapsed'')) | InTime r \<Rightarrow> r)"

definition flush_client :: "u64 \<Rightarrow> unit res timed \<Rightarrow> unit res" where
  "flush_client flush_timeout flushed =
     within (''timed out after '' @ show_nat (unat flush_timeout) @ ''s while flushing the Core NATS connection'')
       (case flushed of
          RanOut \<Rightarrow> RanOut
        | InTime r \<Rightarrow> InTime (with_context ''flushing the Core NATS connection'' r))"

section \<open>Connecting\<close>

definition default_nats_args :: nats_args where
  "default_nats_args =
     \<lparr> na_url = ''nats://127.0.0.1:4222'', na_username = None, na_password = None, na_password_file = None,
       na_flush_timeout_seconds = 10 \<rparr>"

definition default_postgres_args :: postgres_args where
  "default_postgres_args =
     \<lparr> pg_host = ''127.0.0.1'', pg_port = 5432, pg_db = ''bip300_monitor'', pg_user = ''bip300_monitor'',
       pg_password = None, pg_password_file = None, pg_connect_timeout_seconds = 10 \<rparr>"

text \<open>
  The client library: connecting (whether the first attempt may be retried in the background, the
  address, the credentials), subscribing, the flush, and removing the subscription.
\<close>

record nats_client =
  nt_connect :: "bool \<Rightarrow> string \<Rightarrow> (string \<times> string) option \<Rightarrow> unit res"
  nt_subscribe :: "string \<Rightarrow> unit res"
  nt_flush :: "unit res timed"
  nt_unsubscribe :: "unit res timed"

definition publisher_connect :: "(string \<Rightarrow> string res) \<Rightarrow> nats_client \<Rightarrow> nats_args \<Rightarrow> unit res" where
  "publisher_connect read_file T args =
     bind_res (connect_options read_file args) (\<lambda>credentials.
     with_context (''connecting to Core NATS at '' @ na_url args) (nt_connect T True (na_url args) credentials))"

definition subscriber_connect ::
  "(string \<Rightarrow> string res) \<Rightarrow> nats_client \<Rightarrow> nats_args \<Rightarrow> subject \<Rightarrow> unit res" where
  "subscriber_connect read_file T args sub =
     bind_res (connect_options read_file args) (\<lambda>credentials.
     bind_res (with_context (''connecting to Core NATS at '' @ na_url args)
                 (nt_connect T False (na_url args) credentials)) (\<lambda>_.
     bind_res (with_context (''subscribing to NATS subject '' @ subject_str sub)
                 (nt_subscribe T (subject_str sub))) (\<lambda>_.
     with_context (''confirming the NATS subscription to '' @ subject_str sub)
       (flush_client (na_flush_timeout_seconds args) (nt_flush T)))))"

definition confirm_connection :: "nats_client \<Rightarrow> u64 \<Rightarrow> subject \<Rightarrow> unit res" where
  "confirm_connection T flush_timeout sub =
     with_context (''confirming the NATS subscription to '' @ subject_str sub)
       (flush_client flush_timeout (nt_flush T))"

text \<open>One time limit is around the removal and the flush together.\<close>

definition subscriber_close :: "nats_client \<Rightarrow> u64 \<Rightarrow> subject \<Rightarrow> unit res" where
  "subscriber_close T flush_timeout sub =
     within (''timed out after '' @ show_nat (unat flush_timeout) @ ''s while closing the subscription to ''
         @ subject_str sub)
       (case nt_unsubscribe T of
          RanOut \<Rightarrow> RanOut
        | InTime (Inl e) \<Rightarrow>
            InTime (Inl (Context ''closing the event subscription''
              (Context (''unsubscribing from NATS subject '' @ subject_str sub) e)))
        | InTime (Inr _) \<Rightarrow>
            (case nt_flush T of
               RanOut \<Rightarrow> RanOut
             | InTime flushed \<Rightarrow> InTime (with_context ''closing the event subscription''
                 (with_context ''flushing the Core NATS connection after unsubscribe'' flushed))))"

section \<open>The event logger over its connection\<close>

text \<open>The shutdown may come before the subscription is confirmed.\<close>

definition logger_service ::
  "libs \<Rightarrow> (json \<Rightarrow> string option) \<Rightarrow> (string \<Rightarrow> string res) \<Rightarrow> nats_client \<Rightarrow> logger_args \<Rightarrow> bool \<Rightarrow>
   logger_input list \<Rightarrow> unit res option \<times> logger_state" where
  "logger_service L print read_file T a interrupted inputs =
     run_logger L print a
       (if interrupted then None else Some (subscriber_connect read_file T (la_nats a) AllSubjects))
       (subscriber_close T (na_flush_timeout_seconds (la_nats a)) AllSubjects) inputs"

section \<open>What an unreachable server costs\<close>

text \<open>
  Documented behaviour of the client library: a connection that may retry its first attempt is
  returned at once and reconnects in the background, whatever the server does.
\<close>

definition retries_in_background :: "nats_client \<Rightarrow> bool" where
  "retries_in_background T \<longleftrightarrow> (\<forall>url credentials. nt_connect T True url credentials = Inr ())"

lemma publisher_needs_only_options:
  assumes "retries_in_background T"
  shows "is_ok (publisher_connect read_file T args) \<longleftrightarrow> is_ok (connect_options read_file args)"
  using assms by (cases "connect_options read_file args")
    (simp_all add: publisher_connect_def retries_in_background_def)

lemma subscriber_needs_the_server:
  assumes "is_ok (subscriber_connect read_file T args sub)"
  shows "(\<exists>credentials. connect_options read_file args = Inr credentials \<and>
      is_ok (nt_connect T False (na_url args) credentials)) \<and>
    is_ok (nt_subscribe T (subject_str sub)) \<and> (\<exists>r. nt_flush T = InTime r \<and> is_ok r)"
proof -
  from assms obtain u where "subscriber_connect read_file T args sub = Inr u"
    by (cases "subscriber_connect read_file T args sub") simp_all
  then show ?thesis
    by (auto simp: subscriber_connect_def flush_client_def within_def res_simps split: timed.splits)
qed

text \<open>Malformed NATS options are found before a run is opened in the record.\<close>

lemma malformed_options_open_no_run:
  assumes "\<not> is_ok (connect_options read_file args)"
  shows "\<exists>e. recorder_connect L (bind_res (publisher_connect read_file T args) (\<lambda>_. Inr P)) statements source m
    fresh_dataset fresh_run sub s = (Inl e, s)"
  using assms by (cases "connect_options read_file args")
    (simp_all add: publisher_connect_def recorder_connect_def bind_act_def lift_act_def)

text \<open>A logger that cannot reach its server ends before its first beat.\<close>

lemma logger_needs_the_server:
  assumes "validate_logger_args a = Inr ()"
    and "\<And>credentials. \<not> is_ok (nt_connect T False (na_url (la_nats a)) credentials)"
  shows "\<exists>e. logger_service L print read_file T a False inputs =
    (Some (Inl e), \<lparr> ls_invalid = 0, ls_beats = 0, ls_log = [] \<rparr>)"
proof -
  have "\<not> is_ok (subscriber_connect read_file T (la_nats a) AllSubjects)"
    using subscriber_needs_the_server assms(2) by blast
  then obtain e where "subscriber_connect read_file T (la_nats a) AllSubjects = Inl e"
    by (cases "subscriber_connect read_file T (la_nats a) AllSubjects") simp_all
  with assms(1) show ?thesis by (simp add: logger_service_def run_logger_def Let_def)
qed

end
